(* ===== verification/Prelude.thy ===== *)
theory Prelude
  imports Complex_Main "HOL-Library.Word"
begin

text \<open>
  Shared vocabulary of the development: the parts of Rust and of its standard
  library that the modelled sources use.

  \<^item> \<open>'e + 'a\<close> is \<open>Result<'a, 'e>\<close> (\<open>Inl\<close> is \<open>Err\<close>, \<open>Inr\<close> is \<open>Ok\<close>); \<open>and_then\<close> is
    the \<open>?\<close> operator on it, \<open>ok_or\<close> turns an \<open>Option\<close> into a \<open>Result\<close>.
  \<^item> unsigned machine integers are words; \<open>checked_add\<close>, \<open>checked_sub\<close>,
    \<open>checked_mul\<close>, \<open>checked_pow\<close>, \<open>saturating_mul\<close> are the methods of the same name, and
    \<open>unat_try_from\<close> is \<open>try_from\<close> between widths.
  \<^item> a \<open>String\<close> is its list of bytes; \<open>split_on\<close> is \<open>str::split\<close> on a character and
    \<open>parse_uint\<close> is \<open>str::parse\<close> of an unsigned integer.
  \<^item> a \<open>Duration\<close> is its number of nanoseconds, with the range of the Rust type written
    out where an operation can leave it.
\<close>

named_theorems rust_simps \<open>evaluation of the Rust primitives\<close>
named_theorems checked_dests \<open>what a successful checked operation computed\<close>

subsection \<open>Results and options\<close>

definition and_then :: "'e + 'a \<Rightarrow> ('a \<Rightarrow> 'e + 'b) \<Rightarrow> 'e + 'b" where
  "and_then m f = (case m of Inl e \<Rightarrow> Inl e | Inr x \<Rightarrow> f x)"

lemma and_then_simps [simp, rust_simps]:
  "and_then (Inl e) f = Inl e"
  "and_then (Inr x) f = f x"
  by (simp_all add: and_then_def)

lemma and_then_Inr_iff: "and_then m f = Inr y \<longleftrightarrow> (\<exists>x. m = Inr x \<and> f x = Inr y)"
  by (cases m) auto

lemma and_then_InrE [elim!]:
  assumes "and_then m f = Inr y"
  obtains x where "m = Inr x" and "f x = Inr y"
  using assms by (auto simp: and_then_Inr_iff)

lemma and_then_Inl_iff:
  "and_then m f = Inl e \<longleftrightarrow> m = Inl e \<or> (\<exists>x. m = Inr x \<and> f x = Inl e)"
  by (cases m) auto

lemma and_then_assoc: "and_then (and_then m f) g = and_then m (\<lambda>x. and_then (f x) g)"
  by (cases m) auto

lemma and_then_cong [fundef_cong]:
  assumes "m = m'" and "\<And>x. m' = Inr x \<Longrightarrow> f x = f' x"
  shows "and_then m f = and_then m' f'"
  using assms by (cases m') auto

definition ok_or :: "'e \<Rightarrow> 'a option \<Rightarrow> 'e + 'a" where
  "ok_or e x = (case x of None \<Rightarrow> Inl e | Some y \<Rightarrow> Inr y)"

lemma ok_or_simps [simp, rust_simps]:
  "ok_or e None = Inl e"
  "ok_or e (Some x) = Inr x"
  by (simp_all add: ok_or_def)

lemma ok_or_Inr_iff [simp]: "ok_or e x = Inr y \<longleftrightarrow> x = Some y"
  by (cases x) auto

lemma ok_or_Inl_iff [simp]: "ok_or e x = Inl e' \<longleftrightarrow> x = None \<and> e' = e"
  by (cases x) auto

text \<open>\<open>Option::is_none_or\<close> and \<open>Option::is_some_and\<close>.\<close>

definition is_none_or :: "('a \<Rightarrow> bool) \<Rightarrow> 'a option \<Rightarrow> bool" where
  "is_none_or p x = (case x of None \<Rightarrow> True | Some y \<Rightarrow> p y)"

definition is_some_and :: "('a \<Rightarrow> bool) \<Rightarrow> 'a option \<Rightarrow> bool" where
  "is_some_and p x = (case x of None \<Rightarrow> False | Some y \<Rightarrow> p y)"

lemma is_none_or_simps [simp, rust_simps]:
  "is_none_or p None" "is_none_or p (Some x) = p x"
  by (simp_all add: is_none_or_def)

lemma is_some_and_simps [simp, rust_simps]:
  "\<not> is_some_and p None" "is_some_and p (Some x) = p x"
  by (simp_all add: is_some_and_def)

lemma is_some_and_iff: "is_some_and p x \<longleftrightarrow> (\<exists>y. x = Some y \<and> p y)"
  by (cases x) auto

lemma is_none_or_iff: "is_none_or p x \<longleftrightarrow> (\<forall>y. x = Some y \<longrightarrow> p y)"
  by (cases x) auto

abbreviation is_some :: "'a option \<Rightarrow> bool" where
  "is_some x \<equiv> x \<noteq> None"

abbreviation is_none :: "'a option \<Rightarrow> bool" where
  "is_none x \<equiv> x = None"

subsection \<open>Machine integers\<close>

type_synonym u8 = "8 word"
type_synonym u16 = "16 word"
type_synonym u32 = "32 word"
type_synonym u64 = "64 word"
type_synonym u128 = "128 word"
type_synonym i32 = int \<comment> \<open>signed values are integers; their range is written out where it matters\<close>

definition checked_add :: "'a::len word \<Rightarrow> 'a word \<Rightarrow> 'a word option" where
  "checked_add a b = (if unat a + unat b < 2 ^ LENGTH('a) then Some (a + b) else None)"

definition checked_sub :: "'a::len word \<Rightarrow> 'a word \<Rightarrow> 'a word option" where
  "checked_sub a b = (if b \<le> a then Some (a - b) else None)"

definition checked_mul :: "'a::len word \<Rightarrow> 'a word \<Rightarrow> 'a word option" where
  "checked_mul a b = (if unat a * unat b < 2 ^ LENGTH('a) then Some (a * b) else None)"

definition checked_pow :: "'a::len word \<Rightarrow> nat \<Rightarrow> 'a word option" where
  "checked_pow a n = (if unat a ^ n < 2 ^ LENGTH('a) then Some (a ^ n) else None)"

definition saturating_mul :: "'a::len word \<Rightarrow> 'a word \<Rightarrow> 'a word" where
  "saturating_mul a b = (if unat a * unat b < 2 ^ LENGTH('a) then a * b else - 1)"

definition saturating_sub :: "'a::len word \<Rightarrow> 'a word \<Rightarrow> 'a word" where
  "saturating_sub a b = (if b \<le> a then a - b else 0)"

text \<open>\<open>uN::try_from\<close> of a value that is known to be non-negative.\<close>

definition unat_try_from :: "nat \<Rightarrow> 'a::len word option" where
  "unat_try_from n = (if n < 2 ^ LENGTH('a) then Some (of_nat n) else None)"

lemma unat_of_nat_small: "n < 2 ^ LENGTH('a::len) \<Longrightarrow> unat (of_nat n :: 'a word) = n"
  by (simp add: unat_of_nat)

lemma ex_unat_eq: "(\<exists>w :: 'a::len word. unat w = n) \<longleftrightarrow> n < 2 ^ LENGTH('a)"
  using unsigned_less unat_of_nat_small by blast

lemma unat_max: "unat (- 1 :: 'a::len word) = 2 ^ LENGTH('a) - 1"
  by (simp add: unsigned_minus_1_eq_mask mask_eq_exp_minus_1)

lemma checked_add_Some_iff:
  "checked_add a b = Some c \<longleftrightarrow> unat c = unat a + unat b" for a b c :: "'a::len word"
proof
  assume "checked_add a b = Some c"
  then show "unat c = unat a + unat b"
    by (auto simp: checked_add_def unat_add_lem split: if_splits)
next
  assume *: "unat c = unat a + unat b"
  then have "unat a + unat b < 2 ^ LENGTH('a)"
    by (metis unsigned_less)
  moreover from this have "a + b = c"
    using * by (simp add: unat_add_lem word_unat_eq_iff)
  ultimately show "checked_add a b = Some c"
    by (simp add: checked_add_def)
qed

lemma checked_add_None_iff:
  "checked_add a b = None \<longleftrightarrow> 2 ^ LENGTH('a) \<le> unat a + unat b" for a b :: "'a::len word"
  by (auto simp: checked_add_def)

lemma checked_add_0 [simp]: "checked_add a 0 = Some a"
  by (simp add: checked_add_Some_iff)

lemma checked_sub_Some_iff:
  "checked_sub a b = Some c \<longleftrightarrow> unat a = unat b + unat c" for a b c :: "'a::len word"
proof
  assume "checked_sub a b = Some c"
  then have "b \<le> a" "c = a - b"
    by (auto simp: checked_sub_def split: if_splits)
  then show "unat a = unat b + unat c"
    by (simp add: unat_sub word_le_nat_alt)
next
  assume *: "unat a = unat b + unat c"
  then have le: "b \<le> a"
    by (simp add: word_le_nat_alt)
  with * have "a - b = c"
    by (simp add: unat_sub word_unat_eq_iff)
  with le show "checked_sub a b = Some c"
    by (simp add: checked_sub_def)
qed

lemma checked_mul_Some_iff:
  "checked_mul a b = Some c \<longleftrightarrow> unat c = unat a * unat b" for a b c :: "'a::len word"
proof
  assume "checked_mul a b = Some c"
  then show "unat c = unat a * unat b"
    by (auto simp: checked_mul_def unat_mult_lem split: if_splits)
next
  assume *: "unat c = unat a * unat b"
  then have "unat a * unat b < 2 ^ LENGTH('a)"
    by (metis unsigned_less)
  moreover from this have "a * b = c"
    using * by (simp add: unat_mult_lem word_unat_eq_iff)
  ultimately show "checked_mul a b = Some c"
    by (simp add: checked_mul_def)
qed

lemma unat_power_mod: "unat (a ^ n) = unat a ^ n mod 2 ^ LENGTH('a)" for a :: "'a::len word"
proof (induction n)
  case 0
  then show ?case by (simp add: unat_1 mod_less)
next
  case (Suc n)
  then show ?case by (simp add: unat_word_ariths mod_mult_right_eq)
qed

lemma checked_pow_Some_iff:
  "checked_pow a n = Some c \<longleftrightarrow> unat c = unat a ^ n" for a c :: "'a::len word"
proof
  assume "checked_pow a n = Some c"
  then show "unat c = unat a ^ n"
    by (auto simp: checked_pow_def unat_power_mod split: if_splits)
next
  assume *: "unat c = unat a ^ n"
  then have lt: "unat a ^ n < 2 ^ LENGTH('a)"
    by (metis unsigned_less)
  with * have "a ^ n = c"
    by (simp add: unat_power_mod word_unat_eq_iff)
  with lt show "checked_pow a n = Some c"
    by (simp add: checked_pow_def)
qed

lemma unat_try_from_Some_iff:
  "unat_try_from n = Some (c :: 'a::len word) \<longleftrightarrow> unat c = n"
proof
  assume "unat_try_from n = Some c"
  then show "unat c = n"
    by (auto simp: unat_try_from_def unat_of_nat split: if_splits)
next
  assume "unat c = n"
  moreover from this have "n < 2 ^ LENGTH('a)"
    by (metis unsigned_less)
  ultimately show "unat_try_from n = Some c"
    by (auto simp: unat_try_from_def)
qed

lemma unat_try_from_None_iff:
  "(unat_try_from n :: 'a::len word option) = None \<longleftrightarrow> 2 ^ LENGTH('a) \<le> n"
  by (auto simp: unat_try_from_def)

lemmas checked_Some_iffs =
  checked_add_Some_iff checked_sub_Some_iff checked_mul_Some_iff checked_pow_Some_iff
  unat_try_from_Some_iff

subsection \<open>Strings\<close>

definition is_ascii_digit :: "char \<Rightarrow> bool" where
  "is_ascii_digit c \<longleftrightarrow> 48 \<le> (of_char c :: nat) \<and> (of_char c :: nat) \<le> 57"

definition is_ascii_uppercase :: "char \<Rightarrow> bool" where
  "is_ascii_uppercase c \<longleftrightarrow> 65 \<le> (of_char c :: nat) \<and> (of_char c :: nat) \<le> 90"

definition is_ascii_lowercase :: "char \<Rightarrow> bool" where
  "is_ascii_lowercase c \<longleftrightarrow> 97 \<le> (of_char c :: nat) \<and> (of_char c :: nat) \<le> 122"

definition is_ascii_hexdigit :: "char \<Rightarrow> bool" where
  "is_ascii_hexdigit c \<longleftrightarrow> is_ascii_digit c
     \<or> (65 \<le> (of_char c :: nat) \<and> (of_char c :: nat) \<le> 70)
     \<or> (97 \<le> (of_char c :: nat) \<and> (of_char c :: nat) \<le> 102)"

text \<open>\<open>str::split\<close> on one character: always at least one piece.\<close>

fun split_on :: "char \<Rightarrow> string \<Rightarrow> string list" where
  "split_on c [] = [[]]"
| "split_on c (x # xs) =
     (if x = c then [] # split_on c xs
      else (case split_on c xs of [] \<Rightarrow> [[x]] | p # ps \<Rightarrow> (x # p) # ps))"

lemma split_on_nonempty [simp]: "split_on c s \<noteq> []"
  by (cases s) (auto split: list.splits)

lemma split_on_no_sep: "c \<notin> set s \<Longrightarrow> split_on c s = [s]"
  by (induction s) auto

lemma split_on_sep: "c \<notin> set a \<Longrightarrow> split_on c (a @ c # b) = a # split_on c b"
  by (induction a) auto

lemma split_on_pieces: "\<forall>p \<in> set (split_on c s). c \<notin> set p"
  by (induction s) (auto split: list.splits)

text \<open>The value of a digit string, and \<open>str::parse\<close> into an unsigned integer (which
  accepts one leading plus sign).\<close>

definition digits_val :: "string \<Rightarrow> nat" where
  "digits_val s = foldl (\<lambda>n c. 10 * n + (of_char c - 48)) 0 s"

definition parse_uint :: "string \<Rightarrow> 'a::len word option" where
  "parse_uint s =
     (let ds = (case s of [] \<Rightarrow> [] | c # cs \<Rightarrow> if c = CHR ''+'' then cs else s)
      in if ds \<noteq> [] \<and> list_all is_ascii_digit ds then unat_try_from (digits_val ds) else None)"

lemma digits_val_Nil [simp]: "digits_val [] = 0"
  by (simp add: digits_val_def)

lemma digits_val_snoc: "digits_val (s @ [c]) = 10 * digits_val s + (of_char c - 48)"
  by (simp add: digits_val_def)

lemma not_digit_plus [simp]: "\<not> is_ascii_digit (CHR ''+'')"
  by (simp add: is_ascii_digit_def)

lemma not_digit_dot [simp]: "\<not> is_ascii_digit (CHR ''.'')"
  by (simp add: is_ascii_digit_def)

lemma parse_uint_digits:
  "s \<noteq> [] \<Longrightarrow> list_all is_ascii_digit s \<Longrightarrow> parse_uint s = unat_try_from (digits_val s)"
  by (cases s) (auto simp: parse_uint_def)

text \<open>\<open>Display\<close> of an unsigned integer.\<close>

fun show_nat :: "nat \<Rightarrow> string" where
  "show_nat n = (if n < 10 then [char_of (48 + n)]
                 else show_nat (n div 10) @ [char_of (48 + n mod 10)])"

declare show_nat.simps [simp del]

lemma of_char_digit: "d < 10 \<Longrightarrow> (of_char (char_of (48 + d) :: char) :: nat) = 48 + d"
  by (simp add: of_char_of)

lemma is_ascii_digit_char_of: "d < (10::nat) \<Longrightarrow> is_ascii_digit (char_of (48 + d))"
  by (simp add: is_ascii_digit_def of_char_digit)

lemma show_nat_nonempty [simp]: "show_nat n \<noteq> []"
  by (subst show_nat.simps) simp

lemma show_nat_digits: "list_all is_ascii_digit (show_nat n)"
proof (induction n rule: show_nat.induct)
  case (1 n)
  show ?case
    using "1.IH"
    by (subst show_nat.simps) (auto intro: is_ascii_digit_char_of)
qed

lemma digits_val_show_nat [simp]: "digits_val (show_nat n) = n"
proof (induction n rule: show_nat.induct)
  case (1 n)
  show ?case
  proof (cases "n < 10")
    case True
    then show ?thesis
      by (subst show_nat.simps) (simp add: digits_val_def of_char_digit)
  next
    case False
    then have "n mod 10 < 10" by simp
    with False "1.IH" show ?thesis
      by (subst show_nat.simps) (simp add: digits_val_snoc of_char_digit del: mod_less_divisor)
  qed
qed

lemma parse_show_nat: "parse_uint (show_nat (unat w)) = Some (w :: 'a::len word)"
  by (simp add: parse_uint_digits show_nat_digits unat_try_from_Some_iff)

subsection \<open>Durations\<close>

type_synonym duration = nat

definition duration_max :: duration where
  "duration_max = (2 ^ 64 - 1) * 10 ^ 9 + 999999999"

definition duration_checked_add :: "duration \<Rightarrow> duration \<Rightarrow> duration option" where
  "duration_checked_add a b = (if a + b \<le> duration_max then Some (a + b) else None)"

definition duration_checked_sub :: "duration \<Rightarrow> duration \<Rightarrow> duration option" where
  "duration_checked_sub a b = (if b \<le> a then Some (a - b) else None)"

definition duration_saturating_sub :: "duration \<Rightarrow> duration \<Rightarrow> duration" where
  "duration_saturating_sub a b = (if b \<le> a then a - b else 0)"

definition as_millis :: "duration \<Rightarrow> nat" where
  "as_millis d = d div 10 ^ 6"

definition from_millis :: "u64 \<Rightarrow> duration" where
  "from_millis ms = unat ms * 10 ^ 6"

definition from_secs :: "u64 \<Rightarrow> duration" where
  "from_secs s = unat s * 10 ^ 9"

lemma as_millis_from_millis [simp]: "as_millis (from_millis ms) = unat ms"
  by (simp add: as_millis_def from_millis_def)

lemma from_millis_inj [simp]: "from_millis a = from_millis b \<longleftrightarrow> a = b"
  by (simp add: from_millis_def word_unat_eq_iff)

lemma from_millis_mono: "from_millis a \<le> from_millis b \<longleftrightarrow> a \<le> b"
  by (simp add: from_millis_def word_le_nat_alt)

lemma from_millis_zero_iff: "from_millis a = 0 \<longleftrightarrow> a = 0"
  by (simp add: from_millis_def unat_eq_zero)

lemma duration_checked_sub_Some_iff:
  "duration_checked_sub a b = Some c \<longleftrightarrow> a = b + c"
  by (auto simp: duration_checked_sub_def)

end
