(* ===== verification/Lifecycle.thy ===== *)
theory Lifecycle
  imports Prelude
begin

text \<open>
  The run-state machine of \<open>memcordon-core/src/state_machine.rs\<close>: the states of one
  supervised run, the transition method with its table, and what a sequence of transition
  requests can reach. \<open>run_step\<close> is the step relation of accepted transitions.
\<close>

datatype run_state =
    Resolving | Prepared | SpawnedGated | Running | ChildExited
  | Terminating | Reaping | Cleaning | Finished

record state_transition_error =
  err_from :: run_state
  err_to :: run_state

record state_machine =
  sm_state :: run_state

definition state_machine_default :: state_machine where
  "state_machine_default = \<lparr>sm_state = Resolving\<rparr>"

definition valid_transition :: "run_state \<Rightarrow> run_state \<Rightarrow> bool" where
  "valid_transition from to \<longleftrightarrow>
     (from, to) = (Resolving, Prepared)
   \<or> (from, to) = (Prepared, SpawnedGated)
   \<or> (from, to) = (SpawnedGated, Running)
   \<or> (from \<in> {SpawnedGated, Running} \<and> to = ChildExited)
   \<or> (from \<in> {SpawnedGated, Running, ChildExited} \<and> to = Terminating)
   \<or> (from \<in> {SpawnedGated, Running, ChildExited, Terminating} \<and> to = Reaping)
   \<or> (from \<in> {SpawnedGated, Running, ChildExited, Terminating, Reaping} \<and> to = Cleaning)
   \<or> (from, to) = (Cleaning, Finished)"

definition transition ::
  "state_machine \<Rightarrow> run_state \<Rightarrow> state_machine \<times> (state_transition_error + unit)" where
  "transition m to =
     (if \<not> valid_transition (sm_state m) to
      then (m, Inl \<lparr>err_from = sm_state m, err_to = to\<rparr>)
      else (m\<lparr>sm_state := to\<rparr>, Inr ()))"

text \<open>A caller that drives the machine through a list of states and stops at the first
  refusal, as the supervisor does with \<open>?\<close>.\<close>

fun drive :: "state_machine \<Rightarrow> run_state list \<Rightarrow> state_machine \<times> (state_transition_error + unit)" where
  "drive m [] = (m, Inr ())"
| "drive m (to # tos) =
     (case transition m to of
        (m', Inl e) \<Rightarrow> (m', Inl e)
      | (m', Inr _) \<Rightarrow> drive m' tos)"

inductive run_step :: "run_state \<Rightarrow> run_state \<Rightarrow> bool" where
  run_step: "transition m to = (m', Inr ()) \<Longrightarrow> run_step (sm_state m) (sm_state m')"

text \<open>The order in which a run visits the states.\<close>

fun phase_rank :: "run_state \<Rightarrow> nat" where
  "phase_rank Resolving = 0"
| "phase_rank Prepared = 1"
| "phase_rank SpawnedGated = 2"
| "phase_rank Running = 3"
| "phase_rank ChildExited = 4"
| "phase_rank Terminating = 5"
| "phase_rank Reaping = 6"
| "phase_rank Cleaning = 7"
| "phase_rank Finished = 8"

lemma run_step_iff: "run_step a b \<longleftrightarrow> valid_transition a b"
proof
  show "valid_transition a b" if "run_step a b"
    using that by (cases rule: run_step.cases) (auto simp: transition_def split: if_splits)
next
  assume *: "valid_transition a b"
  have "run_step (sm_state \<lparr>sm_state = a\<rparr>) (sm_state \<lparr>sm_state = b\<rparr>)"
    by (rule run_step.intros [where to = b]) (simp add: transition_def *)
  then show "run_step a b" by simp
qed

lemma valid_transition_rank: "valid_transition a b \<Longrightarrow> phase_rank a < phase_rank b"
  by (auto simp: valid_transition_def)

lemma phase_rank_le: "phase_rank s \<le> 8"
  by (cases s) auto

lemma phase_rank_inj: "phase_rank a = phase_rank b \<longleftrightarrow> a = b"
  by (cases a; cases b) auto

lemma transition_refused_keeps_state:
  "transition m to = (m', Inl e) \<Longrightarrow> m' = m \<and> err_from e = sm_state m \<and> err_to e = to"
  by (auto simp: transition_def split: if_splits)

lemma transition_accepted: "transition m to = (m', Inr ()) \<longleftrightarrow>
    valid_transition (sm_state m) to \<and> m' = m\<lparr>sm_state := to\<rparr>"
  by (auto simp: transition_def)

lemma drive_Cons_Inr: "drive m (to # tos) = (m', Inr ()) \<longleftrightarrow>
    valid_transition (sm_state m) to \<and> drive (m\<lparr>sm_state := to\<rparr>) tos = (m', Inr ())"
  by (auto simp: transition_def)

lemma drive_sorted:
  assumes "drive m tos = (m', Inr ())"
  shows "sorted_wrt (\<lambda>a b. phase_rank a < phase_rank b) (sm_state m # tos)"
  using assms
proof (induction tos arbitrary: m)
  case Nil
  then show ?case by simp
next
  case (Cons to tos)
  from Cons.prems have v: "valid_transition (sm_state m) to"
    and d: "drive (m\<lparr>sm_state := to\<rparr>) tos = (m', Inr ())"
    by (simp_all only: drive_Cons_Inr)
  from Cons.IH [OF d] valid_transition_rank [OF v] show ?case
    by (auto intro: less_trans)
qed

lemma drive_last:
  assumes "drive m tos = (m', Inr ())"
  shows "sm_state m' = last (sm_state m # tos)"
  using assms
proof (induction tos arbitrary: m)
  case Nil
  then show ?case by simp
next
  case (Cons to tos)
  then have "drive (m\<lparr>sm_state := to\<rparr>) tos = (m', Inr ())"
    by (simp only: drive_Cons_Inr)
  from Cons.IH [OF this] show ?case by simp
qed

lemma drive_append_Inr: "drive m (as @ bs) = (m', Inr ()) \<Longrightarrow>
    \<exists>m1. drive m as = (m1, Inr ()) \<and> drive m1 bs = (m', Inr ())"
proof (induction as arbitrary: m)
  case Nil
  then show ?case by simp
next
  case (Cons a as)
  then have v: "valid_transition (sm_state m) a"
    and "drive (m\<lparr>sm_state := a\<rparr>) (as @ bs) = (m', Inr ())"
    by (simp_all only: append_Cons drive_Cons_Inr)
  with Cons.IH obtain m1 where "drive (m\<lparr>sm_state := a\<rparr>) as = (m1, Inr ())"
    and "drive m1 bs = (m', Inr ())"
    by blast
  with v show ?case by (metis drive_Cons_Inr)
qed

text \<open>Before a run can be past the gate it went through \<open>Prepared\<close> and \<open>SpawnedGated\<close>, in
  that order: those two states are the only way out of \<open>Resolving\<close>.\<close>

lemma drive_from_resolving:
  assumes "drive state_machine_default tos = (m', Inr ())" and "phase_rank (sm_state m') \<ge> 2"
  shows "\<exists>rest. tos = Prepared # SpawnedGated # rest"
proof -
  obtain a as where tos: "tos = a # as"
    using assms by (cases tos) (auto simp: state_machine_default_def)
  with assms(1) have v: "valid_transition Resolving a"
    and d: "drive \<lparr>sm_state = a\<rparr> as = (m', Inr ())"
    by (auto simp: state_machine_default_def drive_Cons_Inr simp del: drive.simps)
  from v have a: "a = Prepared" by (simp add: valid_transition_def)
  obtain b bs where as: "as = b # bs"
    using d a assms(2) by (cases as) auto
  with d a have "valid_transition Prepared b"
    by (auto simp: drive_Cons_Inr simp del: drive.simps)
  then have "b = SpawnedGated" by (simp add: valid_transition_def)
  with tos as a show ?thesis by simp
qed

lemma sorted_rank_length:
  assumes "sorted_wrt (\<lambda>a b. phase_rank a < phase_rank b) xs"
  shows "length xs \<le> 9"
proof -
  have "distinct (map phase_rank xs)"
    using assms by (induction xs) (auto simp: image_iff)
  moreover have "set (map phase_rank xs) \<subseteq> {0..8}"
    using phase_rank_le by auto
  ultimately have "length (map phase_rank xs) \<le> card {0..8::nat}"
    by (metis card_mono distinct_card finite_atLeastAtMost)
  then show ?thesis by simp
qed

text \<open>C32: no state of the run-state machine is a trap. From every state some sequence of
  accepted transitions leads to \<open>Finished\<close>, and \<open>Finished\<close> is the only state without an
  accepted transition.\<close>

theorem run_step_progress:
  "run_step\<^sup>*\<^sup>* s Finished \<and> ((\<exists>t. run_step s t) \<longleftrightarrow> s \<noteq> Finished)"
proof
  have cleaning: "run_step\<^sup>*\<^sup>* Cleaning Finished"
    by (rule r_into_rtranclp) (simp add: run_step_iff valid_transition_def)
  have to_cleaning: "run_step\<^sup>*\<^sup>* t Finished" if "run_step t Cleaning" for t
    using that cleaning by (rule converse_rtranclp_into_rtranclp)
  have gated: "run_step\<^sup>*\<^sup>* SpawnedGated Finished"
    by (rule to_cleaning) (simp add: run_step_iff valid_transition_def)
  have prepared: "run_step\<^sup>*\<^sup>* Prepared Finished"
    by (rule converse_rtranclp_into_rtranclp [OF _ gated]) (simp add: run_step_iff valid_transition_def)
  have resolving: "run_step\<^sup>*\<^sup>* Resolving Finished"
    by (rule converse_rtranclp_into_rtranclp [OF _ prepared])
      (simp add: run_step_iff valid_transition_def)
  show "run_step\<^sup>*\<^sup>* s Finished"
    by (cases s) (auto intro: cleaning gated prepared resolving to_cleaning
        simp: run_step_iff valid_transition_def)
next
  show "(\<exists>t. run_step s t) \<longleftrightarrow> s \<noteq> Finished"
    by (cases s) (auto simp: run_step_iff valid_transition_def)
qed

text \<open>C30: however a caller drives a fresh run-state machine to \<open>Finished\<close>, the accepted
  transitions start with \<open>Prepared\<close> and \<open>SpawnedGated\<close>, end with \<open>Cleaning\<close> followed by
  \<open>Finished\<close>, never visit a state twice (each state is later than the one before it), and
  there are at most eight of them.\<close>

theorem finished_run_passes_gate_and_cleanup:
  assumes "drive state_machine_default tos = (m', Inr ())" and "sm_state m' = Finished"
  shows "(\<exists>rest. tos = Prepared # SpawnedGated # rest)
    \<and> (\<exists>before. tos = before @ [Cleaning, Finished])
    \<and> sorted_wrt (\<lambda>a b. phase_rank a < phase_rank b) (Resolving # tos)
    \<and> length tos \<le> 8"
proof -
  have s: "sorted_wrt (\<lambda>a b. phase_rank a < phase_rank b) (Resolving # tos)"
    using drive_sorted [OF assms(1)] by (simp add: state_machine_default_def)
  have len: "length tos \<le> 8"
    using sorted_rank_length [OF s] by simp
  have start: "\<exists>rest. tos = Prepared # SpawnedGated # rest"
    using drive_from_resolving [OF assms(1)] assms(2) by simp
  then obtain ys x where tos: "tos = ys @ [x]"
    by (metis list.discI rev_exhaust)
  obtain m1 where m1: "drive state_machine_default ys = (m1, Inr ())"
    and last: "drive m1 [x] = (m', Inr ())"
    using drive_append_Inr [of state_machine_default ys "[x]"] assms(1) tos by auto
  from last assms(2) have "x = Finished" and v: "valid_transition (sm_state m1) Finished"
    by (auto simp: drive_Cons_Inr simp del: drive.simps(2))
  from v have c: "sm_state m1 = Cleaning" by (simp add: valid_transition_def)
  with drive_last [OF m1] have "ys \<noteq> [] \<and> last ys = Cleaning"
    by (auto simp: state_machine_default_def split: if_splits)
  then obtain before where "ys = before @ [Cleaning]"
    by (metis append_butlast_last_id)
  with tos \<open>x = Finished\<close> have "tos = before @ [Cleaning, Finished]" by simp
  with start s len show ?thesis by blast
qed

theorem finished_run_passes_gate_and_cleanup_witness:
  "drive state_machine_default
     [Prepared, SpawnedGated, Running, Terminating, Reaping, Cleaning, Finished]
     = (\<lparr>sm_state = Finished\<rparr>, Inr ())
   \<and> length [Prepared, SpawnedGated, Running, Terminating, Reaping, Cleaning, Finished] \<le> 8"
proof -
  let ?tos = "[Prepared, SpawnedGated, Running, Terminating, Reaping, Cleaning, Finished]"
  have d: "drive state_machine_default ?tos = (\<lparr>sm_state = Finished\<rparr>, Inr ())"
    by (simp add: state_machine_default_def transition_def valid_transition_def)
  from finished_run_passes_gate_and_cleanup [OF d] d show ?thesis by simp
qed

end
