(* ===== verification/Bpf.thy ===== *)
theory Bpf
  imports Prelude
begin

unbundle bit_operations_syntax

text \<open>
  Classic BPF as \<open>linux/network_filter.rs\<close> of the sealed agent uses it: instructions, the
  program validator, the instruction digest, and the interface to the kernel's interpreter.
  The kernel is not part of the sources: \<open>cbpf_machine\<close> states what is relied on of it, and
  \<open>bpf_exec\<close> is an executable interpreter that meets the interface.
\<close>

subsection \<open>Instructions\<close>

definition BPF_LD_W_ABS :: u16 where "BPF_LD_W_ABS = 0x20"

definition BPF_JMP_JEQ_K :: u16 where "BPF_JMP_JEQ_K = 0x15"

definition BPF_JMP_JSET_K :: u16 where "BPF_JMP_JSET_K = 0x45"

definition BPF_JMP_JA :: u16 where "BPF_JMP_JA = 0x05"

definition BPF_ALU_AND_K :: u16 where "BPF_ALU_AND_K = 0x54"

definition BPF_RET_K :: u16 where "BPF_RET_K = 0x06"

lemmas bpf_codes = BPF_LD_W_ABS_def BPF_JMP_JEQ_K_def BPF_JMP_JSET_K_def BPF_JMP_JA_def
  BPF_ALU_AND_K_def BPF_RET_K_def

lemma bpf_codes_distinct [simp]:
  "BPF_RET_K \<noteq> BPF_LD_W_ABS" "BPF_RET_K \<noteq> BPF_ALU_AND_K" "BPF_RET_K \<noteq> BPF_JMP_JEQ_K"
  "BPF_RET_K \<noteq> BPF_JMP_JSET_K" "BPF_RET_K \<noteq> BPF_JMP_JA" "BPF_LD_W_ABS \<noteq> BPF_RET_K"
  "BPF_LD_W_ABS \<noteq> BPF_ALU_AND_K" "BPF_LD_W_ABS \<noteq> BPF_JMP_JEQ_K" "BPF_LD_W_ABS \<noteq> BPF_JMP_JSET_K"
  "BPF_LD_W_ABS \<noteq> BPF_JMP_JA" "BPF_ALU_AND_K \<noteq> BPF_RET_K" "BPF_ALU_AND_K \<noteq> BPF_LD_W_ABS"
  "BPF_ALU_AND_K \<noteq> BPF_JMP_JEQ_K" "BPF_ALU_AND_K \<noteq> BPF_JMP_JSET_K" "BPF_ALU_AND_K \<noteq> BPF_JMP_JA"
  "BPF_JMP_JEQ_K \<noteq> BPF_RET_K" "BPF_JMP_JEQ_K \<noteq> BPF_LD_W_ABS" "BPF_JMP_JEQ_K \<noteq> BPF_ALU_AND_K"
  "BPF_JMP_JEQ_K \<noteq> BPF_JMP_JSET_K" "BPF_JMP_JEQ_K \<noteq> BPF_JMP_JA" "BPF_JMP_JSET_K \<noteq> BPF_RET_K"
  "BPF_JMP_JSET_K \<noteq> BPF_LD_W_ABS" "BPF_JMP_JSET_K \<noteq> BPF_ALU_AND_K" "BPF_JMP_JSET_K \<noteq> BPF_JMP_JEQ_K"
  "BPF_JMP_JSET_K \<noteq> BPF_JMP_JA" "BPF_JMP_JA \<noteq> BPF_RET_K" "BPF_JMP_JA \<noteq> BPF_LD_W_ABS"
  "BPF_JMP_JA \<noteq> BPF_ALU_AND_K" "BPF_JMP_JA \<noteq> BPF_JMP_JEQ_K" "BPF_JMP_JA \<noteq> BPF_JMP_JSET_K"
  by (simp_all add: bpf_codes)

record sock_filter =
  code :: u16
  jt :: u8
  jf :: u8
  k :: u32

definition instruction :: "u16 \<Rightarrow> u8 \<Rightarrow> u8 \<Rightarrow> u32 \<Rightarrow> sock_filter" where
  "instruction c t f v = \<lparr>code = c, jt = t, jf = f, k = v\<rparr>"

definition load :: "u32 \<Rightarrow> sock_filter" where
  "load off = instruction BPF_LD_W_ABS 0 0 off"

definition jump_equal :: "u32 \<Rightarrow> u8 \<Rightarrow> u8 \<Rightarrow> sock_filter" where
  "jump_equal value on_equal on_other = instruction BPF_JMP_JEQ_K on_equal on_other value"

definition return_action :: "u32 \<Rightarrow> sock_filter" where
  "return_action value = instruction BPF_RET_K 0 0 value"

lemmas instruction_defs = instruction_def load_def jump_equal_def return_action_def

subsection \<open>The validator\<close>

definition KERNEL_FILTER_INSTRUCTION_LIMIT :: nat where
  "KERNEL_FILTER_INSTRUCTION_LIMIT = 4096"

datatype filter_error =
  InvalidInstructionCount | JumpEscapes | JumpOffsetOverflow | UnknownInstruction

text \<open>\<open>usize\<close> has 64 bits on both supported ABIs.\<close>

definition check_target :: "nat \<Rightarrow> nat \<Rightarrow> nat \<Rightarrow> filter_error + unit" where
  "check_target program_len position delta =
     (case Option.bind (Option.bind (unat_try_from (position + 1) :: u64 option)
              (\<lambda>next. unat_try_from (unat next + delta) :: u64 option))
            (\<lambda>target. if unat target < program_len then Some target else None) of
        None \<Rightarrow> Inl JumpEscapes
      | Some _ \<Rightarrow> Inr ())"

definition validate_instruction :: "nat \<Rightarrow> nat \<Rightarrow> sock_filter \<Rightarrow> filter_error + unit" where
  "validate_instruction program_len position i =
     (if code i = BPF_RET_K then Inr ()
      else if code i = BPF_LD_W_ABS \<or> code i = BPF_ALU_AND_K then check_target program_len position 0
      else if code i = BPF_JMP_JEQ_K \<or> code i = BPF_JMP_JSET_K
      then and_then (check_target program_len position (unat (jt i))) (\<lambda>_.
           check_target program_len position (unat (jf i)))
      else if code i = BPF_JMP_JA
      then and_then (ok_or JumpOffsetOverflow (unat_try_from (unat (k i)) :: u64 option)) (\<lambda>delta.
           check_target program_len position (unat delta))
      else Inl UnknownInstruction)"

fun validate_from :: "nat \<Rightarrow> nat \<Rightarrow> sock_filter list \<Rightarrow> filter_error + unit" where
  "validate_from program_len position [] = Inr ()"
| "validate_from program_len position (i # is) =
     and_then (validate_instruction program_len position i) (\<lambda>_. validate_from program_len (position + 1) is)"

definition validate_program :: "sock_filter list \<Rightarrow> filter_error + unit" where
  "validate_program program =
     (if program = [] \<or> KERNEL_FILTER_INSTRUCTION_LIMIT < length program then Inl InvalidInstructionCount
      else validate_from (length program) 0 program)"

text \<open>What validation means for the instructions after a position: every jump of an
  instruction stays within the rest of the program.\<close>

definition jumps_within :: "sock_filter \<Rightarrow> nat \<Rightarrow> bool" where
  "jumps_within i rest \<longleftrightarrow>
     code i = BPF_RET_K
     \<or> (code i = BPF_LD_W_ABS \<or> code i = BPF_ALU_AND_K) \<and> 0 < rest
     \<or> (code i = BPF_JMP_JEQ_K \<or> code i = BPF_JMP_JSET_K) \<and> unat (jt i) < rest \<and> unat (jf i) < rest
     \<or> code i = BPF_JMP_JA \<and> unat (k i) < rest"

lemma jumps_within_cases [consumes 1, case_names RET LD AND JEQ JSET JA]:
  assumes "jumps_within i rest"
  obtains "code i = BPF_RET_K" | "code i = BPF_LD_W_ABS" "0 < rest" | "code i = BPF_ALU_AND_K" "0 < rest"
    | "code i = BPF_JMP_JEQ_K" "unat (jt i) < rest" "unat (jf i) < rest"
    | "code i = BPF_JMP_JSET_K" "unat (jt i) < rest" "unat (jf i) < rest"
    | "code i = BPF_JMP_JA" "unat (k i) < rest"
  using assms unfolding jumps_within_def by (elim disjE conjE)

fun well_formed :: "sock_filter list \<Rightarrow> bool" where
  "well_formed [] = True"
| "well_formed (i # is) \<longleftrightarrow> jumps_within i (length is) \<and> well_formed is"

lemma check_target_iff:
  assumes "program_len \<le> 4096"
  shows "check_target program_len position delta = Inr () \<longleftrightarrow> position + 1 + delta < program_len"
proof -
  have "check_target program_len position delta = Inr () \<longleftrightarrow>
      (\<exists>(n :: u64) (t :: u64). unat n = position + 1 \<and> unat t = unat n + delta \<and> unat t < program_len)"
  proof -
    have c: "(case m of None \<Rightarrow> Inl JumpEscapes | Some _ \<Rightarrow> Inr ()) = Inr () \<longleftrightarrow> (\<exists>t. m = Some t)" for m :: "u64 option"
      by (cases m) auto
    show ?thesis
      unfolding check_target_def c bind_eq_Some_conv
      by (simp add: unat_try_from_Some_iff if_split_eq1) blast
  qed
  also have "\<dots> \<longleftrightarrow> position + 1 + delta < program_len"
  proof
    assume *: "position + 1 + delta < program_len"
    then have "position + 1 < 2 ^ 64" "position + 1 + delta < 2 ^ 64" using assms by auto
    then obtain n :: u64 and t :: u64 where "unat n = position + 1" "unat t = position + 1 + delta"
      using ex_unat_eq [of "position + 1", where ?'a = 64] ex_unat_eq [of "position + 1 + delta", where ?'a = 64]
      by auto
    with * show "\<exists>(n :: u64) (t :: u64). unat n = position + 1 \<and> unat t = unat n + delta \<and> unat t < program_len"
      by (intro exI [of _ n] exI [of _ t]) simp
  qed auto
  finally show ?thesis .
qed

lemma validate_instruction_iff:
  assumes "program_len \<le> 4096" and "position + Suc rest = program_len"
  shows "validate_instruction program_len position i = Inr () \<longleftrightarrow> jumps_within i rest"
proof -
  have "unat (k i) < 2 ^ 64"
    using unsigned_less [of "k i", where ?'a = nat] by simp
  then obtain d :: u64 where d: "unat_try_from (unat (k i)) = Some d" "unat d = unat (k i)"
    using ex_unat_eq [of "unat (k i)", where ?'a = 64] by (auto simp: unat_try_from_Some_iff)
  show ?thesis
    using assms
    by (auto simp: validate_instruction_def jumps_within_def check_target_iff and_then_Inr_iff d bpf_codes)
qed

lemma validate_from_iff:
  "program_len \<le> 4096 \<Longrightarrow> position + length is = program_len \<Longrightarrow>
    validate_from program_len position is = Inr () \<longleftrightarrow> well_formed is"
proof (induction "is" arbitrary: position)
  case (Cons i "is")
  then show ?case
    using validate_instruction_iff [of program_len position "length is" i]
    by (auto simp: and_then_Inr_iff)
qed simp

lemma validate_program_iff:
  "validate_program p = Inr () \<longleftrightarrow> p \<noteq> [] \<and> length p \<le> 4096 \<and> well_formed p"
  by (auto simp: validate_program_def KERNEL_FILTER_INSTRUCTION_LIMIT_def validate_from_iff)

subsection \<open>Execution\<close>

text \<open>An interpreter over the instructions still to come, since all jumps are forward; \<open>a\<close> is
  the accumulator and \<open>d\<close> the data the filter loads from. Running off the end or meeting an
  unknown instruction has no result.\<close>

function bpf_exec :: "sock_filter list \<Rightarrow> u32 \<Rightarrow> (u32 \<Rightarrow> u32) \<Rightarrow> u32 option" where
  "bpf_exec [] a d = None"
| "bpf_exec (i # is) a d =
     (if code i = BPF_RET_K then Some (k i)
      else if code i = BPF_LD_W_ABS then bpf_exec is (d (k i)) d
      else if code i = BPF_ALU_AND_K then bpf_exec is (a AND k i) d
      else if code i = BPF_JMP_JEQ_K then bpf_exec (drop (unat (if a = k i then jt i else jf i)) is) a d
      else if code i = BPF_JMP_JSET_K then bpf_exec (drop (unat (if a AND k i \<noteq> 0 then jt i else jf i)) is) a d
      else if code i = BPF_JMP_JA then bpf_exec (drop (unat (k i)) is) a d
      else None)"
  by pat_completeness auto
termination by (relation "measure (\<lambda>(is, a, d). length is)") (auto simp: less_Suc_eq_le)

declare bpf_exec.simps(2) [simp del]

lemma bpf_exec_steps [simp]:
  "bpf_exec (return_action v # is) a d = Some v"
  "bpf_exec (load off # is) a d = bpf_exec is (d off) d"
  "bpf_exec (instruction BPF_ALU_AND_K 0 0 v # is) a d = bpf_exec is (a AND v) d"
  "bpf_exec (jump_equal v t f # is) a d
     = (if a = v then bpf_exec (drop (unat t) is) a d else bpf_exec (drop (unat f) is) a d)"
  "bpf_exec (instruction BPF_JMP_JSET_K t f v # is) a d
     = (if a AND v \<noteq> 0 then bpf_exec (drop (unat t) is) a d else bpf_exec (drop (unat f) is) a d)"
  "bpf_exec (instruction BPF_JMP_JA 0 0 v # is) a d = bpf_exec (drop (unat v) is) a d"
  by (simp_all add: bpf_exec.simps instruction_defs)

lemma well_formed_drop: "well_formed p \<Longrightarrow> well_formed (drop n p)"
  by (induction p arbitrary: n) (auto simp: drop_Cons split: nat.split)

lemma jumps_within_mono: "jumps_within i m \<Longrightarrow> m \<le> n \<Longrightarrow> jumps_within i n"
  by (auto simp: jumps_within_def)

lemma well_formed_append: "well_formed p \<Longrightarrow> well_formed q \<Longrightarrow> well_formed (p @ q)"
  by (induction p) (auto elim: jumps_within_mono)

lemma jumps_within_simps [simp]:
  "jumps_within (return_action v) n"
  "jumps_within (load off) n \<longleftrightarrow> 0 < n"
  "jumps_within (instruction BPF_ALU_AND_K 0 0 v) n \<longleftrightarrow> 0 < n"
  "jumps_within (jump_equal v t f) n \<longleftrightarrow> unat t < n \<and> unat f < n"
  "jumps_within (instruction BPF_JMP_JSET_K t f v) n \<longleftrightarrow> unat t < n \<and> unat f < n"
  "jumps_within (instruction BPF_JMP_JA 0 0 v) n \<longleftrightarrow> unat v < n"
  by (simp_all add: jumps_within_def instruction_defs)

text \<open>A well-formed program always returns: no path leaves the instruction array.\<close>

lemma well_formed_returns:
  "p \<noteq> [] \<Longrightarrow> well_formed p \<Longrightarrow> \<exists>v. bpf_exec p a d = Some v"
proof (induction p a d rule: bpf_exec.induct)
  case (2 i "is" a d)
  have wf: "well_formed (drop n is)" for n using 2(7) by (simp add: well_formed_drop)
  have j: "jumps_within i (length is)" using 2(7) by simp
  from j show ?case
  proof (cases rule: jumps_within_cases)
    case LD with 2(1) wf [of 0] show ?thesis by (auto simp: bpf_exec.simps(2))
  next
    case AND with 2(2) wf [of 0] show ?thesis by (auto simp: bpf_exec.simps(2))
  next
    case JEQ with 2(3) wf show ?thesis by (simp add: bpf_exec.simps(2))
  next
    case JSET with 2(4) wf show ?thesis by (simp add: bpf_exec.simps(2))
  next
    case JA with 2(5) wf show ?thesis by (simp add: bpf_exec.simps(2))
  qed (simp add: bpf_exec.simps(2))
qed simp

text \<open>What is relied on of the kernel's interpreter: the documented effect of each of the six
  opcodes on the program counter and the accumulator.\<close>

locale cbpf_machine =
  fixes run :: "sock_filter list \<Rightarrow> nat \<Rightarrow> u32 \<Rightarrow> (u32 \<Rightarrow> u32) \<Rightarrow> u32 option"
  assumes ret: "pc < length p \<Longrightarrow> code (p ! pc) = BPF_RET_K \<Longrightarrow> run p pc a d = Some (k (p ! pc))"
    and ld: "pc < length p \<Longrightarrow> code (p ! pc) = BPF_LD_W_ABS \<Longrightarrow> run p pc a d = run p (pc + 1) (d (k (p ! pc))) d"
    and alu_and: "pc < length p \<Longrightarrow> code (p ! pc) = BPF_ALU_AND_K \<Longrightarrow> run p pc a d = run p (pc + 1) (a AND k (p ! pc)) d"
    and jeq: "pc < length p \<Longrightarrow> code (p ! pc) = BPF_JMP_JEQ_K \<Longrightarrow>
      run p pc a d = run p (pc + 1 + unat (if a = k (p ! pc) then jt (p ! pc) else jf (p ! pc))) a d"
    and jset: "pc < length p \<Longrightarrow> code (p ! pc) = BPF_JMP_JSET_K \<Longrightarrow>
      run p pc a d = run p (pc + 1 + unat (if a AND k (p ! pc) \<noteq> 0 then jt (p ! pc) else jf (p ! pc))) a d"
    and ja: "pc < length p \<Longrightarrow> code (p ! pc) = BPF_JMP_JA \<Longrightarrow> run p pc a d = run p (pc + 1 + unat (k (p ! pc))) a d"
begin

text \<open>On a validated program the kernel and the interpreter above agree.\<close>

lemma run_exec:
  assumes "well_formed p" and "pc < length p"
  shows "run p pc a d = bpf_exec (drop pc p) a d"
  using assms(2)
proof (induction "length p - pc" arbitrary: pc a rule: less_induct)
  case less
  let ?i = "p ! pc" and ?rest = "drop (Suc pc) p"
  have drop: "drop pc p = ?i # ?rest" using less.prems by (simp add: Cons_nth_drop_Suc)
  have "well_formed (?i # ?rest)" using well_formed_drop [OF assms(1), of pc] drop by simp
  then have within: "jumps_within ?i (length p - Suc pc)" by simp
  have step: "run p (pc + 1 + n) a' d = bpf_exec (drop n ?rest) a' d" if "n < length p - Suc pc" for n a'
    using less.hyps [of "pc + 1 + n" a'] that less.prems by (simp add: add.commute)
  from within show ?case
  proof (cases rule: jumps_within_cases)
    case RET then show ?thesis using ret less.prems by (simp add: drop bpf_exec.simps(2))
  next
    case LD then show ?thesis using ld step [of 0] less.prems by (simp add: drop bpf_exec.simps(2))
  next
    case AND then show ?thesis using alu_and step [of 0] less.prems by (simp add: drop bpf_exec.simps(2))
  next
    case JEQ then show ?thesis
      using jeq [OF less.prems JEQ(1), of a d] step [of "unat (jt ?i)" a] step [of "unat (jf ?i)" a]
      by (cases "a = k ?i"; cases "a AND k ?i = 0") (simp_all add: drop bpf_exec.simps(2))
  next
    case JSET then show ?thesis
      using jset [OF less.prems JSET(1), of a d] step [of "unat (jt ?i)" a] step [of "unat (jf ?i)" a]
      by (cases "a = k ?i"; cases "a AND k ?i = 0") (simp_all add: drop bpf_exec.simps(2))
  next
    case JA then show ?thesis
      using ja [OF less.prems JA(1), of a d] step [of "unat (k ?i)" a] by (simp add: drop bpf_exec.simps(2))
  qed
qed

lemma run_validated:
  assumes "validate_program p = Inr ()"
  shows "run p 0 a d = bpf_exec p a d"
  using assms run_exec [of p 0] by (simp add: validate_program_iff)

end

lemma bpf_exec_drop:
  assumes "pc < length p"
  shows "bpf_exec (drop pc p) a d = bpf_exec (p ! pc # drop (Suc pc) p) a d"
  using assms by (simp only: Cons_nth_drop_Suc)

interpretation exec: cbpf_machine "\<lambda>p pc. bpf_exec (drop pc p)"
  by unfold_locales (simp_all add: bpf_exec_drop bpf_exec.simps(2) add.commute)

text \<open>C33: a program the validator accepts cannot run wild: on the kernel's interpreter it
  returns an action for every initial accumulator and all data, whatever its jumps are.\<close>

theorem validated_program_returns:
  assumes "cbpf_machine run" and "validate_program p = Inr ()"
  shows "\<exists>v. run p 0 a d = Some v"
  using cbpf_machine.run_validated [OF assms] assms(2) well_formed_returns [of p]
  by (simp add: validate_program_iff)

theorem validated_program_returns_witness:
  "\<exists>v. bpf_exec [load 0, jump_equal 41 0 1, return_action 5, return_action 7] 0 (\<lambda>_. 41) = Some v"
  using validated_program_returns [OF exec.cbpf_machine_axioms,
      of "[load 0, jump_equal 41 0 1, return_action 5, return_action 7]" 0 "\<lambda>_. 41"]
  by (simp add: validate_program_iff jumps_within_def instruction_defs)

end
