(* ===== verification/NetworkFilter.thy ===== *)
theory NetworkFilter
  imports Bpf
begin

unbundle bit_operations_syntax

text \<open>
  The closed network filter of the sealed agent (\<open>linux/network_filter.rs\<close>): the system-call
  catalogues of the two ABIs, the argument-check blocks and the compiler that joins them into
  one classic BPF program, and its installation. The constants of the \<open>libc\<close> crate are the
  parameter \<open>libc\<close>, a function from their names to their values; a cast \<open>as u32\<close> is \<open>as_u32\<close>.
\<close>

type_synonym libc_constants = "string \<Rightarrow> int"

definition as_u32 :: "int \<Rightarrow> u32" where
  "as_u32 n = word_of_int n"

definition SECCOMP_RET_KILL_PROCESS :: u32 where "SECCOMP_RET_KILL_PROCESS = 0x80000000"

definition SECCOMP_RET_ERRNO :: u32 where "SECCOMP_RET_ERRNO = 0x00050000"

definition SECCOMP_RET_ALLOW :: u32 where "SECCOMP_RET_ALLOW = 0x7fff0000"

definition NR_OFFSET :: u32 where "NR_OFFSET = 0"

definition ARCH_OFFSET :: u32 where "ARCH_OFFSET = 4"

definition ARG0_LOW :: u32 where "ARG0_LOW = 16"

definition ARG0_HIGH :: u32 where "ARG0_HIGH = 20"

definition ARG1_LOW :: u32 where "ARG1_LOW = 24"

definition ARG1_HIGH :: u32 where "ARG1_HIGH = 28"

definition ARG2_LOW :: u32 where "ARG2_LOW = 32"

definition ARG2_HIGH :: u32 where "ARG2_HIGH = 36"

definition ARG3_LOW :: u32 where "ARG3_LOW = 40"

definition ARG3_HIGH :: u32 where "ARG3_HIGH = 44"

lemmas offset_defs = NR_OFFSET_def ARCH_OFFSET_def ARG0_LOW_def ARG0_HIGH_def ARG1_LOW_def
  ARG1_HIGH_def ARG2_LOW_def ARG2_HIGH_def ARG3_LOW_def ARG3_HIGH_def

datatype native_abi = X86_64 | Aarch64

record syscalls =
  sc_socket :: u32
  sc_socketpair :: u32
  sc_clone :: u32
  sc_clone3 :: u32
  sc_fcntl :: u32
  sc_ioctl :: u32
  sc_getsockopt :: u32
  sc_setsockopt :: u32
  sc_prctl :: u32
  sc_prlimit64 :: u32
  sc_arch_prctl :: "u32 option"
  sc_accept4 :: u32
  sc_pipe2 :: u32
  sc_dup3 :: u32
  sc_eventfd2 :: u32
  sc_epoll_create1 :: u32
  sc_signalfd4 :: u32
  sc_timerfd_create :: u32

definition X64_UNCONDITIONAL :: "(string \<times> u32) list" where
  "X64_UNCONDITIONAL = [
    (''read'', 0), (''write'', 1), (''readv'', 19), (''writev'', 20), (''pread64'', 17),
    (''pwrite64'', 18), (''preadv'', 295), (''pwritev'', 296), (''preadv2'', 327),
    (''pwritev2'', 328), (''lseek'', 8), (''close'', 3), (''close_range'', 436), (''dup'', 32),
    (''dup2'', 33), (''pipe'', 22), (''sendfile'', 40), (''copy_file_range'', 326),
    (''splice'', 275), (''tee'', 276), (''vmsplice'', 278), (''open'', 2), (''openat'', 257),
    (''openat2'', 437), (''creat'', 85), (''stat'', 4), (''lstat'', 6), (''fstat'', 5),
    (''newfstatat'', 262), (''statx'', 332), (''statfs'', 137), (''fstatfs'', 138),
    (''access'', 21), (''faccessat'', 269), (''faccessat2'', 439), (''getdents'', 78),
    (''getdents64'', 217), (''readlink'', 89), (''readlinkat'', 267), (''getcwd'', 79),
    (''chdir'', 80), (''fchdir'', 81), (''mkdir'', 83), (''mkdirat'', 258), (''rmdir'', 84),
    (''unlink'', 87), (''unlinkat'', 263), (''rename'', 82), (''renameat'', 264),
    (''renameat2'', 316), (''link'', 86), (''linkat'', 265), (''symlink'', 88),
    (''symlinkat'', 266), (''chmod'', 90), (''fchmod'', 91), (''fchmodat'', 268),
    (''fchmodat2'', 452), (''chown'', 92), (''fchown'', 93), (''lchown'', 94), (''fchownat'', 260),
    (''umask'', 95), (''truncate'', 76), (''ftruncate'', 77), (''fallocate'', 285),
    (''fsync'', 74), (''fdatasync'', 75), (''utime'', 132), (''utimes'', 235),
    (''futimesat'', 261), (''utimensat'', 280), (''flock'', 73), (''getxattr'', 191),
    (''lgetxattr'', 192), (''fgetxattr'', 193), (''listxattr'', 194), (''llistxattr'', 195),
    (''flistxattr'', 196), (''setxattr'', 188), (''lsetxattr'', 189), (''fsetxattr'', 190),
    (''removexattr'', 197), (''lremovexattr'', 198), (''fremovexattr'', 199), (''brk'', 12),
    (''mmap'', 9), (''mprotect'', 10), (''munmap'', 11), (''mremap'', 25), (''madvise'', 28),
    (''mincore'', 27), (''membarrier'', 324), (''msync'', 26), (''futex'', 202),
    (''futex_waitv'', 449), (''set_robust_list'', 273), (''get_robust_list'', 274),
    (''rseq'', 334), (''set_tid_address'', 218), (''sched_yield'', 24),
    (''sched_getaffinity'', 204), (''sched_getscheduler'', 145), (''sched_getparam'', 143),
    (''getcpu'', 309), (''restart_syscall'', 219), (''clock_gettime'', 228),
    (''clock_getres'', 229), (''clock_nanosleep'', 230), (''gettimeofday'', 96), (''time'', 201),
    (''nanosleep'', 35), (''poll'', 7), (''ppoll'', 271), (''select'', 23), (''pselect6'', 270),
    (''epoll_create'', 213), (''epoll_ctl'', 233), (''epoll_wait'', 232), (''epoll_pwait'', 281),
    (''epoll_pwait2'', 441), (''eventfd'', 284), (''timerfd_settime'', 286),
    (''timerfd_gettime'', 287), (''rt_sigaction'', 13), (''rt_sigprocmask'', 14),
    (''rt_sigpending'', 127), (''rt_sigtimedwait'', 128), (''rt_sigsuspend'', 130),
    (''rt_sigreturn'', 15), (''sigaltstack'', 131), (''kill'', 62), (''tkill'', 200),
    (''tgkill'', 234), (''rt_sigqueueinfo'', 129), (''rt_tgsigqueueinfo'', 297),
    (''signalfd'', 282), (''alarm'', 37), (''getitimer'', 36), (''setitimer'', 38),
    (''pause'', 34), (''getpid'', 39), (''getppid'', 110), (''gettid'', 186), (''getuid'', 102),
    (''geteuid'', 107), (''getgid'', 104), (''getegid'', 108), (''getresuid'', 118),
    (''getresgid'', 120), (''getgroups'', 115), (''capget'', 125), (''getpgid'', 121),
    (''getpgrp'', 111), (''getsid'', 124), (''getrlimit'', 97), (''getrusage'', 98),
    (''uname'', 63), (''sysinfo'', 99), (''getrandom'', 318), (''fork'', 57), (''vfork'', 58),
    (''execve'', 59), (''execveat'', 322), (''wait4'', 61), (''waitid'', 247), (''exit'', 60),
    (''exit_group'', 231), (''setpgid'', 109), (''setsid'', 112), (''bind'', 49), (''listen'', 50),
    (''accept'', 43), (''connect'', 42), (''getsockname'', 51), (''getpeername'', 52),
    (''shutdown'', 48), (''sendto'', 44), (''recvfrom'', 45)]"

definition ARM64_UNCONDITIONAL :: "(string \<times> u32) list" where
  "ARM64_UNCONDITIONAL = [
    (''read'', 63), (''write'', 64), (''readv'', 65), (''writev'', 66), (''pread64'', 67),
    (''pwrite64'', 68), (''preadv'', 69), (''pwritev'', 70), (''preadv2'', 286),
    (''pwritev2'', 287), (''lseek'', 62), (''close'', 57), (''close_range'', 436), (''dup'', 23),
    (''sendfile'', 71), (''copy_file_range'', 285), (''splice'', 76), (''tee'', 77),
    (''vmsplice'', 75), (''openat'', 56), (''openat2'', 437), (''fstat'', 80),
    (''newfstatat'', 79), (''statx'', 291), (''statfs'', 43), (''fstatfs'', 44),
    (''faccessat'', 48), (''faccessat2'', 439), (''getdents64'', 61), (''readlinkat'', 78),
    (''getcwd'', 17), (''chdir'', 49), (''fchdir'', 50), (''mkdirat'', 34), (''unlinkat'', 35),
    (''renameat'', 38), (''renameat2'', 276), (''linkat'', 37), (''symlinkat'', 36),
    (''fchmod'', 52), (''fchmodat'', 53), (''fchmodat2'', 452), (''fchown'', 55),
    (''fchownat'', 54), (''umask'', 166), (''truncate'', 45), (''ftruncate'', 46),
    (''fallocate'', 47), (''fsync'', 82), (''fdatasync'', 83), (''utimensat'', 88),
    (''flock'', 32), (''getxattr'', 8), (''lgetxattr'', 9), (''fgetxattr'', 10),
    (''listxattr'', 11), (''llistxattr'', 12), (''flistxattr'', 13), (''setxattr'', 5),
    (''lsetxattr'', 6), (''fsetxattr'', 7), (''removexattr'', 14), (''lremovexattr'', 15),
    (''fremovexattr'', 16), (''brk'', 214), (''mmap'', 222), (''mprotect'', 226),
    (''munmap'', 215), (''mremap'', 216), (''madvise'', 233), (''mincore'', 232),
    (''membarrier'', 283), (''msync'', 227), (''futex'', 98), (''futex_waitv'', 449),
    (''set_robust_list'', 99), (''get_robust_list'', 100), (''rseq'', 293),
    (''set_tid_address'', 96), (''sched_yield'', 124), (''sched_getaffinity'', 123),
    (''sched_getscheduler'', 120), (''sched_getparam'', 121), (''getcpu'', 168),
    (''restart_syscall'', 128), (''clock_gettime'', 113), (''clock_getres'', 114),
    (''clock_nanosleep'', 115), (''gettimeofday'', 169), (''nanosleep'', 101), (''ppoll'', 73),
    (''pselect6'', 72), (''epoll_ctl'', 21), (''epoll_pwait'', 22), (''epoll_pwait2'', 441),
    (''timerfd_settime'', 86), (''timerfd_gettime'', 87), (''rt_sigaction'', 134),
    (''rt_sigprocmask'', 135), (''rt_sigpending'', 136), (''rt_sigtimedwait'', 137),
    (''rt_sigsuspend'', 133), (''rt_sigreturn'', 139), (''sigaltstack'', 132), (''kill'', 129),
    (''tkill'', 130), (''tgkill'', 131), (''rt_sigqueueinfo'', 138), (''rt_tgsigqueueinfo'', 240),
    (''getitimer'', 102), (''setitimer'', 103), (''getpid'', 172), (''getppid'', 173),
    (''gettid'', 178), (''getuid'', 174), (''geteuid'', 175), (''getgid'', 176),
    (''getegid'', 177), (''getresuid'', 148), (''getresgid'', 150), (''getgroups'', 158),
    (''capget'', 90), (''getpgid'', 155), (''getsid'', 156), (''getrlimit'', 163),
    (''getrusage'', 165), (''uname'', 160), (''sysinfo'', 179), (''getrandom'', 278),
    (''execve'', 221), (''execveat'', 281), (''wait4'', 260), (''waitid'', 95), (''exit'', 93),
    (''exit_group'', 94), (''setpgid'', 154), (''setsid'', 157), (''bind'', 200),
    (''listen'', 201), (''accept'', 202), (''connect'', 203), (''getsockname'', 204),
    (''getpeername'', 205), (''shutdown'', 210), (''sendto'', 206), (''recvfrom'', 207)]"

fun unconditional_catalogue :: "native_abi \<Rightarrow> (string \<times> u32) list" where
  "unconditional_catalogue X86_64 = X64_UNCONDITIONAL"
| "unconditional_catalogue Aarch64 = ARM64_UNCONDITIONAL"

fun audit_arch :: "native_abi \<Rightarrow> u32" where
  "audit_arch X86_64 = 0xc000003e"
| "audit_arch Aarch64 = 0xc00000b7"

fun abi_syscalls :: "native_abi \<Rightarrow> syscalls" where
  "abi_syscalls X86_64 =
     \<lparr>sc_socket = 41, sc_socketpair = 53, sc_clone = 56, sc_clone3 = 435, sc_fcntl = 72,
      sc_ioctl = 16, sc_getsockopt = 55, sc_setsockopt = 54, sc_prctl = 157, sc_prlimit64 = 302,
      sc_arch_prctl = Some 158, sc_accept4 = 288, sc_pipe2 = 293, sc_dup3 = 292,
      sc_eventfd2 = 290, sc_epoll_create1 = 291, sc_signalfd4 = 289, sc_timerfd_create = 283\<rparr>"
| "abi_syscalls Aarch64 =
     \<lparr>sc_socket = 198, sc_socketpair = 199, sc_clone = 220, sc_clone3 = 435, sc_fcntl = 25,
      sc_ioctl = 29, sc_getsockopt = 209, sc_setsockopt = 208, sc_prctl = 167, sc_prlimit64 = 261,
      sc_arch_prctl = None, sc_accept4 = 242, sc_pipe2 = 59, sc_dup3 = 24,
      sc_eventfd2 = 19, sc_epoll_create1 = 20, sc_signalfd4 = 74, sc_timerfd_create = 85\<rparr>"

definition errno :: "int \<Rightarrow> u32" where
  "errno value = SECCOMP_RET_ERRNO OR as_u32 value"

subsection \<open>Argument checks\<close>

definition socket_flags :: "libc_constants \<Rightarrow> u32" where
  "socket_flags libc = as_u32 (libc ''SOCK_STREAM'' OR libc ''SOCK_NONBLOCK'' OR libc ''SOCK_CLOEXEC'')"

definition socket_checks :: "libc_constants \<Rightarrow> sock_filter list" where
  "socket_checks libc =
     (let family_error = errno (libc ''EAFNOSUPPORT'');
          protocol_error = errno (libc ''EPROTONOSUPPORT'')
      in [load ARG0_HIGH,
          jump_equal 0 1 0,
          return_action family_error,
          load ARG0_LOW,
          jump_equal (as_u32 (libc ''AF_INET'')) 1 0,
          return_action family_error,
          load ARG1_HIGH,
          jump_equal 0 1 0,
          return_action protocol_error,
          load ARG1_LOW,
          instruction BPF_JMP_JSET_K 0 1 (NOT (socket_flags libc)),
          return_action protocol_error,
          instruction BPF_ALU_AND_K 0 0 0xf,
          jump_equal (as_u32 (libc ''SOCK_STREAM'')) 1 0,
          return_action protocol_error,
          load ARG2_HIGH,
          jump_equal 0 1 0,
          return_action protocol_error,
          load ARG2_LOW,
          jump_equal 0 2 0,
          jump_equal (as_u32 (libc ''IPPROTO_TCP'')) 1 0,
          return_action protocol_error,
          return_action SECCOMP_RET_ALLOW])"

definition clone_allowed_flags :: "libc_constants \<Rightarrow> u32" where
  "clone_allowed_flags libc = as_u32
     (libc ''CLONE_VM'' OR libc ''CLONE_FS'' OR libc ''CLONE_FILES'' OR libc ''CLONE_SIGHAND''
      OR libc ''CLONE_THREAD'' OR libc ''CLONE_SYSVSEM'' OR libc ''CLONE_SETTLS''
      OR libc ''CLONE_PARENT_SETTID'' OR libc ''CLONE_CHILD_SETTID'' OR libc ''CLONE_CHILD_CLEARTID''
      OR libc ''CLONE_VFORK'')"

definition clone_required_thread_flags :: "libc_constants \<Rightarrow> u32" where
  "clone_required_thread_flags libc = as_u32 (libc ''CLONE_VM'' OR libc ''CLONE_SIGHAND'')"

definition clone_checks :: "libc_constants \<Rightarrow> sock_filter list" where
  "clone_checks libc =
     (let allowed_flags = clone_allowed_flags libc;
          required_thread_flags = clone_required_thread_flags libc;
          denied = errno (libc ''EPERM'')
      in [load ARG0_HIGH,
          jump_equal 0 1 0,
          return_action denied,
          load ARG0_LOW,
          instruction BPF_JMP_JSET_K 0 1 (NOT (allowed_flags OR 0xff)),
          return_action denied,
          load ARG0_LOW,
          instruction BPF_ALU_AND_K 0 0 0xff,
          jump_equal 0 2 0,
          jump_equal (as_u32 (libc ''SIGCHLD'')) 1 0,
          return_action denied,
          load ARG0_LOW,
          instruction BPF_JMP_JSET_K 0 8 (as_u32 (libc ''CLONE_THREAD'')),
          load ARG0_LOW,
          instruction BPF_ALU_AND_K 0 0 required_thread_flags,
          jump_equal required_thread_flags 1 0,
          return_action denied,
          load ARG0_LOW,
          instruction BPF_ALU_AND_K 0 0 0xff,
          jump_equal 0 1 0,
          return_action denied,
          return_action SECCOMP_RET_ALLOW])"

text \<open>The two loop bodies the blocks share: a value that returns an action, and a value that
  guards a block, skipped by an unconditional jump otherwise. The accumulator is reloaded after
  a guarded block. \<open>u32::try_from(...).expect(...)\<close> panics (no program) on a block that is too
  long.\<close>

definition return_on :: "u32 \<Rightarrow> u32 \<Rightarrow> sock_filter list" where
  "return_on value result = [jump_equal value 0 1, return_action result]"

definition guarded :: "u32 \<Rightarrow> u32 \<Rightarrow> sock_filter list \<Rightarrow> sock_filter list option" where
  "guarded reload value checks =
     Option.bind (unat_try_from (length checks)) (\<lambda>skip.
       Some ([jump_equal value 1 0, instruction BPF_JMP_JA 0 0 skip] @ checks @ [load reload]))"

fun guarded_all :: "u32 \<Rightarrow> (u32 \<times> sock_filter list) list \<Rightarrow> sock_filter list option" where
  "guarded_all reload [] = Some []"
| "guarded_all reload ((value, checks) # rest) =
     Option.bind (guarded reload value checks) (\<lambda>block.
     Option.bind (guarded_all reload rest) (\<lambda>blocks. Some (block @ blocks)))"

definition fcntl_commands :: "libc_constants \<Rightarrow> u32 list" where
  "fcntl_commands libc = map (as_u32 \<circ> libc)
     [''F_GETFD'', ''F_GETFL'', ''F_GET_SEALS'', ''F_DUPFD'', ''F_DUPFD_CLOEXEC'', ''F_GETLK'',
      ''F_SETLK'', ''F_SETLKW'', ''F_OFD_GETLK'', ''F_OFD_SETLK'', ''F_OFD_SETLKW'']"

definition fcntl_argument_checks :: "libc_constants \<Rightarrow> u32 \<Rightarrow> sock_filter list" where
  "fcntl_argument_checks libc allowed_argument_bits =
     (let denied = errno (libc ''EPERM'')
      in [load ARG2_HIGH,
          jump_equal 0 1 0,
          return_action denied,
          load ARG2_LOW,
          instruction BPF_JMP_JSET_K 0 1 (NOT allowed_argument_bits),
          return_action denied,
          return_action SECCOMP_RET_ALLOW])"

definition fcntl_setters :: "libc_constants \<Rightarrow> (u32 \<times> u32) list" where
  "fcntl_setters libc =
     [(as_u32 (libc ''F_SETFD''), as_u32 (libc ''FD_CLOEXEC'')),
      (as_u32 (libc ''F_SETFL''),
       as_u32 (libc ''O_ACCMODE'' OR libc ''O_APPEND'' OR libc ''O_NONBLOCK'' OR libc ''O_LARGEFILE''))]"

definition fcntl_checks :: "libc_constants \<Rightarrow> sock_filter list option" where
  "fcntl_checks libc =
     (let denied = errno (libc ''EPERM'')
      in Option.bind (guarded_all ARG1_LOW
            (map (\<lambda>(command, bits). (command, fcntl_argument_checks libc bits)) (fcntl_setters libc)))
          (\<lambda>setters. Some (
            [load ARG1_HIGH, jump_equal 0 1 0, return_action denied, load ARG1_LOW]
            @ concat (map (\<lambda>command. return_on command SECCOMP_RET_ALLOW) (fcntl_commands libc))
            @ setters @ [return_action denied])))"

definition ioctl_commands :: "libc_constants \<Rightarrow> u32 list" where
  "ioctl_commands libc = map (as_u32 \<circ> libc) [''FIONBIO'', ''FIONREAD'', ''TCGETS'', ''TIOCGWINSZ'']"

definition ioctl_checks :: "libc_constants \<Rightarrow> sock_filter list" where
  "ioctl_checks libc =
     (let denied = errno (libc ''EPERM'')
      in [load ARG1_HIGH, jump_equal 0 1 0, return_action denied, load ARG1_LOW]
         @ concat (map (\<lambda>command. return_on command SECCOMP_RET_ALLOW) (ioctl_commands libc))
         @ [return_action denied])"

definition socket_options :: "libc_constants \<Rightarrow> bool \<Rightarrow> u32 list" where
  "socket_options libc reading = map (as_u32 \<circ> libc)
     ([''SO_REUSEADDR'', ''SO_KEEPALIVE'', ''SO_RCVBUF'', ''SO_SNDBUF'', ''SO_RCVTIMEO'',
       ''SO_SNDTIMEO'', ''SO_LINGER'']
      @ (if reading then [''SO_ERROR'', ''SO_TYPE'', ''SO_DOMAIN'', ''SO_PROTOCOL'', ''SO_ACCEPTCONN''] else []))"

definition tcp_options :: "libc_constants \<Rightarrow> u32 list" where
  "tcp_options libc = map (as_u32 \<circ> libc) [''TCP_NODELAY'', ''TCP_KEEPIDLE'', ''TCP_KEEPINTVL'', ''TCP_KEEPCNT'']"

definition option_checks :: "libc_constants \<Rightarrow> u32 list \<Rightarrow> sock_filter list" where
  "option_checks libc options =
     [load ARG2_LOW]
     @ concat (map (\<lambda>option. return_on option SECCOMP_RET_ALLOW) options)
     @ [return_action (errno (libc ''EPERM''))]"

definition socket_option_checks :: "libc_constants \<Rightarrow> bool \<Rightarrow> sock_filter list option" where
  "socket_option_checks libc reading =
     (let denied = errno (libc ''EPERM'')
      in Option.bind (guarded_all ARG1_LOW
            [(as_u32 (libc ''SOL_SOCKET''), option_checks libc (socket_options libc reading)),
             (as_u32 (libc ''IPPROTO_TCP''), option_checks libc (tcp_options libc))])
          (\<lambda>levels. Some (
            [load ARG1_HIGH, jump_equal 0 1 0, return_action denied,
             load ARG2_HIGH, jump_equal 0 1 0, return_action denied, load ARG1_LOW]
            @ levels @ [return_action denied])))"

definition first_argument_zero_checks :: "libc_constants \<Rightarrow> sock_filter list" where
  "first_argument_zero_checks libc =
     (let denied = errno (libc ''EPERM'')
      in [load ARG0_HIGH,
          jump_equal 0 1 0,
          return_action denied,
          load ARG0_LOW,
          jump_equal 0 1 0,
          return_action denied,
          return_action SECCOMP_RET_ALLOW])"

definition first_argument_command_checks :: "libc_constants \<Rightarrow> u32 list \<Rightarrow> sock_filter list" where
  "first_argument_command_checks libc commands =
     (let denied = errno (libc ''EPERM'')
      in [load ARG0_HIGH, jump_equal 0 1 0, return_action denied, load ARG0_LOW]
         @ concat (map (\<lambda>command. return_on command SECCOMP_RET_ALLOW) commands)
         @ [return_action denied])"

definition prctl_commands :: "libc_constants \<Rightarrow> u32 list" where
  "prctl_commands libc = map (as_u32 \<circ> libc)
     [''PR_GET_NO_NEW_PRIVS'', ''PR_GET_DUMPABLE'', ''PR_GET_NAME'', ''PR_SET_NAME'',
      ''PR_GET_SECCOMP'', ''PR_GET_SECUREBITS'', ''PR_GET_TIMERSLACK'']"

definition prctl_checks :: "libc_constants \<Rightarrow> sock_filter list" where
  "prctl_checks libc = first_argument_command_checks libc (prctl_commands libc)"

definition arch_prctl_commands :: "u32 list" where
  "arch_prctl_commands = [0x1002, 0x1003]"

definition arch_prctl_checks :: "libc_constants \<Rightarrow> sock_filter list" where
  "arch_prctl_checks libc = first_argument_command_checks libc arch_prctl_commands"

definition scalar_flags_checks :: "libc_constants \<Rightarrow> u32 \<Rightarrow> u32 \<Rightarrow> u32 \<Rightarrow> sock_filter list" where
  "scalar_flags_checks libc low_offset high_offset allowed_bits =
     (let denied = errno (libc ''EPERM'')
      in [load high_offset,
          jump_equal 0 1 0,
          return_action denied,
          load low_offset,
          instruction BPF_JMP_JSET_K 0 1 (NOT allowed_bits),
          return_action denied,
          return_action SECCOMP_RET_ALLOW])"

subsection \<open>The compiler\<close>

text \<open>The scalar-restricted system calls with their check blocks, in the order of the code.\<close>

definition restricted_calls :: "libc_constants \<Rightarrow> syscalls \<Rightarrow> (u32 \<times> sock_filter list) list option" where
  "restricted_calls libc numbers =
     Option.bind (fcntl_checks libc) (\<lambda>fcntl.
     Option.bind (socket_option_checks libc True) (\<lambda>getsockopt.
     Option.bind (socket_option_checks libc False) (\<lambda>setsockopt.
     Some [(sc_fcntl numbers, fcntl),
           (sc_ioctl numbers, ioctl_checks libc),
           (sc_getsockopt numbers, getsockopt),
           (sc_setsockopt numbers, setsockopt),
           (sc_prctl numbers, prctl_checks libc),
           (sc_prlimit64 numbers, first_argument_zero_checks libc),
           (sc_accept4 numbers, scalar_flags_checks libc ARG3_LOW ARG3_HIGH
              (as_u32 (libc ''SOCK_CLOEXEC'' OR libc ''SOCK_NONBLOCK''))),
           (sc_pipe2 numbers, scalar_flags_checks libc ARG1_LOW ARG1_HIGH
              (as_u32 (libc ''O_CLOEXEC'' OR libc ''O_NONBLOCK''))),
           (sc_dup3 numbers, scalar_flags_checks libc ARG2_LOW ARG2_HIGH (as_u32 (libc ''O_CLOEXEC''))),
           (sc_eventfd2 numbers, scalar_flags_checks libc ARG1_LOW ARG1_HIGH
              (as_u32 (libc ''EFD_CLOEXEC'' OR libc ''EFD_NONBLOCK''))),
           (sc_epoll_create1 numbers, scalar_flags_checks libc ARG0_LOW ARG0_HIGH (as_u32 (libc ''EPOLL_CLOEXEC''))),
           (sc_signalfd4 numbers, scalar_flags_checks libc ARG3_LOW ARG3_HIGH
              (as_u32 (libc ''SFD_CLOEXEC'' OR libc ''SFD_NONBLOCK''))),
           (sc_timerfd_create numbers, scalar_flags_checks libc ARG1_LOW ARG1_HIGH
              (as_u32 (libc ''TFD_CLOEXEC'' OR libc ''TFD_NONBLOCK'')))])))"

text \<open>The compiler; \<open>None\<close> stands for a panic of one of its \<open>expect\<close> calls.\<close>

definition compile_initial_closed_filter :: "libc_constants \<Rightarrow> native_abi \<Rightarrow> sock_filter list option" where
  "compile_initial_closed_filter libc abi =
     (let numbers = abi_syscalls abi
      in Option.bind (guarded NR_OFFSET (sc_clone numbers) (clone_checks libc)) (\<lambda>clone.
         Option.bind (restricted_calls libc numbers) (\<lambda>calls.
         Option.bind (guarded_all NR_OFFSET calls) (\<lambda>restricted.
         Option.bind (case sc_arch_prctl numbers of
             Some number \<Rightarrow> guarded NR_OFFSET number (arch_prctl_checks libc)
           | None \<Rightarrow> Some []) (\<lambda>arch_prctl.
         Option.bind (guarded NR_OFFSET (sc_socket numbers) (socket_checks libc)) (\<lambda>socket.
         let program =
               [load ARCH_OFFSET,
                jump_equal (audit_arch abi) 1 0,
                return_action SECCOMP_RET_KILL_PROCESS,
                load NR_OFFSET]
               @ (if abi = X86_64
                  then [instruction BPF_JMP_JSET_K 0 1 0x40000000, return_action SECCOMP_RET_KILL_PROCESS]
                  else [])
               @ concat (map (\<lambda>(number, result). return_on number result)
                   [(sc_clone3 numbers, errno (libc ''ENOSYS'')), (sc_socketpair numbers, errno (libc ''EPERM''))])
               @ clone @ restricted @ arch_prctl @ socket
               @ concat (map (\<lambda>(_, number). return_on number SECCOMP_RET_ALLOW) (unconditional_catalogue abi))
               @ [return_action (errno (libc ''EPERM''))]
         in case validate_program program of Inl _ \<Rightarrow> None | Inr _ \<Rightarrow> Some program))))))"

end
