(* ===== verification/FilterSpec.thy ===== *)
theory FilterSpec
  imports NetworkFilter
begin

unbundle bit_operations_syntax

text \<open>
  What the compiled network filter decides, stated over the 64-bit system-call arguments, and
  the proof that the classic BPF program implements it. The blocks of argument checks meet
  the contract \<open>check_block\<close>, and the compiler's glue code is verified against it once.
\<close>

subsection \<open>The data a filter sees\<close>

text \<open>\<open>struct seccomp_data\<close> on a little-endian machine; the filter loads 32-bit words of it.\<close>

record seccomp_data =
  sd_nr :: u32
  sd_arch :: u32
  sd_instruction_pointer :: u64
  sd_args :: "nat \<Rightarrow> u64"

definition low_word :: "u64 \<Rightarrow> u32" where
  "low_word x = ucast x"

definition high_word :: "u64 \<Rightarrow> u32" where
  "high_word x = ucast (drop_bit 32 x)"

definition seccomp_word :: "seccomp_data \<Rightarrow> u32 \<Rightarrow> u32" where
  "seccomp_word sd off =
     (let n = unat off
      in if n = 0 then sd_nr sd
         else if n = 4 then sd_arch sd
         else if n = 8 then low_word (sd_instruction_pointer sd)
         else if n = 12 then high_word (sd_instruction_pointer sd)
         else if n mod 8 = 0 then low_word (sd_args sd ((n - 16) div 8))
         else high_word (sd_args sd ((n - 16) div 8)))"

lemma seccomp_word_offsets [simp]:
  "seccomp_word sd NR_OFFSET = sd_nr sd"
  "seccomp_word sd ARCH_OFFSET = sd_arch sd"
  "seccomp_word sd ARG0_LOW = low_word (sd_args sd 0)"
  "seccomp_word sd ARG0_HIGH = high_word (sd_args sd 0)"
  "seccomp_word sd ARG1_LOW = low_word (sd_args sd 1)"
  "seccomp_word sd ARG1_HIGH = high_word (sd_args sd 1)"
  "seccomp_word sd ARG2_LOW = low_word (sd_args sd 2)"
  "seccomp_word sd ARG2_HIGH = high_word (sd_args sd 2)"
  "seccomp_word sd ARG3_LOW = low_word (sd_args sd 3)"
  "seccomp_word sd ARG3_HIGH = high_word (sd_args sd 3)"
  by (simp_all add: seccomp_word_def offset_defs Let_def)

lemma bit_low_word: "bit (low_word x) n \<longleftrightarrow> n < 32 \<and> bit x n"
  by (simp add: low_word_def bit_simps)

lemma bit_high_word: "bit (high_word x) n \<longleftrightarrow> n < 32 \<and> bit x (n + 32)"
  by (auto simp: high_word_def bit_simps add.commute)

lemma word_halves_eq_0: "x = 0 \<longleftrightarrow> high_word x = 0 \<and> low_word x = 0"
proof
  assume *: "high_word x = 0 \<and> low_word x = 0"
  have "\<not> bit x n" for n
  proof (cases "n < 32")
    case True
    then show ?thesis using * bit_low_word [of x n] by simp
  next
    case False
    then show ?thesis
      using * bit_high_word [of x "n - 32"] bit_imp_le_length [of x n] by (cases "n < 64") auto
  qed
  then show "x = 0" by (simp add: bit_eq_iff)
qed (simp add: high_word_def low_word_def)

lemma word_halves_bitwise [simp]:
  "low_word (x AND y) = low_word x AND low_word y"
  "high_word (x AND y) = high_word x AND high_word y"
  "low_word (x XOR y) = low_word x XOR low_word y"
  "high_word (x XOR y) = high_word x XOR high_word y"
  "low_word (NOT x) = NOT (low_word x)"
  "high_word (NOT x) = NOT (high_word x)"
  "low_word (ucast v) = v"
  "high_word (ucast (v :: u32)) = 0"
  by (auto simp: bit_eq_iff bit_low_word bit_high_word bit_simps dest: bit_imp_le_length)

lemma word_halves_numeral [simp]:
  "low_word 0xf = 0xf" "high_word 0xf = 0" "low_word 0xff = 0xff" "high_word 0xff = 0"
  by (simp_all add: low_word_def high_word_def)

lemma xor_eq_0_iff: "x XOR y = 0 \<longleftrightarrow> x = (y :: 'a::len word)"
proof
  assume "x XOR y = 0"
  then have "(x XOR y) XOR y = y" by simp
  then show "x = y" by (simp add: xor.assoc)
qed simp

text \<open>Comparing the two halves is comparing the 64-bit value.\<close>

lemma word_eq_halves: "x = ucast v \<longleftrightarrow> high_word x = 0 \<and> low_word x = v"
  using word_halves_eq_0 [of "x XOR ucast v"] by (simp add: xor_eq_0_iff)

lemma word_mask_halves: "x AND NOT (ucast m) = 0 \<longleftrightarrow> high_word x = 0 \<and> low_word x AND NOT m = 0"
  by (simp add: word_halves_eq_0 [of "x AND NOT (ucast m)"])

subsection \<open>What the filter decides\<close>

definition permit :: "libc_constants \<Rightarrow> bool \<Rightarrow> u32" where
  "permit libc ok = (if ok then SECCOMP_RET_ALLOW else errno (libc ''EPERM''))"

text \<open>An argument as the 32-bit value the checks compare, if it is one.\<close>

definition scalar32 :: "u64 \<Rightarrow> u32 option" where
  "scalar32 x = (if high_word x = 0 then Some (low_word x) else None)"

definition only_bits :: "u32 \<Rightarrow> u64 \<Rightarrow> bool" where
  "only_bits allowed x \<longleftrightarrow> x AND NOT (ucast allowed) = 0"

text \<open>Sockets: Internet streams over TCP only.\<close>

definition socket_decision :: "libc_constants \<Rightarrow> seccomp_data \<Rightarrow> u32" where
  "socket_decision libc sd =
     (if sd_args sd 0 \<noteq> ucast (as_u32 (libc ''AF_INET'')) then errno (libc ''EAFNOSUPPORT'')
      else if only_bits (socket_flags libc) (sd_args sd 1)
        \<and> sd_args sd 1 AND 0xf = ucast (as_u32 (libc ''SOCK_STREAM''))
        \<and> (sd_args sd 2 = 0 \<or> sd_args sd 2 = ucast (as_u32 (libc ''IPPROTO_TCP'')))
      then SECCOMP_RET_ALLOW else errno (libc ''EPROTONOSUPPORT''))"

text \<open>Processes: no namespaces; a thread shares memory and signal handlers and has no exit signal.\<close>

definition clone_permitted :: "libc_constants \<Rightarrow> seccomp_data \<Rightarrow> bool" where
  "clone_permitted libc sd \<longleftrightarrow>
     (let flags = sd_args sd 0; required = ucast (clone_required_thread_flags libc)
      in only_bits (clone_allowed_flags libc OR 0xff) flags
       \<and> (flags AND 0xff = 0 \<or> flags AND 0xff = ucast (as_u32 (libc ''SIGCHLD'')))
       \<and> (flags AND ucast (as_u32 (libc ''CLONE_THREAD'')) \<noteq> 0 \<longrightarrow>
           flags AND required = required \<and> flags AND 0xff = 0))"

definition fcntl_permitted :: "libc_constants \<Rightarrow> seccomp_data \<Rightarrow> bool" where
  "fcntl_permitted libc sd \<longleftrightarrow>
     (case scalar32 (sd_args sd 1) of
        None \<Rightarrow> False
      | Some command \<Rightarrow> command \<in> set (fcntl_commands libc)
          \<or> (case map_of (fcntl_setters libc) command of
               None \<Rightarrow> False | Some bits \<Rightarrow> only_bits bits (sd_args sd 2)))"

definition ioctl_permitted :: "libc_constants \<Rightarrow> seccomp_data \<Rightarrow> bool" where
  "ioctl_permitted libc sd \<longleftrightarrow> is_some_and (\<lambda>c. c \<in> set (ioctl_commands libc)) (scalar32 (sd_args sd 1))"

definition socket_option_permitted :: "libc_constants \<Rightarrow> bool \<Rightarrow> seccomp_data \<Rightarrow> bool" where
  "socket_option_permitted libc reading sd \<longleftrightarrow>
     (case (scalar32 (sd_args sd 1), scalar32 (sd_args sd 2)) of
        (Some level, Some name) \<Rightarrow>
          if level = as_u32 (libc ''SOL_SOCKET'') then name \<in> set (socket_options libc reading)
          else level = as_u32 (libc ''IPPROTO_TCP'') \<and> name \<in> set (tcp_options libc)
      | _ \<Rightarrow> False)"

definition first_argument_in :: "u32 list \<Rightarrow> seccomp_data \<Rightarrow> bool" where
  "first_argument_in commands sd \<longleftrightarrow> is_some_and (\<lambda>c. c \<in> set commands) (scalar32 (sd_args sd 0))"

definition flags_permitted :: "libc_constants \<Rightarrow> u32 \<Rightarrow> nat \<Rightarrow> seccomp_data \<Rightarrow> u32" where
  "flags_permitted libc bits i sd = permit libc (only_bits bits (sd_args sd i))"

lemmas decision_defs = permit_def scalar32_def only_bits_def word_eq_halves word_halves_eq_0

subsection \<open>Check blocks\<close>

text \<open>The contract of a block of checks: it stays within itself, and whatever follows it, it
  returns the block's decision.\<close>

locale check_block =
  fixes checks :: "sock_filter list"
    and decide :: "seccomp_data \<Rightarrow> u32"
  assumes contained: "well_formed checks"
    and fits: "length checks \<le> 100"
    and decides: "bpf_exec (checks @ rest) a (seccomp_word sd) = Some (decide sd)"
begin

lemma guarded_fits: "\<exists>block. guarded reload value checks = Some block"
  using fits by (simp add: guarded_def unat_try_from_def)

lemma guarded_shape:
  assumes "guarded reload value checks = Some block"
  obtains skip where "block = [jump_equal value 1 0, instruction BPF_JMP_JA 0 0 skip] @ checks @ [load reload]"
    and "unat skip = length checks"
  using assms by (auto simp: guarded_def bind_eq_Some_conv unat_try_from_Some_iff)

lemma exec_guarded:
  assumes "guarded reload value checks = Some block" and "a = seccomp_word sd reload"
  shows "bpf_exec (block @ rest) a (seccomp_word sd)
    = (if a = value then Some (decide sd) else bpf_exec rest a (seccomp_word sd))"
proof -
  obtain skip where b: "block = [jump_equal value 1 0, instruction BPF_JMP_JA 0 0 skip] @ checks @ [load reload]"
    and s: "unat skip = length checks"
    by (rule guarded_shape [OF assms(1)])
  show ?thesis by (simp add: b s decides assms(2))
qed

lemma well_formed_guarded:
  assumes "guarded reload value checks = Some block" and "well_formed rest" and "rest \<noteq> []"
  shows "well_formed (block @ rest)"
proof -
  obtain skip where b: "block = [jump_equal value 1 0, instruction BPF_JMP_JA 0 0 skip] @ checks @ [load reload]"
    and s: "unat skip = length checks"
    by (rule guarded_shape [OF assms(1)])
  have "well_formed (checks @ load reload # rest)"
    using contained assms(2,3) by (intro well_formed_append) auto
  then show ?thesis by (simp add: b s)
qed

lemma length_guarded: "guarded reload value checks = Some block \<Longrightarrow> length block = length checks + 3"
  by (auto elim: guarded_shape)

end


text \<open>The two loops of the code over guarded blocks and over returning values.\<close>

definition block_decides :: "(u32 \<times> sock_filter list) \<Rightarrow> (u32 \<times> (seccomp_data \<Rightarrow> u32)) \<Rightarrow> bool" where
  "block_decides b r \<longleftrightarrow> fst b = fst r \<and> check_block (snd b) (snd r)"

lemma block_decides_simp [simp]: "block_decides (n, c) (m, f) \<longleftrightarrow> n = m \<and> check_block c f"
  by (simp add: block_decides_def)

lemma guarded_all_Cons:
  assumes "check_block c f" and "guarded_all reload ((n, c) # bs) = Some is"
  obtains block blocks where "guarded reload n c = Some block" and "guarded_all reload bs = Some blocks"
    and "is = block @ blocks"
  using assms(2) by (auto simp: bind_eq_Some_conv)

lemma exec_guarded_all:
  assumes "list_all2 block_decides bs rs" and "guarded_all reload bs = Some is"
    and "a = seccomp_word sd reload"
  shows "bpf_exec (is @ rest) a (seccomp_word sd)
    = (case map_of rs a of Some f \<Rightarrow> Some (f sd) | None \<Rightarrow> bpf_exec rest a (seccomp_word sd))"
  using assms(1,2)
proof (induction bs rs arbitrary: "is" rule: list_all2_induct)
  case (Cons b bs r rs)
  obtain n c f where br: "b = (n, c)" "r = (n, f)" and cb: "check_block c f"
    using Cons.hyps(1) by (cases b; cases r) auto
  obtain block blocks where bb: "guarded reload n c = Some block" "guarded_all reload bs = Some blocks"
      "is = block @ blocks"
    using guarded_all_Cons [OF cb Cons.prems [unfolded br]] .
  show ?case
    using check_block.exec_guarded [OF cb bb(1) assms(3), of "blocks @ rest"] Cons.IH [OF bb(2)]
    by (simp add: br bb(3))
qed simp

lemma guarded_all_well_formed:
  assumes "list_all2 block_decides bs rs" and "well_formed rest" and "rest \<noteq> []"
  shows "\<exists>is. guarded_all reload bs = Some is \<and> well_formed (is @ rest)
    \<and> length is = (\<Sum>(n, c) \<leftarrow> bs. length c + 3)"
  using assms(1)
proof (induction bs rs rule: list_all2_induct)
  case (Cons b bs r rs)
  obtain n c f where br: "b = (n, c)" "r = (n, f)" and cb: "check_block c f"
    using Cons.hyps(1) by (cases b; cases r) auto
  obtain blocks where bs: "guarded_all reload bs = Some blocks" "well_formed (blocks @ rest)"
      "length blocks = (\<Sum>(n, c) \<leftarrow> bs. length c + 3)"
    using Cons.IH by blast
  obtain block where b: "guarded reload n c = Some block"
    using check_block.guarded_fits [OF cb] by blast
  show ?case
    using check_block.well_formed_guarded [OF cb b bs(2)] check_block.length_guarded [OF cb b] bs assms(3)
    by (simp add: br b)
qed (simp add: assms)

lemma exec_return_on:
  "bpf_exec (concat (map (\<lambda>(n, v). return_on n v) rs) @ rest) a d
    = (case map_of rs a of Some v \<Rightarrow> Some v | None \<Rightarrow> bpf_exec rest a d)"
  by (induction rs) (auto simp: return_on_def)

lemma exec_return_on_all:
  "bpf_exec (concat (map (\<lambda>n. return_on n v) ns) @ rest) a d
    = (if a \<in> set ns then Some v else bpf_exec rest a d)"
  by (induction ns) (auto simp: return_on_def)

lemma well_formed_return_on:
  "well_formed (concat (map (\<lambda>n. return_on (f n) (g n)) ns) @ rest) \<longleftrightarrow> well_formed rest"
  if "rest \<noteq> []"
  using that by (induction ns) (auto simp: return_on_def)

lemma return_on_snd:
  "concat (map (\<lambda>(m, n). return_on n v) xs) = concat (map (\<lambda>n. return_on n v) (map snd xs))"
  by (simp add: case_prod_unfold comp_def)

lemma length_return_on [simp]: "length (return_on n v) = 2"
  by (simp add: return_on_def)

lemma length_return_on_all [simp]: "length (concat (map (\<lambda>n. return_on (f n) (g n)) ns)) = 2 * length ns"
  by (induction ns) auto

subsection \<open>The blocks of the filter meet the contract\<close>

interpretation socket_block: check_block "socket_checks libc" "socket_decision libc" for libc
proof
  show "bpf_exec (socket_checks libc @ rest) a (seccomp_word sd) = Some (socket_decision libc sd)" for rest a sd
    by (auto simp: socket_checks_def socket_decision_def decision_defs Let_def)
qed (simp_all add: socket_checks_def Let_def)

interpretation clone_block: check_block "clone_checks libc" "permit libc \<circ> clone_permitted libc" for libc
proof
  show "bpf_exec (clone_checks libc @ rest) a (seccomp_word sd) = Some ((permit libc \<circ> clone_permitted libc) sd)"
    for rest a sd
    by (auto simp: clone_checks_def clone_permitted_def decision_defs Let_def)
qed (simp_all add: clone_checks_def Let_def)

interpretation fcntl_argument_block: check_block "fcntl_argument_checks libc bits"
  "\<lambda>sd. permit libc (only_bits bits (sd_args sd 2))" for libc bits
  by unfold_locales (auto simp: fcntl_argument_checks_def decision_defs Let_def)

lemma command_counts [simp]:
  "length (fcntl_commands libc) = 11" "length (ioctl_commands libc) = 4" "length (prctl_commands libc) = 7"
  "length arch_prctl_commands = 2" "length (tcp_options libc) = 4" "length (socket_options libc reading) \<le> 12"
  by (simp_all add: fcntl_commands_def ioctl_commands_def prctl_commands_def arch_prctl_commands_def
      tcp_options_def socket_options_def)

lemmas command_block = decision_defs exec_return_on_all well_formed_return_on Let_def

interpretation ioctl_block: check_block "ioctl_checks libc" "permit libc \<circ> ioctl_permitted libc" for libc
  by unfold_locales (auto simp: ioctl_checks_def ioctl_permitted_def command_block)

lemma option_block:
  assumes "length options \<le> 12"
  shows "check_block (option_checks libc options) (\<lambda>sd. permit libc (low_word (sd_args sd 2) \<in> set options))"
  using assms by unfold_locales (auto simp: option_checks_def command_block)

interpretation zero_block: check_block "first_argument_zero_checks libc"
  "\<lambda>sd. permit libc (sd_args sd 0 = 0)" for libc
  by unfold_locales (auto simp: first_argument_zero_checks_def decision_defs Let_def)

lemma first_argument_command_block:
  assumes "length commands \<le> 12"
  shows "check_block (first_argument_command_checks libc commands) (permit libc \<circ> first_argument_in commands)"
  using assms
  by unfold_locales (auto simp: first_argument_command_checks_def first_argument_in_def command_block)

interpretation prctl_block: check_block "prctl_checks libc"
  "permit libc \<circ> first_argument_in (prctl_commands libc)" for libc
  unfolding prctl_checks_def by (rule first_argument_command_block) simp

interpretation arch_prctl_block: check_block "arch_prctl_checks libc"
  "permit libc \<circ> first_argument_in arch_prctl_commands" for libc
  unfolding arch_prctl_checks_def by (rule first_argument_command_block) simp

lemma scalar_flags_block [simp]:
  "check_block (scalar_flags_checks libc ARG0_LOW ARG0_HIGH bits) (flags_permitted libc bits 0)"
  "check_block (scalar_flags_checks libc ARG1_LOW ARG1_HIGH bits) (flags_permitted libc bits (Suc 0))"
  "check_block (scalar_flags_checks libc ARG2_LOW ARG2_HIGH bits) (flags_permitted libc bits 2)"
  "check_block (scalar_flags_checks libc ARG3_LOW ARG3_HIGH bits) (flags_permitted libc bits 3)"
  by (unfold_locales; auto simp: scalar_flags_checks_def flags_permitted_def decision_defs Let_def)+

lemma fcntl_block:
  "\<exists>checks. fcntl_checks libc = Some checks \<and> check_block checks (permit libc \<circ> fcntl_permitted libc)"
proof -
  let ?denied = "return_action (errno (libc ''EPERM''))"
  let ?blocks = "map (\<lambda>(command, bits). (command, fcntl_argument_checks libc bits)) (fcntl_setters libc)"
  let ?rule = "\<lambda>bits sd. permit libc (only_bits bits (sd_args sd 2))"
  let ?rules = "map (\<lambda>(command, bits). (command, ?rule bits)) (fcntl_setters libc)"
  have blocks: "list_all2 block_decides ?blocks ?rules"
    by (simp add: list_all2_conv_all_nth fcntl_argument_block.check_block_axioms split: prod.split)
  have rules: "map_of ?rules c = map_option ?rule (map_of (fcntl_setters libc) c)" for c
    by (simp add: map_of_map)
  obtain setters where s: "guarded_all ARG1_LOW ?blocks = Some setters"
      "well_formed (setters @ [?denied])" "length setters = (\<Sum>(n, c) \<leftarrow> ?blocks. length c + 3)"
    using guarded_all_well_formed [OF blocks, of "[?denied]"] by auto
  have len: "length setters = 20"
    by (simp add: s(3) fcntl_setters_def fcntl_argument_checks_def Let_def)
  note exec = exec_guarded_all [OF blocks s(1), unfolded rules]
  have "check_block ([load ARG1_HIGH, jump_equal 0 1 0, ?denied, load ARG1_LOW]
      @ concat (map (\<lambda>command. return_on command SECCOMP_RET_ALLOW) (fcntl_commands libc))
      @ setters @ [?denied]) (permit libc \<circ> fcntl_permitted libc)"
    using s(2) len
    by unfold_locales (auto simp: fcntl_permitted_def exec command_block split: option.split)
  with s(1) show ?thesis by (simp add: fcntl_checks_def Let_def)
qed

lemma socket_option_block:
  "\<exists>checks. socket_option_checks libc reading = Some checks
    \<and> check_block checks (permit libc \<circ> socket_option_permitted libc reading)"
proof -
  let ?denied = "return_action (errno (libc ''EPERM''))"
  let ?levels = "[(as_u32 (libc ''SOL_SOCKET''), socket_options libc reading),
    (as_u32 (libc ''IPPROTO_TCP''), tcp_options libc)]"
  let ?blocks = "map (\<lambda>(level, options). (level, option_checks libc options)) ?levels"
  let ?rule = "\<lambda>options sd. permit libc (low_word (sd_args sd 2) \<in> set options)"
  let ?rules = "map (\<lambda>(level, options). (level, ?rule options)) ?levels"
  have blocks: "list_all2 block_decides ?blocks ?rules"
    by (simp add: option_block)
  obtain levels where s: "guarded_all ARG1_LOW ?blocks = Some levels"
      "well_formed (levels @ [?denied])" "length levels = (\<Sum>(n, c) \<leftarrow> ?blocks. length c + 3)"
    using guarded_all_well_formed [OF blocks, of "[?denied]"] by auto
  have len: "length levels \<le> 42"
    using command_counts(6) [of libc reading] by (simp add: s(3) option_checks_def)
  note exec = exec_guarded_all [OF blocks s(1)]
  have "check_block ([load ARG1_HIGH, jump_equal 0 1 0, ?denied,
        load ARG2_HIGH, jump_equal 0 1 0, ?denied, load ARG1_LOW] @ levels @ [?denied])
      (permit libc \<circ> socket_option_permitted libc reading)"
    using s(2) len
    by unfold_locales (auto simp: socket_option_permitted_def exec command_block split: option.split)
  with s(1) show ?thesis by (simp add: socket_option_checks_def Let_def)
qed

subsection \<open>The decision of the whole filter\<close>

definition restricted_rules :: "libc_constants \<Rightarrow> syscalls \<Rightarrow> (u32 \<times> (seccomp_data \<Rightarrow> u32)) list" where
  "restricted_rules libc numbers =
     [(sc_fcntl numbers, permit libc \<circ> fcntl_permitted libc),
      (sc_ioctl numbers, permit libc \<circ> ioctl_permitted libc),
      (sc_getsockopt numbers, permit libc \<circ> socket_option_permitted libc True),
      (sc_setsockopt numbers, permit libc \<circ> socket_option_permitted libc False),
      (sc_prctl numbers, permit libc \<circ> first_argument_in (prctl_commands libc)),
      (sc_prlimit64 numbers, \<lambda>sd. permit libc (sd_args sd 0 = 0)),
      (sc_accept4 numbers, flags_permitted libc (as_u32 (libc ''SOCK_CLOEXEC'' OR libc ''SOCK_NONBLOCK'')) 3),
      (sc_pipe2 numbers, flags_permitted libc (as_u32 (libc ''O_CLOEXEC'' OR libc ''O_NONBLOCK'')) 1),
      (sc_dup3 numbers, flags_permitted libc (as_u32 (libc ''O_CLOEXEC'')) 2),
      (sc_eventfd2 numbers, flags_permitted libc (as_u32 (libc ''EFD_CLOEXEC'' OR libc ''EFD_NONBLOCK'')) 1),
      (sc_epoll_create1 numbers, flags_permitted libc (as_u32 (libc ''EPOLL_CLOEXEC'')) 0),
      (sc_signalfd4 numbers, flags_permitted libc (as_u32 (libc ''SFD_CLOEXEC'' OR libc ''SFD_NONBLOCK'')) 3),
      (sc_timerfd_create numbers, flags_permitted libc (as_u32 (libc ''TFD_CLOEXEC'' OR libc ''TFD_NONBLOCK'')) 1)]"

definition checked_rules :: "libc_constants \<Rightarrow> syscalls \<Rightarrow> (u32 \<times> (seccomp_data \<Rightarrow> u32)) list" where
  "checked_rules libc numbers =
     (sc_clone numbers, permit libc \<circ> clone_permitted libc) # restricted_rules libc numbers
     @ (case sc_arch_prctl numbers of
          Some number \<Rightarrow> [(number, permit libc \<circ> first_argument_in arch_prctl_commands)]
        | None \<Rightarrow> [])
     @ [(sc_socket numbers, socket_decision libc)]"

definition filter_decision :: "libc_constants \<Rightarrow> native_abi \<Rightarrow> seccomp_data \<Rightarrow> u32" where
  "filter_decision libc abi sd =
     (let numbers = abi_syscalls abi; nr = sd_nr sd
      in if sd_arch sd \<noteq> audit_arch abi \<or> abi = X86_64 \<and> nr AND 0x40000000 \<noteq> 0
         then SECCOMP_RET_KILL_PROCESS
         else if nr = sc_clone3 numbers then errno (libc ''ENOSYS'')
         else if nr = sc_socketpair numbers then errno (libc ''EPERM'')
         else case map_of (checked_rules libc numbers) nr of
           Some decide \<Rightarrow> decide sd
         | None \<Rightarrow> permit libc (nr \<in> snd ` set (unconditional_catalogue abi)))"

lemma restricted_calls_decide:
  "\<exists>calls. restricted_calls libc numbers = Some calls
    \<and> list_all2 block_decides calls (restricted_rules libc numbers)"
proof -
  obtain fcntl getsockopt setsockopt
    where "fcntl_checks libc = Some fcntl" "check_block fcntl (permit libc \<circ> fcntl_permitted libc)"
      "socket_option_checks libc True = Some getsockopt"
      "check_block getsockopt (permit libc \<circ> socket_option_permitted libc True)"
      "socket_option_checks libc False = Some setsockopt"
      "check_block setsockopt (permit libc \<circ> socket_option_permitted libc False)"
    using fcntl_block socket_option_block by blast
  then show ?thesis
    by (simp add: restricted_calls_def restricted_rules_def 
        ioctl_block.check_block_axioms prctl_block.check_block_axioms zero_block.check_block_axioms)
qed

text \<open>The guarded blocks of the compiler are one list of guarded blocks.\<close>

lemma guarded_all_append:
  "guarded_all reload (bs @ cs) =
     Option.bind (guarded_all reload bs) (\<lambda>b. Option.bind (guarded_all reload cs) (\<lambda>c. Some (b @ c)))"
proof (induction bs)
  case Nil show ?case by (cases "guarded_all reload cs") auto
next
  case (Cons b bs) then show ?case
    by (cases b; cases "guarded_all reload bs"; cases "guarded_all reload cs"; cases "guarded reload (fst b) (snd b)") auto
qed

definition checked_blocks :: "libc_constants \<Rightarrow> syscalls \<Rightarrow> (u32 \<times> sock_filter list) list \<Rightarrow> (u32 \<times> sock_filter list) list" where
  "checked_blocks libc numbers calls =
     (sc_clone numbers, clone_checks libc) # calls
     @ (case sc_arch_prctl numbers of Some number \<Rightarrow> [(number, arch_prctl_checks libc)] | None \<Rightarrow> [])
     @ [(sc_socket numbers, socket_checks libc)]"

definition filter_program :: "libc_constants \<Rightarrow> native_abi \<Rightarrow> sock_filter list \<Rightarrow> sock_filter list" where
  "filter_program libc abi blocks =
     (let numbers = abi_syscalls abi
      in [load ARCH_OFFSET, jump_equal (audit_arch abi) 1 0, return_action SECCOMP_RET_KILL_PROCESS, load NR_OFFSET]
         @ (if abi = X86_64
            then [instruction BPF_JMP_JSET_K 0 1 0x40000000, return_action SECCOMP_RET_KILL_PROCESS]
            else [])
         @ concat (map (\<lambda>(number, result). return_on number result)
             [(sc_clone3 numbers, errno (libc ''ENOSYS'')), (sc_socketpair numbers, errno (libc ''EPERM''))])
         @ blocks
         @ concat (map (\<lambda>(_, number). return_on number SECCOMP_RET_ALLOW) (unconditional_catalogue abi))
         @ [return_action (errno (libc ''EPERM''))])"

lemma compile_filter_program:
  assumes "restricted_calls libc (abi_syscalls abi) = Some calls"
    and "guarded_all NR_OFFSET (checked_blocks libc (abi_syscalls abi) calls) = Some blocks"
  shows "compile_initial_closed_filter libc abi =
    (case validate_program (filter_program libc abi blocks) of
       Inl _ \<Rightarrow> None | Inr _ \<Rightarrow> Some (filter_program libc abi blocks))"
proof -
  obtain clone restricted arch_prctl socket
    where "guarded NR_OFFSET (sc_clone (abi_syscalls abi)) (clone_checks libc) = Some clone"
      "guarded_all NR_OFFSET calls = Some restricted"
      "(case sc_arch_prctl (abi_syscalls abi) of
          Some number \<Rightarrow> guarded NR_OFFSET number (arch_prctl_checks libc) | None \<Rightarrow> Some []) = Some arch_prctl"
      "guarded NR_OFFSET (sc_socket (abi_syscalls abi)) (socket_checks libc) = Some socket"
      "blocks = clone @ restricted @ arch_prctl @ socket"
    using assms(2) by (cases abi) (auto simp: checked_blocks_def guarded_all_append bind_eq_Some_conv)
  then show ?thesis
    unfolding compile_initial_closed_filter_def filter_program_def
    by (simp add: assms(1) Let_def cong: sum.case_cong split del: if_split)
qed

lemma checked_blocks_decide:
  assumes "list_all2 block_decides calls (restricted_rules libc numbers)"
  shows "list_all2 block_decides (checked_blocks libc numbers calls) (checked_rules libc numbers)"
  using assms
  by (cases "sc_arch_prctl numbers")
    (simp_all add: checked_blocks_def checked_rules_def list_all2_appendI clone_block.check_block_axioms
      arch_prctl_block.check_block_axioms socket_block.check_block_axioms)

lemma exec_filter_program:
  assumes "list_all2 block_decides bs (checked_rules libc (abi_syscalls abi))"
    and "guarded_all NR_OFFSET bs = Some blocks"
  shows "bpf_exec (filter_program libc abi blocks) a (seccomp_word sd) = Some (filter_decision libc abi sd)"
proof -
  let ?catalogue = "concat (map (\<lambda>(_, number). return_on number SECCOMP_RET_ALLOW) (unconditional_catalogue abi))"
  have "bpf_exec (blocks @ ?catalogue @ [return_action (errno (libc ''EPERM''))]) (sd_nr sd) (seccomp_word sd)
    = Some (case map_of (checked_rules libc (abi_syscalls abi)) (sd_nr sd) of
        Some decide \<Rightarrow> decide sd
      | None \<Rightarrow> permit libc (sd_nr sd \<in> snd ` set (unconditional_catalogue abi)))"
    using exec_guarded_all [OF assms, of "sd_nr sd" sd]
    by (simp add: return_on_snd exec_return_on_all permit_def del: map_map split: option.split)
  then show ?thesis
    by (cases abi; hypsubst; simp add: filter_program_def filter_decision_def Let_def return_on_def)
qed

lemma catalogue_length: "length (unconditional_catalogue abi) \<le> 200"
  by (cases abi) (simp_all add: X64_UNCONDITIONAL_def ARM64_UNCONDITIONAL_def)

lemma blocks_fit: "list_all2 block_decides bs rs \<Longrightarrow> b \<in> set bs \<Longrightarrow> length (snd b) \<le> 100"
  by (induction bs rs rule: list_all2_induct) (auto simp: block_decides_def check_block.fits)

lemma validate_filter_program:
  assumes "list_all2 block_decides bs (checked_rules libc (abi_syscalls abi))"
  shows "\<exists>blocks. guarded_all NR_OFFSET bs = Some blocks
    \<and> validate_program (filter_program libc abi blocks) = Inr ()"
proof -
  let ?catalogue = "concat (map (\<lambda>(_, number). return_on number SECCOMP_RET_ALLOW) (unconditional_catalogue abi))"
  let ?rest = "?catalogue @ [return_action (errno (libc ''EPERM''))]"
  have rest: "well_formed ?rest" by (simp add: return_on_snd well_formed_return_on del: map_map)
  obtain blocks where b: "guarded_all NR_OFFSET bs = Some blocks" "well_formed (blocks @ ?rest)"
      "length blocks = (\<Sum>(n, c) \<leftarrow> bs. length c + 3)"
    using guarded_all_well_formed [OF assms rest] by auto
  have "length blocks \<le> (\<Sum>b \<leftarrow> bs. 103)"
    unfolding b(3) using blocks_fit [OF assms] by (intro sum_list_mono) auto
  moreover have "length bs \<le> 16"
    using list_all2_lengthD [OF assms] by (cases abi) (simp_all add: checked_rules_def restricted_rules_def)
  ultimately have "length blocks \<le> 103 * 16"
    by (simp add: sum_list_triv)
  then have "length (filter_program libc abi blocks) \<le> 4096"
    using catalogue_length [of abi] by (cases abi) (simp_all add: filter_program_def return_on_snd Let_def del: map_map)
  with b show ?thesis
    by (auto simp: validate_program_iff filter_program_def Let_def return_on_def)
qed

lemma compile_filter:
  "\<exists>p. compile_initial_closed_filter libc abi = Some p \<and> validate_program p = Inr ()
    \<and> (\<forall>a sd. bpf_exec p a (seccomp_word sd) = Some (filter_decision libc abi sd))"
proof -
  obtain calls where c: "restricted_calls libc (abi_syscalls abi) = Some calls"
      "list_all2 block_decides calls (restricted_rules libc (abi_syscalls abi))"
    using restricted_calls_decide by blast
  note blocks = checked_blocks_decide [OF c(2)]
  obtain b where "guarded_all NR_OFFSET (checked_blocks libc (abi_syscalls abi) calls) = Some b"
      "validate_program (filter_program libc abi b) = Inr ()"
    using validate_filter_program [OF blocks] by blast
  then show ?thesis
    using compile_filter_program [OF c(1)] exec_filter_program [OF blocks] by simp
qed

subsection \<open>What the filter lets through\<close>

text \<open>The calls decided by their arguments or refused outright.\<close>

definition decided_numbers :: "native_abi \<Rightarrow> u32 list" where
  "decided_numbers abi =
     (let n = abi_syscalls abi
      in [sc_clone3 n, sc_socketpair n, sc_clone n, sc_fcntl n, sc_ioctl n, sc_getsockopt n, sc_setsockopt n,
          sc_prctl n, sc_prlimit64 n, sc_accept4 n, sc_pipe2 n, sc_dup3 n, sc_eventfd2 n, sc_epoll_create1 n,
          sc_signalfd4 n, sc_timerfd_create n, sc_socket n]
         @ (case sc_arch_prctl n of Some number \<Rightarrow> [number] | None \<Rightarrow> []))"

lemma catalogue_distinct: "distinct (map unat (map snd (unconditional_catalogue abi) @ decided_numbers abi))"
  by (cases abi) (simp_all add: X64_UNCONDITIONAL_def ARM64_UNCONDITIONAL_def decided_numbers_def Let_def)

lemma catalogue_native:
  "list_all (\<lambda>n. n AND 0x40000000 = 0) (map snd (unconditional_catalogue abi) @ decided_numbers abi)"
  by (cases abi) (simp_all add: X64_UNCONDITIONAL_def ARM64_UNCONDITIONAL_def decided_numbers_def Let_def)

lemma checked_rules_decided: "set (map fst (checked_rules libc (abi_syscalls abi))) \<subseteq> set (decided_numbers abi)"
  by (cases abi) (auto simp: checked_rules_def restricted_rules_def decided_numbers_def Let_def)

lemma decided_not_catalogued:
  assumes "n \<in> snd ` set (unconditional_catalogue abi)"
  shows "n \<notin> set (decided_numbers abi)" and "n AND 0x40000000 = 0"
proof -
  have "distinct (map snd (unconditional_catalogue abi) @ decided_numbers abi)"
    using catalogue_distinct [of abi] by (rule distinct_map [THEN iffD1, THEN conjunct1])
  with assms show "n \<notin> set (decided_numbers abi)" by auto
  show "n AND 0x40000000 = 0" using catalogue_native [of abi] assms by (auto simp: list_all_iff)
qed

lemma catalogued_decision:
  assumes "sd_nr sd \<in> snd ` set (unconditional_catalogue abi)" and "sd_arch sd = audit_arch abi"
  shows "filter_decision libc abi sd = SECCOMP_RET_ALLOW"
proof -
  have "sd_nr sd \<notin> fst ` set (checked_rules libc (abi_syscalls abi))"
    using decided_not_catalogued(1) [OF assms(1)] checked_rules_decided [of libc abi] by auto
  then have "map_of (checked_rules libc (abi_syscalls abi)) (sd_nr sd) = None"
    by (simp add: map_of_eq_None_iff)
  moreover have "sd_nr sd \<noteq> sc_clone3 (abi_syscalls abi)" "sd_nr sd \<noteq> sc_socketpair (abi_syscalls abi)"
    using decided_not_catalogued(1) [OF assms(1)] by (auto simp: decided_numbers_def Let_def)
  ultimately show ?thesis
    using assms decided_not_catalogued(2) [OF assms(1)] by (simp add: filter_decision_def permit_def Let_def)
qed

text \<open>What is relied on of the error numbers: they are small positive integers.\<close>

definition errno_values :: "libc_constants \<Rightarrow> bool" where
  "errno_values libc \<longleftrightarrow>
     list_all (\<lambda>name. 0 < libc name \<and> libc name < 4096)
       [''EPERM'', ''ENOSYS'', ''EAFNOSUPPORT'', ''EPROTONOSUPPORT'']"

lemma errno_not_allow:
  assumes "0 < e" and "e < 4096"
  shows "errno e \<noteq> SECCOMP_RET_ALLOW"
proof -
  have "bit SECCOMP_RET_ALLOW 17" by (simp add: SECCOMP_RET_ALLOW_def bit_numeral_rec)
  moreover have "\<not> bit e 17"
    using assms by (simp add: bit_iff_odd)
  then have "\<not> bit (as_u32 e) 17"
    by (simp add: as_u32_def bit_word_of_int_iff)
  then have "\<not> bit (errno e) 17"
    by (simp add: errno_def bit_simps SECCOMP_RET_ERRNO_def bit_numeral_rec)
  ultimately show ?thesis by metis
qed

lemma errno_values_not_allow:
  assumes "errno_values libc"
  shows "errno (libc ''EPERM'') \<noteq> SECCOMP_RET_ALLOW" "errno (libc ''ENOSYS'') \<noteq> SECCOMP_RET_ALLOW"
    "errno (libc ''EAFNOSUPPORT'') \<noteq> SECCOMP_RET_ALLOW" "errno (libc ''EPROTONOSUPPORT'') \<noteq> SECCOMP_RET_ALLOW"
  using assms by (simp_all add: errno_values_def errno_not_allow)

lemma kill_not_allow [simp]: "SECCOMP_RET_KILL_PROCESS \<noteq> SECCOMP_RET_ALLOW"
  by (simp add: SECCOMP_RET_KILL_PROCESS_def SECCOMP_RET_ALLOW_def)

lemma map_of_checked_native:
  assumes "map_of (checked_rules libc (abi_syscalls abi)) n = Some decide"
  shows "n AND 0x40000000 = 0" and "n \<noteq> sc_clone3 (abi_syscalls abi)" and "n \<noteq> sc_socketpair (abi_syscalls abi)"
proof -
  have n: "n \<in> set (map fst (checked_rules libc (abi_syscalls abi)))"
    using map_of_SomeD [OF assms] by force
  then have "n \<in> set (decided_numbers abi)" using checked_rules_decided by blast
  then show "n AND 0x40000000 = 0" using catalogue_native [of abi] by (auto simp: list_all_iff)
  show "n \<noteq> sc_clone3 (abi_syscalls abi)" and "n \<noteq> sc_socketpair (abi_syscalls abi)"
    using n by (cases abi; auto simp: checked_rules_def restricted_rules_def)+
qed

lemma filter_allows_iff:
  assumes "errno_values libc"
  shows "filter_decision libc abi sd = SECCOMP_RET_ALLOW \<longleftrightarrow>
    sd_arch sd = audit_arch abi
    \<and> (sd_nr sd \<in> snd ` set (unconditional_catalogue abi)
       \<or> (\<exists>decide. map_of (checked_rules libc (abi_syscalls abi)) (sd_nr sd) = Some decide
            \<and> decide sd = SECCOMP_RET_ALLOW))"
    (is "?l \<longleftrightarrow> ?arch \<and> (?catalogued \<or> ?checked)")
proof
  assume ?l
  then show "?arch \<and> (?catalogued \<or> ?checked)"
    using errno_values_not_allow [OF assms]
    by (auto simp: filter_decision_def permit_def Let_def split: if_splits option.splits)
next
  assume *: "?arch \<and> (?catalogued \<or> ?checked)"
  show ?l
  proof (cases ?catalogued)
    case True with * show ?thesis by (simp add: catalogued_decision)
  next
    case False
    with * obtain decide where d: "map_of (checked_rules libc (abi_syscalls abi)) (sd_nr sd) = Some decide"
      "decide sd = SECCOMP_RET_ALLOW" by blast
    show ?thesis using * d map_of_checked_native [OF d(1)] by (simp add: filter_decision_def Let_def)
  qed
qed

text \<open>The values of some of the constants on Linux, for the examples below.\<close>

definition linux_libc :: libc_constants where
  "linux_libc name =
     (case map_of [(''EPERM'', 1), (''ENOSYS'', 38), (''EAFNOSUPPORT'', 97), (''EPROTONOSUPPORT'', 93),
         (''AF_INET'', 2), (''SOCK_STREAM'', 1), (''SOCK_NONBLOCK'', 2048), (''SOCK_CLOEXEC'', 524288),
         (''IPPROTO_TCP'', 6)] name of
        Some v \<Rightarrow> v | None \<Rightarrow> 0)"

definition example_socket_call :: seccomp_data where
  "example_socket_call =
     \<lparr>sd_nr = 41, sd_arch = 0xc000003e, sd_instruction_pointer = 0,
      sd_args = (\<lambda>i. if i = 0 then 2 else if i = 1 then 0x801 else if i = 2 then 6 else 0)\<rparr>"

lemma linux_errno_values: "errno_values linux_libc"
  by (simp add: errno_values_def linux_libc_def)

text \<open>C26: the compiler never panics: for both ABIs and all values of the constants, it returns a
  program, and the validator accepts it.\<close>

theorem compile_never_panics:
  "\<exists>p. compile_initial_closed_filter libc abi = Some p \<and> validate_program p = Inr ()"
  using compile_filter [of libc abi] by blast

text \<open>C10: the compiled program implements its specification: on the kernel's interpreter it returns,
  for every system call and all its 64-bit arguments, the decision stated by
  \<open>filter_decision\<close>.\<close>

theorem compiled_filter_decides:
  assumes "cbpf_machine run" and "compile_initial_closed_filter libc abi = Some p"
  shows "run p 0 a (seccomp_word sd) = Some (filter_decision libc abi sd)"
  using compile_filter [of libc abi] assms(2) cbpf_machine.run_validated [OF assms(1)] by auto

theorem compiled_filter_decides_witness:
  "\<exists>p. compile_initial_closed_filter linux_libc X86_64 = Some p
    \<and> bpf_exec p 7 (seccomp_word example_socket_call) = Some (filter_decision linux_libc X86_64 example_socket_call)"
  using compile_filter [of linux_libc X86_64]
    compiled_filter_decides [OF exec.cbpf_machine_axioms, of linux_libc X86_64 _ 7 example_socket_call]
  by auto

text \<open>C11: the filter is closed: it lets a system call through exactly if the call is of the native
  architecture and either is in the ABI's catalogue, or is one of the checked calls and its
  arguments pass the call's check. Everything else, x32 calls included, is refused.\<close>

theorem filter_is_closed:
  assumes "cbpf_machine run" and "errno_values libc"
    and "compile_initial_closed_filter libc abi = Some p"
  shows "run p 0 a (seccomp_word sd) = Some SECCOMP_RET_ALLOW \<longleftrightarrow>
    sd_arch sd = audit_arch abi
    \<and> (sd_nr sd \<in> snd ` set (unconditional_catalogue abi)
       \<or> (\<exists>decide. map_of (checked_rules libc (abi_syscalls abi)) (sd_nr sd) = Some decide
            \<and> decide sd = SECCOMP_RET_ALLOW))"
  using compile_filter [of libc abi] assms(3) cbpf_machine.run_validated [OF assms(1)]
    filter_allows_iff [OF assms(2)] by auto

theorem filter_is_closed_witness:
  "\<exists>p. compile_initial_closed_filter linux_libc X86_64 = Some p
    \<and> bpf_exec p 0 (seccomp_word (example_socket_call\<lparr>sd_nr := 101\<rparr>)) \<noteq> Some SECCOMP_RET_ALLOW
    \<and> bpf_exec p 0 (seccomp_word (example_socket_call\<lparr>sd_nr := 0\<rparr>)) = Some SECCOMP_RET_ALLOW"
proof -
  obtain p where p: "compile_initial_closed_filter linux_libc X86_64 = Some p"
    using compile_filter by blast
  note closed = filter_is_closed [OF exec.cbpf_machine_axioms linux_errno_values p, where a = 0, unfolded drop_0]
  have refused: "map_of (checked_rules linux_libc (abi_syscalls X86_64)) 101 = None"
    by (simp add: checked_rules_def restricted_rules_def)
  have catalogue: "101 \<notin> snd ` set (unconditional_catalogue X86_64)" "0 \<in> snd ` set (unconditional_catalogue X86_64)"
    unfolding image_set by (simp_all add: X64_UNCONDITIONAL_def del: set_map)
  have data: "sd_nr (example_socket_call\<lparr>sd_nr := n\<rparr>) = n"
    "sd_arch (example_socket_call\<lparr>sd_nr := n\<rparr>) = audit_arch X86_64" for n
    by (simp_all add: example_socket_call_def)
  have "bpf_exec p 0 (seccomp_word (example_socket_call\<lparr>sd_nr := 101\<rparr>)) \<noteq> Some SECCOMP_RET_ALLOW"
    unfolding closed data refused using catalogue(1) by blast
  moreover have "bpf_exec p 0 (seccomp_word (example_socket_call\<lparr>sd_nr := 0\<rparr>)) = Some SECCOMP_RET_ALLOW"
    unfolding closed data using catalogue(2) by blast
  ultimately show ?thesis using p by blast
qed

text \<open>C12: the only sockets a filtered program can create are Internet stream sockets, with
  no other type bits than non-blocking and close-on-exec, and the default or the TCP protocol;
  the arguments are compared in full, so no high bits smuggle another value past the check.\<close>

theorem only_tcp_sockets:
  assumes "cbpf_machine run" and "errno_values libc"
    and "compile_initial_closed_filter libc abi = Some p"
    and "sd_arch sd = audit_arch abi" and "sd_nr sd = sc_socket (abi_syscalls abi)"
  shows "run p 0 a (seccomp_word sd) = Some SECCOMP_RET_ALLOW \<longleftrightarrow>
    sd_args sd 0 = ucast (as_u32 (libc ''AF_INET''))
    \<and> sd_args sd 1 AND 0xf = ucast (as_u32 (libc ''SOCK_STREAM''))
    \<and> sd_args sd 1 AND NOT (ucast (socket_flags libc)) = 0
    \<and> (sd_args sd 2 = 0 \<or> sd_args sd 2 = ucast (as_u32 (libc ''IPPROTO_TCP'')))"
proof -
  have "sc_socket (abi_syscalls abi) \<notin> snd ` set (unconditional_catalogue abi)"
    using decided_not_catalogued(1) [of "sc_socket (abi_syscalls abi)" abi]
    by (auto simp: decided_numbers_def Let_def)
  moreover have "map_of (checked_rules libc (abi_syscalls abi)) (sc_socket (abi_syscalls abi)) = Some (socket_decision libc)"
    by (cases abi) (simp_all add: checked_rules_def restricted_rules_def)
  ultimately have "filter_decision libc abi sd = SECCOMP_RET_ALLOW \<longleftrightarrow> socket_decision libc sd = SECCOMP_RET_ALLOW"
    using filter_allows_iff [OF assms(2), of abi sd] assms(4,5) by simp
  also have "\<dots> \<longleftrightarrow> sd_args sd 0 = ucast (as_u32 (libc ''AF_INET''))
    \<and> sd_args sd 1 AND 0xf = ucast (as_u32 (libc ''SOCK_STREAM''))
    \<and> sd_args sd 1 AND NOT (ucast (socket_flags libc)) = 0
    \<and> (sd_args sd 2 = 0 \<or> sd_args sd 2 = ucast (as_u32 (libc ''IPPROTO_TCP'')))"
    using errno_values_not_allow [OF assms(2)] by (auto simp: socket_decision_def only_bits_def)
  finally show ?thesis
    using compile_filter [of libc abi] assms(3) cbpf_machine.run_validated [OF assms(1)] by auto
qed

theorem only_tcp_sockets_witness:
  "\<exists>p. compile_initial_closed_filter linux_libc X86_64 = Some p
    \<and> bpf_exec p 0 (seccomp_word example_socket_call) = Some SECCOMP_RET_ALLOW"
proof -
  obtain p where p: "compile_initial_closed_filter linux_libc X86_64 = Some p"
    using compile_filter by blast
  have "bpf_exec p 0 (seccomp_word example_socket_call) = Some SECCOMP_RET_ALLOW"
    using only_tcp_sockets [OF exec.cbpf_machine_axioms linux_errno_values p, of example_socket_call 0]
    by (simp add: example_socket_call_def linux_libc_def socket_flags_def as_u32_def)
  with p show ?thesis by blast
qed

end
