(* ===== verification/Bytes.thy ===== *)
theory Bytes
  imports Prelude
begin

unbundle bit_operations_syntax

text \<open>
  Fixed-width integers as bytes, little-endian and big-endian (\<open>to_le_bytes\<close>, \<open>to_be_bytes\<close>,
  \<open>from_be_bytes\<close> of the standard library), and the well-formedness of UTF-8 byte strings that
  \<open>str::from_utf8\<close> checks.
\<close>

fun to_le_bytes :: "nat \<Rightarrow> 'a::len word \<Rightarrow> u8 list" where
  "to_le_bytes 0 w = []"
| "to_le_bytes (Suc n) w = ucast w # to_le_bytes n (drop_bit 8 w)"

fun from_le_bytes :: "u8 list \<Rightarrow> 'a::len word" where
  "from_le_bytes [] = 0"
| "from_le_bytes (b # bs) = ucast b OR push_bit 8 (from_le_bytes bs)"

definition to_be_bytes :: "nat \<Rightarrow> 'a::len word \<Rightarrow> u8 list" where
  "to_be_bytes n w = rev (to_le_bytes n w)"

definition from_be_bytes :: "u8 list \<Rightarrow> 'a::len word" where
  "from_be_bytes bs = from_le_bytes (rev bs)"

lemma length_to_le_bytes [simp]: "length (to_le_bytes n w) = n"
  by (induction n arbitrary: w) auto

lemma to_le_bytes_bits:
  "to_le_bytes n v = to_le_bytes n w \<Longrightarrow> m < 8 * n \<Longrightarrow> bit v m = bit w m"
proof (induction n arbitrary: v w m)
  case (Suc n)
  show ?case
  proof (cases "m < 8")
    case True
    have "bit (ucast v :: u8) m = bit (ucast w :: u8) m" using Suc.prems(1) by simp
    with True show ?thesis by (auto simp: bit_simps dest: bit_imp_le_length)
  next
    case False
    then show ?thesis
      using Suc.IH [of "drop_bit 8 v" "drop_bit 8 w" "m - 8"] Suc.prems
      by (simp add: bit_drop_bit_eq)
  qed
qed simp

lemma to_le_bytes_inj:
  fixes v w :: "'a::len word"
  assumes "LENGTH('a) = 8 * n"
  shows "to_le_bytes n v = to_le_bytes n w \<longleftrightarrow> v = w"
proof
  assume eq: "to_le_bytes n v = to_le_bytes n w"
  show "v = w" by (rule bit_word_eqI) (use to_le_bytes_bits [OF eq] assms in simp)
qed simp

lemma from_le_bytes_to_le_bytes: "from_le_bytes (to_le_bytes n w) = take_bit (8 * n) w"
proof (induction n arbitrary: w)
  case (Suc n)
  show ?case
  proof (rule bit_word_eqI)
    fix m assume "m < LENGTH('a)"
    then show "bit (from_le_bytes (to_le_bytes (Suc n) w) :: 'a word) m = bit (take_bit (8 * Suc n) w) m"
      by (auto simp: Suc.IH bit_simps)
  qed
qed simp

lemma length_to_be_bytes [simp]: "length (to_be_bytes n w) = n"
  by (simp add: to_be_bytes_def)

lemma from_be_bytes_to_be_bytes:
  fixes w :: "'a::len word"
  assumes "LENGTH('a) = 8 * n"
  shows "from_be_bytes (to_be_bytes n w) = w"
  using assms by (simp add: from_be_bytes_def to_be_bytes_def from_le_bytes_to_le_bytes flip: assms)

lemma from_be_bytes_u16 [simp]: "from_be_bytes (to_be_bytes 2 (w :: u16)) = w"
  by (rule from_be_bytes_to_be_bytes) simp

lemma from_be_bytes_u64 [simp]: "from_be_bytes (to_be_bytes 8 (w :: u64)) = w"
  by (rule from_be_bytes_to_be_bytes) simp

subsection \<open>UTF-8\<close>

definition is_continuation :: "u8 \<Rightarrow> bool" where
  "is_continuation b \<longleftrightarrow> 0x80 \<le> b \<and> b \<le> 0xbf"

text \<open>The range of the second byte of a sequence of the given first byte, and the number of
  continuation bytes after it.\<close>

definition utf8_second :: "u8 \<Rightarrow> (u8 \<times> u8 \<times> nat) option" where
  "utf8_second b =
     (if 0xc2 \<le> b \<and> b \<le> 0xdf then Some (0x80, 0xbf, 0)
      else if b = 0xe0 then Some (0xa0, 0xbf, 1)
      else if b = 0xed then Some (0x80, 0x9f, 1)
      else if 0xe1 \<le> b \<and> b \<le> 0xef then Some (0x80, 0xbf, 1)
      else if b = 0xf0 then Some (0x90, 0xbf, 2)
      else if 0xf1 \<le> b \<and> b \<le> 0xf3 then Some (0x80, 0xbf, 2)
      else if b = 0xf4 then Some (0x80, 0x8f, 2)
      else None)"

function utf8_valid :: "u8 list \<Rightarrow> bool" where
  "utf8_valid [] \<longleftrightarrow> True"
| "utf8_valid (b # bs) \<longleftrightarrow>
     (if b < 0x80 then utf8_valid bs
      else case utf8_second b of
        None \<Rightarrow> False
      | Some (lo, hi, n) \<Rightarrow>
          (case bs of
             [] \<Rightarrow> False
           | c # cs \<Rightarrow> lo \<le> c \<and> c \<le> hi \<and> n \<le> length cs \<and> list_all is_continuation (take n cs)
               \<and> utf8_valid (drop n cs)))"
  by pat_completeness auto
termination by (relation "measure length") auto

lemma utf8_valid_ascii: "list_all (\<lambda>b. b < 0x80) bs \<Longrightarrow> utf8_valid bs"
  by (induction bs) auto

end
