(* ===== verification/FilterInstall.thy ===== *)
theory FilterInstall
  imports FilterSpec Bytes
begin

unbundle bit_operations_syntax

text \<open>
  The installer of the network filter (\<open>linux/network_filter.rs\<close>): the digest that binds the
  exact instruction bytes, the single-thread check of the gated stub and the attachment.
  SHA-256 is the parameter \<open>sha256\<close>, a function on byte strings, and what the installer reads
  of the system is the record \<open>filter_host\<close>.
\<close>

subsection \<open>The instruction digest\<close>

definition instruction_bytes :: "sock_filter \<Rightarrow> u8 list" where
  "instruction_bytes i = to_le_bytes 2 (code i) @ [jt i, jf i] @ to_le_bytes 4 (k i)"

definition program_bytes :: "sock_filter list \<Rightarrow> u8 list" where
  "program_bytes p = concat (map instruction_bytes p)"

definition filter_instruction_digest ::
  "(u8 list \<Rightarrow> u8 list) \<Rightarrow> sock_filter list \<Rightarrow> filter_error + u8 list" where
  "filter_instruction_digest sha256 p =
     and_then (validate_program p) (\<lambda>_. Inr (sha256 (program_bytes p)))"

lemma instruction_bytes_inj: "instruction_bytes i = instruction_bytes j \<longleftrightarrow> i = j"
  using to_le_bytes_inj [of 2 "code i" "code j"] to_le_bytes_inj [of 4 "k i" "k j"]
  by (auto simp: instruction_bytes_def append_eq_append_conv)

lemma length_instruction_bytes [simp]: "length (instruction_bytes i) = 8"
  by (simp add: instruction_bytes_def)

lemma program_bytes_inj: "program_bytes p = program_bytes q \<longleftrightarrow> p = q"
proof (induction p arbitrary: q)
  case Nil show ?case using length_instruction_bytes by (cases q) (auto simp: program_bytes_def simp flip: length_0_conv)
next
  case (Cons i p)
  show ?case
  proof (cases q)
    case Nil then show ?thesis
      by (auto simp: program_bytes_def simp flip: length_0_conv)
  next
    case (Cons j q')
    have "program_bytes (i # p) = program_bytes (j # q') \<longleftrightarrow>
        instruction_bytes i = instruction_bytes j \<and> program_bytes p = program_bytes q'"
      by (simp add: program_bytes_def append_eq_append_conv)
    then show ?thesis using Cons.IH Cons by (simp add: instruction_bytes_inj)
  qed
qed

subsection \<open>The installer\<close>

datatype install_error =
  UnsupportedArchitecture | RequestedAbiNotNative | InvalidProgram filter_error | DigestMismatch
  | TaskInventory string | Multithreaded | TaskAbsent | LengthOverflow | NoNewPrivsUnset
  | NativeInstall string | SynchronizationRejected int | ReadbackMismatch

text \<open>The target architecture of the build, the listing of \<open>/proc/self/task\<close> with an error of
  the listing or of an entry, the results of \<open>prctl\<close> before and after the attachment and of the
  \<open>seccomp\<close> call, and the last error.\<close>

record filter_host =
  fh_target :: "native_abi option"
  fh_tasks :: "string + (string + unit) list"
  fh_no_new_privs :: i32
  fh_seccomp :: "sock_filter list \<Rightarrow> int"
  fh_last_os_error :: string
  fh_seccomp_mode :: i32
  fh_no_new_privs_after :: i32

record installed_filter_proof =
  ifp_abi :: native_abi
  ifp_instruction_digest :: "u8 list"
  ifp_instruction_count :: u16

definition host_native_abi :: "filter_host \<Rightarrow> install_error + native_abi" where
  "host_native_abi host = ok_or UnsupportedArchitecture (fh_target host)"

definition saturating_add :: "'a::len word \<Rightarrow> 'a word \<Rightarrow> 'a word" where
  "saturating_add a b = (case checked_add a b of Some c \<Rightarrow> c | None \<Rightarrow> - 1)"

fun count_tasks :: "u8 \<Rightarrow> (string + unit) list \<Rightarrow> install_error + u8" where
  "count_tasks count [] = Inr count"
| "count_tasks count (Inl e # tasks) = Inl (TaskInventory e)"
| "count_tasks count (Inr _ # tasks) =
     (let count = saturating_add count 1
      in if 1 < count then Inl Multithreaded else count_tasks count tasks)"

definition require_single_threaded_stub :: "filter_host \<Rightarrow> install_error + unit" where
  "require_single_threaded_stub host =
     (case fh_tasks host of
        Inl e \<Rightarrow> Inl (TaskInventory e)
      | Inr tasks \<Rightarrow> and_then (count_tasks 0 tasks) (\<lambda>count.
          if count \<noteq> 1 then Inl TaskAbsent else Inr ()))"

definition fits_i32 :: "int \<Rightarrow> bool" where
  "fits_i32 n \<longleftrightarrow> - (2 ^ 31) \<le> n \<and> n < 2 ^ 31"

text \<open>The readbacks after the attachment; \<open>None\<close> is the panic of
  \<open>expect("filter mode fits i32")\<close>.\<close>

definition native_readback :: "libc_constants \<Rightarrow> filter_host \<Rightarrow> bool option" where
  "native_readback libc host =
     (if \<not> fits_i32 (libc ''SECCOMP_MODE_FILTER'') then None
      else Some (fh_seccomp_mode host = libc ''SECCOMP_MODE_FILTER'' \<and> fh_no_new_privs_after host = 1))"

text \<open>The checks up to the attachment; the program passed to the kernel.\<close>

definition prepare_filter ::
  "libc_constants \<Rightarrow> (u8 list \<Rightarrow> u8 list) \<Rightarrow> filter_host \<Rightarrow> native_abi \<Rightarrow> u8 list
    \<Rightarrow> (install_error + (sock_filter list \<times> installed_filter_proof)) option" where
  "prepare_filter libc sha256 host abi expected_digest =
     (case host_native_abi host of
        Inl e \<Rightarrow> Some (Inl e)
      | Inr native \<Rightarrow>
          if abi \<noteq> native then Some (Inl RequestedAbiNotNative)
          else Option.bind (compile_initial_closed_filter libc abi) (\<lambda>program.
            Some (case filter_instruction_digest sha256 program of
              Inl reason \<Rightarrow> Inl (InvalidProgram reason)
            | Inr digest \<Rightarrow>
                if digest \<noteq> expected_digest then Inl DigestMismatch
                else and_then (require_single_threaded_stub host) (\<lambda>_.
                  and_then (ok_or LengthOverflow (unat_try_from (length program))) (\<lambda>len.
                    if fh_no_new_privs host \<noteq> 1 then Inl NoNewPrivsUnset
                    else Inr (program, \<lparr>ifp_abi = abi, ifp_instruction_digest = digest,
                                       ifp_instruction_count = len\<rparr>))))))"

text \<open>The installer returns the programs it passed to the kernel, and its result, \<open>None\<close> being a
  panic.\<close>

definition install_gated_private_filter ::
  "libc_constants \<Rightarrow> (u8 list \<Rightarrow> u8 list) \<Rightarrow> filter_host \<Rightarrow> native_abi \<Rightarrow> u8 list
    \<Rightarrow> sock_filter list list \<times> (install_error + installed_filter_proof) option" where
  "install_gated_private_filter libc sha256 host abi expected_digest =
     (case prepare_filter libc sha256 host abi expected_digest of
        None \<Rightarrow> ([], None)
      | Some (Inl e) \<Rightarrow> ([], Some (Inl e))
      | Some (Inr (program, evidence)) \<Rightarrow>
          ([program],
           let result = fh_seccomp host program
           in if result = -1 then Some (Inl (NativeInstall (fh_last_os_error host)))
              else if result \<noteq> 0 then Some (Inl (SynchronizationRejected result))
              else map_option (\<lambda>ok. if ok then Inr evidence else Inl ReadbackMismatch)
                     (native_readback libc host)))"

subsection \<open>Properties\<close>

lemma single_threaded_iff:
  "require_single_threaded_stub host = Inr () \<longleftrightarrow> fh_tasks host = Inr [Inr ()]"
proof -
  have one: "saturating_add 0 (1 :: u8) = 1" "saturating_add 1 (1 :: u8) = 2"
    by (simp_all add: saturating_add_def checked_add_def)
  have more: "count_tasks 1 tasks = Inr c \<longleftrightarrow> tasks = [] \<and> c = 1" for tasks c
    by (cases tasks rule: list.exhaust; cases "hd tasks") (auto simp: one Let_def)
  have "count_tasks 0 tasks = Inr 1 \<longleftrightarrow> tasks = [Inr ()]" for tasks
    by (cases tasks rule: list.exhaust; cases "hd tasks") (auto simp: one more Let_def)
  then show ?thesis
    by (auto simp: require_single_threaded_stub_def and_then_Inr_iff split: sum.splits)
qed

lemma prepare_filter_iff:
  "prepare_filter libc sha256 host abi expected = Some (Inr (p, evidence)) \<longleftrightarrow>
    fh_target host = Some abi \<and> compile_initial_closed_filter libc abi = Some p
    \<and> sha256 (program_bytes p) = expected \<and> fh_tasks host = Inr [Inr ()] \<and> fh_no_new_privs host = 1
    \<and> evidence = \<lparr>ifp_abi = abi, ifp_instruction_digest = expected, ifp_instruction_count = of_nat (length p)\<rparr>"
proof -
  obtain q where q: "compile_initial_closed_filter libc abi = Some q" "validate_program q = Inr ()"
    using compile_filter by blast
  then have "length q < 2 ^ LENGTH(16)" by (auto simp: validate_program_iff)
  then have "unat_try_from (length q) = Some (of_nat (length q) :: u16)"
    by (simp add: unat_try_from_def)
  with q show ?thesis
    using single_threaded_iff [of host]
    by (auto simp: prepare_filter_def host_native_abi_def filter_instruction_digest_def ok_or_def
        and_then_Inr_iff split: option.splits if_splits)
qed

text \<open>When the installer goes as far as the attachment.\<close>

definition filter_ready ::
  "libc_constants \<Rightarrow> (u8 list \<Rightarrow> u8 list) \<Rightarrow> filter_host \<Rightarrow> native_abi \<Rightarrow> u8 list \<Rightarrow> sock_filter list \<Rightarrow> bool" where
  "filter_ready libc sha256 host abi expected p \<longleftrightarrow>
     fh_target host = Some abi \<and> compile_initial_closed_filter libc abi = Some p
     \<and> sha256 (program_bytes p) = expected \<and> fh_tasks host = Inr [Inr ()] \<and> fh_no_new_privs host = 1"

lemma prepare_filter_ready:
  "prepare_filter libc sha256 host abi expected = Some (Inr (p, evidence)) \<longleftrightarrow>
    filter_ready libc sha256 host abi expected p
    \<and> evidence = \<lparr>ifp_abi = abi, ifp_instruction_digest = expected, ifp_instruction_count = of_nat (length p)\<rparr>"
  unfolding prepare_filter_iff filter_ready_def by blast

lemma prepare_filter_no_panic: "prepare_filter libc sha256 host abi expected \<noteq> None"
  using compile_filter [of libc abi]
  by (auto simp: prepare_filter_def host_native_abi_def ok_or_def split: option.split sum.split)

lemma prepare_filter_cases:
  obtains (refused) e where "prepare_filter libc sha256 host abi expected = Some (Inl e)"
    and "\<nexists>p. filter_ready libc sha256 host abi expected p"
  | (ready) p where "prepare_filter libc sha256 host abi expected = Some (Inr (p,
      \<lparr>ifp_abi = abi, ifp_instruction_digest = expected, ifp_instruction_count = of_nat (length p)\<rparr>))"
    and "filter_ready libc sha256 host abi expected p"
proof (cases "prepare_filter libc sha256 host abi expected")
  case None then show ?thesis using prepare_filter_no_panic by blast
next
  case (Some r)
  show ?thesis
  proof (cases r)
    case (Inl e)
    with Some have "\<nexists>p. filter_ready libc sha256 host abi expected p"
      using prepare_filter_ready [of libc sha256 host abi expected] by auto
    with Some Inl refused show ?thesis by simp
  next
    case (Inr pp)
    then obtain p ev where "prepare_filter libc sha256 host abi expected = Some (Inr (p, ev))"
      using Some by (cases pp) simp
    with ready show ?thesis using prepare_filter_ready by auto
  qed
qed

lemma filter_ready_unique:
  "filter_ready libc sha256 host abi expected p \<Longrightarrow> filter_ready libc sha256 host abi expected q \<Longrightarrow> p = q"
  by (simp add: filter_ready_def)

definition example_host :: filter_host where
  "example_host = \<lparr>fh_target = Some X86_64, fh_tasks = Inr [Inr ()], fh_no_new_privs = 1,
     fh_seccomp = (\<lambda>_. 0), fh_last_os_error = [], fh_seccomp_mode = 2, fh_no_new_privs_after = 1\<rparr>"

lemma example_filter_ready:
  "\<exists>p. filter_ready libc (\<lambda>_. [7]) example_host X86_64 [7] p"
  using compile_filter [of libc X86_64] by (auto simp: filter_ready_def example_host_def)

text \<open>the hashed bytes determine the program: two instruction sequences have the same bytes only
  if they are the same, so the digest is one of the exact program and of nothing else.\<close>

theorem digest_input_determines_program: "program_bytes p = program_bytes q \<longleftrightarrow> p = q"
  by (rule program_bytes_inj)

text \<open>The installer succeeds exactly if the requested ABI is native, the compiled program has the
  expected digest, the stub is a single thread with \<open>no_new_privs\<close>, the kernel attaches the program
  and both readbacks agree; its proof then carries that ABI, digest and instruction count.\<close>

theorem install_ok_iff:
  "snd (install_gated_private_filter libc sha256 host abi expected) = Some (Inr evidence) \<longleftrightarrow>
    (\<exists>p. filter_ready libc sha256 host abi expected p \<and> fh_seccomp host p = 0
      \<and> native_readback libc host = Some True
      \<and> evidence = \<lparr>ifp_abi = abi, ifp_instruction_digest = expected,
                 ifp_instruction_count = of_nat (length p)\<rparr>)"
  by (cases rule: prepare_filter_cases [of libc sha256 host abi expected])
    (auto simp: install_gated_private_filter_def Let_def dest: filter_ready_unique)

text \<open>C25: nothing but the compiled filter reaches the kernel, and only after every check: a program
  the installer submits has the expected digest, is submitted by a single thread with
  \<open>no_new_privs\<close>, and decides every system call as specified.\<close>

theorem install_submits_only_checked:
  assumes "cbpf_machine run"
    and "p \<in> set (fst (install_gated_private_filter libc sha256 host abi expected))"
  shows "compile_initial_closed_filter libc abi = Some p \<and> sha256 (program_bytes p) = expected
    \<and> fh_target host = Some abi \<and> fh_tasks host = Inr [Inr ()] \<and> fh_no_new_privs host = 1
    \<and> run p 0 a (seccomp_word sd) = Some (filter_decision libc abi sd)"
proof -
  have r: "filter_ready libc sha256 host abi expected p"
    using assms(2)
    by (cases rule: prepare_filter_cases [of libc sha256 host abi expected])
      (auto simp: install_gated_private_filter_def)
  then have "run p 0 a (seccomp_word sd) = Some (filter_decision libc abi sd)"
    using compile_filter [of libc abi] cbpf_machine.run_validated [OF assms(1)] by (auto simp: filter_ready_def)
  with r show ?thesis by (simp add: filter_ready_def)
qed

theorem install_submits_only_checked_witness:
  "\<exists>p. p \<in> set (fst (install_gated_private_filter linux_libc (\<lambda>_. [7]) example_host X86_64 [7]))
    \<and> bpf_exec p 0 (seccomp_word example_socket_call) = Some (filter_decision linux_libc X86_64 example_socket_call)"
proof -
  obtain p where p: "p \<in> set (fst (install_gated_private_filter linux_libc (\<lambda>_. [7]) example_host X86_64 [7]))"
    using example_filter_ready [of linux_libc]
    by (cases rule: prepare_filter_cases [of linux_libc "\<lambda>_. [7]" example_host X86_64 "[7]"])
      (auto simp: install_gated_private_filter_def)
  show ?thesis
    using install_submits_only_checked [OF exec.cbpf_machine_axioms p, of 0 example_socket_call] p by auto
qed

text \<open>A refused installation leaves the system as it was: if a check before the attachment fails,
  the installer returns an error and has passed no program to the kernel; otherwise it has passed
  exactly one.\<close>

theorem install_error_untouched:
  "(case install_gated_private_filter libc sha256 host abi expected of
      (submitted, result) \<Rightarrow>
        if \<exists>p. filter_ready libc sha256 host abi expected p then length submitted = 1
        else submitted = [] \<and> (\<exists>e. result = Some (Inl e)))"
  by (cases rule: prepare_filter_cases [of libc sha256 host abi expected])
    (auto simp: install_gated_private_filter_def)

end
