(* ===== verification/WorkloadContract.thy ===== *)
theory WorkloadContract
  imports Prelude "HOL-Library.List_Lexorder"
begin

text \<open>
  Workload contracts (\<open>workload_contract.rs\<close>, with the limits of \<open>workload_limits.rs\<close>): the
  requested functionality of a workload, the administrator's ceilings, and the validation of the
  references between requirements and endpoints. Text is its UTF-8 bytes, so the order of
  identifiers is the lexicographic order of byte lists; fixed-size arrays are byte lists whose
  length is part of the type invariant \<open>contract_typed\<close>, as is \<open>NonZero\<close>.
\<close>

subsection \<open>Limits and identifiers\<close>

definition CONTRACT_BYTES :: nat where "CONTRACT_BYTES = 64 * 1024"

definition REQUIREMENTS :: nat where "REQUIREMENTS = 64"

definition ENDPOINTS :: nat where "ENDPOINTS = 32"

definition IDENTIFIER_BYTES :: nat where "IDENTIFIER_BYTES = 64"

lemmas workload_limits = CONTRACT_BYTES_def REQUIREMENTS_def ENDPOINTS_def IDENTIFIER_BYTES_def

datatype contract_error =
  InvalidLogicalId | ContradictoryOperations | PlanDigestsDiffer | DuplicateRequirement
  | InvertedPortRange | PeerFamilyDiffers | MappedPeerAmbiguous | PeerNotLoopback
  | UnresolvedEndpoint | DuplicateOrUnresolvedEndpoint | UnresolvedEndpointOwner
  | OwnerNotTcp | OwnerNotListening | EndpointPeerDiffers | CyclicEndpoints
  | UnresolvedDependency | PrivateProfileCeilings
  | ValueExceedsLimit | CountExceedsU16 | Truncated | InvalidFixedField | IdNotUtf8
  | PortZero | RevisionZero | UnknownTag | CountExceedsBound | ExceedsByteLimit
  | DomainDiffers | TrailingBytes | NoncanonicalOrder

type_synonym logical_id = "u8 list"
type_synonym sha256_digest = "u8 list"

definition ascii_bytes :: "string \<Rightarrow> u8 list" where
  "ascii_bytes s = map (\<lambda>c. of_nat (of_char c)) s"

definition is_identifier_byte :: "u8 \<Rightarrow> bool" where
  "is_identifier_byte b \<longleftrightarrow> 97 \<le> b \<and> b \<le> 122 \<or> 48 \<le> b \<and> b \<le> 57 \<or> b = 45"

fun has_double_dash :: "u8 list \<Rightarrow> bool" where
  "has_double_dash (a # b # rest) \<longleftrightarrow> a = 45 \<and> b = 45 \<or> has_double_dash (b # rest)"
| "has_double_dash _ \<longleftrightarrow> False"

definition logical_id_ok :: "u8 list \<Rightarrow> bool" where
  "logical_id_ok value \<longleftrightarrow>
     \<not> (value = [] \<or> IDENTIFIER_BYTES < length value \<or> hd value = 45 \<or> last value = 45
        \<or> has_double_dash value \<or> \<not> list_all is_identifier_byte value)"

definition logical_id_new :: "u8 list \<Rightarrow> contract_error + logical_id" where
  "logical_id_new value = (if logical_id_ok value then Inr value else Inl InvalidLogicalId)"

subsection \<open>Data\<close>

record policy_epoch =
  service_instance :: "u8 list"
  epoch_revision :: u64

record profile_ref =
  profile_id :: logical_id
  semantic_digest :: sha256_digest

record authorization_ref =
  grant_id :: logical_id
  grant_revision :: u64
  approved_plan_digest :: sha256_digest

datatype direct_socket_ceiling =
  PinnedLegacySocketFilterAccepted | NoNewInetSockets | AttemptPrivateIpv4StackAllPorts
  | ExternalHostPolicyAccepted

datatype unix_authority_ceiling = NoNamedEndpointsSocketPairsOnly | ExistingHostUnixAuthorityAccepted

datatype external_socket_ceiling = NoSocketAtTargetEntry | ExistingStdioAuthorityAccepted

datatype credential_gain_ceiling = NoGain | ExistingCallerEnvelopeAccepted

datatype mediated_communication_ceiling =
  ExternalFilesystemAndStdioPolicyAccepted | RequireNoExternalCommunication

record network_ceiling_v1 =
  direct_socket_authority :: direct_socket_ceiling
  unix_authority :: unix_authority_ceiling
  external_socket_custody :: external_socket_ceiling
  credential_gains :: credential_gain_ceiling
  mediated_communication :: mediated_communication_ceiling

datatype unix_socket_kind = UnixStream | UnixDatagram | UnixSeqPacket

datatype ip_family = FamilyV4 | FamilyV6

datatype tcp_scope = AttemptPrivateStack | HostSharedLoopback

datatype tcp_operation = Create | Bind | Listen | Accept | Connect | StreamRead | StreamWrite

fun operation_tag :: "tcp_operation \<Rightarrow> u8" where
  "operation_tag Create = 1"
| "operation_tag Bind = 2"
| "operation_tag Listen = 3"
| "operation_tag Accept = 4"
| "operation_tag Connect = 5"
| "operation_tag StreamRead = 6"
| "operation_tag StreamWrite = 7"

text \<open>The code compares each operation with those before it.\<close>

fun repeats_prior :: "'a list \<Rightarrow> 'a list \<Rightarrow> bool" where
  "repeats_prior prior [] \<longleftrightarrow> False"
| "repeats_prior prior (x # xs) \<longleftrightarrow> List.member prior x \<or> repeats_prior (prior @ [x]) xs"

definition tcp_operations_new :: "tcp_operation list \<Rightarrow> contract_error + tcp_operation list" where
  "tcp_operations_new values =
     (let has = List.member values
      in if values = [] \<or> repeats_prior [] values
          \<or> has Listen \<and> \<not> has Bind
          \<or> has Accept \<and> \<not> has Listen
          \<or> (has StreamRead \<or> has StreamWrite) \<and> \<not> (has Accept \<or> has Connect)
         then Inl ContradictoryOperations
         else Inr values)"

datatype local_port_requirement = KernelAssigned | Exact u16 | InclusiveRange u16 u16

datatype tcp_endpoint = EndpointV4 "u8 list" u16 | EndpointV6 "u8 list" u16

datatype tcp_peer_requirement = SameAttemptEndpoint logical_id | ExactAddress tcp_endpoint

datatype denied_operation = InetSocketCreation | NamedUnixSocketCreation | ExternalSocketImport

datatype requirement_v1 =
  UnixSocketCreation logical_id unix_socket_kind
| UnixSocketPair logical_id unix_socket_kind
| Tcp logical_id ip_family "tcp_operation list" tcp_scope local_port_requirement tcp_peer_requirement
| SuppliedTcpListener logical_id logical_id tcp_scope
| DenialExercise logical_id denied_operation

fun requirement_id :: "requirement_v1 \<Rightarrow> logical_id" where
  "requirement_id (UnixSocketCreation i _) = i"
| "requirement_id (UnixSocketPair i _) = i"
| "requirement_id (Tcp i _ _ _ _ _) = i"
| "requirement_id (SuppliedTcpListener i _ _) = i"
| "requirement_id (DenialExercise i _) = i"

record endpoint_declaration_v1 =
  endpoint_id :: logical_id
  endpoint_requirement :: logical_id

record workload_contract_v1 =
  schema_version :: u16
  workload_plan_digest :: sha256_digest
  authorized_profile :: profile_ref
  authorization :: authorization_ref
  ceiling :: network_ceiling_v1
  requirements :: "requirement_v1 list"
  endpoints :: "endpoint_declaration_v1 list"
  expected_epoch :: policy_epoch

record execution_identity_ref_v2 =
  identity_id :: logical_id
  identity_digest :: sha256_digest

datatype execution_identity_request_v2 = PreserveCaller | AdministratorProfile execution_identity_ref_v2

record workload_contract_v2 = workload_contract_v1 +
  execution_identity :: execution_identity_request_v2

subsection \<open>Validation\<close>

definition is_loopback_v4 :: "u8 list \<Rightarrow> bool" where
  "is_loopback_v4 address \<longleftrightarrow> hd address = 127"

definition is_ipv4_mapped :: "u8 list \<Rightarrow> bool" where
  "is_ipv4_mapped address \<longleftrightarrow> take 12 address = replicate 10 0 @ [255, 255]"

definition is_loopback_v6 :: "u8 list \<Rightarrow> bool" where
  "is_loopback_v6 address \<longleftrightarrow> address = replicate 15 0 @ [1]"

fun validate_exact_peer_scope :: "tcp_scope \<Rightarrow> tcp_endpoint \<Rightarrow> contract_error + unit" where
  "validate_exact_peer_scope scope (EndpointV4 address _) =
     (if scope = HostSharedLoopback \<and> \<not> is_loopback_v4 address then Inl PeerNotLoopback else Inr ())"
| "validate_exact_peer_scope scope (EndpointV6 address _) =
     (if is_ipv4_mapped address then Inl MappedPeerAmbiguous
      else if scope = HostSharedLoopback \<and> \<not> is_loopback_v6 address then Inl PeerNotLoopback
      else Inr ())"

fun family_matches :: "ip_family \<Rightarrow> tcp_endpoint \<Rightarrow> bool" where
  "family_matches FamilyV4 (EndpointV4 _ _) \<longleftrightarrow> True"
| "family_matches FamilyV6 (EndpointV6 _ _) \<longleftrightarrow> True"
| "family_matches _ _ \<longleftrightarrow> False"

fun inverted_range :: "requirement_v1 \<Rightarrow> bool" where
  "inverted_range (Tcp _ _ _ _ (InclusiveRange lo hi) _) \<longleftrightarrow> hi < lo"
| "inverted_range _ \<longleftrightarrow> False"

fun validate_exact_peer :: "requirement_v1 \<Rightarrow> contract_error + unit" where
  "validate_exact_peer (Tcp _ family _ scope _ (ExactAddress endpoint)) =
     (if \<not> family_matches family endpoint then Inl PeerFamilyDiffers
      else validate_exact_peer_scope scope endpoint)"
| "validate_exact_peer _ = Inr ()"

fun referenced_endpoint :: "requirement_v1 \<Rightarrow> logical_id option" where
  "referenced_endpoint (Tcp _ _ _ _ _ (SameAttemptEndpoint endpoint)) = Some endpoint"
| "referenced_endpoint (SuppliedTcpListener _ endpoint _) = Some endpoint"
| "referenced_endpoint _ = None"

definition validate_requirement ::
  "endpoint_declaration_v1 list \<Rightarrow> requirement_v1 list \<Rightarrow> requirement_v1 \<Rightarrow> contract_error + unit" where
  "validate_requirement eps prior r =
     (if list_ex (\<lambda>p. requirement_id p = requirement_id r) prior then Inl DuplicateRequirement
      else if inverted_range r then Inl InvertedPortRange
      else and_then (validate_exact_peer r) (\<lambda>_.
        case referenced_endpoint r of
          Some reference \<Rightarrow>
            if \<not> list_ex (\<lambda>e. endpoint_id e = reference) eps then Inl UnresolvedEndpoint else Inr ()
        | None \<Rightarrow> Inr ()))"

fun validate_requirements ::
  "endpoint_declaration_v1 list \<Rightarrow> requirement_v1 list \<Rightarrow> requirement_v1 list \<Rightarrow> contract_error + unit" where
  "validate_requirements eps prior [] = Inr ()"
| "validate_requirements eps prior (r # rs) =
     and_then (validate_requirement eps prior r) (\<lambda>_. validate_requirements eps (prior @ [r]) rs)"

fun same_attempt_peer :: "requirement_v1 \<Rightarrow> (ip_family \<times> tcp_scope \<times> logical_id) option" where
  "same_attempt_peer (Tcp _ family _ scope _ (SameAttemptEndpoint reference)) = Some (family, scope, reference)"
| "same_attempt_peer _ = None"

definition find_requirement :: "requirement_v1 list \<Rightarrow> logical_id \<Rightarrow> requirement_v1 option" where
  "find_requirement rs i = find (\<lambda>r. requirement_id r = i) rs"

definition find_endpoint :: "endpoint_declaration_v1 list \<Rightarrow> logical_id \<Rightarrow> endpoint_declaration_v1 option" where
  "find_endpoint eps i = find (\<lambda>e. endpoint_id e = i) eps"

lemma find_endpoint_SomeD: "find_endpoint eps i = Some e \<Longrightarrow> e \<in> set eps \<and> endpoint_id e = i"
  by (auto simp: find_endpoint_def find_Some_iff)

lemma find_requirement_SomeD: "find_requirement rs i = Some r \<Longrightarrow> r \<in> set rs \<and> requirement_id r = i"
  by (auto simp: find_requirement_def find_Some_iff)

text \<open>The walk along the endpoint dependencies; it ends because every step visits another
  endpoint.\<close>

function endpoint_walk ::
  "requirement_v1 list \<Rightarrow> endpoint_declaration_v1 list \<Rightarrow> logical_id list \<Rightarrow> endpoint_declaration_v1
    \<Rightarrow> contract_error + unit" where
  "endpoint_walk rs eps visited current =
     (if endpoint_id current \<in> set visited then Inl CyclicEndpoints
      else case find_requirement rs (endpoint_requirement current) of
        None \<Rightarrow> Inl UnresolvedEndpointOwner
      | Some r \<Rightarrow>
          (case same_attempt_peer r of
             None \<Rightarrow> Inr ()
           | Some (_, _, reference) \<Rightarrow>
               (case find_endpoint eps reference of
                  None \<Rightarrow> Inl UnresolvedDependency
                | Some dependency \<Rightarrow> endpoint_walk rs eps (visited @ [endpoint_id current]) dependency)))"
  by pat_completeness auto

termination
proof (relation "measure (\<lambda>(rs, eps, visited, current).
    card (insert (endpoint_id current) (endpoint_id ` set eps) - set visited))", goal_cases)
  case (2 rs eps visited current r p family q scope reference dependency)
  have "insert (endpoint_id dependency) (endpoint_id ` set eps) = endpoint_id ` set eps"
    using find_endpoint_SomeD [OF 2(6)] by auto
  then have "insert (endpoint_id dependency) (endpoint_id ` set eps) - set (visited @ [endpoint_id current])
      \<subset> insert (endpoint_id current) (endpoint_id ` set eps) - set visited"
    using 2(1) by auto
  then show ?case by (simp add: psubset_card_mono)
qed simp

declare endpoint_walk.simps [simp del]

definition validate_endpoint ::
  "requirement_v1 list \<Rightarrow> endpoint_declaration_v1 list \<Rightarrow> endpoint_declaration_v1 list
    \<Rightarrow> endpoint_declaration_v1 \<Rightarrow> contract_error + unit" where
  "validate_endpoint rs eps prior endpoint =
     (if list_ex (\<lambda>p. endpoint_id p = endpoint_id endpoint) prior
        \<or> \<not> list_ex (\<lambda>r. requirement_id r = endpoint_requirement endpoint) rs
      then Inl DuplicateOrUnresolvedEndpoint
      else case find_requirement rs (endpoint_requirement endpoint) of
        None \<Rightarrow> Inl UnresolvedEndpointOwner
      | Some (Tcp _ owner_family operations owner_scope _ _) \<Rightarrow>
          if \<not> List.member operations Listen then Inl OwnerNotListening
          else if list_ex (\<lambda>r. case same_attempt_peer r of
              Some (family, scope, reference) \<Rightarrow>
                reference = endpoint_id endpoint \<and> (family \<noteq> owner_family \<or> scope \<noteq> owner_scope)
            | None \<Rightarrow> False) rs
          then Inl EndpointPeerDiffers
          else endpoint_walk rs eps [] endpoint
      | Some _ \<Rightarrow> Inl OwnerNotTcp)"

fun validate_endpoints ::
  "requirement_v1 list \<Rightarrow> endpoint_declaration_v1 list \<Rightarrow> endpoint_declaration_v1 list
    \<Rightarrow> endpoint_declaration_v1 list \<Rightarrow> contract_error + unit" where
  "validate_endpoints rs eps prior [] = Inr ()"
| "validate_endpoints rs eps prior (e # es) =
     and_then (validate_endpoint rs eps prior e) (\<lambda>_. validate_endpoints rs eps (prior @ [e]) es)"

definition validate_v1 :: "('a) workload_contract_v1_scheme \<Rightarrow> contract_error + unit" where
  "validate_v1 c =
     (if workload_plan_digest c \<noteq> approved_plan_digest (authorization c) then Inl PlanDigestsDiffer
      else and_then (validate_requirements (endpoints c) [] (requirements c)) (\<lambda>_.
           validate_endpoints (requirements c) (endpoints c) [] (endpoints c)))"

definition validate_v2 :: "workload_contract_v2 \<Rightarrow> contract_error + unit" where
  "validate_v2 c =
     and_then (validate_v1 ((workload_contract_v1.truncate c)\<lparr>schema_version := 1\<rparr>)) (\<lambda>_.
       if profile_id (authorized_profile c) = ascii_bytes ''linux-tcp4-private-v1''
          \<and> (direct_socket_authority (ceiling c) \<noteq> AttemptPrivateIpv4StackAllPorts
             \<or> credential_gains (ceiling c) \<noteq> NoGain)
       then Inl PrivateProfileCeilings
       else Inr ())"

end
