(* ===== verification/WorkloadValidate.thy ===== *)
theory WorkloadValidate
  imports WorkloadContract
begin

text \<open>
  What the validation of a workload contract establishes: \<open>contract_valid\<close> states it without the
  loops of the code, over the sets of requirements and endpoints, and the dependencies between
  endpoints as an acyclic relation.
\<close>

subsection \<open>What validation establishes\<close>

text \<open>A requirement is well-formed, given the declared endpoints.\<close>

definition requirement_ok :: "logical_id set \<Rightarrow> requirement_v1 \<Rightarrow> bool" where
  "requirement_ok declared r \<longleftrightarrow>
     \<not> inverted_range r \<and> validate_exact_peer r = Inr ()
     \<and> is_none_or (\<lambda>reference. reference \<in> declared) (referenced_endpoint r)"

text \<open>An endpoint is owned by a listening TCP requirement, of the family and scope of all the
  requirements that connect to the endpoint.\<close>

definition endpoint_ok :: "requirement_v1 set \<Rightarrow> endpoint_declaration_v1 \<Rightarrow> bool" where
  "endpoint_ok rs e \<longleftrightarrow>
     (\<exists>family operations scope ports peer.
        Tcp (endpoint_requirement e) family operations scope ports peer \<in> rs \<and> Listen \<in> set operations
        \<and> (\<forall>r\<in>rs. \<forall>f s. same_attempt_peer r = Some (f, s, endpoint_id e) \<longrightarrow> f = family \<and> s = scope))"

definition endpoint_depends :: "requirement_v1 set \<Rightarrow> endpoint_declaration_v1 set \<Rightarrow> (logical_id \<times> logical_id) set" where
  "endpoint_depends rs eps =
     {(endpoint_id e, reference) | e r f s reference.
        e \<in> eps \<and> r \<in> rs \<and> requirement_id r = endpoint_requirement e
        \<and> same_attempt_peer r = Some (f, s, reference)}"

definition contract_valid :: "('a) workload_contract_v1_scheme \<Rightarrow> bool" where
  "contract_valid c \<longleftrightarrow>
     workload_plan_digest c = approved_plan_digest (authorization c)
     \<and> distinct (map requirement_id (requirements c)) \<and> distinct (map endpoint_id (endpoints c))
     \<and> list_all (requirement_ok (endpoint_id ` set (endpoints c))) (requirements c)
     \<and> list_all (endpoint_ok (set (requirements c))) (endpoints c)
     \<and> acyclic (endpoint_depends (set (requirements c)) (set (endpoints c)))"

lemma list_ex_image: "list_ex (\<lambda>x. f x = y) xs \<longleftrightarrow> y \<in> f ` set xs"
  by (auto simp: list_ex_iff)

lemma validate_requirement_iff:
  "validate_requirement eps prior r = Inr () \<longleftrightarrow>
    requirement_id r \<notin> requirement_id ` set prior \<and> requirement_ok (endpoint_id ` set eps) r"
  by (auto simp: validate_requirement_def requirement_ok_def list_ex_image and_then_Inr_iff is_none_or_def
      split: option.splits)

lemma validate_requirements_iff:
  "distinct (map requirement_id prior) \<Longrightarrow>
   validate_requirements eps prior rs = Inr () \<longleftrightarrow>
    distinct (map requirement_id (prior @ rs)) \<and> list_all (requirement_ok (endpoint_id ` set eps)) rs"
proof (induction rs arbitrary: prior)
  case (Cons r rs)
  show ?case
  proof (cases "requirement_id r \<in> requirement_id ` set prior")
    case False
    with Cons.prems have "distinct (map requirement_id (prior @ [r]))" by simp
    from Cons.IH [OF this] False show ?thesis
      by (auto simp: and_then_Inr_iff validate_requirement_iff)
  qed (auto simp: and_then_Inr_iff validate_requirement_iff)
qed simp

lemma find_requirement_iff:
  "distinct (map requirement_id rs) \<Longrightarrow>
    find_requirement rs i = Some r \<longleftrightarrow> r \<in> set rs \<and> requirement_id r = i"
  unfolding find_requirement_def by (induction rs) auto

lemma find_endpoint_iff:
  "distinct (map endpoint_id eps) \<Longrightarrow> find_endpoint eps i = Some e \<longleftrightarrow> e \<in> set eps \<and> endpoint_id e = i"
  unfolding find_endpoint_def by (induction eps) auto

lemma find_requirement_None_iff: "find_requirement rs i = None \<longleftrightarrow> i \<notin> requirement_id ` set rs"
  by (auto simp: find_requirement_def find_None_iff)

lemma find_endpoint_None_iff: "find_endpoint eps i = None \<longleftrightarrow> i \<notin> endpoint_id ` set eps"
  by (auto simp: find_endpoint_def find_None_iff)

text \<open>One step of the walk.\<close>

lemma endpoint_walk_step:
  assumes "distinct (map requirement_id rs)" and "distinct (map endpoint_id eps)" and "current \<in> set eps"
  shows "endpoint_walk rs eps visited current = Inr () \<longleftrightarrow>
    endpoint_id current \<notin> set visited \<and> endpoint_requirement current \<in> requirement_id ` set rs
    \<and> (\<forall>n. (endpoint_id current, n) \<in> endpoint_depends (set rs) (set eps) \<longrightarrow>
        (\<exists>e\<in>set eps. endpoint_id e = n \<and> endpoint_walk rs eps (visited @ [endpoint_id current]) e = Inr ()))"
proof (cases "find_requirement rs (endpoint_requirement current)")
  case None
  then have "endpoint_requirement current \<notin> requirement_id ` set rs"
    by (simp add: find_requirement_None_iff)
  with None show ?thesis by (simp add: endpoint_walk.simps [of rs eps visited])
next
  case (Some r)
  have r: "r \<in> set rs" "requirement_id r = endpoint_requirement current"
    using find_requirement_SomeD [OF Some] by auto
  have mem: "endpoint_requirement current \<in> requirement_id ` set rs" using r by (metis imageI)
  have owner: "r' = r" if "r' \<in> set rs" "requirement_id r' = endpoint_requirement current" for r'
    using assms(1) r that by (simp add: distinct_map) (metis inj_onD)
  have self: "e = current" if "e \<in> set eps" "endpoint_id e = endpoint_id current" for e
    using assms(2,3) that by (simp add: distinct_map) (metis inj_onD)
  have depends: "(endpoint_id current, n) \<in> endpoint_depends (set rs) (set eps) \<longleftrightarrow>
      (\<exists>f s. same_attempt_peer r = Some (f, s, n))" for n
  proof
    assume "(endpoint_id current, n) \<in> endpoint_depends (set rs) (set eps)"
    then obtain e r' f s where "e \<in> set eps" "endpoint_id e = endpoint_id current" "r' \<in> set rs"
        "requirement_id r' = endpoint_requirement e" "same_attempt_peer r' = Some (f, s, n)"
      by (auto simp: endpoint_depends_def)
    with self [of e] owner [of r'] show "\<exists>f s. same_attempt_peer r = Some (f, s, n)" by auto
  next
    assume "\<exists>f s. same_attempt_peer r = Some (f, s, n)"
    with r assms(3) show "(endpoint_id current, n) \<in> endpoint_depends (set rs) (set eps)"
      unfolding endpoint_depends_def by blast
  qed
  show ?thesis
  proof (cases "same_attempt_peer r")
    case None
    then show ?thesis using Some mem by (simp add: endpoint_walk.simps [of rs eps visited] depends)
  next
    case (Some p)
    obtain f s n where p: "p = (f, s, n)" by (cases p)
    have "(\<exists>e\<in>set eps. endpoint_id e = n \<and> endpoint_walk rs eps (visited @ [endpoint_id current]) e = Inr ()) \<longleftrightarrow>
        (\<exists>e. find_endpoint eps n = Some e \<and> endpoint_walk rs eps (visited @ [endpoint_id current]) e = Inr ())"
      using find_endpoint_iff [OF assms(2), of n] by blast
    with \<open>find_requirement rs _ = _\<close> Some mem show ?thesis
      by (simp add: endpoint_walk.simps [of rs eps visited] depends p split: option.split)
  qed
qed

text \<open>A walk that ends met no cycle, and without cycles every walk ends.\<close>

lemma unvisited_decreases:
  assumes "e \<in> set eps" and "endpoint_id e \<notin> set visited"
  shows "card (endpoint_id ` set eps - set (visited @ [endpoint_id e])) < card (endpoint_id ` set eps - set visited)"
  using assms by (intro psubset_card_mono) auto

lemma endpoint_walk_no_cycle:
  assumes "distinct (map requirement_id rs)" and "distinct (map endpoint_id eps)"
    and "current \<in> set eps" and "endpoint_walk rs eps visited current = Inr ()"
    and "(endpoint_id current, n) \<in> (endpoint_depends (set rs) (set eps))\<^sup>*"
  shows "(n, n) \<notin> (endpoint_depends (set rs) (set eps))\<^sup>+"
  using assms(3-5)
proof (induction "card (endpoint_id ` set eps - set visited)" arbitrary: visited current rule: less_induct)
  case less
  let ?r = "endpoint_depends (set rs) (set eps)"
  note step = endpoint_walk_step [OF assms(1,2) less.prems(1), of visited, THEN iffD1, OF less.prems(2)]
  show ?case
  proof
    assume "(n, n) \<in> ?r\<^sup>+"
    with less.prems(3) have "(endpoint_id current, n) \<in> ?r\<^sup>+" by simp
    then obtain m where m: "(endpoint_id current, m) \<in> ?r" "(m, n) \<in> ?r\<^sup>*"
      by (meson tranclD)
    obtain e where e: "e \<in> set eps" "endpoint_id e = m"
        "endpoint_walk rs eps (visited @ [endpoint_id current]) e = Inr ()"
      using step m(1) by blast
    have "(n, n) \<notin> ?r\<^sup>+"
      using less.hyps [OF unvisited_decreases e(1) e(3)] less.prems(1) step m(2) e(2) by blast
    with \<open>(n, n) \<in> ?r\<^sup>+\<close> show False by blast
  qed
qed

lemma endpoint_walk_ends:
  assumes "distinct (map requirement_id rs)" and "distinct (map endpoint_id eps)"
    and "acyclic (endpoint_depends (set rs) (set eps))"
    and resolved: "endpoint_requirement ` set eps \<subseteq> requirement_id ` set rs"
      "Range (endpoint_depends (set rs) (set eps)) \<subseteq> endpoint_id ` set eps"
    and "current \<in> set eps"
    and "\<And>v. v \<in> set visited \<Longrightarrow> (v, endpoint_id current) \<in> (endpoint_depends (set rs) (set eps))\<^sup>+"
  shows "endpoint_walk rs eps visited current = Inr ()"
  using assms(6,7)
proof (induction "card (endpoint_id ` set eps - set visited)" arbitrary: visited current rule: less_induct)
  case less
  let ?r = "endpoint_depends (set rs) (set eps)"
  have fresh: "endpoint_id current \<notin> set visited"
    using less.prems(2) assms(3) by (auto simp: acyclic_def)
  have "\<exists>e\<in>set eps. endpoint_id e = n \<and> endpoint_walk rs eps (visited @ [endpoint_id current]) e = Inr ()"
    if n: "(endpoint_id current, n) \<in> ?r" for n
  proof -
    obtain e where e: "e \<in> set eps" "endpoint_id e = n" using resolved(2) n by auto
    have "(v, endpoint_id e) \<in> ?r\<^sup>+" if "v \<in> set (visited @ [endpoint_id current])" for v
      using that less.prems(2) n e(2) by (auto intro: trancl_into_trancl)
    with less.hyps [OF unvisited_decreases e(1)] less.prems(1) fresh e show ?thesis by blast
  qed
  then show ?case
    using endpoint_walk_step [OF assms(1,2) less.prems(1)] fresh resolved(1) less.prems(1) by blast
qed

text \<open>Validation accepts exactly the valid contracts.\<close>

definition endpoint_owned :: "requirement_v1 list \<Rightarrow> endpoint_declaration_v1 list \<Rightarrow> endpoint_declaration_v1 \<Rightarrow> bool" where
  "endpoint_owned rs eps e \<longleftrightarrow> endpoint_ok (set rs) e \<and> endpoint_walk rs eps [] e = Inr ()"

lemma endpoint_ok_owner: "endpoint_ok rs e \<Longrightarrow> endpoint_requirement e \<in> requirement_id ` rs"
  unfolding endpoint_ok_def by (metis imageI requirement_id.simps(3))

lemma validate_endpoint_iff:
  assumes "distinct (map requirement_id rs)"
  shows "validate_endpoint rs eps prior e = Inr () \<longleftrightarrow>
    endpoint_id e \<notin> endpoint_id ` set prior \<and> endpoint_owned rs eps e"
proof -
  have find: "find_requirement rs i = Some r \<longleftrightarrow> r \<in> set rs \<and> requirement_id r = i" for i r
    by (rule find_requirement_iff [OF assms])
  show ?thesis
  proof (cases "find_requirement rs (endpoint_requirement e)")
    case None
    then have "endpoint_requirement e \<notin> requirement_id ` set rs" by (simp add: find_requirement_None_iff)
    with endpoint_ok_owner have "\<not> endpoint_ok (set rs) e" by blast
    with None show ?thesis by (simp add: validate_endpoint_def endpoint_owned_def)
  next
    case (Some r)
    then have r: "r \<in> set rs" "requirement_id r = endpoint_requirement e" by (auto simp: find)
    have owner: "r' = r" if "r' \<in> set rs" "requirement_id r' = endpoint_requirement e" for r'
      using assms r that by (simp add: distinct_map) (metis inj_onD)
    have ok: "endpoint_ok (set rs) e \<longleftrightarrow> (\<exists>i f ops s ps peer. r = Tcp i f ops s ps peer \<and> Listen \<in> set ops
        \<and> (\<forall>r\<in>set rs. \<forall>f' s'. same_attempt_peer r = Some (f', s', endpoint_id e) \<longrightarrow> f' = f \<and> s' = s))"
      (is "_ \<longleftrightarrow> ?ok")
    proof
      assume "endpoint_ok (set rs) e"
      then show ?ok unfolding endpoint_ok_def using owner by (metis requirement_id.simps(3))
    next
      assume ?ok
      then show "endpoint_ok (set rs) e" unfolding endpoint_ok_def using r by (metis requirement_id.simps(3))
    qed
    have "endpoint_requirement e \<in> requirement_id ` set rs" using r by (metis imageI)
    then show ?thesis
      unfolding validate_endpoint_def endpoint_owned_def ok list_ex_image Some
      by (cases r) (auto simp: list_ex_iff split: option.splits)
  qed
qed

lemma validate_endpoints_iff:
  "distinct (map requirement_id rs) \<Longrightarrow> distinct (map endpoint_id prior) \<Longrightarrow>
   validate_endpoints rs eps prior es = Inr () \<longleftrightarrow>
    distinct (map endpoint_id (prior @ es)) \<and> list_all (endpoint_owned rs eps) es"
proof (induction es arbitrary: prior)
  case (Cons e es)
  show ?case
  proof (cases "endpoint_id e \<in> endpoint_id ` set prior")
    case False
    with Cons.prems have "distinct (map endpoint_id (prior @ [e]))" by simp
    from Cons.IH [OF Cons.prems(1) this] False show ?thesis
      by (auto simp: and_then_Inr_iff validate_endpoint_iff [OF Cons.prems(1)])
  qed (auto simp: and_then_Inr_iff validate_endpoint_iff [OF Cons.prems(1)])
qed simp

lemma endpoints_owned_iff:
  assumes "distinct (map requirement_id rs)" and "distinct (map endpoint_id eps)"
    and "list_all (requirement_ok (endpoint_id ` set eps)) rs"
  shows "list_all (endpoint_owned rs eps) eps \<longleftrightarrow>
    list_all (endpoint_ok (set rs)) eps \<and> acyclic (endpoint_depends (set rs) (set eps))"
proof (intro iffI conjI)
  assume owned: "list_all (endpoint_owned rs eps) eps"
  then show "list_all (endpoint_ok (set rs)) eps" by (simp add: list_all_iff endpoint_owned_def)
  show "acyclic (endpoint_depends (set rs) (set eps))"
    unfolding acyclic_def
  proof (intro allI notI)
    fix n assume cycle: "(n, n) \<in> (endpoint_depends (set rs) (set eps))\<^sup>+"
    then obtain e where e: "e \<in> set eps" "endpoint_id e = n"
      by (auto simp: endpoint_depends_def dest: tranclD)
    with owned have "endpoint_walk rs eps [] e = Inr ()" by (simp add: list_all_iff endpoint_owned_def)
    from endpoint_walk_no_cycle [OF assms(1,2) e(1) this, of n] e(2) cycle show False by simp
  qed
next
  assume *: "list_all (endpoint_ok (set rs)) eps \<and> acyclic (endpoint_depends (set rs) (set eps))"
  have "endpoint_requirement ` set eps \<subseteq> requirement_id ` set rs"
    using * endpoint_ok_owner by (auto simp: list_all_iff)
  moreover have "Range (endpoint_depends (set rs) (set eps)) \<subseteq> endpoint_id ` set eps"
  proof
    fix n assume "n \<in> Range (endpoint_depends (set rs) (set eps))"
    then obtain r f s where "r \<in> set rs" "same_attempt_peer r = Some (f, s, n)"
      by (auto simp: endpoint_depends_def)
    moreover from this(2) have "referenced_endpoint r = Some n" by (cases r rule: same_attempt_peer.cases) auto
    ultimately show "n \<in> endpoint_id ` set eps"
      using assms(3) by (auto simp: list_all_iff requirement_ok_def is_none_or_def)
  qed
  ultimately show "list_all (endpoint_owned rs eps) eps"
    using * endpoint_walk_ends [OF assms(1,2), where visited = "[]"] by (simp add: list_all_iff endpoint_owned_def)
qed

lemma validate_v1_iff: "validate_v1 c = Inr () \<longleftrightarrow> contract_valid c"
  using endpoints_owned_iff [of "requirements c" "endpoints c"]
  by (auto simp: validate_v1_def contract_valid_def and_then_Inr_iff validate_requirements_iff
      validate_endpoints_iff)

text \<open>C22: validation of a workload contract is exact: it succeeds if and only if the authorization
  is for the contract's plan, identifiers are unique, all references resolve, every exact peer has the
  family and scope its requirement asks for, every endpoint is owned by a matching TCP listener,
  and the endpoint dependencies have no cycle.\<close>

theorem contract_validate_exact: "validate_v1 c = Inr () \<longleftrightarrow> contract_valid c"
  by (rule validate_v1_iff)

end
