(* ===== verification/WorkloadCodec.thy ===== *)
theory WorkloadCodec
  imports WorkloadValidate Bytes
begin

text \<open>
  The canonical bytes of workload contracts (\<open>workload_codec.rs\<close>): the bounded encoder, the
  strict decoder and the digests of both contract versions. SHA-256 is the parameter \<open>sha256\<close>.
  An encoder operation maps an encoder to an error or the extended encoder; a decoder operation
  maps the remaining bytes to an error or a value with the bytes after it.
\<close>

subsection \<open>Encoder\<close>

record encoder =
  enc_bytes :: "u8 list"
  enc_limit :: nat

type_synonym encoder_step = "encoder \<Rightarrow> contract_error + encoder"

definition enc_raw :: "u8 list \<Rightarrow> encoder_step" where
  "enc_raw bs e =
     (if enc_limit e - length (enc_bytes e) < length bs then Inl ValueExceedsLimit
      else Inr (e\<lparr>enc_bytes := enc_bytes e @ bs\<rparr>))"

definition enc_byte :: "u8 \<Rightarrow> encoder_step" where
  "enc_byte b = enc_raw [b]"

definition enc_u16 :: "u16 \<Rightarrow> encoder_step" where
  "enc_u16 w = enc_raw (to_be_bytes 2 w)"

definition enc_u64 :: "u64 \<Rightarrow> encoder_step" where
  "enc_u64 w = enc_raw (to_be_bytes 8 w)"

definition enc_count :: "nat \<Rightarrow> encoder_step" where
  "enc_count n e = and_then (ok_or CountExceedsU16 (unat_try_from n)) (\<lambda>w. enc_u16 w e)"

text \<open>A sequence of operations, each after the success of the one before.\<close>

fun encode_all :: "encoder_step list \<Rightarrow> encoder_step" where
  "encode_all [] e = Inr e"
| "encode_all (f # fs) e = and_then (f e) (encode_all fs)"

definition enc_id :: "logical_id \<Rightarrow> encoder_step" where
  "enc_id i = encode_all [enc_count (length i), enc_raw i]"

definition enc_digest :: "sha256_digest \<Rightarrow> encoder_step" where
  "enc_digest d = enc_raw d"

definition encoder_new :: "u8 list \<Rightarrow> nat \<Rightarrow> contract_error + encoder" where
  "encoder_new domain limit =
     encode_all [enc_raw domain, enc_byte 0, enc_u16 1] \<lparr>enc_bytes = [], enc_limit = limit\<rparr>"

fun direct_socket_tag :: "direct_socket_ceiling \<Rightarrow> u8" where
  "direct_socket_tag PinnedLegacySocketFilterAccepted = 1"
| "direct_socket_tag NoNewInetSockets = 2"
| "direct_socket_tag AttemptPrivateIpv4StackAllPorts = 3"
| "direct_socket_tag ExternalHostPolicyAccepted = 4"

fun unix_authority_tag :: "unix_authority_ceiling \<Rightarrow> u8" where
  "unix_authority_tag NoNamedEndpointsSocketPairsOnly = 1"
| "unix_authority_tag ExistingHostUnixAuthorityAccepted = 2"

fun external_socket_tag :: "external_socket_ceiling \<Rightarrow> u8" where
  "external_socket_tag NoSocketAtTargetEntry = 1"
| "external_socket_tag ExistingStdioAuthorityAccepted = 2"

fun credential_gain_tag :: "credential_gain_ceiling \<Rightarrow> u8" where
  "credential_gain_tag NoGain = 1"
| "credential_gain_tag ExistingCallerEnvelopeAccepted = 2"

fun mediated_tag :: "mediated_communication_ceiling \<Rightarrow> u8" where
  "mediated_tag ExternalFilesystemAndStdioPolicyAccepted = 1"
| "mediated_tag RequireNoExternalCommunication = 2"

definition encode_ceiling :: "network_ceiling_v1 \<Rightarrow> encoder_step" where
  "encode_ceiling c = encode_all
     [enc_byte (direct_socket_tag (direct_socket_authority c)),
      enc_byte (unix_authority_tag (unix_authority c)),
      enc_byte (external_socket_tag (external_socket_custody c)),
      enc_byte (credential_gain_tag (credential_gains c)),
      enc_byte (mediated_tag (mediated_communication c))]"

fun scope_tag :: "tcp_scope \<Rightarrow> u8" where
  "scope_tag AttemptPrivateStack = 1"
| "scope_tag HostSharedLoopback = 2"

fun unix_kind_tag :: "unix_socket_kind \<Rightarrow> u8" where
  "unix_kind_tag UnixStream = 1"
| "unix_kind_tag UnixDatagram = 2"
| "unix_kind_tag UnixSeqPacket = 3"

fun family_tag :: "ip_family \<Rightarrow> u8" where
  "family_tag FamilyV4 = 1"
| "family_tag FamilyV6 = 2"

fun denied_tag :: "denied_operation \<Rightarrow> u8" where
  "denied_tag InetSocketCreation = 1"
| "denied_tag NamedUnixSocketCreation = 2"
| "denied_tag ExternalSocketImport = 3"

fun requirement_tag :: "requirement_v1 \<Rightarrow> u8" where
  "requirement_tag (UnixSocketCreation _ _) = 1"
| "requirement_tag (UnixSocketPair _ _) = 2"
| "requirement_tag (Tcp _ _ _ _ _ _) = 3"
| "requirement_tag (SuppliedTcpListener _ _ _) = 4"
| "requirement_tag (DenialExercise _ _) = 5"

fun enc_local_ports :: "local_port_requirement \<Rightarrow> encoder_step" where
  "enc_local_ports KernelAssigned = enc_byte 1"
| "enc_local_ports (Exact port) = encode_all [enc_byte 2, enc_u16 port]"
| "enc_local_ports (InclusiveRange lo hi) = encode_all [enc_byte 3, enc_u16 lo, enc_u16 hi]"

fun enc_peer :: "tcp_peer_requirement \<Rightarrow> encoder_step" where
  "enc_peer (SameAttemptEndpoint endpoint) = encode_all [enc_byte 1, enc_id endpoint]"
| "enc_peer (ExactAddress (EndpointV4 address port)) =
     encode_all [enc_byte 2, enc_byte 1, enc_raw address, enc_u16 port]"
| "enc_peer (ExactAddress (EndpointV6 address port)) =
     encode_all [enc_byte 2, enc_byte 2, enc_raw address, enc_u16 port]"

fun enc_requirement_body :: "requirement_v1 \<Rightarrow> encoder_step" where
  "enc_requirement_body (UnixSocketCreation _ kind) = enc_byte (unix_kind_tag kind)"
| "enc_requirement_body (UnixSocketPair _ kind) = enc_byte (unix_kind_tag kind)"
| "enc_requirement_body (Tcp _ family operations scope local_ports peer) =
     (let operations = sort_key operation_tag operations
      in encode_all
        ([enc_byte (family_tag family), enc_count (length operations)]
         @ map (\<lambda>operation. enc_byte (operation_tag operation)) operations
         @ [enc_byte (scope_tag scope), enc_local_ports local_ports, enc_peer peer]))"
| "enc_requirement_body (SuppliedTcpListener _ endpoint scope) =
     encode_all [enc_id endpoint, enc_byte (scope_tag scope)]"
| "enc_requirement_body (DenialExercise _ operation) = enc_byte (denied_tag operation)"

definition enc_requirement :: "requirement_v1 \<Rightarrow> encoder_step" where
  "enc_requirement r =
     encode_all [enc_byte (requirement_tag r), enc_id (requirement_id r), enc_requirement_body r]"

definition enc_endpoint :: "endpoint_declaration_v1 \<Rightarrow> encoder_step" where
  "enc_endpoint e = encode_all [enc_id (endpoint_id e), enc_id (endpoint_requirement e)]"

text \<open>The fields both contract versions have, in their order.\<close>

definition enc_contract_fields :: "'a workload_contract_v1_scheme \<Rightarrow> encoder_step" where
  "enc_contract_fields c =
     (let rs = sort_key requirement_id (requirements c);
          es = sort_key endpoint_id (endpoints c)
      in encode_all
        ([enc_digest (workload_plan_digest c),
          enc_id (profile_id (authorized_profile c)),
          enc_digest (semantic_digest (authorized_profile c)),
          enc_id (grant_id (authorization c)),
          enc_u64 (grant_revision (authorization c)),
          enc_digest (approved_plan_digest (authorization c)),
          encode_ceiling (ceiling c),
          enc_count (length rs)]
         @ map enc_requirement rs @ [enc_count (length es)] @ map enc_endpoint es
         @ [enc_raw (service_instance (expected_epoch c)), enc_u64 (epoch_revision (expected_epoch c))]))"

definition contract_domain_v1 :: "u8 list" where
  "contract_domain_v1 = ascii_bytes ''memcordon-workload-contract-v1''"

definition contract_domain_v2 :: "u8 list" where
  "contract_domain_v2 = ascii_bytes ''memcordon-workload-contract-v2''"

definition encode_contract :: "workload_contract_v1 \<Rightarrow> contract_error + u8 list" where
  "encode_contract c =
     and_then (validate_v1 c) (\<lambda>_.
     and_then (encoder_new contract_domain_v1 CONTRACT_BYTES) (\<lambda>e.
     and_then (enc_contract_fields c e) (\<lambda>e. Inr (enc_bytes e))))"

fun enc_identity :: "execution_identity_request_v2 \<Rightarrow> encoder_step" where
  "enc_identity PreserveCaller = enc_byte 1"
| "enc_identity (AdministratorProfile reference) =
     encode_all [enc_byte 2, enc_id (identity_id reference), enc_digest (identity_digest reference)]"

definition encode_contract_v2 :: "workload_contract_v2 \<Rightarrow> contract_error + u8 list" where
  "encode_contract_v2 c =
     and_then (validate_v2 c) (\<lambda>_.
     and_then (encoder_new contract_domain_v2 CONTRACT_BYTES) (\<lambda>e.
     and_then (encode_all [enc_contract_fields c, enc_identity (execution_identity c)] e) (\<lambda>e.
       Inr (enc_bytes e))))"

definition contract_digest :: "(u8 list \<Rightarrow> u8 list) \<Rightarrow> workload_contract_v1 \<Rightarrow> contract_error + sha256_digest" where
  "contract_digest sha256 c = and_then (encode_contract c) (\<lambda>bs. Inr (sha256 bs))"

definition contract_digest_v2 :: "(u8 list \<Rightarrow> u8 list) \<Rightarrow> workload_contract_v2 \<Rightarrow> contract_error + sha256_digest" where
  "contract_digest_v2 sha256 c = and_then (encode_contract_v2 c) (\<lambda>bs. Inr (sha256 bs))"

subsection \<open>Decoder\<close>

type_synonym 'a decoder = "u8 list \<Rightarrow> contract_error + ('a \<times> u8 list)"

definition dec_bind :: "'a decoder \<Rightarrow> ('a \<Rightarrow> 'b decoder) \<Rightarrow> 'b decoder" where
  "dec_bind p f bs = and_then (p bs) (\<lambda>(x, rest). f x rest)"

definition dec_return :: "'a \<Rightarrow> 'a decoder" where
  "dec_return x bs = Inr (x, bs)"

definition dec_fail :: "contract_error \<Rightarrow> 'a decoder" where
  "dec_fail e bs = Inl e"

definition dec_fixed :: "nat \<Rightarrow> u8 list decoder" where
  "dec_fixed n bs = (if n \<le> length bs then Inr (take n bs, drop n bs) else Inl Truncated)"

definition dec_byte :: "u8 decoder" where
  "dec_byte = dec_bind (dec_fixed 1) (\<lambda>bs. dec_return (hd bs))"

definition dec_u16 :: "u16 decoder" where
  "dec_u16 = dec_bind (dec_fixed 2) (\<lambda>bs. dec_return (from_be_bytes bs))"

definition dec_u64 :: "u64 decoder" where
  "dec_u64 = dec_bind (dec_fixed 8) (\<lambda>bs. dec_return (from_be_bytes bs))"

definition dec_id :: "logical_id decoder" where
  "dec_id = dec_bind dec_u16 (\<lambda>count. dec_bind (dec_fixed (unat count)) (\<lambda>text.
     if \<not> utf8_valid text then dec_fail IdNotUtf8
     else case logical_id_new text of Inl e \<Rightarrow> dec_fail e | Inr i \<Rightarrow> dec_return i))"

definition dec_digest :: "sha256_digest decoder" where
  "dec_digest = dec_fixed 32"

definition dec_port :: "u16 decoder" where
  "dec_port = dec_bind dec_u16 (\<lambda>w. if w = 0 then dec_fail PortZero else dec_return w)"

definition dec_revision :: "u64 decoder" where
  "dec_revision = dec_bind dec_u64 (\<lambda>w. if w = 0 then dec_fail RevisionZero else dec_return w)"

text \<open>A byte that must be one of the listed tags.\<close>

definition dec_tag :: "(u8 \<times> 'a) list \<Rightarrow> 'a decoder" where
  "dec_tag tags = dec_bind dec_byte (\<lambda>b. case map_of tags b of Some x \<Rightarrow> dec_return x | None \<Rightarrow> dec_fail UnknownTag)"

definition dec_unix_kind :: "unix_socket_kind decoder" where
  "dec_unix_kind = dec_tag [(1, UnixStream), (2, UnixDatagram), (3, UnixSeqPacket)]"

definition dec_scope :: "tcp_scope decoder" where
  "dec_scope = dec_tag [(1, AttemptPrivateStack), (2, HostSharedLoopback)]"

definition dec_family :: "ip_family decoder" where
  "dec_family = dec_tag [(1, FamilyV4), (2, FamilyV6)]"

definition dec_operation :: "tcp_operation decoder" where
  "dec_operation = dec_tag [(1, Create), (2, Bind), (3, Listen), (4, Accept), (5, Connect), (6, StreamRead),
     (7, StreamWrite)]"

definition dec_denied :: "denied_operation decoder" where
  "dec_denied = dec_tag [(1, InetSocketCreation), (2, NamedUnixSocketCreation), (3, ExternalSocketImport)]"

definition dec_ceiling :: "network_ceiling_v1 decoder" where
  "dec_ceiling =
     dec_bind (dec_tag [(1, PinnedLegacySocketFilterAccepted), (2, NoNewInetSockets),
       (3, AttemptPrivateIpv4StackAllPorts), (4, ExternalHostPolicyAccepted)]) (\<lambda>direct.
     dec_bind (dec_tag [(1, NoNamedEndpointsSocketPairsOnly), (2, ExistingHostUnixAuthorityAccepted)]) (\<lambda>unix.
     dec_bind (dec_tag [(1, NoSocketAtTargetEntry), (2, ExistingStdioAuthorityAccepted)]) (\<lambda>external.
     dec_bind (dec_tag [(1, NoGain), (2, ExistingCallerEnvelopeAccepted)]) (\<lambda>credential.
     dec_bind (dec_tag [(1, ExternalFilesystemAndStdioPolicyAccepted), (2, RequireNoExternalCommunication)]) (\<lambda>mediated.
     dec_return \<lparr>direct_socket_authority = direct, unix_authority = unix, external_socket_custody = external,
       credential_gains = credential, mediated_communication = mediated\<rparr>)))))"

text \<open>\<open>BoundedVec::try_push\<close>, and the loop that pushes a number of decoded elements.\<close>

definition try_push :: "nat \<Rightarrow> 'a list \<Rightarrow> 'a \<Rightarrow> 'a list option" where
  "try_push bound xs x = (if length xs = bound then None else Some (xs @ [x]))"

fun dec_push_all :: "nat \<Rightarrow> 'a decoder \<Rightarrow> nat \<Rightarrow> 'a list \<Rightarrow> 'a list decoder" where
  "dec_push_all bound p 0 xs = dec_return xs"
| "dec_push_all bound p (Suc n) xs = dec_bind p (\<lambda>x.
     case try_push bound xs x of
       None \<Rightarrow> dec_fail CountExceedsBound
     | Some xs' \<Rightarrow> dec_push_all bound p n xs')"

definition dec_bounded :: "nat \<Rightarrow> 'a decoder \<Rightarrow> 'a list decoder" where
  "dec_bounded bound p = dec_bind dec_u16 (\<lambda>count.
     if bound < unat count then dec_fail CountExceedsBound else dec_push_all bound p (unat count) [])"

definition dec_operations :: "tcp_operation list decoder" where
  "dec_operations = dec_bind (dec_bounded 7 dec_operation) (\<lambda>operations.
     case tcp_operations_new operations of Inl e \<Rightarrow> dec_fail e | Inr ops \<Rightarrow> dec_return ops)"

definition dec_local_ports :: "local_port_requirement decoder" where
  "dec_local_ports = dec_bind dec_byte (\<lambda>tag.
     if tag = 1 then dec_return KernelAssigned
     else if tag = 2 then dec_bind dec_port (\<lambda>port. dec_return (Exact port))
     else if tag = 3 then dec_bind dec_port (\<lambda>lo. dec_bind dec_port (\<lambda>hi. dec_return (InclusiveRange lo hi)))
     else dec_fail UnknownTag)"

definition dec_peer :: "tcp_peer_requirement decoder" where
  "dec_peer = dec_bind dec_byte (\<lambda>tag.
     if tag = 1 then dec_bind dec_id (\<lambda>endpoint. dec_return (SameAttemptEndpoint endpoint))
     else if tag = 2 then dec_bind dec_byte (\<lambda>family.
       if family = 1 then dec_bind (dec_fixed 4) (\<lambda>address. dec_bind dec_port (\<lambda>port.
         dec_return (ExactAddress (EndpointV4 address port))))
       else if family = 2 then dec_bind (dec_fixed 16) (\<lambda>address. dec_bind dec_port (\<lambda>port.
         dec_return (ExactAddress (EndpointV6 address port))))
       else dec_fail UnknownTag)
     else dec_fail UnknownTag)"

definition dec_requirement :: "requirement_v1 decoder" where
  "dec_requirement = dec_bind dec_byte (\<lambda>tag. dec_bind dec_id (\<lambda>i.
     if tag = 1 then dec_bind dec_unix_kind (\<lambda>kind. dec_return (UnixSocketCreation i kind))
     else if tag = 2 then dec_bind dec_unix_kind (\<lambda>kind. dec_return (UnixSocketPair i kind))
     else if tag = 3 then
       dec_bind dec_family (\<lambda>family. dec_bind dec_operations (\<lambda>operations. dec_bind dec_scope (\<lambda>scope.
       dec_bind dec_local_ports (\<lambda>ports. dec_bind dec_peer (\<lambda>peer.
       dec_return (Tcp i family operations scope ports peer))))))
     else if tag = 4 then dec_bind dec_id (\<lambda>endpoint. dec_bind dec_scope (\<lambda>scope.
       dec_return (SuppliedTcpListener i endpoint scope)))
     else if tag = 5 then dec_bind dec_denied (\<lambda>operation. dec_return (DenialExercise i operation))
     else dec_fail UnknownTag))"

definition dec_endpoint :: "endpoint_declaration_v1 decoder" where
  "dec_endpoint = dec_bind dec_id (\<lambda>i. dec_bind dec_id (\<lambda>r.
     dec_return \<lparr>endpoint_id = i, endpoint_requirement = r\<rparr>))"

definition dec_header :: "u8 list \<Rightarrow> unit decoder" where
  "dec_header domain = dec_bind (dec_fixed (length domain)) (\<lambda>bs.
     if bs \<noteq> domain then dec_fail DomainDiffers
     else dec_bind dec_u16 (\<lambda>version. if version \<noteq> 1 then dec_fail DomainDiffers else dec_return ()))"

definition dec_contract_fields :: "workload_contract_v1 decoder" where
  "dec_contract_fields =
     dec_bind dec_digest (\<lambda>plan.
     dec_bind dec_id (\<lambda>profile. dec_bind dec_digest (\<lambda>semantic.
     dec_bind dec_id (\<lambda>grant. dec_bind dec_revision (\<lambda>revision. dec_bind dec_digest (\<lambda>approved.
     dec_bind dec_ceiling (\<lambda>ceiling.
     dec_bind (dec_bounded REQUIREMENTS dec_requirement) (\<lambda>rs.
     dec_bind (dec_bounded ENDPOINTS dec_endpoint) (\<lambda>es.
     dec_bind (dec_fixed 16) (\<lambda>nonce. dec_bind dec_revision (\<lambda>epoch.
     dec_return
       \<lparr>schema_version = 1, workload_plan_digest = plan,
        authorized_profile = \<lparr>profile_id = profile, semantic_digest = semantic\<rparr>,
        authorization = \<lparr>grant_id = grant, grant_revision = revision, approved_plan_digest = approved\<rparr>,
        ceiling = ceiling, requirements = rs, endpoints = es,
        expected_epoch = \<lparr>service_instance = nonce, epoch_revision = epoch\<rparr>\<rparr>)))))))))))"

definition dec_end :: "unit decoder" where
  "dec_end bs = (if bs \<noteq> [] then Inl TrailingBytes else Inr ((), bs))"

definition decode_contract :: "u8 list \<Rightarrow> contract_error + workload_contract_v1" where
  "decode_contract bs =
     (if CONTRACT_BYTES < length bs then Inl ExceedsByteLimit
      else and_then
        (dec_bind (dec_header (contract_domain_v1 @ [0])) (\<lambda>_. dec_bind dec_contract_fields (\<lambda>c.
         dec_bind dec_end (\<lambda>_. dec_return c))) bs) (\<lambda>(c, _).
      and_then (validate_v1 c) (\<lambda>_.
      and_then (encode_contract c) (\<lambda>encoded.
        if encoded \<noteq> bs then Inl NoncanonicalOrder else Inr c))))"

definition dec_identity :: "execution_identity_request_v2 decoder" where
  "dec_identity = dec_bind dec_byte (\<lambda>tag.
     if tag = 1 then dec_return PreserveCaller
     else if tag = 2 then dec_bind dec_id (\<lambda>i. dec_bind dec_digest (\<lambda>d.
       dec_return (AdministratorProfile \<lparr>identity_id = i, identity_digest = d\<rparr>)))
     else dec_fail UnknownTag)"

definition with_identity :: "workload_contract_v1 \<Rightarrow> execution_identity_request_v2 \<Rightarrow> workload_contract_v2" where
  "with_identity c identity =
     (workload_contract_v1.extend c (workload_contract_v2.fields identity))\<lparr>schema_version := 2\<rparr>"

definition decode_contract_v2 :: "u8 list \<Rightarrow> contract_error + workload_contract_v2" where
  "decode_contract_v2 bs =
     (if CONTRACT_BYTES < length bs then Inl ExceedsByteLimit
      else and_then
        (dec_bind (dec_header (contract_domain_v2 @ [0])) (\<lambda>_. dec_bind dec_contract_fields (\<lambda>c.
         dec_bind dec_identity (\<lambda>identity. dec_bind dec_end (\<lambda>_. dec_return (with_identity c identity))))) bs) (\<lambda>(c, _).
      and_then (validate_v2 c) (\<lambda>_.
      and_then (encode_contract_v2 c) (\<lambda>encoded.
        if encoded \<noteq> bs then Inl NoncanonicalOrder else Inr c))))"

end
