(* ===== verification/WorkloadRoundtrip.thy ===== *)
theory WorkloadRoundtrip
  imports WorkloadCodec
begin

text \<open>
  The decoder of canonical contract bytes inverts the encoder. Every field of a contract is a
  \<open>codec\<close>: its encoder step writes the field's image, its decoder reads the field from the image,
  whatever bytes follow, and returns only values of the field's type. The laws of a field give
  those of bounded lists of it, and the fields compose to the codecs of both contract versions.
\<close>

subsection \<open>Writing\<close>

definition writes :: "encoder_step \<Rightarrow> u8 list \<Rightarrow> bool" where
  "writes f bs \<longleftrightarrow> (\<forall>e. length (enc_bytes e) \<le> enc_limit e \<longrightarrow> f e = enc_raw bs e)"

named_theorems writes_intros

lemma writes_raw [writes_intros]: "writes (enc_raw bs) bs"
  by (simp add: writes_def)

lemma writes_fixed [writes_intros]:
  "writes (enc_byte b) [b]" "writes (enc_u16 w) (to_be_bytes 2 w)" "writes (enc_u64 v) (to_be_bytes 8 v)"
  "writes (enc_digest d) d"
  by (simp_all add: writes_def enc_byte_def enc_u16_def enc_u64_def enc_digest_def)

lemma writes_count [writes_intros]: "n < 65536 \<Longrightarrow> writes (enc_count n) (to_be_bytes 2 (of_nat n :: u16))"
  by (simp add: writes_def enc_count_def enc_u16_def unat_try_from_def ok_or_def and_then_def)

lemma enc_raw_within:
  "length (enc_bytes e) \<le> enc_limit e \<Longrightarrow> enc_raw bs e = Inr e' \<Longrightarrow>
    e' = e\<lparr>enc_bytes := enc_bytes e @ bs\<rparr> \<and> length (enc_bytes e') \<le> enc_limit e'"
  by (auto simp: enc_raw_def split: if_splits)

lemma enc_raw_raw:
  assumes "length (enc_bytes e) \<le> enc_limit e"
  shows "and_then (enc_raw as e) (enc_raw bs) = enc_raw (as @ bs) e"
  using assms by (auto simp: enc_raw_def and_then_def)

lemma writes_then:
  assumes "writes f as" and "writes g bs"
  shows "writes (\<lambda>e. and_then (f e) g) (as @ bs)"
  unfolding writes_def
proof (intro allI impI)
  fix e :: encoder
  assume e: "length (enc_bytes e) \<le> enc_limit e"
  have "and_then (f e) g = and_then (enc_raw as e) (enc_raw bs)"
    using assms e enc_raw_within [OF e, of as]
    by (cases "enc_raw as e") (auto simp: writes_def and_then_def)
  then show "and_then (f e) g = enc_raw (as @ bs) e" using e by (simp add: enc_raw_raw)
qed

lemma writes_Nil [writes_intros]: "writes (encode_all []) []"
  by (simp add: writes_def enc_raw_def)

lemma encode_all_Cons: "encode_all (f # fs) = (\<lambda>e. and_then (f e) (encode_all fs))"
  by (rule ext) simp

lemma writes_Cons [writes_intros]:
  "writes f as \<Longrightarrow> writes (encode_all fs) bs \<Longrightarrow> writes (encode_all (f # fs)) (as @ bs)"
  unfolding encode_all_Cons by (rule writes_then)

lemma encode_all_append: "encode_all (fs @ gs) = (\<lambda>e. and_then (encode_all fs e) (encode_all gs))"
proof (rule ext)
  show "encode_all (fs @ gs) e = and_then (encode_all fs e) (encode_all gs)" for e
  proof (induction fs arbitrary: e)
    case (Cons f fs)
    then show ?case by (cases "f e") (simp_all add: and_then_def)
  qed (simp add: and_then_def)
qed

lemma writes_append [writes_intros]:
  "writes (encode_all fs) as \<Longrightarrow> writes (encode_all gs) bs \<Longrightarrow> writes (encode_all (fs @ gs)) (as @ bs)"
  unfolding encode_all_append by (rule writes_then)

lemma writes_map [writes_intros]:
  assumes "\<And>x. x \<in> set xs \<Longrightarrow> writes (f x) (g x)"
  shows "writes (encode_all (map f xs)) (concat (map g xs))"
  using assms
proof (induction xs)
  case (Cons x xs)
  then show ?case
    unfolding list.map concat.simps by (intro writes_Cons) auto
qed (simp add: writes_Nil)

lemma writes_byte_Cons: "writes (encode_all fs) bs \<Longrightarrow> writes (encode_all (enc_byte b # fs)) (b # bs)"
  using writes_Cons [OF writes_fixed(1)] by simp

lemma writes_single: "writes f bs \<Longrightarrow> writes (encode_all [f]) bs"
  using writes_Cons [OF _ writes_Nil] by simp

lemmas writes_sequence = writes_fixed writes_byte_Cons writes_single writes_Cons [OF writes_raw]
  writes_Cons [OF writes_fixed(2)] writes_Cons [OF writes_fixed(3)] writes_Cons [OF writes_fixed(4)]
  writes_Cons [OF writes_count]

subsection \<open>Reading\<close>

lemma dec_bind_Inr_iff:
  "dec_bind p f bs = Inr (y, rest) \<longleftrightarrow> (\<exists>x mid. p bs = Inr (x, mid) \<and> f x mid = Inr (y, rest))"
  by (auto simp: dec_bind_def and_then_def split: sum.splits)

lemma dec_bind_reads: "p bs = Inr (x, rest) \<Longrightarrow> dec_bind p f bs = f x rest"
  by (simp add: dec_bind_def and_then_def)

lemma dec_simps [simp]:
  "dec_return x bs = Inr (x, bs)"
  "dec_fail err bs = Inl err"
  by (simp_all add: dec_return_def dec_fail_def)

lemma dec_fixed_append [simp]: "n = length as \<Longrightarrow> dec_fixed n (as @ rest) = Inr (as, rest)"
  by (simp add: dec_fixed_def)

lemma dec_fixed_Inr: "dec_fixed n bs = Inr (as, rest) \<Longrightarrow> length as = n"
  by (auto simp: dec_fixed_def split: if_splits)

lemma dec_byte_Cons [simp]: "dec_byte (b # rest) = Inr (b, rest)"
  using dec_fixed_append [of 1 "[b]" rest] by (simp add: dec_byte_def dec_bind_reads)

lemma dec_u16_append [simp]: "dec_u16 (to_be_bytes 2 w @ rest) = Inr (w, rest)"
  by (simp add: dec_u16_def dec_bind_reads)

lemma dec_u64_append [simp]: "dec_u64 (to_be_bytes 8 w @ rest) = Inr (w, rest)"
  by (simp add: dec_u64_def dec_bind_reads)

lemma dec_digest_append [simp]: "length d = 32 \<Longrightarrow> dec_digest (d @ rest) = Inr (d, rest)"
  by (simp add: dec_digest_def)

lemma dec_port_append [simp]: "w \<noteq> 0 \<Longrightarrow> dec_port (to_be_bytes 2 w @ rest) = Inr (w, rest)"
  by (simp add: dec_port_def dec_bind_reads)

lemma dec_revision_append [simp]: "w \<noteq> 0 \<Longrightarrow> dec_revision (to_be_bytes 8 w @ rest) = Inr (w, rest)"
  by (simp add: dec_revision_def dec_bind_reads)

lemma dec_port_Inr: "dec_port bs = Inr (w, rest) \<Longrightarrow> w \<noteq> 0"
  by (auto simp: dec_port_def dec_bind_Inr_iff split: if_splits)

lemma dec_revision_Inr: "dec_revision bs = Inr (w, rest) \<Longrightarrow> w \<noteq> 0"
  by (auto simp: dec_revision_def dec_bind_Inr_iff split: if_splits)

lemma dec_tag_Cons: "dec_tag tags (b # rest) = (case map_of tags b of Some x \<Rightarrow> Inr (x, rest) | None \<Rightarrow> Inl UnknownTag)"
  by (simp add: dec_tag_def dec_bind_reads split: option.split)

subsection \<open>Codecs\<close>

locale codec =
  fixes put :: "'a \<Rightarrow> encoder_step"
    and bytes_of :: "'a \<Rightarrow> u8 list"
    and get :: "'a decoder"
    and ok :: "'a \<Rightarrow> bool"
    and canon :: "'a \<Rightarrow> 'a"
  assumes written: "ok x \<Longrightarrow> writes (put x) (bytes_of x)"
    and reads: "ok x \<Longrightarrow> get (bytes_of x @ rest) = Inr (canon x, rest)"
    and sound: "get bs = Inr (x, rest) \<Longrightarrow> ok x"
begin

lemma write_all: "list_all ok xs \<Longrightarrow> writes (encode_all (map put xs)) (concat (map bytes_of xs))"
  by (rule writes_map) (auto simp: list_all_iff written)

lemma read_all:
  "list_all ok xs \<Longrightarrow> length acc + length xs \<le> bound \<Longrightarrow>
    dec_push_all bound get (length xs) acc (concat (map bytes_of xs) @ rest) = Inr (acc @ map canon xs, rest)"
  by (induction xs arbitrary: acc) (simp_all add: dec_bind_reads reads try_push_def)

lemma read_bounded:
  assumes "list_all ok xs" and "length xs \<le> bound" and "bound < 65536"
  shows "dec_bounded bound get (to_be_bytes 2 (of_nat (length xs) :: u16) @ concat (map bytes_of xs) @ rest)
    = Inr (map canon xs, rest)"
proof -
  have "unat (of_nat (length xs) :: u16) = length xs"
    using assms by (simp add: unat_of_nat)
  then show ?thesis
    using assms read_all [of xs "[]" bound] by (simp add: dec_bounded_def dec_bind_reads)
qed

lemma sound_all:
  "dec_push_all bound get n acc bs = Inr (xs, rest) \<Longrightarrow> list_all ok acc \<Longrightarrow> length acc \<le> bound \<Longrightarrow>
    list_all ok xs \<and> length xs \<le> bound"
proof (induction n arbitrary: acc bs)
  case (Suc n)
  then obtain x mid where x: "get bs = Inr (x, mid)" "length acc < bound"
      "dec_push_all bound get n (acc @ [x]) mid = Inr (xs, rest)"
    by (auto simp: dec_bind_Inr_iff try_push_def split: if_splits)
  from Suc.IH [OF x(3)] x(2) sound [OF x(1)] Suc.prems(2) show ?case by simp
qed simp

lemma sound_bounded:
  "dec_bounded bound get bs = Inr (xs, rest) \<Longrightarrow> list_all ok xs \<and> length xs \<le> bound"
  by (auto simp: dec_bounded_def dec_bind_Inr_iff split: if_splits dest!: sound_all)

text \<open>Images are prefix-free: what follows an image cannot change how it is get.\<close>

lemma prefix_free:
  assumes "ok x" and "ok y" and "bytes_of x @ as = bytes_of y @ bs"
  shows "canon x = canon y \<and> as = bs"
  using reads [OF assms(1), of as] reads [OF assms(2), of bs] assms(3) by simp

end

subsection \<open>The fields\<close>

lemma tag_codec:
  assumes "\<And>x. map_of tags (tag x) = Some x"
  shows "codec (\<lambda>x. enc_byte (tag x)) (\<lambda>x. [tag x]) (dec_tag tags) (\<lambda>_. True) (\<lambda>x. x)"
  by unfold_locales (simp_all add: writes_fixed dec_tag_Cons assms)

interpretation unix_kind_codec: codec "\<lambda>x. enc_byte (unix_kind_tag x)" "\<lambda>x. [unix_kind_tag x]" dec_unix_kind
    "\<lambda>_. True" "\<lambda>x. x"
  unfolding dec_unix_kind_def by (rule tag_codec) (case_tac x; simp)

interpretation scope_codec: codec "\<lambda>x. enc_byte (scope_tag x)" "\<lambda>x. [scope_tag x]" dec_scope
    "\<lambda>_. True" "\<lambda>x. x"
  unfolding dec_scope_def by (rule tag_codec) (case_tac x; simp)

interpretation family_codec: codec "\<lambda>x. enc_byte (family_tag x)" "\<lambda>x. [family_tag x]" dec_family
    "\<lambda>_. True" "\<lambda>x. x"
  unfolding dec_family_def by (rule tag_codec) (case_tac x; simp)

interpretation operation_codec: codec "\<lambda>x. enc_byte (operation_tag x)" "\<lambda>x. [operation_tag x]" dec_operation
    "\<lambda>_. True" "\<lambda>x. x"
  unfolding dec_operation_def by (rule tag_codec) (case_tac x; simp)

interpretation denied_codec: codec "\<lambda>x. enc_byte (denied_tag x)" "\<lambda>x. [denied_tag x]" dec_denied
    "\<lambda>_. True" "\<lambda>x. x"
  unfolding dec_denied_def by (rule tag_codec) (case_tac x; simp)

lemmas tag_reads [simp] = unix_kind_codec.reads [simplified] scope_codec.reads [simplified]
  family_codec.reads [simplified] denied_codec.reads [simplified]

definition id_bytes :: "logical_id \<Rightarrow> u8 list" where
  "id_bytes i = to_be_bytes 2 (of_nat (length i) :: u16) @ i"

lemma logical_id_utf8: "logical_id_ok i \<Longrightarrow> utf8_valid i"
proof (rule utf8_valid_ascii)
  assume "logical_id_ok i"
  then have "list_all is_identifier_byte i" by (simp add: logical_id_ok_def)
  then show "list_all (\<lambda>b. b < 0x80) i"
    by (rule list.pred_mono_strong) (auto simp: is_identifier_byte_def elim: le_less_trans)
qed

interpretation id_codec: codec enc_id id_bytes dec_id logical_id_ok "\<lambda>x. x"
proof
  fix i rest assume ok: "logical_id_ok i"
  then have len: "length i < 65536" by (simp add: logical_id_ok_def workload_limits)
  then have "unat (of_nat (length i) :: u16) = length i" by (simp add: unat_of_nat)
  with ok logical_id_utf8 [OF ok] show "dec_id (id_bytes i @ rest) = Inr (i, rest)"
    by (simp add: dec_id_def id_bytes_def dec_bind_reads logical_id_new_def)
  from len show "writes (enc_id i) (id_bytes i)"
    by (simp add: enc_id_def id_bytes_def writes_sequence writes_raw del: encode_all.simps)
next
  show "logical_id_ok x" if "dec_id bs = Inr (x, rest)" for bs x rest
    using that by (auto simp: dec_id_def dec_bind_Inr_iff logical_id_new_def split: if_splits)
qed

fun ports_bytes :: "local_port_requirement \<Rightarrow> u8 list" where
  "ports_bytes KernelAssigned = [1]"
| "ports_bytes (Exact port) = 2 # to_be_bytes 2 port"
| "ports_bytes (InclusiveRange lo hi) = 3 # to_be_bytes 2 lo @ to_be_bytes 2 hi"

fun ports_typed :: "local_port_requirement \<Rightarrow> bool" where
  "ports_typed KernelAssigned \<longleftrightarrow> True"
| "ports_typed (Exact port) \<longleftrightarrow> port \<noteq> 0"
| "ports_typed (InclusiveRange lo hi) \<longleftrightarrow> lo \<noteq> 0 \<and> hi \<noteq> 0"

interpretation ports_codec: codec enc_local_ports ports_bytes dec_local_ports ports_typed "\<lambda>x. x"
proof
  show "writes (enc_local_ports x) (ports_bytes x)" for x
    by (cases x) (simp_all add: writes_sequence del: encode_all.simps)
  show "dec_local_ports (ports_bytes x @ rest) = Inr (x, rest)" if "ports_typed x" for x rest
    using that by (cases x) (simp_all add: dec_local_ports_def dec_bind_reads)
  show "ports_typed x" if "dec_local_ports bs = Inr (x, rest)" for bs x rest
    using that by (auto simp: dec_local_ports_def dec_bind_Inr_iff dest!: dec_port_Inr split: if_splits)
qed

fun peer_bytes :: "tcp_peer_requirement \<Rightarrow> u8 list" where
  "peer_bytes (SameAttemptEndpoint endpoint) = 1 # id_bytes endpoint"
| "peer_bytes (ExactAddress (EndpointV4 address port)) = 2 # 1 # address @ to_be_bytes 2 port"
| "peer_bytes (ExactAddress (EndpointV6 address port)) = 2 # 2 # address @ to_be_bytes 2 port"

fun peer_typed :: "tcp_peer_requirement \<Rightarrow> bool" where
  "peer_typed (SameAttemptEndpoint endpoint) \<longleftrightarrow> logical_id_ok endpoint"
| "peer_typed (ExactAddress (EndpointV4 address port)) \<longleftrightarrow> length address = 4 \<and> port \<noteq> 0"
| "peer_typed (ExactAddress (EndpointV6 address port)) \<longleftrightarrow> length address = 16 \<and> port \<noteq> 0"

interpretation peer_codec: codec enc_peer peer_bytes dec_peer peer_typed "\<lambda>x. x"
proof
  show "writes (enc_peer x) (peer_bytes x)" if "peer_typed x" for x
    using that by (cases x rule: peer_bytes.cases) (simp_all add: writes_sequence id_codec.written del: encode_all.simps)
  show "dec_peer (peer_bytes x @ rest) = Inr (x, rest)" if "peer_typed x" for x rest
    using that by (cases x rule: peer_bytes.cases) (simp_all add: dec_peer_def dec_bind_reads id_codec.reads)
  show "peer_typed x" if "dec_peer bs = Inr (x, rest)" for bs x rest
    using that
    by (auto simp: dec_peer_def dec_bind_Inr_iff dest!: dec_port_Inr dec_fixed_Inr id_codec.sound split: if_splits)
qed

definition operations_typed :: "tcp_operation list \<Rightarrow> bool" where
  "operations_typed ops \<longleftrightarrow> length ops \<le> 7 \<and> tcp_operations_new ops = Inr ops"

lemma repeats_prior_iff: "distinct prior \<Longrightarrow> repeats_prior prior xs \<longleftrightarrow> \<not> distinct (prior @ xs)"
proof (induction xs arbitrary: prior)
  case (Cons x xs)
  then show ?case by (cases "x \<in> set prior") (auto)
qed simp

lemma tcp_operations_new_iff:
  "tcp_operations_new ops = Inr ops' \<longleftrightarrow>
    ops' = ops \<and> ops \<noteq> [] \<and> distinct ops \<and> (Listen \<in> set ops \<longrightarrow> Bind \<in> set ops)
    \<and> (Accept \<in> set ops \<longrightarrow> Listen \<in> set ops)
    \<and> (StreamRead \<in> set ops \<or> StreamWrite \<in> set ops \<longrightarrow> Accept \<in> set ops \<or> Connect \<in> set ops)"
  by (auto simp: tcp_operations_new_def Let_def repeats_prior_iff)

lemma operations_typed_sort [simp]: "operations_typed (sort_key operation_tag ops) = operations_typed ops"
proof -
  have "sort_key operation_tag ops = [] \<longleftrightarrow> ops = []" by (metis set_empty set_sort)
  then show ?thesis by (simp add: operations_typed_def tcp_operations_new_iff)
qed

lemma dec_operations_append [simp]:
  assumes "operations_typed ops"
  shows "dec_operations (to_be_bytes 2 (of_nat (length ops) :: u16) @ map operation_tag ops @ rest) = Inr (ops, rest)"
proof -
  have "dec_bounded 7 dec_operation (to_be_bytes 2 (of_nat (length ops) :: u16) @ map operation_tag ops @ rest) = Inr (ops, rest)"
    using operation_codec.read_bounded [of ops 7 rest] assms
    by (simp add: operations_typed_def list_all_iff concat_map_singleton)
  with assms show ?thesis by (simp add: dec_operations_def dec_bind_reads operations_typed_def)
qed

lemma dec_operations_Inr: "dec_operations bs = Inr (ops, rest) \<Longrightarrow> operations_typed ops"
proof -
  assume "dec_operations bs = Inr (ops, rest)"
  then obtain xs mid where xs: "dec_bounded 7 dec_operation bs = Inr (xs, mid)"
      and "(case tcp_operations_new xs of Inl e \<Rightarrow> dec_fail e | Inr ops \<Rightarrow> dec_return ops) mid = Inr (ops, rest)"
    unfolding dec_operations_def dec_bind_Inr_iff by blast
  then have "tcp_operations_new xs = Inr ops" by (cases "tcp_operations_new xs") auto
  moreover from this have "ops = xs" unfolding tcp_operations_new_iff by blast
  ultimately show "operations_typed ops"
    using operation_codec.sound_bounded [OF xs] by (simp add: operations_typed_def)
qed

fun requirement_typed :: "requirement_v1 \<Rightarrow> bool" where
  "requirement_typed (UnixSocketCreation i _) \<longleftrightarrow> logical_id_ok i"
| "requirement_typed (UnixSocketPair i _) \<longleftrightarrow> logical_id_ok i"
| "requirement_typed (Tcp i _ ops _ ports peer) \<longleftrightarrow>
     logical_id_ok i \<and> operations_typed ops \<and> ports_typed ports \<and> peer_typed peer"
| "requirement_typed (SuppliedTcpListener i endpoint _) \<longleftrightarrow> logical_id_ok i \<and> logical_id_ok endpoint"
| "requirement_typed (DenialExercise i _) \<longleftrightarrow> logical_id_ok i"

fun requirement_body_bytes :: "requirement_v1 \<Rightarrow> u8 list" where
  "requirement_body_bytes (UnixSocketCreation _ kind) = [unix_kind_tag kind]"
| "requirement_body_bytes (UnixSocketPair _ kind) = [unix_kind_tag kind]"
| "requirement_body_bytes (Tcp _ family ops scope ports peer) =
     family_tag family # to_be_bytes 2 (of_nat (length ops) :: u16) @ map operation_tag (sort_key operation_tag ops)
     @ scope_tag scope # ports_bytes ports @ peer_bytes peer"
| "requirement_body_bytes (SuppliedTcpListener _ endpoint scope) = id_bytes endpoint @ [scope_tag scope]"
| "requirement_body_bytes (DenialExercise _ operation) = [denied_tag operation]"

definition requirement_bytes :: "requirement_v1 \<Rightarrow> u8 list" where
  "requirement_bytes r = requirement_tag r # id_bytes (requirement_id r) @ requirement_body_bytes r"

fun canonical_requirement :: "requirement_v1 \<Rightarrow> requirement_v1" where
  "canonical_requirement (Tcp i family ops scope ports peer) =
     Tcp i family (sort_key operation_tag ops) scope ports peer"
| "canonical_requirement r = r"

lemma writes_operations:
  "writes (encode_all gs) bs \<Longrightarrow>
    writes (encode_all (map (\<lambda>op. enc_byte (operation_tag op)) ops @ gs)) (map operation_tag ops @ bs)"
  using writes_append [OF operation_codec.write_all [of ops]] by (simp add: list_all_iff concat_map_singleton)

lemma writes_requirement_body:
  assumes "requirement_typed r"
  shows "writes (enc_requirement_body r) (requirement_body_bytes r)"
proof (cases r)
  case (Tcp i family ops scope ports peer)
  have "length ops < 65536" using assms Tcp by (simp add: operations_typed_def)
  then show ?thesis
    using assms Tcp writes_Cons [OF ports_codec.written writes_single [OF peer_codec.written]]
    by (simp add: writes_sequence writes_operations Let_def del: encode_all.simps)
next
  case (SuppliedTcpListener i endpoint scope)
  then show ?thesis
    using assms writes_Cons [OF id_codec.written writes_single [OF writes_fixed(1)]]
    by (simp del: encode_all.simps)
qed (simp_all add: writes_fixed)

interpretation requirement_codec: codec enc_requirement requirement_bytes dec_requirement requirement_typed
    canonical_requirement
proof
  show "writes (enc_requirement r) (requirement_bytes r)" if "requirement_typed r" for r
  proof -
    have "logical_id_ok (requirement_id r)" using that by (cases r) auto
    from writes_Cons [OF id_codec.written [OF this] writes_single [OF writes_requirement_body [OF that]]]
    show ?thesis unfolding enc_requirement_def requirement_bytes_def by (rule writes_byte_Cons)
  qed
  show "dec_requirement (requirement_bytes r @ rest) = Inr (canonical_requirement r, rest)"
    if "requirement_typed r" for r rest
    using that dec_operations_append [of "sort_key operation_tag ops" for ops]
    by (cases r) (simp_all add: dec_requirement_def requirement_bytes_def dec_bind_reads id_codec.reads
        ports_codec.reads peer_codec.reads)
  show "requirement_typed r" if "dec_requirement bs = Inr (r, rest)" for bs r rest
    using that
    by (auto simp: dec_requirement_def dec_bind_Inr_iff dest!: id_codec.sound dec_operations_Inr ports_codec.sound
        peer_codec.sound split: if_splits)
qed

definition endpoint_bytes :: "endpoint_declaration_v1 \<Rightarrow> u8 list" where
  "endpoint_bytes e = id_bytes (endpoint_id e) @ id_bytes (endpoint_requirement e)"

definition endpoint_typed :: "endpoint_declaration_v1 \<Rightarrow> bool" where
  "endpoint_typed e \<longleftrightarrow> logical_id_ok (endpoint_id e) \<and> logical_id_ok (endpoint_requirement e)"

interpretation endpoint_codec: codec enc_endpoint endpoint_bytes dec_endpoint endpoint_typed "\<lambda>x. x"
proof
  show "writes (enc_endpoint e) (endpoint_bytes e)" if "endpoint_typed e" for e
    unfolding enc_endpoint_def endpoint_bytes_def
    using that by (intro writes_Cons writes_single id_codec.written) (simp_all add: endpoint_typed_def)
  show "dec_endpoint (endpoint_bytes e @ rest) = Inr (e, rest)" if "endpoint_typed e" for e rest
    using that by (simp add: dec_endpoint_def endpoint_bytes_def endpoint_typed_def dec_bind_reads id_codec.reads)
  show "endpoint_typed e" if "dec_endpoint bs = Inr (e, rest)" for bs e rest
    using that by (auto simp: dec_endpoint_def dec_bind_Inr_iff endpoint_typed_def dest!: id_codec.sound)
qed

definition ceiling_bytes :: "network_ceiling_v1 \<Rightarrow> u8 list" where
  "ceiling_bytes c =
     [direct_socket_tag (direct_socket_authority c), unix_authority_tag (unix_authority c),
      external_socket_tag (external_socket_custody c), credential_gain_tag (credential_gains c),
      mediated_tag (mediated_communication c)]"

interpretation ceiling_codec: codec encode_ceiling ceiling_bytes dec_ceiling "\<lambda>_. True" "\<lambda>x. x"
proof
  show "writes (encode_ceiling c) (ceiling_bytes c)" for c
    by (simp add: encode_ceiling_def ceiling_bytes_def writes_sequence del: encode_all.simps)
  show "dec_ceiling (ceiling_bytes c @ rest) = Inr (c, rest)" for c rest
    by (cases "direct_socket_authority c"; cases "unix_authority c"; cases "external_socket_custody c";
        cases "credential_gains c"; cases "mediated_communication c")
      (simp_all add: dec_ceiling_def ceiling_bytes_def dec_bind_reads dec_tag_Cons)
qed simp

subsection \<open>Contracts\<close>

text \<open>What the Rust types guarantee of the fields of a contract.\<close>

definition fields_typed :: "'a workload_contract_v1_scheme \<Rightarrow> bool" where
  "fields_typed c \<longleftrightarrow>
     length (workload_plan_digest c) = 32 \<and> logical_id_ok (profile_id (authorized_profile c))
     \<and> length (semantic_digest (authorized_profile c)) = 32 \<and> logical_id_ok (grant_id (authorization c))
     \<and> grant_revision (authorization c) \<noteq> 0 \<and> length (approved_plan_digest (authorization c)) = 32
     \<and> list_all requirement_typed (requirements c) \<and> length (requirements c) \<le> REQUIREMENTS
     \<and> list_all endpoint_typed (endpoints c) \<and> length (endpoints c) \<le> ENDPOINTS
     \<and> length (service_instance (expected_epoch c)) = 16 \<and> epoch_revision (expected_epoch c) \<noteq> 0"

definition contract_typed :: "workload_contract_v1 \<Rightarrow> bool" where
  "contract_typed c \<longleftrightarrow> schema_version c = 1 \<and> fields_typed c"

text \<open>The canonical form: sets in the order of their keys.\<close>

definition canonical :: "'a workload_contract_v1_scheme \<Rightarrow> 'a workload_contract_v1_scheme" where
  "canonical c = c\<lparr>requirements := map canonical_requirement (sort_key requirement_id (requirements c)),
                   endpoints := sort_key endpoint_id (endpoints c)\<rparr>"

definition fields_bytes :: "'a workload_contract_v1_scheme \<Rightarrow> u8 list" where
  "fields_bytes c =
     workload_plan_digest c @ id_bytes (profile_id (authorized_profile c)) @ semantic_digest (authorized_profile c)
     @ id_bytes (grant_id (authorization c)) @ to_be_bytes 8 (grant_revision (authorization c))
     @ approved_plan_digest (authorization c) @ ceiling_bytes (ceiling c)
     @ to_be_bytes 2 (of_nat (length (requirements c)) :: u16)
     @ concat (map requirement_bytes (sort_key requirement_id (requirements c)))
     @ to_be_bytes 2 (of_nat (length (endpoints c)) :: u16)
     @ concat (map endpoint_bytes (sort_key endpoint_id (endpoints c)))
     @ service_instance (expected_epoch c) @ to_be_bytes 8 (epoch_revision (expected_epoch c))"

lemma list_all_sort_key [simp]: "list_all P (sort_key f xs) = list_all P xs"
  by (simp add: list_all_iff)

lemma writes_fields:
  assumes "fields_typed c"
  shows "writes (enc_contract_fields c) (fields_bytes c)"
proof -
  have len: "length (requirements c) < 65536" "length (endpoints c) < 65536"
    using assms by (simp_all add: fields_typed_def workload_limits)
  have "writes (encode_all (map enc_requirement (sort_key requirement_id (requirements c))))
      (concat (map requirement_bytes (sort_key requirement_id (requirements c))))"
    "writes (encode_all (map enc_endpoint (sort_key endpoint_id (endpoints c))))
      (concat (map endpoint_bytes (sort_key endpoint_id (endpoints c))))"
    using assms by (intro requirement_codec.write_all endpoint_codec.write_all; simp add: fields_typed_def)+
  note lists = writes_append [OF this(1)] writes_append [OF this(2)]
  show ?thesis
    unfolding enc_contract_fields_def fields_bytes_def Let_def
    using assms len
    by (simp add: writes_sequence lists writes_Cons [OF id_codec.written] writes_Cons [OF ceiling_codec.written]
        fields_typed_def del: encode_all.simps)
qed

lemma dec_fields_append:
  assumes "fields_typed c"
  shows "dec_contract_fields (fields_bytes c @ rest)
    = Inr ((canonical (workload_contract_v1.truncate c))\<lparr>schema_version := 1\<rparr>, rest)"
proof -
  have "dec_bounded REQUIREMENTS dec_requirement
      (to_be_bytes 2 (of_nat (length (requirements c)) :: u16)
       @ concat (map requirement_bytes (sort_key requirement_id (requirements c))) @ tl)
    = Inr (map canonical_requirement (sort_key requirement_id (requirements c)), tl)" for tl
    using requirement_codec.read_bounded [of "sort_key requirement_id (requirements c)" REQUIREMENTS] assms
    by (simp add: fields_typed_def workload_limits)
  moreover have "dec_bounded ENDPOINTS dec_endpoint
      (to_be_bytes 2 (of_nat (length (endpoints c)) :: u16)
       @ concat (map endpoint_bytes (sort_key endpoint_id (endpoints c))) @ tl)
    = Inr (sort_key endpoint_id (endpoints c), tl)" for tl
    using endpoint_codec.read_bounded [of "sort_key endpoint_id (endpoints c)" ENDPOINTS] assms
    by (simp add: fields_typed_def workload_limits)
  ultimately show ?thesis
    using assms
    by (simp add: dec_contract_fields_def fields_bytes_def dec_bind_reads id_codec.reads ceiling_codec.reads
        canonical_def fields_typed_def workload_contract_v1.defs)
qed

lemma dec_fields_Inr: "dec_contract_fields bs = Inr (c, rest) \<Longrightarrow> contract_typed c"
  unfolding dec_contract_fields_def dec_bind_Inr_iff
  by (auto simp: contract_typed_def fields_typed_def dec_digest_def dest!: dec_fixed_Inr id_codec.sound
      dec_revision_Inr requirement_codec.sound_bounded endpoint_codec.sound_bounded)

lemma sort_key_sorted: "sorted (map f xs) \<Longrightarrow> sort_key f xs = xs"
  by (induction xs) (auto simp: insort_is_Cons)

lemma canonical_requirement_simps [simp]:
  "requirement_id (canonical_requirement r) = requirement_id r"
  "requirement_bytes (canonical_requirement r) = requirement_bytes r"
  "requirement_typed (canonical_requirement r) = requirement_typed r"
  "requirement_ok ids (canonical_requirement r) = requirement_ok ids r"
  "same_attempt_peer (canonical_requirement r) = same_attempt_peer r"
proof -
  show "requirement_id (canonical_requirement r) = requirement_id r"
    and "requirement_typed (canonical_requirement r) = requirement_typed r"
    by (cases r; simp)+
  show "requirement_bytes (canonical_requirement r) = requirement_bytes r"
    by (cases r) (simp_all add: requirement_bytes_def sort_key_sorted sorted_sort_key)
  show "same_attempt_peer (canonical_requirement r) = same_attempt_peer r"
    by (cases r rule: same_attempt_peer.cases) simp_all
  have "inverted_range (canonical_requirement r) = inverted_range r"
    by (cases r rule: inverted_range.cases) simp_all
  moreover have "validate_exact_peer (canonical_requirement r) = validate_exact_peer r"
    by (cases r rule: validate_exact_peer.cases) simp_all
  moreover have "referenced_endpoint (canonical_requirement r) = referenced_endpoint r"
    by (cases r rule: referenced_endpoint.cases) simp_all
  ultimately show "requirement_ok ids (canonical_requirement r) = requirement_ok ids r"
    by (simp add: requirement_ok_def)
qed

lemma canonical_select [simp]:
  "schema_version (canonical c) = schema_version c"
  "workload_plan_digest (canonical c) = workload_plan_digest c"
  "authorized_profile (canonical c) = authorized_profile c"
  "authorization (canonical c) = authorization c"
  "ceiling (canonical c) = ceiling c"
  "expected_epoch (canonical c) = expected_epoch c"
  "requirements (canonical c) = map canonical_requirement (sort_key requirement_id (requirements c))"
  "endpoints (canonical c) = sort_key endpoint_id (endpoints c)"
  by (simp_all add: canonical_def)

lemma sorted_canonical [simp]:
  "sort_key requirement_id (map canonical_requirement (sort_key requirement_id rs))
    = map canonical_requirement (sort_key requirement_id rs)"
  by (rule sort_key_sorted) (simp add: comp_def sorted_sort_key)

lemma fields_bytes_canonical [simp]: "fields_bytes (canonical c) = fields_bytes c"
  by (simp add: fields_bytes_def comp_def sort_key_sorted sorted_sort_key)

lemma fields_typed_canonical [simp]: "fields_typed (canonical c) = fields_typed c"
  by (simp add: fields_typed_def list.pred_map comp_def)

lemma canonical_requirement_Tcp:
  "Tcp i f ops s ps peer \<in> canonical_requirement ` rs \<longleftrightarrow>
    (\<exists>ops'. ops = sort_key operation_tag ops' \<and> Tcp i f ops' s ps peer \<in> rs)"
proof
  assume "Tcp i f ops s ps peer \<in> canonical_requirement ` rs"
  then obtain r where "r \<in> rs" "canonical_requirement r = Tcp i f ops s ps peer" by auto
  then show "\<exists>ops'. ops = sort_key operation_tag ops' \<and> Tcp i f ops' s ps peer \<in> rs" by (cases r) auto
next
  assume "\<exists>ops'. ops = sort_key operation_tag ops' \<and> Tcp i f ops' s ps peer \<in> rs"
  then obtain ops' where "ops = sort_key operation_tag ops'" "Tcp i f ops' s ps peer \<in> rs" by blast
  then show "Tcp i f ops s ps peer \<in> canonical_requirement ` rs"
    by (intro image_eqI [where x = "Tcp i f ops' s ps peer"]) simp_all
qed

definition peers_agree :: "requirement_v1 set \<Rightarrow> endpoint_declaration_v1 \<Rightarrow> ip_family \<Rightarrow> tcp_scope \<Rightarrow> bool" where
  "peers_agree rs e f s \<longleftrightarrow>
     (\<forall>r\<in>rs. \<forall>f' s'. same_attempt_peer r = Some (f', s', endpoint_id e) \<longrightarrow> f' = f \<and> s' = s)"

lemma peers_agree_canonical [simp]: "peers_agree (canonical_requirement ` rs) = peers_agree rs"
  by (intro ext) (simp add: peers_agree_def)

lemma endpoint_ok_iff:
  "endpoint_ok rs e \<longleftrightarrow>
    (\<exists>f ops s ps peer. Tcp (endpoint_requirement e) f ops s ps peer \<in> rs \<and> Listen \<in> set ops \<and> peers_agree rs e f s)"
  by (simp add: endpoint_ok_def peers_agree_def)

lemma endpoint_ok_canonical [simp]: "endpoint_ok (canonical_requirement ` rs) = endpoint_ok rs"
proof (intro ext)
  fix e
  have "endpoint_ok (canonical_requirement ` rs) e \<longleftrightarrow>
    (\<exists>f s ps peer ops'. Tcp (endpoint_requirement e) f ops' s ps peer \<in> rs \<and> Listen \<in> set (sort_key operation_tag ops')
      \<and> peers_agree rs e f s)"
    unfolding endpoint_ok_iff canonical_requirement_Tcp peers_agree_canonical by blast
  also have "\<dots> \<longleftrightarrow> endpoint_ok rs e"
    unfolding endpoint_ok_iff set_sort by blast
  finally show "endpoint_ok (canonical_requirement ` rs) e = endpoint_ok rs e" .
qed

lemma endpoint_depends_iff:
  "(a, n) \<in> endpoint_depends rs es \<longleftrightarrow>
    (\<exists>e\<in>es. a = endpoint_id e \<and> (\<exists>r\<in>rs. requirement_id r = endpoint_requirement e
      \<and> (\<exists>f s. same_attempt_peer r = Some (f, s, n))))"
  by (auto simp: endpoint_depends_def)

lemma endpoint_depends_canonical [simp]:
  "endpoint_depends (canonical_requirement ` rs) es = endpoint_depends rs es"
  by (auto simp: endpoint_depends_iff)

lemma distinct_sort_key [simp]: "distinct (map f (sort_key f xs)) = distinct (map f xs)"
  by (simp add: distinct_map)

lemma contract_valid_canonical [simp]: "contract_valid (canonical c) = contract_valid c"
  by (simp add: contract_valid_def list.pred_map comp_def)

text \<open>Every contract fits the byte limit, so encoding fails on no valid contract.\<close>

lemma length_id_bytes: "logical_id_ok i \<Longrightarrow> length (id_bytes i) \<le> 66"
  by (simp add: id_bytes_def logical_id_ok_def workload_limits)

lemma length_ports_bytes: "length (ports_bytes ports) \<le> 5"
  by (cases ports) simp_all

lemma length_peer_bytes: "peer_typed peer \<Longrightarrow> length (peer_bytes peer) \<le> 67"
  using length_id_bytes by (cases peer rule: peer_bytes.cases) fastforce+

lemma length_requirement_bytes:
  assumes "requirement_typed r"
  shows "length (requirement_bytes r) \<le> 200"
proof (cases r)
  case (Tcp i f ops s ports peer)
  then show ?thesis
    using assms length_id_bytes [of i] length_ports_bytes [of ports] length_peer_bytes [of peer]
    by (simp add: requirement_bytes_def operations_typed_def)
next
  case (SuppliedTcpListener i e s)
  then show ?thesis
    using assms length_id_bytes [of i] length_id_bytes [of e] by (simp add: requirement_bytes_def)
qed (use assms length_id_bytes [of "requirement_id r"] in \<open>simp_all add: requirement_bytes_def\<close>)

lemma length_endpoint_bytes: "endpoint_typed e \<Longrightarrow> length (endpoint_bytes e) \<le> 132"
  using length_id_bytes [of "endpoint_id e"] length_id_bytes [of "endpoint_requirement e"]
  by (simp add: endpoint_bytes_def endpoint_typed_def)

lemma length_concat_bound: "(\<And>x. x \<in> set xs \<Longrightarrow> length (f x) \<le> n) \<Longrightarrow> length (concat (map f xs)) \<le> length xs * n"
  by (induction xs) (auto simp: add_mono)

lemma length_fields_bytes:
  assumes "fields_typed c"
  shows "length (fields_bytes c) \<le> 20000"
proof -
  have "length (concat (map requirement_bytes (sort_key requirement_id (requirements c)))) \<le> length (requirements c) * 200"
    using length_concat_bound [of "sort_key requirement_id (requirements c)" requirement_bytes 200] assms
    by (simp add: fields_typed_def list_all_iff length_requirement_bytes)
  moreover have "length (concat (map endpoint_bytes (sort_key endpoint_id (endpoints c)))) \<le> length (endpoints c) * 132"
    using length_concat_bound [of "sort_key endpoint_id (endpoints c)" endpoint_bytes 132] assms
    by (simp add: fields_typed_def list_all_iff length_endpoint_bytes)
  ultimately show ?thesis
    using assms length_id_bytes [of "profile_id (authorized_profile c)"] length_id_bytes [of "grant_id (authorization c)"]
    by (simp add: fields_bytes_def fields_typed_def workload_limits ceiling_bytes_def)
qed

definition header_bytes :: "u8 list \<Rightarrow> u8 list" where
  "header_bytes domain = domain @ 0 # to_be_bytes 2 (1 :: u16)"

lemma encode_bytes:
  assumes "writes f bs" and "length (header_bytes domain @ bs) \<le> limit"
  shows "and_then (encoder_new domain limit) (\<lambda>e. and_then (f e) (\<lambda>e. Inr (enc_bytes e))) = Inr (header_bytes domain @ bs)"
proof -
  have "writes (encode_all [enc_raw domain, enc_byte 0, enc_u16 1]) (header_bytes domain)"
    by (simp add: header_bytes_def writes_sequence del: encode_all.simps)
  then have "encoder_new domain limit = Inr \<lparr>enc_bytes = header_bytes domain, enc_limit = limit\<rparr>"
    using assms(2) by (simp add: encoder_new_def writes_def enc_raw_def del: encode_all.simps)
  with assms show ?thesis by (simp add: writes_def enc_raw_def and_then_def)
qed

lemma dec_header_append [simp]: "dec_header (domain @ [0]) (header_bytes domain @ rest) = Inr ((), rest)"
proof -
  have "header_bytes domain @ rest = (domain @ [0]) @ to_be_bytes 2 (1 :: u16) @ rest"
    by (simp add: header_bytes_def)
  moreover have "dec_fixed (length (domain @ [0])) ((domain @ [0]) @ to_be_bytes 2 (1 :: u16) @ rest)
      = Inr (domain @ [0], to_be_bytes 2 (1 :: u16) @ rest)"
    by (rule dec_fixed_append) simp
  ultimately show ?thesis by (simp only: dec_header_def dec_bind_reads) (simp add: dec_bind_reads)
qed

lemma encode_contract_bytes:
  assumes "fields_typed c" and "contract_valid c"
  shows "encode_contract c = Inr (header_bytes contract_domain_v1 @ fields_bytes c)"
proof -
  have "length (header_bytes contract_domain_v1 @ fields_bytes c) \<le> CONTRACT_BYTES"
    using length_fields_bytes [OF assms(1)]
    by (simp add: header_bytes_def contract_domain_v1_def ascii_bytes_def workload_limits)
  from encode_bytes [OF writes_fields [OF assms(1)] this] assms(2) show ?thesis
    by (simp add: encode_contract_def validate_v1_iff [THEN iffD2])
qed

lemma decode_encode_contract:
  assumes "contract_typed c" and "contract_valid c"
  shows "decode_contract (header_bytes contract_domain_v1 @ fields_bytes c) = Inr (canonical c)"
proof -
  have t: "fields_typed c" using assms(1) by (simp add: contract_typed_def)
  have v: "validate_v1 (canonical c) = Inr ()" using assms(2) by (simp add: validate_v1_iff)
  have e: "encode_contract (canonical c) = Inr (header_bytes contract_domain_v1 @ fields_bytes c)"
    using encode_contract_bytes [of "canonical c"] t assms(2) by simp
  have "length (header_bytes contract_domain_v1 @ fields_bytes c) \<le> CONTRACT_BYTES"
    using length_fields_bytes [OF t]
    by (simp add: header_bytes_def contract_domain_v1_def ascii_bytes_def workload_limits)
  moreover have "dec_contract_fields (fields_bytes c) = Inr (canonical c, [])"
    using dec_fields_append [OF t, of "[]"] assms(1) by (simp add: contract_typed_def workload_contract_v1.defs)
  ultimately show ?thesis
    by (simp add: decode_contract_def dec_bind_reads dec_end_def v e and_then_def)
qed

lemma decode_contract_Inr:
  assumes "decode_contract bs = Inr c"
  shows "contract_typed c \<and> contract_valid c \<and> encode_contract c = Inr bs"
  using assms
  by (auto simp: decode_contract_def and_then_Inr_iff dec_bind_Inr_iff validate_v1_iff dest!: dec_fields_Inr
      split: if_splits)

subsection \<open>Version two\<close>

fun identity_bytes :: "execution_identity_request_v2 \<Rightarrow> u8 list" where
  "identity_bytes PreserveCaller = [1]"
| "identity_bytes (AdministratorProfile reference) =
     2 # id_bytes (identity_id reference) @ identity_digest reference"

fun identity_typed :: "execution_identity_request_v2 \<Rightarrow> bool" where
  "identity_typed PreserveCaller \<longleftrightarrow> True"
| "identity_typed (AdministratorProfile reference) \<longleftrightarrow>
     logical_id_ok (identity_id reference) \<and> length (identity_digest reference) = 32"

interpretation identity_codec: codec enc_identity identity_bytes dec_identity identity_typed "\<lambda>x. x"
proof
  show "writes (enc_identity x) (identity_bytes x)" if "identity_typed x" for x
    using that writes_Cons [OF id_codec.written writes_single [OF writes_fixed(4)]]
    by (cases x) (simp_all add: writes_sequence del: encode_all.simps)
  show "dec_identity (identity_bytes x @ rest) = Inr (x, rest)" if "identity_typed x" for x rest
    using that by (cases x) (simp_all add: dec_identity_def dec_bind_reads id_codec.reads)
  show "identity_typed x" if "dec_identity bs = Inr (x, rest)" for bs x rest
    using that
    by (auto simp: dec_identity_def dec_bind_Inr_iff dec_digest_def dest!: id_codec.sound dec_fixed_Inr split: if_splits)
qed

definition contract_v2_typed :: "workload_contract_v2 \<Rightarrow> bool" where
  "contract_v2_typed c \<longleftrightarrow> schema_version c = 2 \<and> fields_typed c \<and> identity_typed (execution_identity c)"

definition contract_v2_valid :: "workload_contract_v2 \<Rightarrow> bool" where
  "contract_v2_valid c \<longleftrightarrow>
     contract_valid c
     \<and> (profile_id (authorized_profile c) = ascii_bytes ''linux-tcp4-private-v1'' \<longrightarrow>
         direct_socket_authority (ceiling c) = AttemptPrivateIpv4StackAllPorts
         \<and> credential_gains (ceiling c) = NoGain)"

lemma validate_v2_iff: "validate_v2 c = Inr () \<longleftrightarrow> contract_v2_valid c"
proof -
  have "contract_valid ((workload_contract_v1.truncate c)\<lparr>schema_version := 1\<rparr>) = contract_valid c"
    by (simp add: contract_valid_def workload_contract_v1.defs)
  then show ?thesis
    by (auto simp: validate_v2_def contract_v2_valid_def and_then_Inr_iff validate_v1_iff split: if_splits)
qed

lemma contract_v2_canonical [simp]:
  "contract_v2_valid (canonical c) = contract_v2_valid c"
  "execution_identity (canonical c) = execution_identity c"
  by (simp_all add: contract_v2_valid_def canonical_def [of c]) (simp add: contract_valid_canonical [unfolded canonical_def])

definition contract_v2_bytes :: "workload_contract_v2 \<Rightarrow> u8 list" where
  "contract_v2_bytes c = header_bytes contract_domain_v2 @ fields_bytes c @ identity_bytes (execution_identity c)"

lemma length_contract_v2_bytes:
  assumes "contract_v2_typed c"
  shows "length (contract_v2_bytes c) \<le> CONTRACT_BYTES"
proof -
  have "length (identity_bytes (execution_identity c)) \<le> 99"
    using assms length_id_bytes by (cases "execution_identity c") (auto simp: contract_v2_typed_def)
  then show ?thesis
    using length_fields_bytes [of c] assms
    by (simp add: contract_v2_typed_def contract_v2_bytes_def header_bytes_def contract_domain_v2_def ascii_bytes_def
        workload_limits)
qed

lemma encode_contract_v2_bytes:
  assumes "contract_v2_typed c" and "contract_v2_valid c"
  shows "encode_contract_v2 c = Inr (contract_v2_bytes c)"
proof -
  have "writes (encode_all [enc_contract_fields c, enc_identity (execution_identity c)])
      (fields_bytes c @ identity_bytes (execution_identity c))"
    using assms(1) by (intro writes_Cons writes_single writes_fields identity_codec.written)
      (simp_all add: contract_v2_typed_def)
  from encode_bytes [OF this, of contract_domain_v2 CONTRACT_BYTES] length_contract_v2_bytes [OF assms(1)] assms(2)
  show ?thesis
    by (simp add: encode_contract_v2_def contract_v2_bytes_def validate_v2_iff [THEN iffD2] del: encode_all.simps)
qed

lemma decode_encode_contract_v2:
  assumes "contract_v2_typed c" and "contract_v2_valid c"
  shows "decode_contract_v2 (contract_v2_bytes c) = Inr (canonical c)"
proof -
  have t: "fields_typed c" and s: "schema_version c = 2" and i: "identity_typed (execution_identity c)"
    using assms(1) by (simp_all add: contract_v2_typed_def)
  have v: "validate_v2 (canonical c) = Inr ()" using assms(2) by (simp add: validate_v2_iff)
  have e: "encode_contract_v2 (canonical c) = Inr (contract_v2_bytes c)"
    using encode_contract_v2_bytes [of "canonical c"] t s i assms(2)
    by (simp add: contract_v2_typed_def contract_v2_bytes_def)
  have w: "with_identity ((canonical (workload_contract_v1.truncate c))\<lparr>schema_version := 1\<rparr>) (execution_identity c) = canonical c"
    using s by (cases c) (simp add: with_identity_def canonical_def workload_contract_v1.defs workload_contract_v2.defs)
  have "dec_identity (identity_bytes (execution_identity c)) = Inr (execution_identity c, [])"
    using identity_codec.reads [OF i, of "[]"] by simp
  then have "dec_bind (dec_header (contract_domain_v2 @ [0])) (\<lambda>_. dec_bind dec_contract_fields (\<lambda>c.
         dec_bind dec_identity (\<lambda>identity. dec_bind dec_end (\<lambda>_. dec_return (with_identity c identity)))))
      (contract_v2_bytes c) = Inr (canonical c, [])"
    by (simp add: contract_v2_bytes_def dec_bind_reads dec_fields_append [OF t] dec_end_def w)
  with length_contract_v2_bytes [OF assms(1)] v e show ?thesis
    by (simp add: decode_contract_v2_def and_then_def)
qed

lemma decode_contract_v2_Inr:
  assumes "decode_contract_v2 bs = Inr c"
  shows "contract_v2_typed c \<and> contract_v2_valid c \<and> encode_contract_v2 c = Inr bs"
proof -
  have typed: "contract_v2_typed (with_identity c' identity)"
    if "contract_typed c'" "identity_typed identity" for c' identity
    using that by (simp add: contract_v2_typed_def contract_typed_def fields_typed_def with_identity_def
        workload_contract_v1.defs workload_contract_v2.defs)
  show ?thesis
    using assms
    by (auto simp: decode_contract_v2_def and_then_Inr_iff dec_bind_Inr_iff validate_v2_iff
        dest!: dec_fields_Inr identity_codec.sound intro: typed split: if_splits)
qed

subsection \<open>Properties\<close>

definition example_contract :: workload_contract_v1 where
  "example_contract =
     \<lparr>schema_version = 1, workload_plan_digest = replicate 32 7,
      authorized_profile = \<lparr>profile_id = ascii_bytes ''p1'', semantic_digest = replicate 32 1\<rparr>,
      authorization = \<lparr>grant_id = ascii_bytes ''g1'', grant_revision = 3, approved_plan_digest = replicate 32 7\<rparr>,
      ceiling = \<lparr>direct_socket_authority = AttemptPrivateIpv4StackAllPorts,
        unix_authority = NoNamedEndpointsSocketPairsOnly, external_socket_custody = NoSocketAtTargetEntry,
        credential_gains = NoGain, mediated_communication = RequireNoExternalCommunication\<rparr>,
      requirements =
        [Tcp (ascii_bytes ''web'') FamilyV4 [Listen, Bind, Accept] AttemptPrivateStack (Exact 80)
           (ExactAddress (EndpointV4 [127, 0, 0, 1] 81)),
         Tcp (ascii_bytes ''app'') FamilyV4 [Connect] AttemptPrivateStack KernelAssigned
           (SameAttemptEndpoint (ascii_bytes ''e1''))],
      endpoints = [\<lparr>endpoint_id = ascii_bytes ''e1'', endpoint_requirement = ascii_bytes ''web''\<rparr>],
      expected_epoch = \<lparr>service_instance = replicate 16 0, epoch_revision = 9\<rparr>\<rparr>"

lemma example_contract_typed: "contract_typed example_contract"
  by (simp add: contract_typed_def fields_typed_def example_contract_def logical_id_ok_def ascii_bytes_def
      is_identifier_byte_def workload_limits endpoint_typed_def operations_typed_def tcp_operations_new_iff)

lemma example_contract_valid: "contract_valid example_contract"
proof -
  have "validate_v1 example_contract = Inr ()" by code_simp
  then show ?thesis by (simp add: validate_v1_iff)
qed

text \<open>C20: the decoder accepts exactly the canonical encodings: it returns a contract if and only if
  the contract is well-typed, valid and in canonical order, and the bytes are its encoding.\<close>

theorem contract_decode_exact:
  "decode_contract bs = Inr c \<longleftrightarrow>
    contract_typed c \<and> contract_valid c \<and> canonical c = c \<and> encode_contract c = Inr bs"
proof
  assume d: "decode_contract bs = Inr c"
  note c = decode_contract_Inr [OF d]
  moreover have "encode_contract c = Inr (header_bytes contract_domain_v1 @ fields_bytes c)"
    by (rule encode_contract_bytes) (use c in \<open>simp_all add: contract_typed_def\<close>)
  ultimately have "decode_contract bs = Inr (canonical c)"
    using decode_encode_contract [of c] by simp
  with d c show "contract_typed c \<and> contract_valid c \<and> canonical c = c \<and> encode_contract c = Inr bs" by simp
next
  assume "contract_typed c \<and> contract_valid c \<and> canonical c = c \<and> encode_contract c = Inr bs"
  then show "decode_contract bs = Inr c"
    using decode_encode_contract [of c] encode_contract_bytes [of c] by (simp add: contract_typed_def)
qed

text \<open>C21: encoding loses nothing but the order of the sets: every well-typed valid contract has an
  encoding within the byte limit, and it decodes to the contract's canonical form.\<close>

theorem contract_encode_decode:
  assumes "contract_typed c" and "contract_valid c"
  shows "\<exists>bs. encode_contract c = Inr bs \<and> length bs \<le> CONTRACT_BYTES \<and> decode_contract bs = Inr (canonical c)"
proof (intro exI conjI)
  have t: "fields_typed c" using assms(1) by (simp add: contract_typed_def)
  show "encode_contract c = Inr (header_bytes contract_domain_v1 @ fields_bytes c)"
    using t assms(2) by (rule encode_contract_bytes)
  show "length (header_bytes contract_domain_v1 @ fields_bytes c) \<le> CONTRACT_BYTES"
    using length_fields_bytes [OF t]
    by (simp add: header_bytes_def contract_domain_v1_def ascii_bytes_def workload_limits)
  show "decode_contract (header_bytes contract_domain_v1 @ fields_bytes c) = Inr (canonical c)"
    using assms by (rule decode_encode_contract)
qed

theorem contract_encode_decode_witness:
  "\<exists>bs. encode_contract example_contract = Inr bs \<and> length bs \<le> CONTRACT_BYTES
    \<and> decode_contract bs = Inr (canonical example_contract)"
  by (rule contract_encode_decode [OF example_contract_typed example_contract_valid])

text \<open>C24: the decoder of version two is exact as well, execution identity included: no identity is
  dropped or added, and a private TCP profile never decodes without its ceilings.\<close>

theorem contract_v2_decode_exact:
  "decode_contract_v2 bs = Inr c \<longleftrightarrow>
    contract_v2_typed c \<and> contract_v2_valid c \<and> canonical c = c \<and> encode_contract_v2 c = Inr bs"
proof
  assume d: "decode_contract_v2 bs = Inr c"
  note c = decode_contract_v2_Inr [OF d]
  then have "decode_contract_v2 bs = Inr (canonical c)"
    using decode_encode_contract_v2 [of c] encode_contract_v2_bytes [of c] by simp
  with d c show "contract_v2_typed c \<and> contract_v2_valid c \<and> canonical c = c \<and> encode_contract_v2 c = Inr bs"
    by simp
next
  assume "contract_v2_typed c \<and> contract_v2_valid c \<and> canonical c = c \<and> encode_contract_v2 c = Inr bs"
  then show "decode_contract_v2 bs = Inr c"
    using decode_encode_contract_v2 [of c] encode_contract_v2_bytes [of c] by simp
qed

end
