(* ===== verification/WorkloadRegistry.thy ===== *)
theory WorkloadRegistry
  imports WorkloadRoundtrip
begin

text \<open>
  The policy registry and the admission of workload contracts (\<open>workload_registry.rs\<close>): baseline
  profiles, grants, the validation and the canonical digest of a registry, and the resolution of a
  request against it. SHA-256 is the parameter \<open>sha256\<close>.
\<close>

subsection \<open>Baseline profiles\<close>

definition REGISTRY_BYTES :: nat where "REGISTRY_BYTES = 1024 * 1024"

definition PROFILES :: nat where "PROFILES = 16"

definition GRANTS :: nat where "GRANTS = 128"

definition PLANS_PER_GRANT :: nat where "PLANS_PER_GRANT = 16"

definition CALLERS_PER_GRANT :: nat where "CALLERS_PER_GRANT = 4"

definition CONFLICTS :: nat where "CONFLICTS = 16"

lemmas registry_limits = REGISTRY_BYTES_def PROFILES_def GRANTS_def PLANS_PER_GRANT_def
  CALLERS_PER_GRANT_def CONFLICTS_def

definition ceiling_contains :: "network_ceiling_v1 \<Rightarrow> network_ceiling_v1 \<Rightarrow> bool" where
  "ceiling_contains c authority \<longleftrightarrow>
     (direct_socket_authority c = direct_socket_authority authority
      \<or> direct_socket_authority c = ExternalHostPolicyAccepted
        \<and> direct_socket_authority authority = PinnedLegacySocketFilterAccepted)
     \<and> unix_authority c = unix_authority authority
     \<and> external_socket_custody c = external_socket_custody authority
     \<and> credential_gains c = credential_gains authority
     \<and> mediated_communication c = mediated_communication authority"

datatype baseline_profile = LinuxUnixCreate | WindowsHostNetworkExternal

fun baseline_name :: "baseline_profile \<Rightarrow> string" where
  "baseline_name LinuxUnixCreate = ''linux-unix-create-v1''"
| "baseline_name WindowsHostNetworkExternal = ''windows-host-network-external-v1''"

text \<open>\<open>expect\<close> on a fixed value: a panic is \<open>None\<close>.\<close>

definition expect :: "'e + 'a \<Rightarrow> 'a option" where
  "expect r = (case r of Inl _ \<Rightarrow> None | Inr x \<Rightarrow> Some x)"

definition baseline_id :: "baseline_profile \<Rightarrow> logical_id option" where
  "baseline_id p = expect (logical_id_new (ascii_bytes (baseline_name p)))"

definition baseline_ceiling :: "baseline_profile \<Rightarrow> network_ceiling_v1" where
  "baseline_ceiling p =
     \<lparr>direct_socket_authority =
        (case p of LinuxUnixCreate \<Rightarrow> PinnedLegacySocketFilterAccepted
         | WindowsHostNetworkExternal \<Rightarrow> ExternalHostPolicyAccepted),
      unix_authority = ExistingHostUnixAuthorityAccepted,
      external_socket_custody = ExistingStdioAuthorityAccepted,
      credential_gains = ExistingCallerEnvelopeAccepted,
      mediated_communication = ExternalFilesystemAndStdioPolicyAccepted\<rparr>"

fun baseline_tag :: "baseline_profile \<Rightarrow> u8" where
  "baseline_tag LinuxUnixCreate = 1"
| "baseline_tag WindowsHostNetworkExternal = 2"

definition semantic_bytes :: "baseline_profile \<Rightarrow> u8 list option" where
  "semantic_bytes p =
     Option.bind (expect (encoder_new (ascii_bytes ''profile-definition-v1'') CONTRACT_BYTES)) (\<lambda>e.
     Option.bind (baseline_id p) (\<lambda>i.
     Option.bind (expect (encode_all [enc_id i, encode_ceiling (baseline_ceiling p), enc_byte (baseline_tag p),
       enc_byte 1] e)) (\<lambda>e. Some (enc_bytes e))))"

definition baseline_reference :: "(u8 list \<Rightarrow> u8 list) \<Rightarrow> baseline_profile \<Rightarrow> profile_ref option" where
  "baseline_reference sha256 p =
     Option.bind (baseline_id p) (\<lambda>i.
     Option.bind (semantic_bytes p) (\<lambda>bs. Some \<lparr>profile_id = i, semantic_digest = sha256 bs\<rparr>))"

subsection \<open>The registry\<close>

datatype caller_selector = LinuxCaller u32 | WindowsCaller string

datatype grant_change_disposition = DrainExisting | RevokeActive

record runtime_profile_definition =
  def_profile :: baseline_profile
  def_reference :: profile_ref
  def_enabled :: bool

record policy_grant_v1 =
  pg_id :: logical_id
  pg_revision :: u64
  pg_profile :: profile_ref
  pg_ceiling :: network_ceiling_v1
  pg_enabled :: bool
  pg_callers :: "caller_selector list"
  pg_approved_plans :: "sha256_digest list"

record runtime_policy_registry =
  reg_format :: string
  reg_revision :: u32
  reg_profiles :: "runtime_profile_definition list"
  reg_grants :: "policy_grant_v1 list"
  reg_disposition :: grant_change_disposition

definition canonical_decimal :: "string \<Rightarrow> bool" where
  "canonical_decimal value \<longleftrightarrow>
     value \<noteq> [] \<and> (value = ''0'' \<or> hd value \<noteq> CHR ''0'') \<and> list_all is_ascii_digit value"

fun sid_fields :: "nat \<Rightarrow> string list \<Rightarrow> bool" where
  "sid_fields count [] \<longleftrightarrow> 0 < count"
| "sid_fields count (field # rest) \<longleftrightarrow>
     \<not> (15 < count + 1 \<or> \<not> canonical_decimal field \<or> (parse_uint field :: u32 option) = None)
     \<and> sid_fields (count + 1) rest"

definition valid_windows_sid :: "string \<Rightarrow> bool" where
  "valid_windows_sid text =
     (case split_on (CHR ''-'') text of
        s # one # authority # rest \<Rightarrow>
          s = ''S'' \<and> one = ''1'' \<and> canonical_decimal authority
          \<and> is_some_and (\<lambda>value. value < (2 ^ 48 :: u64)) (parse_uint authority)
          \<and> sid_fields 0 rest
      | _ \<Rightarrow> False)"

datatype registry_error =
  FormatDiffers | ProfileDefinitionDiffers | InvalidGrant | NoncanonicalSid | DuplicateCaller | DuplicatePlan
  | SidTooLong | EncodingFailed contract_error

fun validate_profiles ::
  "(u8 list \<Rightarrow> u8 list) \<Rightarrow> runtime_profile_definition list \<Rightarrow> runtime_profile_definition list
    \<Rightarrow> (registry_error + unit) option" where
  "validate_profiles sha256 prior [] = Some (Inr ())"
| "validate_profiles sha256 prior (p # ps) =
     Option.bind (baseline_reference sha256 (def_profile p)) (\<lambda>reference.
       if def_reference p \<noteq> reference
         \<or> list_ex (\<lambda>q. profile_id (def_reference q) = profile_id (def_reference p)) prior
       then Some (Inl ProfileDefinitionDiffers)
       else validate_profiles sha256 (prior @ [p]) ps)"

fun validate_callers :: "caller_selector list \<Rightarrow> caller_selector list \<Rightarrow> registry_error + unit" where
  "validate_callers prior [] = Inr ()"
| "validate_callers prior (caller # callers) =
     (if (case caller of WindowsCaller sid \<Rightarrow> \<not> valid_windows_sid sid | LinuxCaller _ \<Rightarrow> False)
      then Inl NoncanonicalSid
      else if caller \<in> set prior then Inl DuplicateCaller
      else validate_callers (prior @ [caller]) callers)"

fun validate_plans :: "sha256_digest list \<Rightarrow> sha256_digest list \<Rightarrow> registry_error + unit" where
  "validate_plans prior [] = Inr ()"
| "validate_plans prior (plan # plans) =
     (if plan \<in> set prior then Inl DuplicatePlan else validate_plans (prior @ [plan]) plans)"

definition validate_grant ::
  "runtime_profile_definition list \<Rightarrow> policy_grant_v1 list \<Rightarrow> policy_grant_v1 \<Rightarrow> registry_error + unit" where
  "validate_grant profiles prior g =
     (if list_ex (\<lambda>p. pg_id p = pg_id g) prior \<or> pg_callers g = [] \<or> pg_approved_plans g = []
        \<or> \<not> list_ex (\<lambda>p. def_reference p = pg_profile g
              \<and> ceiling_contains (pg_ceiling g) (baseline_ceiling (def_profile p))) profiles
      then Inl InvalidGrant
      else and_then (validate_callers [] (pg_callers g)) (\<lambda>_. validate_plans [] (pg_approved_plans g)))"

fun validate_grants ::
  "runtime_profile_definition list \<Rightarrow> policy_grant_v1 list \<Rightarrow> policy_grant_v1 list \<Rightarrow> registry_error + unit" where
  "validate_grants profiles prior [] = Inr ()"
| "validate_grants profiles prior (g # gs) =
     and_then (validate_grant profiles prior g) (\<lambda>_. validate_grants profiles (prior @ [g]) gs)"

definition registry_validate ::
  "(u8 list \<Rightarrow> u8 list) \<Rightarrow> runtime_policy_registry \<Rightarrow> (registry_error + unit) option" where
  "registry_validate sha256 r =
     (if reg_format r \<noteq> ''memcordon.local-policy'' \<or> reg_revision r \<noteq> 1 then Some (Inl FormatDiffers)
      else Option.bind (validate_profiles sha256 [] (reg_profiles r)) (\<lambda>result.
        Some (and_then result (\<lambda>_. validate_grants (reg_profiles r) [] (reg_grants r)))))"

subsection \<open>The canonical digest\<close>

fun caller_bytes :: "caller_selector \<Rightarrow> registry_error + u8 list" where
  "caller_bytes (LinuxCaller uid) = Inr (1 # to_be_bytes 4 uid)"
| "caller_bytes (WindowsCaller sid) =
     and_then (ok_or SidTooLong (unat_try_from (length sid) :: u16 option)) (\<lambda>n.
       Inr (2 # to_be_bytes 2 n @ ascii_bytes sid))"

fun callers_bytes :: "caller_selector list \<Rightarrow> registry_error + u8 list list" where
  "callers_bytes [] = Inr []"
| "callers_bytes (c # cs) =
     and_then (caller_bytes c) (\<lambda>b. and_then (callers_bytes cs) (\<lambda>bs. Inr (b # bs)))"

definition enc_bool :: "bool \<Rightarrow> encoder_step" where
  "enc_bool b = enc_byte (if b then 1 else 0)"

definition enc_profile :: "runtime_profile_definition \<Rightarrow> encoder_step" where
  "enc_profile p = encode_all
     [enc_id (profile_id (def_reference p)), enc_digest (semantic_digest (def_reference p)), enc_bool (def_enabled p)]"

definition lift_encoding :: "contract_error + 'a \<Rightarrow> registry_error + 'a" where
  "lift_encoding r = (case r of Inl e \<Rightarrow> Inl (EncodingFailed e) | Inr x \<Rightarrow> Inr x)"

definition enc_grant_head :: "'a policy_grant_v1_scheme \<Rightarrow> encoder_step" where
  "enc_grant_head g = encode_all
     [enc_id (pg_id g), enc_u64 (pg_revision g), enc_id (profile_id (pg_profile g)),
      enc_digest (semantic_digest (pg_profile g)), encode_ceiling (pg_ceiling g), enc_bool (pg_enabled g)]"

definition enc_grant_tail :: "policy_grant_v1 \<Rightarrow> u8 list list \<Rightarrow> encoder_step" where
  "enc_grant_tail g callers =
     (let callers = sort callers; plans = sort (pg_approved_plans g)
      in encode_all ([enc_count (length callers)] @ map enc_raw callers
           @ [enc_count (length plans)] @ map enc_digest plans))"

definition enc_grant :: "policy_grant_v1 \<Rightarrow> encoder \<Rightarrow> registry_error + encoder" where
  "enc_grant g e =
     and_then (lift_encoding (enc_grant_head g e)) (\<lambda>e.
     and_then (callers_bytes (pg_callers g)) (\<lambda>callers. lift_encoding (enc_grant_tail g callers e)))"

fun enc_grants :: "policy_grant_v1 list \<Rightarrow> encoder \<Rightarrow> registry_error + encoder" where
  "enc_grants [] e = Inr e"
| "enc_grants (g # gs) e = and_then (enc_grant g e) (enc_grants gs)"

fun disposition_tag :: "grant_change_disposition \<Rightarrow> u8" where
  "disposition_tag DrainExisting = 1"
| "disposition_tag RevokeActive = 2"

definition registry_encode :: "runtime_policy_registry \<Rightarrow> registry_error + u8 list" where
  "registry_encode r =
     (let profiles = sort_key (\<lambda>p. profile_id (def_reference p)) (reg_profiles r);
          grants = sort_key pg_id (reg_grants r)
      in and_then (lift_encoding (encoder_new (ascii_bytes ''memcordon.local-policy/revision1'') REGISTRY_BYTES)) (\<lambda>e.
         and_then (lift_encoding (encode_all ([enc_count (length profiles)] @ map enc_profile profiles
           @ [enc_count (length grants)]) e)) (\<lambda>e.
         and_then (enc_grants grants e) (\<lambda>e.
         and_then (lift_encoding (enc_byte (disposition_tag (reg_disposition r)) e)) (\<lambda>e.
           Inr (enc_bytes e))))))"

definition canonical_digest ::
  "(u8 list \<Rightarrow> u8 list) \<Rightarrow> runtime_policy_registry \<Rightarrow> (registry_error + sha256_digest) option" where
  "canonical_digest sha256 r =
     Option.bind (registry_validate sha256 r) (\<lambda>result.
       Some (and_then result (\<lambda>_. and_then (registry_encode r) (\<lambda>bs. Inr (sha256 bs)))))"

subsection \<open>Admission\<close>

datatype admission_code =
  ProfileNotAuthorized | ProfileDigestMismatch | PolicyEpochStale | PolicyIncompatible | FeatureNotEnforceable
  | CallerEnvelopeIncompatible | DescriptorAuthorityIncompatible | HostPrerequisiteUnavailable
  | EnforcementInstallFailed | EnforcementReadbackFailed | PolicyDrift

text \<open>The two versions of the conflict and rejection records differ only in their codes.\<close>

record 'code admission_conflict =
  conflict_requirement :: "logical_id option"
  conflict_code :: 'code

record 'code admission_rejection =
  rejection_code :: 'code
  rejection_conflicts :: "'code admission_conflict list"
  rejection_remaining :: u32

definition single_rejection :: "'code \<Rightarrow> 'code admission_rejection" where
  "single_rejection code = \<lparr>rejection_code = code, rejection_conflicts = [], rejection_remaining = 0\<rparr>"

definition grant_matches :: "workload_contract_v1 \<Rightarrow> caller_selector \<Rightarrow> policy_grant_v1 \<Rightarrow> bool" where
  "grant_matches request caller g \<longleftrightarrow>
     pg_id g = grant_id (authorization request)
     \<and> pg_revision g = grant_revision (authorization request)
     \<and> pg_enabled g
     \<and> caller \<in> set (pg_callers g)
     \<and> workload_plan_digest request \<in> set (pg_approved_plans g)
     \<and> approved_plan_digest (authorization request) = workload_plan_digest request"

fun requirement_conflict :: "baseline_profile \<Rightarrow> requirement_v1 \<Rightarrow> admission_code option" where
  "requirement_conflict native (UnixSocketCreation _ _) =
     (if native = LinuxUnixCreate then None else Some FeatureNotEnforceable)"
| "requirement_conflict native (UnixSocketPair _ _) =
     (if native = LinuxUnixCreate then None else Some FeatureNotEnforceable)"
| "requirement_conflict native (Tcp _ _ _ scope _ _) =
     (if scope = HostSharedLoopback \<and> native = WindowsHostNetworkExternal then None else Some PolicyIncompatible)"
| "requirement_conflict native (DenialExercise _ operation) =
     (if operation = InetSocketCreation \<and> native = LinuxUnixCreate then None else Some FeatureNotEnforceable)"
| "requirement_conflict native (SuppliedTcpListener _ _ _) = Some FeatureNotEnforceable"

fun collect_conflicts ::
  "(requirement_v1 \<Rightarrow> 'code option) \<Rightarrow> 'code admission_conflict list \<Rightarrow> u32 \<Rightarrow> requirement_v1 list
    \<Rightarrow> 'code admission_conflict list \<times> u32" where
  "collect_conflicts classify conflicts remainder [] = (conflicts, remainder)"
| "collect_conflicts classify conflicts remainder (r # rs) =
     (case classify r of
        None \<Rightarrow> collect_conflicts classify conflicts remainder rs
      | Some code \<Rightarrow>
          (case try_push CONFLICTS conflicts
                  \<lparr>conflict_requirement = Some (requirement_id r), conflict_code = code\<rparr> of
             None \<Rightarrow> collect_conflicts classify conflicts (remainder + 1) rs
           | Some conflicts' \<Rightarrow> collect_conflicts classify conflicts' remainder rs))"

definition resolve ::
  "runtime_policy_registry \<Rightarrow> policy_epoch \<Rightarrow> workload_contract_v1 \<Rightarrow> caller_selector \<Rightarrow> baseline_profile
    \<Rightarrow> admission_code admission_rejection + policy_grant_v1" where
  "resolve registry current_epoch request caller native =
     (case find (grant_matches request caller) (reg_grants registry) of
        None \<Rightarrow> Inl (single_rejection ProfileNotAuthorized)
      | Some grant \<Rightarrow>
          if current_epoch \<noteq> expected_epoch request then Inl (single_rejection PolicyEpochStale)
          else if pg_profile grant \<noteq> authorized_profile request then Inl (single_rejection ProfileDigestMismatch)
          else case find (\<lambda>p. def_reference p = pg_profile grant \<and> def_enabled p) (reg_profiles registry) of
            None \<Rightarrow> Inl (single_rejection ProfileNotAuthorized)
          | Some profile \<Rightarrow>
              if def_profile profile \<noteq> native then Inl (single_rejection HostPrerequisiteUnavailable)
              else if \<not> ceiling_contains (pg_ceiling grant) (ceiling request)
                \<or> \<not> ceiling_contains (ceiling request) (baseline_ceiling (def_profile profile))
              then Inl (single_rejection PolicyIncompatible)
              else case collect_conflicts (requirement_conflict native) [] 0 (sort_key requirement_id (requirements request)) of
                ([], _) \<Rightarrow> Inr grant
              | (first # others, remainder) \<Rightarrow>
                  Inl \<lparr>rejection_code = conflict_code first, rejection_conflicts = first # others,
                       rejection_remaining = remainder\<rparr>)"

subsection \<open>Snapshots\<close>

record runtime_admission_snapshot =
  snap_format :: string
  snap_revision :: u32
  snap_request :: workload_contract_v1
  snap_request_digest :: sha256_digest
  snap_registry_digest :: sha256_digest
  snap_admission_nonce :: "u8 list"
  snap_caller_invocation_reference :: "u8 list"
  snap_private_invocation_digest :: sha256_digest
  snap_caller :: caller_selector
  snap_native_profile :: baseline_profile

datatype snapshot_error = SnapshotContract contract_error | SnapshotBindingDiffers

definition snapshot_validate ::
  "(u8 list \<Rightarrow> u8 list) \<Rightarrow> runtime_admission_snapshot \<Rightarrow> (snapshot_error + unit) option" where
  "snapshot_validate sha256 s =
     (case validate_v1 (snap_request s) of
        Inl e \<Rightarrow> Some (Inl (SnapshotContract e))
      | Inr _ \<Rightarrow>
          if snap_format s \<noteq> ''memcordon.local-admission'' \<or> snap_revision s \<noteq> 1
          then Some (Inl SnapshotBindingDiffers)
          else case contract_digest sha256 (snap_request s) of
            Inl e \<Rightarrow> Some (Inl (SnapshotContract e))
          | Inr d \<Rightarrow>
              if d \<noteq> snap_request_digest s then Some (Inl SnapshotBindingDiffers)
              else Option.bind (baseline_reference sha256 (snap_native_profile s)) (\<lambda>reference.
                Some (if authorized_profile (snap_request s) \<noteq> reference then Inl SnapshotBindingDiffers
                      else Inr ())))"

end
