(* ===== verification/WorkloadAdmission.thy ===== *)
theory WorkloadAdmission
  imports WorkloadRegistry
begin

text \<open>
  What the registry and the resolution of \<open>workload_registry.rs\<close> promise: the fixed profiles never
  panic, a registry is accepted exactly when it is well formed, a request is admitted exactly when
  its grant, epoch, profile, ceilings and requirements all agree, a rejection reports the conflicts
  in the order of the requirement ids, and the canonical bytes of a registry identify it up to the
  order of its lists.
\<close>

subsection \<open>Baseline profiles\<close>

definition profile_reference :: "(u8 list \<Rightarrow> u8 list) \<Rightarrow> baseline_profile \<Rightarrow> profile_ref" where
  "profile_reference sha256 p =
     \<lparr>profile_id = ascii_bytes (baseline_name p),
      semantic_digest = sha256 (header_bytes (ascii_bytes ''profile-definition-v1'')
        @ id_bytes (ascii_bytes (baseline_name p)) @ ceiling_bytes (baseline_ceiling p) @ [baseline_tag p, 1])\<rparr>"

lemma baseline_name_ok: "logical_id_ok (ascii_bytes (baseline_name p))"
  by (cases p) (simp_all add: logical_id_ok_def ascii_bytes_def is_identifier_byte_def IDENTIFIER_BYTES_def)

lemma baseline_id_eq: "baseline_id p = Some (ascii_bytes (baseline_name p))"
  using baseline_name_ok [of p] by (simp add: baseline_id_def logical_id_new_def expect_def)

lemma semantic_bytes_eq:
  "semantic_bytes p = Some (header_bytes (ascii_bytes ''profile-definition-v1'')
     @ id_bytes (ascii_bytes (baseline_name p)) @ ceiling_bytes (baseline_ceiling p) @ [baseline_tag p, 1])"
proof -
  let ?bs = "id_bytes (ascii_bytes (baseline_name p)) @ ceiling_bytes (baseline_ceiling p) @ [baseline_tag p, 1]"
  let ?f = "encode_all [enc_id (ascii_bytes (baseline_name p)), encode_ceiling (baseline_ceiling p),
    enc_byte (baseline_tag p), enc_byte 1]"
  have w: "writes ?f ?bs"
    by (intro writes_Cons id_codec.written ceiling_codec.written baseline_name_ok TrueI)
      (simp add: writes_sequence del: encode_all.simps)
  have "length (header_bytes (ascii_bytes ''profile-definition-v1'') @ ?bs) \<le> CONTRACT_BYTES"
    by (cases p) (simp_all add: header_bytes_def ascii_bytes_def id_bytes_def ceiling_bytes_def CONTRACT_BYTES_def)
  from encode_bytes [OF w this] show ?thesis
    by (auto simp: semantic_bytes_def baseline_id_eq expect_def and_then_def simp del: encode_all.simps
        split: sum.splits)
qed

lemma baseline_reference_eq: "baseline_reference sha256 p = Some (profile_reference sha256 p)"
  by (simp add: baseline_reference_def baseline_id_eq semantic_bytes_eq profile_reference_def)

lemma profile_reference_inj:
  "profile_id (profile_reference sha256 p) = profile_id (profile_reference sha256 q) \<longleftrightarrow> p = q"
  by (cases p; cases q) (simp_all add: profile_reference_def ascii_bytes_def)

subsection \<open>Security identifiers\<close>

definition sid_text :: "nat \<Rightarrow> nat list \<Rightarrow> string" where
  "sid_text authority subauthorities =
     ''S-1-'' @ show_nat authority @ concat (map (\<lambda>s. CHR ''-'' # show_nat s) subauthorities)"

lemma digit_char: "is_ascii_digit c \<Longrightarrow> \<exists>d < 10. c = char_of (48 + d :: nat)"
  by (rule exI [where x = "of_char c - 48"]) (auto simp: is_ascii_digit_def)

lemma digit_zero [simp]: "d < 10 \<Longrightarrow> char_of (48 + d :: nat) = CHR ''0'' \<longleftrightarrow> d = 0"
proof
  assume "d < 10" "char_of (48 + d :: nat) = CHR ''0''"
  then have "(of_char (char_of (48 + d) :: char) :: nat) = of_char (CHR ''0'')" by simp
  then show "d = 0" using \<open>d < 10\<close> by (subst (asm) of_char_digit) simp_all
qed (simp add: char_of_def bit_Suc_0_iff)

lemma show_nat_snoc: "0 < n \<Longrightarrow> d < 10 \<Longrightarrow> show_nat (10 * n + d) = show_nat n @ [char_of (48 + d)]"
  by (subst show_nat.simps) simp

lemma digits_show_nat:
  "list_all is_ascii_digit s \<Longrightarrow> s \<noteq> [] \<Longrightarrow> hd s \<noteq> CHR ''0'' \<Longrightarrow>
    0 < digits_val s \<and> show_nat (digits_val s) = s"
proof (induction s rule: rev_induct)
  case (snoc c s)
  then obtain d :: nat where d: "d < 10" "c = char_of (48 + d)" using digit_char by auto
  show ?case
  proof (cases "s = []")
    case True
    then have "d \<noteq> 0" using snoc.prems d by auto
    then show ?thesis
      using True d by (subst show_nat.simps) (simp add: digits_val_def of_char_digit)
  next
    case False
    then show ?thesis using snoc d by (simp add: digits_val_snoc of_char_digit show_nat_snoc)
  qed
qed simp

lemma hd_show_nat: "0 < n \<Longrightarrow> hd (show_nat n) \<noteq> CHR ''0''"
proof (induction n rule: show_nat.induct)
  case (1 n)
  show ?case
  proof (cases "n < 10")
    case True
    then show ?thesis using 1(2) by (subst show_nat.simps) simp
  next
    case False
    then show ?thesis using 1 by (subst show_nat.simps) simp
  qed
qed

lemma canonical_decimal_iff: "canonical_decimal s \<longleftrightarrow> s = show_nat (digits_val s)"
proof
  assume c: "canonical_decimal s"
  show "s = show_nat (digits_val s)"
  proof (cases "s = ''0''")
    case True
    then show ?thesis using digit_zero [of 0] by (subst show_nat.simps) (simp add: digits_val_def)
  next
    case False
    then show ?thesis using c digits_show_nat [of s] by (simp add: canonical_decimal_def)
  qed
next
  assume s: "s = show_nat (digits_val s)"
  have "show_nat 0 = ''0''" using digit_zero [of 0] by (subst show_nat.simps) simp
  then have "canonical_decimal (show_nat n)" for n
    using hd_show_nat [of n] by (cases n) (simp_all add: canonical_decimal_def show_nat_digits is_ascii_digit_def)
  then show "canonical_decimal s" using s by metis
qed

lemma split_on_join:
  "c \<notin> set a \<Longrightarrow> list_all (\<lambda>p. c \<notin> set p) ps \<Longrightarrow> split_on c (a @ concat (map (Cons c) ps)) = a # ps"
  by (induction ps arbitrary: a) (simp_all add: split_on_no_sep split_on_sep)

lemma join_split_on: "split_on c s = a # ps \<Longrightarrow> s = a @ concat (map (Cons c) ps)"
proof (induction s arbitrary: a ps)
  case (Cons x s)
  obtain b qs where b: "split_on c s = b # qs" by (cases "split_on c s") simp_all
  from Cons.prems have "x = c \<and> a = [] \<and> ps = b # qs \<or> a = x # b \<and> ps = qs"
    by (simp add: b split: if_splits)
  with Cons.IH [OF b] show ?case by (elim disjE) simp_all
qed simp

lemma show_nat_no_dash: "CHR ''-'' \<notin> set (show_nat n)"
proof
  assume "CHR ''-'' \<in> set (show_nat n)"
  then have "is_ascii_digit (CHR ''-'')" using show_nat_digits [of n] by (auto simp: list_all_iff)
  then show False by (simp add: is_ascii_digit_def)
qed

lemma canonical_parse:
  "canonical_decimal s \<and> P (parse_uint s :: 'a::len word option) \<longleftrightarrow>
    (\<exists>n. s = show_nat n \<and> P (unat_try_from n :: 'a word option))"
proof -
  have "parse_uint (show_nat n) = (unat_try_from n :: 'a word option)" for n
    by (simp add: parse_uint_digits show_nat_digits)
  then show ?thesis using digits_val_show_nat by (metis canonical_decimal_iff)
qed

lemma sid_fields_iff:
  "n \<le> 15 \<Longrightarrow> sid_fields n fs \<longleftrightarrow>
    0 < n + length fs \<and> n + length fs \<le> 15 \<and> (\<exists>subs. fs = map show_nat subs \<and> list_all (\<lambda>s. s < 2 ^ 32) subs)"
proof (induction fs arbitrary: n)
  case (Cons f fs)
  have "sid_fields n (f # fs) \<longleftrightarrow> n + 1 \<le> 15 \<and> (\<exists>s. f = show_nat s \<and> s < 2 ^ 32) \<and> sid_fields (n + 1) fs"
    using canonical_parse [of f "\<lambda>v :: u32 option. v \<noteq> None"]
    by (simp add: unat_try_from_None_iff not_le not_less) blast
  also have "\<dots> \<longleftrightarrow> n + length (f # fs) \<le> 15
      \<and> (\<exists>s subs. f # fs = map show_nat (s # subs) \<and> list_all (\<lambda>s. s < 2 ^ 32) (s # subs))"
    using Cons.IH [of "n + 1"] by auto
  also have "\<dots> \<longleftrightarrow> 0 < n + length (f # fs) \<and> n + length (f # fs) \<le> 15
      \<and> (\<exists>subs. f # fs = map show_nat subs \<and> list_all (\<lambda>s. s < 2 ^ 32) subs)"
    by (simp add: Cons_eq_map_conv) (metis (no_types, lifting) list.pred_inject(2))
  finally show ?case .
qed auto

lemma parse_authority: "is_some_and (\<lambda>v. v < (2 ^ 48 :: u64)) (unat_try_from n) \<longleftrightarrow> n < 2 ^ 48"
  by (auto simp: unat_try_from_def is_some_and_def word_less_nat_alt unat_of_nat)

text \<open>
  A Windows caller is accepted exactly when it is the canonical text of a security identifier of
  revision 1: an authority below \<open>2\<^sup>48\<close> and one to fifteen 32-bit subauthorities, in decimal without
  leading zeros.
\<close>

theorem windows_sid_exact:
  "valid_windows_sid text \<longleftrightarrow>
     (\<exists>authority subs. text = sid_text authority subs \<and> authority < 2 ^ 48 \<and> subs \<noteq> [] \<and> length subs \<le> 15
        \<and> list_all (\<lambda>s. s < 2 ^ 32) subs)"
proof
  assume v: "valid_windows_sid text"
  then obtain auth rest where split: "split_on (CHR ''-'') text = ''S'' # ''1'' # auth # rest"
    and auth: "canonical_decimal auth \<and> is_some_and (\<lambda>v. v < (2 ^ 48 :: u64)) (parse_uint auth)"
    and rest: "sid_fields 0 rest"
    by (auto simp: valid_windows_sid_def split: list.splits)
  from auth obtain n where n: "auth = show_nat n" "n < 2 ^ 48"
    unfolding canonical_parse parse_authority by blast
  have "0 < length rest" and "length rest \<le> 15"
    and "\<exists>subs. rest = map show_nat subs \<and> list_all (\<lambda>s. s < 2 ^ 32) subs"
    using rest sid_fields_iff [of 0 rest] by simp_all
  then obtain subs where subs: "rest = map show_nat subs" "list_all (\<lambda>s. s < 2 ^ 32) subs"
      "0 < length rest" "length rest \<le> 15"
    by blast
  have "text = sid_text n subs"
    using join_split_on [OF split] by (simp add: n subs sid_text_def comp_def)
  moreover have "subs \<noteq> []" "length subs \<le> 15" using subs by auto
  ultimately show "\<exists>authority subs. text = sid_text authority subs \<and> authority < 2 ^ 48 \<and> subs \<noteq> []
      \<and> length subs \<le> 15 \<and> list_all (\<lambda>s. s < 2 ^ 32) subs" using n(2) subs(2) by blast
next
  assume "\<exists>authority subs. text = sid_text authority subs \<and> authority < 2 ^ 48 \<and> subs \<noteq> []
      \<and> length subs \<le> 15 \<and> list_all (\<lambda>s. s < 2 ^ 32) subs"
  then obtain n subs where t: "text = sid_text n subs" "n < 2 ^ 48" "subs \<noteq> []" "length subs \<le> 15"
      "list_all (\<lambda>s. s < 2 ^ 32) subs" by blast
  have "sid_text n subs = ''S'' @ concat (map (Cons (CHR ''-'')) (''1'' # show_nat n # map show_nat subs))"
    by (simp add: sid_text_def comp_def)
  then have "split_on (CHR ''-'') text = ''S'' # ''1'' # show_nat n # map show_nat subs"
    using split_on_join [of "CHR ''-''" "''S''" "''1'' # show_nat n # map show_nat subs"]
    by (simp add: t(1) show_nat_no_dash list_all_iff del: split_on.simps)
  moreover have "canonical_decimal (show_nat n) \<and> is_some_and (\<lambda>v. v < (2 ^ 48 :: u64)) (parse_uint (show_nat n))"
    unfolding canonical_parse parse_authority using t(2) by blast
  moreover have "sid_fields 0 (map show_nat subs)" using t by (auto simp: sid_fields_iff)
  ultimately show "valid_windows_sid text" by (simp add: valid_windows_sid_def)
qed

subsection \<open>Well-formed registries\<close>

fun caller_valid :: "caller_selector \<Rightarrow> bool" where
  "caller_valid (LinuxCaller uid) \<longleftrightarrow> True"
| "caller_valid (WindowsCaller sid) \<longleftrightarrow> valid_windows_sid sid"

definition grant_valid :: "runtime_profile_definition list \<Rightarrow> policy_grant_v1 \<Rightarrow> bool" where
  "grant_valid profiles g \<longleftrightarrow>
     pg_callers g \<noteq> [] \<and> distinct (pg_callers g) \<and> list_all caller_valid (pg_callers g)
     \<and> pg_approved_plans g \<noteq> [] \<and> distinct (pg_approved_plans g)
     \<and> list_ex (\<lambda>p. def_reference p = pg_profile g
          \<and> ceiling_contains (pg_ceiling g) (baseline_ceiling (def_profile p))) profiles"

definition registry_valid :: "(u8 list \<Rightarrow> u8 list) \<Rightarrow> runtime_policy_registry \<Rightarrow> bool" where
  "registry_valid sha256 r \<longleftrightarrow>
     reg_format r = ''memcordon.local-policy'' \<and> reg_revision r = 1
     \<and> list_all (\<lambda>p. def_reference p = profile_reference sha256 (def_profile p)) (reg_profiles r)
     \<and> distinct (map def_profile (reg_profiles r))
     \<and> distinct (map pg_id (reg_grants r))
     \<and> list_all (grant_valid (reg_profiles r)) (reg_grants r)"

lemma list_ex_eq_image: "list_ex (\<lambda>x. f x = y) xs \<longleftrightarrow> y \<in> f ` set xs"
  by (induction xs) auto

lemma validate_profiles_total: "validate_profiles sha256 prior ps \<noteq> None"
  by (induction ps arbitrary: prior) (simp_all add: baseline_reference_eq)

lemma validate_profiles_iff:
  "list_all (\<lambda>p. def_reference p = profile_reference sha256 (def_profile p)) prior \<Longrightarrow>
    distinct (map def_profile prior) \<Longrightarrow>
    validate_profiles sha256 prior ps = Some (Inr ()) \<longleftrightarrow>
      list_all (\<lambda>p. def_reference p = profile_reference sha256 (def_profile p)) ps
      \<and> distinct (map def_profile (prior @ ps))"
proof (induction ps arbitrary: prior)
  case (Cons p ps)
  show ?case
  proof (cases "def_reference p = profile_reference sha256 (def_profile p)")
    case True
    have "list_ex (\<lambda>q. profile_id (def_reference q) = profile_id (def_reference p)) prior
        \<longleftrightarrow> def_profile p \<in> set (map def_profile prior)"
      using Cons.prems(1) True unfolding list_ex_eq_image [of def_profile, symmetric] set_map
      by (auto simp: list_ex_iff list_all_iff profile_reference_inj)
    then show ?thesis
      using Cons.IH [of "prior @ [p]"] Cons.prems True by (auto simp: baseline_reference_eq)
  qed (simp add: baseline_reference_eq)
qed simp

lemma validate_callers_iff:
  "distinct prior \<Longrightarrow> validate_callers prior cs = Inr () \<longleftrightarrow> list_all caller_valid cs \<and> distinct (prior @ cs)"
proof (induction cs arbitrary: prior)
  case (Cons c cs)
  then show ?case by (cases c) auto
qed simp

lemma validate_plans_iff: "distinct prior \<Longrightarrow> validate_plans prior ps = Inr () \<longleftrightarrow> distinct (prior @ ps)"
  by (induction ps arbitrary: prior) auto

lemma validate_grant_iff:
  "validate_grant profiles prior g = Inr () \<longleftrightarrow> pg_id g \<notin> set (map pg_id prior) \<and> grant_valid profiles g"
  by (auto simp: validate_grant_def grant_valid_def and_then_Inr_iff validate_callers_iff validate_plans_iff
      list_ex_eq_image)

lemma validate_grants_iff:
  "distinct (map pg_id prior) \<Longrightarrow> validate_grants profiles prior gs = Inr () \<longleftrightarrow>
    distinct (map pg_id (prior @ gs)) \<and> list_all (grant_valid profiles) gs"
proof (induction gs arbitrary: prior)
  case (Cons g gs)
  have "validate_grants profiles prior (g # gs) = Inr () \<longleftrightarrow>
      pg_id g \<notin> set (map pg_id prior) \<and> grant_valid profiles g
      \<and> validate_grants profiles (prior @ [g]) gs = Inr ()"
    using validate_grant_iff [of profiles prior g] by (auto simp: and_then_Inr_iff)
  then show ?case using Cons.IH [of "prior @ [g]"] Cons.prems by auto
qed simp

lemma registry_validate_total: "registry_validate sha256 r \<noteq> None"
  using validate_profiles_total [of sha256 "[]" "reg_profiles r"] by (auto simp: registry_validate_def)

lemma registry_validate_iff: "registry_validate sha256 r = Some (Inr ()) \<longleftrightarrow> registry_valid sha256 r"
proof -
  have "registry_validate sha256 r = Some (Inr ()) \<longleftrightarrow>
      reg_format r = ''memcordon.local-policy'' \<and> reg_revision r = 1
      \<and> validate_profiles sha256 [] (reg_profiles r) = Some (Inr ())
      \<and> validate_grants (reg_profiles r) [] (reg_grants r) = Inr ()"
    by (auto simp: registry_validate_def and_then_Inr_iff split: bind_splits)
  then show ?thesis by (auto simp: registry_valid_def validate_profiles_iff validate_grants_iff)
qed

text \<open>
   The validation of a registry never panics and accepts it exactly when its format is the expected
  one, every profile carries the reference of its definition, no profile and no grant id occurs
  twice, and every grant has distinct canonical callers and distinct approved plans, at least one
  of each, and refers to a profile of the registry whose ceiling it covers.
\<close>

theorem registry_validate_exact:
  "\<exists>result. registry_validate sha256 r = Some result \<and>
    (result = Inr () \<longleftrightarrow>
      reg_format r = ''memcordon.local-policy'' \<and> reg_revision r = 1
      \<and> list_all (\<lambda>p. def_reference p = profile_reference sha256 (def_profile p)) (reg_profiles r)
      \<and> distinct (map def_profile (reg_profiles r)) \<and> distinct (map pg_id (reg_grants r))
      \<and> list_all (\<lambda>g. pg_callers g \<noteq> [] \<and> distinct (pg_callers g) \<and> list_all caller_valid (pg_callers g)
          \<and> pg_approved_plans g \<noteq> [] \<and> distinct (pg_approved_plans g)
          \<and> list_ex (\<lambda>p. def_reference p = pg_profile g
              \<and> ceiling_contains (pg_ceiling g) (baseline_ceiling (def_profile p))) (reg_profiles r)) (reg_grants r))"
proof -
  obtain result where "registry_validate sha256 r = Some result"
    using registry_validate_total [of sha256 r] by blast
  with registry_validate_iff [of sha256 r] show ?thesis
    by (auto simp: registry_valid_def grant_valid_def [abs_def])
qed

subsection \<open>Admission\<close>

definition conflicts_of :: "(requirement_v1 \<Rightarrow> 'code option) \<Rightarrow> requirement_v1 list \<Rightarrow> 'code admission_conflict list" where
  "conflicts_of classify rs =
     concat (map (\<lambda>r. case classify r of None \<Rightarrow> []
       | Some code \<Rightarrow> [\<lparr>conflict_requirement = Some (requirement_id r), conflict_code = code\<rparr>]) rs)"

lemma collect_conflicts_eq:
  "length conflicts \<le> CONFLICTS \<Longrightarrow> (conflicts = take CONFLICTS conflicts) \<Longrightarrow>
    (length conflicts < CONFLICTS \<longrightarrow> remainder = 0) \<Longrightarrow>
    collect_conflicts classify conflicts remainder rs =
      (take CONFLICTS (conflicts @ conflicts_of classify rs),
       remainder + of_nat (length (conflicts @ conflicts_of classify rs) - CONFLICTS))"
proof (induction rs arbitrary: conflicts remainder)
  case (Cons r rs)
  show ?case
  proof (cases "classify r")
    case None
    then show ?thesis using Cons.IH [OF Cons.prems] by (simp add: conflicts_of_def)
  next
    case (Some code)
    let ?c = "\<lparr>conflict_requirement = Some (requirement_id r), conflict_code = code\<rparr>"
    have c: "conflicts_of classify (r # rs) = ?c # conflicts_of classify rs"
      using Some by (simp add: conflicts_of_def)
    show ?thesis
    proof (cases "length conflicts < CONFLICTS")
      case True
      then show ?thesis
        using Cons.IH [of "conflicts @ [?c]" remainder] Cons.prems Some by (simp add: c try_push_def)
    next
      case False
      then have l: "length conflicts = CONFLICTS" using Cons.prems(1) by simp
      then show ?thesis
        using Cons.IH [of conflicts "remainder + 1"] Cons.prems Some by (simp add: c try_push_def)
    qed
  qed
qed (simp add: conflicts_of_def)

lemma collect_conflicts_start:
  "collect_conflicts classify [] 0 rs =
    (take CONFLICTS (conflicts_of classify rs), of_nat (length (conflicts_of classify rs) - CONFLICTS))"
  using collect_conflicts_eq [of "[]" 0 classify rs] by simp

lemma conflicts_of_Nil_iff:
  "conflicts_of classify rs = [] \<longleftrightarrow> list_all (\<lambda>r. classify r = None) rs"
  by (induction rs) (auto simp: conflicts_of_def split: option.splits)

lemma find_unique:
  assumes "\<And>x y. x \<in> set xs \<Longrightarrow> y \<in> set xs \<Longrightarrow> P x \<Longrightarrow> P y \<Longrightarrow> x = y"
  shows "find P xs = Some x \<longleftrightarrow> x \<in> set xs \<and> P x"
proof
  assume "find P xs = Some x"
  then show "x \<in> set xs \<and> P x" by (auto simp: find_Some_iff)
next
  assume x: "x \<in> set xs \<and> P x"
  then obtain y where y: "find P xs = Some y" by (cases "find P xs") (auto simp: find_None_iff)
  then have "y \<in> set xs \<and> P y" by (auto simp: find_Some_iff)
  then show "find P xs = Some x" using assms [of x y] x y by simp
qed

lemma find_grant:
  assumes "registry_valid sha256 registry"
  shows "find (grant_matches request caller) (reg_grants registry) = Some g \<longleftrightarrow>
    g \<in> set (reg_grants registry) \<and> grant_matches request caller g"
proof (rule find_unique)
  fix x y
  assume *: "x \<in> set (reg_grants registry)" "y \<in> set (reg_grants registry)"
    "grant_matches request caller x" "grant_matches request caller y"
  have "inj_on pg_id (set (reg_grants registry))"
    using assms by (simp add: registry_valid_def distinct_map)
  moreover have "pg_id x = pg_id y" using * by (simp add: grant_matches_def)
  ultimately show "x = y" using * by (auto dest: inj_onD)
qed

lemma find_profile:
  assumes "registry_valid sha256 registry"
  shows "find (\<lambda>p. def_reference p = ref \<and> def_enabled p) (reg_profiles registry) = Some p \<longleftrightarrow>
    p \<in> set (reg_profiles registry) \<and> ref = profile_reference sha256 (def_profile p) \<and> def_enabled p"
proof -
  have ref: "def_reference p = profile_reference sha256 (def_profile p)" if "p \<in> set (reg_profiles registry)" for p
    using assms that by (auto simp: registry_valid_def list_all_iff)
  have "find (\<lambda>p. def_reference p = ref \<and> def_enabled p) (reg_profiles registry) = Some p \<longleftrightarrow>
      p \<in> set (reg_profiles registry) \<and> def_reference p = ref \<and> def_enabled p"
  proof (rule find_unique)
    fix x y
    assume *: "x \<in> set (reg_profiles registry)" "y \<in> set (reg_profiles registry)"
      "def_reference x = ref \<and> def_enabled x" "def_reference y = ref \<and> def_enabled y"
    then have "def_profile x = def_profile y"
      using ref profile_reference_inj [of sha256 "def_profile x" "def_profile y"] by metis
    moreover have "inj_on def_profile (set (reg_profiles registry))"
      using assms by (simp add: registry_valid_def distinct_map)
    ultimately show "x = y" using * by (auto dest: inj_onD)
  qed
  then show ?thesis using ref [of p] by auto
qed

definition conflict_rejection :: "(requirement_v1 \<Rightarrow> 'code option) \<Rightarrow> requirement_v1 list \<Rightarrow> 'code admission_rejection" where
  "conflict_rejection classify rs =
     (let conflicts = conflicts_of classify (sort_key requirement_id rs)
      in \<lparr>rejection_code = conflict_code (hd conflicts), rejection_conflicts = take CONFLICTS conflicts,
          rejection_remaining = of_nat (length conflicts - CONFLICTS)\<rparr>)"

lemma requirements_resolved:
  "(case collect_conflicts classify [] 0 rs of ([], _) \<Rightarrow> Inr grant
    | (first # others, remainder) \<Rightarrow>
        Inl \<lparr>rejection_code = conflict_code first, rejection_conflicts = first # others,
             rejection_remaining = remainder\<rparr>)
   = (if list_all (\<lambda>r. classify r = None) rs then Inr grant
      else Inl \<lparr>rejection_code = conflict_code (hd (conflicts_of classify rs)),
             rejection_conflicts = take CONFLICTS (conflicts_of classify rs),
             rejection_remaining = of_nat (length (conflicts_of classify rs) - CONFLICTS)\<rparr>)"
proof (cases "conflicts_of classify rs")
  case (Cons c cs)
  then have "\<not> list_all (\<lambda>r. classify r = None) rs" using conflicts_of_Nil_iff by force
  moreover have "take CONFLICTS (c # cs) = c # take 15 cs" by (simp add: CONFLICTS_def)
  ultimately show ?thesis by (simp add: collect_conflicts_start Cons)
qed (use conflicts_of_Nil_iff [of classify rs] in \<open>simp add: collect_conflicts_start\<close>)

lemma resolve_found:
  assumes "find (grant_matches request caller) (reg_grants registry) = Some h"
    and "find (\<lambda>p. def_reference p = pg_profile h \<and> def_enabled p) (reg_profiles registry) = Some p"
  shows "resolve registry epoch request caller native =
    (if epoch \<noteq> expected_epoch request then Inl (single_rejection PolicyEpochStale)
     else if pg_profile h \<noteq> authorized_profile request then Inl (single_rejection ProfileDigestMismatch)
     else if def_profile p \<noteq> native then Inl (single_rejection HostPrerequisiteUnavailable)
     else if \<not> ceiling_contains (pg_ceiling h) (ceiling request)
       \<or> \<not> ceiling_contains (ceiling request) (baseline_ceiling native) then Inl (single_rejection PolicyIncompatible)
     else if list_all (\<lambda>r. requirement_conflict native r = None) (requirements request) then Inr h
     else Inl (conflict_rejection (requirement_conflict native) (requirements request)))"
  by (simp add: resolve_def assms requirements_resolved conflict_rejection_def split del: if_split cong: if_cong)
    (simp add: Let_def)

lemma conflicts_of_filter:
  "conflicts_of classify rs =
    map (\<lambda>r. \<lparr>conflict_requirement = Some (requirement_id r), conflict_code = the (classify r)\<rparr>)
      (filter (\<lambda>r. classify r \<noteq> None) rs)"
  by (induction rs) (auto simp: conflicts_of_def)

lemma resolve_Inr_iff:
  assumes "registry_valid sha256 registry"
  shows "resolve registry epoch request caller native = Inr g \<longleftrightarrow>
    g \<in> set (reg_grants registry) \<and> grant_matches request caller g \<and> epoch = expected_epoch request
    \<and> pg_profile g = authorized_profile request \<and> authorized_profile request = profile_reference sha256 native
    \<and> (\<exists>p. p \<in> set (reg_profiles registry) \<and> def_profile p = native \<and> def_enabled p)
    \<and> ceiling_contains (pg_ceiling g) (ceiling request)
    \<and> ceiling_contains (ceiling request) (baseline_ceiling native)
    \<and> list_all (\<lambda>r. requirement_conflict native r = None) (requirements request)"
    (is "_ \<longleftrightarrow> ?rhs")
proof (cases "find (grant_matches request caller) (reg_grants registry)")
  case None
  then have "\<not> (g \<in> set (reg_grants registry) \<and> grant_matches request caller g)"
    by (auto simp: find_None_iff)
  then show ?thesis using None by (auto simp: resolve_def grant_matches_def)
next
  case (Some h)
  let ?find = "find (\<lambda>p. def_reference p = pg_profile h \<and> def_enabled p) (reg_profiles registry)"
  have rhs: "?rhs \<longleftrightarrow> g = h \<and> epoch = expected_epoch request \<and> pg_profile h = authorized_profile request
      \<and> (\<exists>p. ?find = Some p \<and> def_profile p = native) \<and> ceiling_contains (pg_ceiling h) (ceiling request)
      \<and> ceiling_contains (ceiling request) (baseline_ceiling native)
      \<and> list_all (\<lambda>r. requirement_conflict native r = None) (requirements request)"
    using find_grant [OF assms, of request caller g] Some find_profile [OF assms, of "pg_profile h"]
    by (auto simp: grant_matches_def)
  show ?thesis
  proof (cases ?find)
    case None
    then show ?thesis unfolding rhs by (auto simp: resolve_def Some)
  next
    case (Some p)
    then show ?thesis
      unfolding rhs using resolve_found [OF \<open>find (grant_matches request caller) (reg_grants registry) = Some h\<close>]
      by auto
  qed
qed

text \<open>
  C13: A request is admitted by a well-formed registry, and with the grant \<open>g\<close>, exactly when \<open>g\<close> is the
  enabled grant the request names by id and revision, names the caller and approves the workload
  plan, the request expects the current epoch, the grant and the request agree on the native
  profile, which is enabled, the grant's ceiling covers the request's, the request's covers
  the native profile's, and the native profile can enforce every requirement.
\<close>

theorem resolve_admits_iff:
  assumes "registry_valid sha256 registry"
  shows "resolve registry epoch request caller native = Inr g \<longleftrightarrow>
    g \<in> set (reg_grants registry)
    \<and> pg_id g = grant_id (authorization request) \<and> pg_revision g = grant_revision (authorization request)
    \<and> pg_enabled g \<and> caller \<in> set (pg_callers g)
    \<and> workload_plan_digest request \<in> set (pg_approved_plans g)
    \<and> approved_plan_digest (authorization request) = workload_plan_digest request
    \<and> epoch = expected_epoch request
    \<and> pg_profile g = authorized_profile request
    \<and> authorized_profile request = profile_reference sha256 native
    \<and> (\<exists>p. p \<in> set (reg_profiles registry) \<and> def_profile p = native \<and> def_enabled p)
    \<and> ceiling_contains (pg_ceiling g) (ceiling request)
    \<and> ceiling_contains (ceiling request) (baseline_ceiling native)
    \<and> list_all (\<lambda>r. requirement_conflict native r = None) (requirements request)"
  by (simp only: resolve_Inr_iff [OF assms] grant_matches_def conj_assoc)

definition example_registry :: "(u8 list \<Rightarrow> u8 list) \<Rightarrow> runtime_policy_registry" where
  "example_registry sha256 =
     \<lparr>reg_format = ''memcordon.local-policy'', reg_revision = 1,
      reg_profiles = [\<lparr>def_profile = LinuxUnixCreate, def_reference = profile_reference sha256 LinuxUnixCreate,
        def_enabled = True\<rparr>],
      reg_grants = [\<lparr>pg_id = ascii_bytes ''g1'', pg_revision = 3, pg_profile = profile_reference sha256 LinuxUnixCreate,
        pg_ceiling = baseline_ceiling LinuxUnixCreate, pg_enabled = True, pg_callers = [LinuxCaller 1000],
        pg_approved_plans = [replicate 32 7]\<rparr>],
      reg_disposition = DrainExisting\<rparr>"

lemma example_registry_valid: "registry_valid sha256 (example_registry sha256)"
  by (simp add: example_registry_def registry_valid_def grant_valid_def ceiling_contains_def)

definition example_request :: "(u8 list \<Rightarrow> u8 list) \<Rightarrow> requirement_v1 list \<Rightarrow> workload_contract_v1" where
  "example_request sha256 rs = example_contract
     \<lparr>authorized_profile := profile_reference sha256 LinuxUnixCreate, ceiling := baseline_ceiling LinuxUnixCreate,
      requirements := rs, endpoints := []\<rparr>"

theorem resolve_admits_iff_witness:
  "resolve (example_registry (\<lambda>_. replicate 32 0)) (expected_epoch example_contract)
     (example_request (\<lambda>_. replicate 32 0) [UnixSocketPair (ascii_bytes ''u1'') UnixStream]) (LinuxCaller 1000)
     LinuxUnixCreate = Inr (hd (reg_grants (example_registry (\<lambda>_. replicate 32 0))))"
  unfolding resolve_admits_iff [OF example_registry_valid]
  by (simp add: example_registry_def example_request_def example_contract_def ceiling_contains_def)

text \<open>What authorizes a request apart from its requirements.\<close>

definition grant_authorizes ::
  "(u8 list \<Rightarrow> u8 list) \<Rightarrow> runtime_policy_registry \<Rightarrow> policy_epoch \<Rightarrow> workload_contract_v1 \<Rightarrow> caller_selector
   \<Rightarrow> baseline_profile \<Rightarrow> policy_grant_v1 \<Rightarrow> bool" where
  "grant_authorizes sha256 registry epoch request caller native g \<longleftrightarrow>
     g \<in> set (reg_grants registry) \<and> grant_matches request caller g \<and> epoch = expected_epoch request
     \<and> pg_profile g = authorized_profile request \<and> authorized_profile request = profile_reference sha256 native
     \<and> (\<exists>p. p \<in> set (reg_profiles registry) \<and> def_profile p = native \<and> def_enabled p)
     \<and> ceiling_contains (pg_ceiling g) (ceiling request) \<and> ceiling_contains (ceiling request) (baseline_ceiling native)"

lemma resolve_authorized:
  assumes "registry_valid sha256 registry" and "grant_authorizes sha256 registry epoch request caller native g"
  shows "resolve registry epoch request caller native =
    (if list_all (\<lambda>r. requirement_conflict native r = None) (requirements request) then Inr g
     else Inl (conflict_rejection (requirement_conflict native) (requirements request)))"
proof -
  have h: "find (grant_matches request caller) (reg_grants registry) = Some g"
    using find_grant [OF assms(1)] assms(2) by (simp add: grant_authorizes_def)
  have "pg_profile g = profile_reference sha256 native"
    and "\<exists>q. q \<in> set (reg_profiles registry) \<and> def_profile q = native \<and> def_enabled q"
    using assms(2) by (simp_all add: grant_authorizes_def)
  then obtain p where p: "find (\<lambda>p. def_reference p = pg_profile g \<and> def_enabled p) (reg_profiles registry) = Some p"
    "def_profile p = native"
    using find_profile [OF assms(1), of "pg_profile g"] by auto
  show ?thesis
    unfolding resolve_found [OF h p(1)] using assms(2) p(2) by (simp add: grant_authorizes_def)
qed

lemma resolve_unauthorized:
  assumes "registry_valid sha256 registry" and "\<And>g. \<not> grant_authorizes sha256 registry epoch request caller native g"
  shows "\<exists>code \<in> {ProfileNotAuthorized, PolicyEpochStale, ProfileDigestMismatch, HostPrerequisiteUnavailable, PolicyIncompatible}.
    resolve registry epoch request caller native = Inl (single_rejection code)"
proof (cases "find (grant_matches request caller) (reg_grants registry)")
  case None
  then show ?thesis by (simp add: resolve_def)
next
  case (Some h)
  note h = Some
  show ?thesis
  proof (cases "find (\<lambda>p. def_reference p = pg_profile h \<and> def_enabled p) (reg_profiles registry)")
    case None
    then show ?thesis by (auto simp: resolve_def h)
  next
    case (Some p)
    have m: "grant_matches request caller h" "h \<in> set (reg_grants registry)"
      using find_grant [OF assms(1), of request caller h] h by simp_all
    have p: "p \<in> set (reg_profiles registry)" "pg_profile h = profile_reference sha256 (def_profile p)" "def_enabled p"
      using find_profile [OF assms(1), of "pg_profile h" p] Some by simp_all
    have "\<not> (epoch = expected_epoch request \<and> pg_profile h = authorized_profile request \<and> def_profile p = native
        \<and> ceiling_contains (pg_ceiling h) (ceiling request) \<and> ceiling_contains (ceiling request) (baseline_ceiling native))"
      using assms(2) [of h] m p unfolding grant_authorizes_def by metis
    then show ?thesis
      unfolding resolve_found [OF h Some]
      by (cases "epoch = expected_epoch request"; cases "pg_profile h = authorized_profile request"; cases "def_profile p = native")
        simp_all
  qed
qed

text \<open>
  C27: What a rejection says, for a well-formed registry and a contract within the limit of requirements. When a grant
  authorizes the request but the native profile cannot enforce some requirements, the rejection
  names the first sixteen of these, in the order of their ids, each with its own code, has the code of
  the first of them, and counts exactly those left out. When no grant authorizes the request, the
  rejection has one of the five authorization codes, names no requirement and counts none.
\<close>

theorem rejection_reports_conflicts:
  fixes native request
  defines "bad \<equiv> filter (\<lambda>r. requirement_conflict native r \<noteq> None) (sort_key requirement_id (requirements request))"
  assumes "registry_valid sha256 registry" and "length (requirements request) \<le> REQUIREMENTS"
  shows "if \<exists>g. grant_authorizes sha256 registry epoch request caller native g
    then bad \<noteq> [] \<longrightarrow> (\<exists>rejection. resolve registry epoch request caller native = Inl rejection
      \<and> rejection_conflicts rejection =
          map (\<lambda>r. \<lparr>conflict_requirement = Some (requirement_id r),
            conflict_code = the (requirement_conflict native r)\<rparr>) (take 16 bad)
      \<and> rejection_code rejection = the (requirement_conflict native (hd bad))
      \<and> unat (rejection_remaining rejection) = length bad - 16)
    else (\<exists>rejection. resolve registry epoch request caller native = Inl rejection
      \<and> rejection_code rejection \<in> {ProfileNotAuthorized, PolicyEpochStale, ProfileDigestMismatch,
          HostPrerequisiteUnavailable, PolicyIncompatible}
      \<and> rejection_conflicts rejection = [] \<and> rejection_remaining rejection = 0)"
proof (cases "\<exists>g. grant_authorizes sha256 registry epoch request caller native g")
  case True
  then obtain g where g: "grant_authorizes sha256 registry epoch request caller native g" by blast
  have "length bad \<le> REQUIREMENTS"
    using assms(3) length_filter_le [of "\<lambda>r. requirement_conflict native r \<noteq> None" "sort_key requirement_id (requirements request)"]
    by (simp add: bad_def)
  then have "length bad - 16 < 2 ^ LENGTH(32)" by (simp add: REQUIREMENTS_def)
  then have count: "unat (of_nat (length bad - 16) :: u32) = length bad - 16" by (rule unat_of_nat_small)
  have conflicts: "conflicts_of (requirement_conflict native) (sort_key requirement_id (requirements request))
      = map (\<lambda>r. \<lparr>conflict_requirement = Some (requirement_id r), conflict_code = the (requirement_conflict native r)\<rparr>) bad"
    by (simp only: conflicts_of_filter bad_def)
  show ?thesis
    unfolding if_P [OF True]
  proof
    assume bad: "bad \<noteq> []"
    then have "\<not> list_all (\<lambda>r. requirement_conflict native r = None) (requirements request)"
      by (auto simp: bad_def list_all_iff filter_empty_conv)
    with resolve_authorized [OF assms(2) g]
    have "resolve registry epoch request caller native = Inl (conflict_rejection (requirement_conflict native) (requirements request))"
      by (simp only: if_False)
    then show "\<exists>rejection. resolve registry epoch request caller native = Inl rejection
      \<and> rejection_conflicts rejection =
          map (\<lambda>r. \<lparr>conflict_requirement = Some (requirement_id r),
            conflict_code = the (requirement_conflict native r)\<rparr>) (take 16 bad)
      \<and> rejection_code rejection = the (requirement_conflict native (hd bad))
      \<and> unat (rejection_remaining rejection) = length bad - 16"
      using bad count
      by (intro exI [of _ "conflict_rejection (requirement_conflict native) (requirements request)"])
        (simp add: conflict_rejection_def conflicts take_map hd_map CONFLICTS_def Let_def)
  qed
next
  case False
  then obtain code where "code \<in> {ProfileNotAuthorized, PolicyEpochStale, ProfileDigestMismatch,
      HostPrerequisiteUnavailable, PolicyIncompatible}"
    "resolve registry epoch request caller native = Inl (single_rejection code)"
    using resolve_unauthorized [OF assms(2), of epoch request caller native] by blast
  then show ?thesis unfolding if_not_P [OF False] by (simp add: single_rejection_def)
qed

theorem rejection_reports_conflicts_witness:
  "\<exists>rejection. resolve (example_registry (\<lambda>_. replicate 32 0)) (expected_epoch example_contract)
       (example_request (\<lambda>_. replicate 32 0) [SuppliedTcpListener (ascii_bytes ''s1'') (ascii_bytes ''l1'') HostSharedLoopback])
       (LinuxCaller 1000) LinuxUnixCreate = Inl rejection
     \<and> rejection_code rejection = FeatureNotEnforceable"
proof -
  let ?request = "example_request (\<lambda>_. replicate 32 0)
    [SuppliedTcpListener (ascii_bytes ''s1'') (ascii_bytes ''l1'') HostSharedLoopback]"
  let ?registry = "example_registry (\<lambda>_. replicate 32 0)"
  have n: "length (requirements ?request) \<le> REQUIREMENTS"
    by (simp add: example_request_def example_contract_def REQUIREMENTS_def)
  have "grant_authorizes (\<lambda>_. replicate 32 0) ?registry (expected_epoch example_contract) ?request (LinuxCaller 1000) LinuxUnixCreate
      (hd (reg_grants ?registry))"
    by (simp add: grant_authorizes_def grant_matches_def example_registry_def example_request_def example_contract_def
        ceiling_contains_def)
  then have g: "\<exists>g. grant_authorizes (\<lambda>_. replicate 32 0) ?registry (expected_epoch example_contract) ?request (LinuxCaller 1000)
      LinuxUnixCreate g" by blast
  show ?thesis
    using rejection_reports_conflicts [OF example_registry_valid n, of "\<lambda>_. replicate 32 0" "expected_epoch example_contract"
        "LinuxCaller 1000" LinuxUnixCreate] unfolding if_P [OF g]
    by (auto simp: example_request_def)
qed

subsection \<open>Snapshots\<close>

lemma snapshot_validate_iff:
  assumes "fields_typed (snap_request s)"
  shows "snapshot_validate sha256 s = Some (Inr ()) \<longleftrightarrow>
    contract_valid (snap_request s) \<and> snap_format s = ''memcordon.local-admission'' \<and> snap_revision s = 1
    \<and> contract_digest sha256 (snap_request s) = Inr (snap_request_digest s)
    \<and> authorized_profile (snap_request s) = profile_reference sha256 (snap_native_profile s)"
proof (cases "contract_valid (snap_request s)")
  case True
  then have "validate_v1 (snap_request s) = Inr ()" by (simp add: validate_v1_iff)
  moreover have "contract_digest sha256 (snap_request s)
      = Inr (sha256 (header_bytes contract_domain_v1 @ fields_bytes (snap_request s)))"
    using encode_contract_bytes [OF assms True] by (simp add: contract_digest_def and_then_def)
  ultimately show ?thesis using True by (auto simp: snapshot_validate_def baseline_reference_eq)
next
  case False
  then have "validate_v1 (snap_request s) \<noteq> Inr ()" by (simp add: validate_v1_iff)
  then show ?thesis using False by (cases "validate_v1 (snap_request s)") (simp_all add: snapshot_validate_def)
qed

end
