(* ===== verification/WorkloadDigest.thy ===== *)
theory WorkloadDigest
  imports WorkloadAdmission
begin

text \<open>
  The canonical bytes of a policy registry, which its digest is taken of: every well-formed registry
  has them, and two registries have the same bytes exactly when they differ only in the order of
  their profiles, grants, callers and approved plans.
\<close>

subsection \<open>Images that end themselves\<close>

lemma to_be_bytes_append_eq:
  fixes v w :: "'a::len word"
  assumes "to_be_bytes n v @ as = to_be_bytes n w @ bs" and "LENGTH('a) = 8 * n"
  shows "v = w \<and> as = bs"
proof -
  have eq: "to_be_bytes n v = to_be_bytes n w \<and> as = bs"
    by (rule append_eq_append_conv [THEN iffD1, OF _ assms(1)]) simp
  have "v = from_be_bytes (to_be_bytes n v)" by (simp only: from_be_bytes_to_be_bytes [OF assms(2)])
  also have "\<dots> = w" unfolding conjunct1 [OF eq] by (rule from_be_bytes_to_be_bytes [OF assms(2)])
  finally show ?thesis using eq by blast
qed

locale prefix_code =
  fixes bytes_of :: "'a \<Rightarrow> u8 list"
    and ok :: "'a \<Rightarrow> bool"
    and view :: "'a \<Rightarrow> 'v"
  assumes decided: "ok x \<Longrightarrow> ok y \<Longrightarrow> bytes_of x @ as = bytes_of y @ bs \<Longrightarrow> view x = view y \<and> as = bs"
begin

lemma decided_all:
  "list_all ok xs \<Longrightarrow> list_all ok ys \<Longrightarrow> length xs = length ys \<Longrightarrow>
    concat (map bytes_of xs) @ as = concat (map bytes_of ys) @ bs \<Longrightarrow> map view xs = map view ys \<and> as = bs"
proof (induction xs arbitrary: ys)
  case (Cons x xs)
  obtain y ys' where ys: "ys = y # ys'" using Cons.prems(3) by (cases ys) simp_all
  have "bytes_of x @ concat (map bytes_of xs) @ as = bytes_of y @ concat (map bytes_of ys') @ bs"
    using Cons.prems(4) unfolding ys list.map concat.simps append_assoc .
  moreover have "ok x" "ok y" using Cons.prems(1,2) by (simp_all add: ys)
  ultimately have v: "view x = view y \<and> concat (map bytes_of xs) @ as = concat (map bytes_of ys') @ bs"
    by (intro decided)
  have "list_all ok xs" "list_all ok ys'" "length xs = length ys'" using Cons.prems(1-3) by (simp_all add: ys)
  from Cons.IH [OF this conjunct2 [OF v]] conjunct1 [OF v] show ?case by (simp only: ys list.map)
qed simp

lemma decided_counted:
  assumes "list_all ok xs" "list_all ok ys" "length xs < 65536" "length ys < 65536"
    and "to_be_bytes 2 (of_nat (length xs) :: u16) @ concat (map bytes_of xs) @ as =
      to_be_bytes 2 (of_nat (length ys) :: u16) @ concat (map bytes_of ys) @ bs"
  shows "map view xs = map view ys \<and> as = bs"
proof -
  have eq: "(of_nat (length xs) :: u16) = of_nat (length ys)
      \<and> concat (map bytes_of xs) @ as = concat (map bytes_of ys) @ bs"
    by (rule to_be_bytes_append_eq [OF assms(5)]) simp
  have "unat (of_nat (length xs) :: u16) = unat (of_nat (length ys) :: u16)" unfolding conjunct1 [OF eq] ..
  then have "length xs = length ys"
    using assms(3,4) by (simp add: unat_of_nat)
  from decided_all [OF assms(1,2) this conjunct2 [OF eq]] show ?thesis .
qed

end

sublocale codec < image: prefix_code bytes_of ok canon
  by unfold_locales (rule prefix_free)

interpretation digest_code: prefix_code "\<lambda>d. d" "\<lambda>d :: sha256_digest. length d = 32" "\<lambda>d. d"
  by unfold_locales simp

lemma of_char_word_inj: "(of_nat (of_char c) :: u8) = of_nat (of_char d) \<longleftrightarrow> c = d"
proof -
  have "unat (of_nat (of_char c) :: u8) = of_char c" for c :: char
    by (simp add: unat_of_nat)
  then show ?thesis by (metis of_char_eq_iff)
qed

lemma ascii_bytes_inj: "ascii_bytes s = ascii_bytes t \<longleftrightarrow> s = t"
  unfolding ascii_bytes_def by (rule inj_map_eq_map) (simp add: inj_def of_char_word_inj)

lemma length_ascii_bytes [simp]: "length (ascii_bytes s) = length s"
  by (simp add: ascii_bytes_def)

subsection \<open>Callers\<close>

fun caller_image :: "caller_selector \<Rightarrow> u8 list" where
  "caller_image (LinuxCaller uid) = 1 # to_be_bytes 4 uid"
| "caller_image (WindowsCaller sid) = 2 # to_be_bytes 2 (of_nat (length sid) :: u16) @ ascii_bytes sid"

text \<open>What \<open>BoundedText<184>\<close> guarantees of an identifier.\<close>

fun caller_typed :: "caller_selector \<Rightarrow> bool" where
  "caller_typed (LinuxCaller uid) \<longleftrightarrow> True"
| "caller_typed (WindowsCaller sid) \<longleftrightarrow> length sid \<le> 184"

lemma callers_bytes_eq: "list_all caller_typed cs \<Longrightarrow> callers_bytes cs = Inr (map caller_image cs)"
proof (induction cs)
  case (Cons c cs)
  then show ?case
    by (cases c) (simp_all add: and_then_def unat_try_from_def ok_or_def)
qed simp

lemma windows_image_decided:
  assumes "length s \<le> 184" "length t \<le> 184"
    and "to_be_bytes 2 (of_nat (length s) :: u16) @ ascii_bytes s @ as = to_be_bytes 2 (of_nat (length t) :: u16) @ ascii_bytes t @ bs"
  shows "s = t \<and> as = bs"
proof -
  have eq: "(of_nat (length s) :: u16) = of_nat (length t) \<and> ascii_bytes s @ as = ascii_bytes t @ bs"
    by (rule to_be_bytes_append_eq [OF assms(3)]) simp
  have "unat (of_nat (length s) :: u16) = unat (of_nat (length t) :: u16)" unfolding conjunct1 [OF eq] ..
  then have "length s = length t" using assms(1,2) by (simp add: unat_of_nat)
  then have "ascii_bytes s = ascii_bytes t \<and> as = bs"
    by (intro append_eq_append_conv [THEN iffD1, OF _ conjunct2 [OF eq]]) simp
  then show ?thesis by (simp only: ascii_bytes_inj)
qed

interpretation caller_code: prefix_code caller_image caller_typed "\<lambda>c. c"
proof
  fix x y as bs
  assume ok: "caller_typed x" "caller_typed y" and eq: "caller_image x @ as = caller_image y @ bs"
  show "x = y \<and> as = bs"
  proof (cases x)
    case (LinuxCaller u)
    with eq obtain v where y: "y = LinuxCaller v" by (cases y) simp_all
    have "to_be_bytes 4 u @ as = to_be_bytes 4 v @ bs" using eq by (simp add: LinuxCaller y)
    then have "u = v \<and> as = bs" by (rule to_be_bytes_append_eq) simp
    then show ?thesis by (simp add: LinuxCaller y)
  next
    case (WindowsCaller s)
    with eq obtain t where y: "y = WindowsCaller t" by (cases y) simp_all
    have "s = t \<and> as = bs"
      using ok eq by (intro windows_image_decided) (simp_all add: WindowsCaller y)
    then show ?thesis by (simp add: WindowsCaller y)
  qed
qed

subsection \<open>Profiles and grants\<close>

definition bool_byte :: "bool \<Rightarrow> u8" where
  "bool_byte b = (if b then 1 else 0)"

lemma bool_byte_inj: "bool_byte a = bool_byte b \<longleftrightarrow> a = b"
  by (simp add: bool_byte_def)

definition reference_typed :: "profile_ref \<Rightarrow> bool" where
  "reference_typed ref \<longleftrightarrow> logical_id_ok (profile_id ref) \<and> length (semantic_digest ref) = 32"

definition reference_bytes :: "profile_ref \<Rightarrow> u8 list" where
  "reference_bytes ref = id_bytes (profile_id ref) @ semantic_digest ref"

interpretation reference_code: prefix_code reference_bytes reference_typed "\<lambda>x. x"
proof
  fix x y as bs
  assume ok: "reference_typed x" "reference_typed y" and eq: "reference_bytes x @ as = reference_bytes y @ bs"
  have ids: "logical_id_ok (profile_id x)" "logical_id_ok (profile_id y)"
    and digests: "length (semantic_digest x) = 32" "length (semantic_digest y) = 32"
    using ok by (simp_all add: reference_typed_def)
  have i: "profile_id x = profile_id y \<and> semantic_digest x @ as = semantic_digest y @ bs"
    by (rule id_codec.image.decided [OF ids]) (use eq in \<open>simp only: reference_bytes_def append_assoc\<close>)
  have "semantic_digest x = semantic_digest y \<and> as = bs"
    by (rule digest_code.decided [OF digests conjunct2 [OF i]])
  with i show "x = y \<and> as = bs" by simp
qed

definition profile_bytes :: "runtime_profile_definition \<Rightarrow> u8 list" where
  "profile_bytes p = reference_bytes (def_reference p) @ [bool_byte (def_enabled p)]"

definition profile_view :: "runtime_profile_definition \<Rightarrow> profile_ref \<times> bool" where
  "profile_view p = (def_reference p, def_enabled p)"

interpretation profile_code: prefix_code profile_bytes "\<lambda>p. reference_typed (def_reference p)" profile_view
proof
  fix x y as bs
  assume ok: "reference_typed (def_reference x)" "reference_typed (def_reference y)"
    and eq: "profile_bytes x @ as = profile_bytes y @ bs"
  have "def_reference x = def_reference y
      \<and> [bool_byte (def_enabled x)] @ as = [bool_byte (def_enabled y)] @ bs"
    by (rule reference_code.decided [OF ok]) (use eq in \<open>simp only: profile_bytes_def append_assoc\<close>)
  then show "profile_view x = profile_view y \<and> as = bs" by (simp add: profile_view_def bool_byte_inj)
qed

type_synonym grant_view =
  "logical_id \<times> u64 \<times> profile_ref \<times> network_ceiling_v1 \<times> bool \<times> caller_selector set \<times> sha256_digest set"

definition grant_view :: "policy_grant_v1 \<Rightarrow> grant_view" where
  "grant_view g = (pg_id g, pg_revision g, pg_profile g, pg_ceiling g, pg_enabled g, set (pg_callers g),
     set (pg_approved_plans g))"

definition grant_typed :: "policy_grant_v1 \<Rightarrow> bool" where
  "grant_typed g \<longleftrightarrow>
     logical_id_ok (pg_id g) \<and> pg_revision g \<noteq> 0 \<and> reference_typed (pg_profile g)
     \<and> list_all caller_typed (pg_callers g) \<and> length (pg_callers g) \<le> CALLERS_PER_GRANT
     \<and> list_all (\<lambda>d. length d = 32) (pg_approved_plans g) \<and> length (pg_approved_plans g) \<le> PLANS_PER_GRANT"

definition grant_head_bytes :: "policy_grant_v1 \<Rightarrow> u8 list" where
  "grant_head_bytes g =
     id_bytes (pg_id g) @ to_be_bytes 8 (pg_revision g) @ reference_bytes (pg_profile g)
     @ ceiling_bytes (pg_ceiling g) @ [bool_byte (pg_enabled g)]"

definition grant_tail_bytes :: "policy_grant_v1 \<Rightarrow> u8 list" where
  "grant_tail_bytes g =
     (let callers = sort_key caller_image (pg_callers g); plans = sort (pg_approved_plans g)
      in to_be_bytes 2 (of_nat (length callers) :: u16) @ concat (map caller_image callers)
         @ to_be_bytes 2 (of_nat (length plans) :: u16) @ concat (map (\<lambda>d. d) plans))"

definition grant_bytes :: "policy_grant_v1 \<Rightarrow> u8 list" where
  "grant_bytes g = grant_head_bytes g @ grant_tail_bytes g"

lemma grant_head_decided:
  assumes "grant_typed x" "grant_typed y" and eq: "grant_head_bytes x @ as = grant_head_bytes y @ bs"
  shows "pg_id x = pg_id y \<and> pg_revision x = pg_revision y \<and> pg_profile x = pg_profile y
    \<and> pg_ceiling x = pg_ceiling y \<and> pg_enabled x = pg_enabled y \<and> as = bs"
proof -
  note eq = eq [unfolded grant_head_bytes_def append_assoc]
  have i: "logical_id_ok (pg_id x)" "logical_id_ok (pg_id y)"
    and p: "reference_typed (pg_profile x)" "reference_typed (pg_profile y)"
    using assms(1,2) by (simp_all add: grant_typed_def)
  note 1 = id_codec.image.decided [OF i eq]
  have 2: "pg_revision x = pg_revision y \<and> reference_bytes (pg_profile x) @ ceiling_bytes (pg_ceiling x) @ [bool_byte (pg_enabled x)] @ as =
      reference_bytes (pg_profile y) @ ceiling_bytes (pg_ceiling y) @ [bool_byte (pg_enabled y)] @ bs"
    by (rule to_be_bytes_append_eq [OF conjunct2 [OF 1]]) simp
  note 3 = reference_code.decided [OF p conjunct2 [OF 2]]
  note 4 = ceiling_codec.image.decided [OF TrueI TrueI conjunct2 [OF 3]]
  from 1 2 3 4 show ?thesis by (simp add: bool_byte_inj)
qed

lemma grant_tail_decided:
  assumes "grant_typed x" "grant_typed y" and eq: "grant_tail_bytes x @ as = grant_tail_bytes y @ bs"
  shows "set (pg_callers x) = set (pg_callers y) \<and> set (pg_approved_plans x) = set (pg_approved_plans y) \<and> as = bs"
proof -
  note eq = eq [unfolded grant_tail_bytes_def Let_def append_assoc]
  have callers: "list_all caller_typed (sort_key caller_image (pg_callers g))"
      "length (sort_key caller_image (pg_callers g)) < 65536"
    and plans: "list_all (\<lambda>d. length d = 32) (sort (pg_approved_plans g))" "length (sort (pg_approved_plans g)) < 65536"
    if "grant_typed g" for g
    using that by (simp_all add: grant_typed_def registry_limits)
  note 1 = caller_code.decided_counted [OF callers(1) callers(1) callers(2) callers(2) eq, OF assms(1,2) assms(1,2)]
  note 2 = digest_code.decided_counted [OF plans(1) plans(1) plans(2) plans(2) conjunct2 [OF 1], OF assms(1,2) assms(1,2)]
  have "set (sort_key caller_image (pg_callers x)) = set (sort_key caller_image (pg_callers y))"
    using 1 by simp
  moreover have "set (sort (pg_approved_plans x)) = set (sort (pg_approved_plans y))"
    using 2 by simp
  ultimately show ?thesis using 2 by simp
qed

interpretation grant_code: prefix_code grant_bytes grant_typed grant_view
proof
  fix x y as bs
  assume ok: "grant_typed x" "grant_typed y" and eq: "grant_bytes x @ as = grant_bytes y @ bs"
  note head = grant_head_decided [OF ok eq [unfolded grant_bytes_def append_assoc]]
  then have "grant_tail_bytes x @ as = grant_tail_bytes y @ bs" by blast
  from grant_tail_decided [OF ok this] head show "grant_view x = grant_view y \<and> as = bs"
    by (simp add: grant_view_def)
qed

text \<open>Conversely the image of a grant without duplicates depends only on what it grants.\<close>

lemma caller_image_inj: "inj_on caller_image {c. caller_typed c}"
  by (rule inj_onI) (use caller_code.decided [where as = "[]" and bs = "[]"] in auto)

lemma grant_bytes_view:
  assumes "grant_typed x" "grant_typed y" "distinct (pg_callers x)" "distinct (pg_callers y)"
    and "distinct (pg_approved_plans x)" "distinct (pg_approved_plans y)" and view: "grant_view x = grant_view y"
  shows "grant_bytes x = grant_bytes y"
proof -
  have inj: "inj_on caller_image (set (pg_callers x))" "inj_on caller_image (set (pg_callers y))"
    using assms(1,2) by (auto intro!: inj_on_subset [OF caller_image_inj] simp: grant_typed_def list_all_iff)
  have callers: "set (pg_callers x) = set (pg_callers y)" using view by (simp add: grant_view_def)
  have "sort_key caller_image (pg_callers x) = sort_key caller_image (pg_callers y)"
    by (rule map_sorted_distinct_set_unique [where f = caller_image])
      (use inj assms(3,4) callers in \<open>simp_all add: distinct_map\<close>)
  moreover have "sort (pg_approved_plans x) = sort (pg_approved_plans y)"
    by (rule sorted_distinct_set_unique) (use view assms(5,6) in \<open>simp_all add: grant_view_def\<close>)
  moreover have "grant_head_bytes x = grant_head_bytes y" using view by (simp add: grant_view_def grant_head_bytes_def)
  ultimately show ?thesis by (simp add: grant_bytes_def grant_tail_bytes_def)
qed

subsection \<open>Registries\<close>

definition registry_typed :: "runtime_policy_registry \<Rightarrow> bool" where
  "registry_typed r \<longleftrightarrow>
     list_all (\<lambda>p. reference_typed (def_reference p)) (reg_profiles r) \<and> length (reg_profiles r) \<le> PROFILES
     \<and> list_all grant_typed (reg_grants r) \<and> length (reg_grants r) \<le> GRANTS"

definition registry_bytes :: "runtime_policy_registry \<Rightarrow> u8 list" where
  "registry_bytes r =
     (let profiles = sort_key (\<lambda>p. profile_id (def_reference p)) (reg_profiles r);
          grants = sort_key pg_id (reg_grants r)
      in to_be_bytes 2 (of_nat (length profiles) :: u16) @ concat (map profile_bytes profiles)
         @ to_be_bytes 2 (of_nat (length grants) :: u16) @ concat (map grant_bytes grants)
         @ [disposition_tag (reg_disposition r)])"

type_synonym registry_view =
  "runtime_profile_definition set \<times> grant_view set \<times> grant_change_disposition"

definition registry_view :: "runtime_policy_registry \<Rightarrow> registry_view" where
  "registry_view r = (set (reg_profiles r), grant_view ` set (reg_grants r), reg_disposition r)"

lemma disposition_tag_inj: "disposition_tag a = disposition_tag b \<longleftrightarrow> a = b"
  by (cases a; cases b) simp_all

lemma profile_views_decide:
  assumes "registry_valid sha256 r" "registry_valid sha256 s"
    and "profile_view ` set (reg_profiles r) = profile_view ` set (reg_profiles s)"
  shows "set (reg_profiles r) \<subseteq> set (reg_profiles s)"
proof
  fix p
  assume p: "p \<in> set (reg_profiles r)"
  then have "profile_view p \<in> profile_view ` set (reg_profiles s)" using assms(3) by blast
  then obtain q where q: "q \<in> set (reg_profiles s)" "profile_view p = profile_view q" by blast
  have "def_reference p = profile_reference sha256 (def_profile p)"
    and "def_reference q = profile_reference sha256 (def_profile q)"
    using p q(1) assms(1,2) by (auto simp: registry_valid_def list_all_iff)
  then have "profile_id (profile_reference sha256 (def_profile p)) = profile_id (profile_reference sha256 (def_profile q))"
    using q(2) by (simp add: profile_view_def)
  then have "def_profile p = def_profile q" by (simp add: profile_reference_inj)
  with q(2) have "p = q" by (simp add: profile_view_def)
  with q(1) show "p \<in> set (reg_profiles s)" by simp
qed

lemma registry_bytes_decide:
  assumes "registry_valid sha256 r" "registry_valid sha256 s" "registry_typed r" "registry_typed s"
    and eq: "registry_bytes r = registry_bytes s"
  shows "registry_view r = registry_view s"
proof -
  let ?ps = "\<lambda>r. sort_key (\<lambda>p. profile_id (def_reference p)) (reg_profiles r)"
  let ?gs = "\<lambda>r. sort_key pg_id (reg_grants r)"
  have ps: "list_all (\<lambda>p. reference_typed (def_reference p)) (?ps r)" "length (?ps r) < 65536"
    and gs: "list_all grant_typed (?gs r)" "length (?gs r) < 65536" if "registry_typed r" for r
    using that by (simp_all add: registry_typed_def registry_limits)
  note 1 = profile_code.decided_counted [OF ps(1) ps(1) ps(2) ps(2) eq [unfolded registry_bytes_def Let_def],
      OF assms(3,4) assms(3,4)]
  note 2 = grant_code.decided_counted [OF gs(1) gs(1) gs(2) gs(2) conjunct2 [OF 1], OF assms(3,4) assms(3,4)]
  have "set (map profile_view (?ps r)) = set (map profile_view (?ps s))" by (simp only: conjunct1 [OF 1])
  then have v: "profile_view ` set (reg_profiles r) = profile_view ` set (reg_profiles s)" by simp
  have "set (reg_profiles r) = set (reg_profiles s)"
    using profile_views_decide [OF assms(1,2) v] profile_views_decide [OF assms(2,1) v [symmetric]] by blast
  moreover have "set (map grant_view (?gs r)) = set (map grant_view (?gs s))" by (simp only: conjunct1 [OF 2])
  then have "grant_view ` set (reg_grants r) = grant_view ` set (reg_grants s)" by simp
  ultimately show ?thesis using 2 by (simp add: registry_view_def disposition_tag_inj)
qed

lemma sorted_profiles_view:
  assumes "registry_valid sha256 r" "registry_valid sha256 s" "set (reg_profiles r) = set (reg_profiles s)"
  shows "sort_key (\<lambda>p. profile_id (def_reference p)) (reg_profiles r)
    = sort_key (\<lambda>p. profile_id (def_reference p)) (reg_profiles s)"
proof -
  have inj: "inj_on (\<lambda>p. profile_id (def_reference p)) (set (reg_profiles r))" if "registry_valid sha256 r" for r
  proof (rule inj_onI)
    fix p q
    assume *: "p \<in> set (reg_profiles r)" "q \<in> set (reg_profiles r)" "profile_id (def_reference p) = profile_id (def_reference q)"
    then have "def_profile p = def_profile q"
      using that by (auto simp: registry_valid_def list_all_iff profile_reference_inj)
    then show "p = q" using that * by (auto simp: registry_valid_def distinct_map dest: inj_onD)
  qed
  have "distinct (reg_profiles r)" if "registry_valid sha256 r" for r
    using that by (simp add: registry_valid_def distinct_map)
  with inj assms show ?thesis
    by (intro map_sorted_distinct_set_unique [where f = "\<lambda>p. profile_id (def_reference p)"])
      (simp_all add: distinct_map)
qed

lemma sorted_grants_view:
  assumes "registry_valid sha256 r" "registry_valid sha256 s"
    and "grant_view ` set (reg_grants r) = grant_view ` set (reg_grants s)"
  shows "map grant_view (sort_key pg_id (reg_grants r)) = map grant_view (sort_key pg_id (reg_grants s))"
proof (rule map_sorted_distinct_set_unique [where f = fst])
  have fst: "map fst (map grant_view xs) = map pg_id xs" for xs by (simp add: grant_view_def comp_def)
  have d: "distinct (map pg_id (sort_key pg_id (reg_grants r)))" if "registry_valid sha256 r" for r
    using that by (simp add: registry_valid_def distinct_map)
  show "sorted (map fst (map grant_view (sort_key pg_id (reg_grants r))))" unfolding fst by simp
  show "sorted (map fst (map grant_view (sort_key pg_id (reg_grants s))))" unfolding fst by simp
  show dr: "distinct (map fst (map grant_view (sort_key pg_id (reg_grants r))))"
    unfolding fst using d assms(1) by blast
  show "distinct (map fst (map grant_view (sort_key pg_id (reg_grants s))))"
    unfolding fst using d assms(2) by blast
  show set: "set (map grant_view (sort_key pg_id (reg_grants r))) = set (map grant_view (sort_key pg_id (reg_grants s)))"
    using assms(3) by simp
  show "inj_on fst (set (map grant_view (sort_key pg_id (reg_grants r))) \<union> set (map grant_view (sort_key pg_id (reg_grants s))))"
    unfolding set [symmetric] Un_absorb using dr by (simp only: distinct_map)
qed

lemma registry_bytes_view:
  assumes "registry_valid sha256 r" "registry_valid sha256 s" "registry_typed r" "registry_typed s"
    and view: "registry_view r = registry_view s"
  shows "registry_bytes r = registry_bytes s"
proof -
  let ?gs = "\<lambda>r. sort_key pg_id (reg_grants r)"
  have v: "map grant_view (?gs r) = map grant_view (?gs s)"
    using sorted_grants_view [OF assms(1,2)] view by (simp add: registry_view_def)
  have ok: "grant_typed g \<and> distinct (pg_callers g) \<and> distinct (pg_approved_plans g)"
    if "registry_valid sha256 r" "registry_typed r" "g \<in> set (?gs r)" for r g
    using that by (auto simp: registry_valid_def registry_typed_def grant_valid_def list_all_iff)
  have l: "length (?gs r) = length (?gs s)" using v by (metis length_map)
  have "map grant_bytes (?gs r) = map grant_bytes (?gs s)"
  proof (rule nth_equalityI)
    fix i
    assume i: "i < length (map grant_bytes (?gs r))"
    then have "?gs r ! i \<in> set (?gs r)" by (intro nth_mem) simp
    moreover have "?gs s ! i \<in> set (?gs s)" using i l by (intro nth_mem) simp
    moreover have "grant_view (?gs r ! i) = grant_view (?gs s ! i)"
      using i l arg_cong [OF v, of "\<lambda>xs. xs ! i"] by simp
    ultimately have "grant_bytes (?gs r ! i) = grant_bytes (?gs s ! i)"
      using ok [OF assms(1,3)] ok [OF assms(2,4)] by (blast intro: grant_bytes_view)
    then show "map grant_bytes (?gs r) ! i = map grant_bytes (?gs s) ! i" using i l by simp
  qed (use l in simp)
  with l show ?thesis
    using sorted_profiles_view [OF assms(1,2)] view by (simp add: registry_bytes_def registry_view_def)
qed

subsection \<open>Encoding\<close>

lemma lift_and_then:
  "lift_encoding (and_then r f) = and_then (lift_encoding r) (\<lambda>x. lift_encoding (f x))"
  by (cases r) (simp_all add: and_then_def lift_encoding_def)

lemma lift_Inr [simp]: "lift_encoding (Inr x) = Inr x"
  by (simp add: lift_encoding_def)

lemma writes_bool: "writes (enc_bool b) [bool_byte b]"
  by (simp add: enc_bool_def bool_byte_def writes_fixed)

lemma writes_reference:
  "reference_typed ref \<Longrightarrow> writes (encode_all fs) bs \<Longrightarrow>
    writes (encode_all (enc_id (profile_id ref) # enc_digest (semantic_digest ref) # fs)) (reference_bytes ref @ bs)"
  unfolding reference_bytes_def append_assoc
  by (intro writes_Cons id_codec.written writes_fixed) (simp_all add: reference_typed_def)

lemma writes_profile: "reference_typed (def_reference p) \<Longrightarrow> writes (enc_profile p) (profile_bytes p)"
  unfolding enc_profile_def profile_bytes_def by (intro writes_reference writes_single writes_bool)

definition grant_step :: "policy_grant_v1 \<Rightarrow> encoder_step" where
  "grant_step g = encode_all [enc_grant_head g, enc_grant_tail g (map caller_image (pg_callers g))]"

lemma writes_grant_head: "grant_typed g \<Longrightarrow> writes (enc_grant_head g) (grant_head_bytes g)"
  unfolding enc_grant_head_def grant_head_bytes_def grant_typed_def
  by (intro writes_Cons id_codec.written writes_fixed writes_reference ceiling_codec.written writes_single writes_bool)
    simp_all

lemma map_insort_key: "map f (insort_key f x xs) = insort (f x) (map f xs)"
  by (induction xs) simp_all

lemma sort_map: "sort (map f xs) = map f (sort_key f xs)"
  by (induction xs) (simp_all add: map_insort_key)

lemma writes_grant_tail:
  assumes "grant_typed g"
  shows "writes (enc_grant_tail g (map caller_image (pg_callers g))) (grant_tail_bytes g)"
proof -
  have "length (pg_callers g) < 65536" "length (pg_approved_plans g) < 65536"
    using assms by (simp_all add: grant_typed_def registry_limits)
  then have counts: "writes (encode_all [enc_count (length (sort_key caller_image (pg_callers g)))])
      (to_be_bytes 2 (of_nat (length (sort_key caller_image (pg_callers g))) :: u16))"
    "writes (encode_all [enc_count (length (sort (pg_approved_plans g)))])
      (to_be_bytes 2 (of_nat (length (sort (pg_approved_plans g))) :: u16))"
    by (intro writes_single writes_count; simp)+
  have "writes (encode_all (map enc_raw (map caller_image (sort_key caller_image (pg_callers g)))))
      (concat (map caller_image (sort_key caller_image (pg_callers g))))"
    unfolding map_map by (rule writes_map) (simp add: writes_raw)
  moreover have "writes (encode_all (map enc_digest (sort (pg_approved_plans g)))) (concat (map (\<lambda>d. d) (sort (pg_approved_plans g))))"
    by (rule writes_map) (simp add: writes_fixed)
  ultimately show ?thesis
    unfolding enc_grant_tail_def grant_tail_bytes_def Let_def sort_map length_map
    using counts by (intro writes_append)
qed

lemma writes_grant: "grant_typed g \<Longrightarrow> writes (grant_step g) (grant_bytes g)"
  unfolding grant_step_def grant_bytes_def
  by (intro writes_Cons writes_single writes_grant_head writes_grant_tail)

lemma enc_grants_eq:
  "list_all grant_typed gs \<Longrightarrow> enc_grants gs e = lift_encoding (encode_all (map grant_step gs) e)"
proof (induction gs arbitrary: e)
  case (Cons g gs)
  have "callers_bytes (pg_callers g) = Inr (map caller_image (pg_callers g))"
    using Cons.prems by (intro callers_bytes_eq) (simp add: grant_typed_def)
  then have "enc_grant g e = lift_encoding (grant_step g e)"
    by (simp add: enc_grant_def grant_step_def lift_and_then and_then_def [of "Inr _"])
      (simp add: and_then_def lift_encoding_def split: sum.split)
  moreover have "enc_grants gs = (\<lambda>e. lift_encoding (encode_all (map grant_step gs) e))"
    using Cons by (intro ext) simp
  ultimately show ?case by (simp add: lift_and_then)
qed simp

lemma writes_registry:
  assumes "registry_typed r"
  shows "writes (encode_all (([enc_count (length (sort_key (\<lambda>p. profile_id (def_reference p)) (reg_profiles r)))]
      @ map enc_profile (sort_key (\<lambda>p. profile_id (def_reference p)) (reg_profiles r)))
    @ [enc_count (length (sort_key pg_id (reg_grants r)))] @ map grant_step (sort_key pg_id (reg_grants r))
    @ [enc_byte (disposition_tag (reg_disposition r))])) (registry_bytes r)"
proof -
  let ?ps = "sort_key (\<lambda>p. profile_id (def_reference p)) (reg_profiles r)"
  let ?gs = "sort_key pg_id (reg_grants r)"
  have "length ?ps < 65536" "length ?gs < 65536" using assms by (simp_all add: registry_typed_def registry_limits)
  then have counts: "writes (encode_all [enc_count (length ?ps)]) (to_be_bytes 2 (of_nat (length ?ps) :: u16))"
    "writes (encode_all [enc_count (length ?gs)]) (to_be_bytes 2 (of_nat (length ?gs) :: u16))"
    by (simp_all add: writes_single writes_count del: encode_all.simps length_sort)
  have "writes (encode_all (map enc_profile ?ps)) (concat (map profile_bytes ?ps))"
    using assms by (intro writes_map writes_profile) (simp add: registry_typed_def list_all_iff)
  moreover have "writes (encode_all (map grant_step ?gs)) (concat (map grant_bytes ?gs))"
    using assms by (intro writes_map writes_grant) (simp add: registry_typed_def list_all_iff)
  ultimately show ?thesis
    unfolding registry_bytes_def Let_def append_assoc
    by (intro writes_append counts writes_single writes_fixed)
qed

lemma length_registry_bytes:
  assumes "registry_typed r"
  shows "length (registry_bytes r) \<le> 200000"
proof -
  have ref: "length (reference_bytes ref) \<le> 98" if "reference_typed ref" for ref
    using that length_id_bytes [of "profile_id ref"] by (simp add: reference_bytes_def reference_typed_def)
  have caller: "length (caller_image c) \<le> 187" if "caller_typed c" for c
    using that by (cases c) simp_all
  have grant: "length (grant_bytes g) \<le> 1500" if "grant_typed g" for g
    using that length_id_bytes [of "pg_id g"] ref [of "pg_profile g"]
      length_concat_bound [of "sort_key caller_image (pg_callers g)" caller_image 187]
      length_concat_bound [of "sort (pg_approved_plans g)" "\<lambda>d. d" 32]
    by (simp add: grant_typed_def grant_bytes_def grant_head_bytes_def grant_tail_bytes_def list_all_iff caller
        ceiling_bytes_def registry_limits)
  have "length (concat (map profile_bytes (sort_key (\<lambda>p. profile_id (def_reference p)) (reg_profiles r))))
      \<le> length (reg_profiles r) * 99"
    using length_concat_bound [of "sort_key (\<lambda>p. profile_id (def_reference p)) (reg_profiles r)" profile_bytes 99]
      assms by (simp add: registry_typed_def list_all_iff profile_bytes_def ref)
  moreover have "length (concat (map grant_bytes (sort_key pg_id (reg_grants r)))) \<le> length (reg_grants r) * 1500"
    using length_concat_bound [of "sort_key pg_id (reg_grants r)" grant_bytes 1500] assms
    by (simp add: registry_typed_def list_all_iff grant)
  ultimately show ?thesis using assms by (simp add: registry_bytes_def registry_typed_def registry_limits)
qed

definition registry_domain :: "u8 list" where
  "registry_domain = ascii_bytes ''memcordon.local-policy/revision1''"

lemma registry_encode_bytes:
  assumes "registry_typed r"
  shows "registry_encode r = Inr (header_bytes registry_domain @ registry_bytes r)"
proof -
  let ?ps = "sort_key (\<lambda>p. profile_id (def_reference p)) (reg_profiles r)"
  let ?gs = "sort_key pg_id (reg_grants r)"
  have gs: "list_all grant_typed ?gs" using assms by (simp add: registry_typed_def)
  have fits: "length (header_bytes registry_domain @ registry_bytes r) \<le> REGISTRY_BYTES"
    using length_registry_bytes [OF assms]
    by (simp add: header_bytes_def registry_domain_def ascii_bytes_def registry_limits)
  have "registry_encode r = lift_encoding (and_then (encoder_new registry_domain REGISTRY_BYTES) (\<lambda>e.
      and_then (encode_all (([enc_count (length ?ps)] @ map enc_profile ?ps) @ [enc_count (length ?gs)]
        @ map grant_step ?gs @ [enc_byte (disposition_tag (reg_disposition r))]) e) (\<lambda>e. Inr (enc_bytes e))))"
    unfolding registry_encode_def Let_def encode_all_append lift_and_then enc_grants_eq [OF gs] registry_domain_def
    by (simp add: lift_and_then and_then_assoc del: length_sort)
  with encode_bytes [OF writes_registry [OF assms] fits] show ?thesis by (simp del: encode_all.simps)
qed

subsection \<open>Properties\<close>

text \<open>
  C16: The digest of a policy registry always exists and binds the registry: the bytes it is taken of
  agree for two well-formed registries exactly when these have the same profiles, the same grants (id,
  revision, profile, ceiling, enablement, set of callers and set of approved plans) and the same
  disposition, in whatever order the lists hold them.
\<close>

theorem canonical_digest_binds_registry:
  assumes "registry_valid sha256 r" "registry_valid sha256 s" and "registry_typed r" "registry_typed s"
  shows "\<exists>bs cs. registry_encode r = Inr bs \<and> canonical_digest sha256 r = Some (Inr (sha256 bs))
    \<and> registry_encode s = Inr cs \<and> canonical_digest sha256 s = Some (Inr (sha256 cs))
    \<and> (bs = cs \<longleftrightarrow> registry_view r = registry_view s)"
proof -
  have digest: "canonical_digest sha256 r = Some (Inr (sha256 (header_bytes registry_domain @ registry_bytes r)))"
    if "registry_valid sha256 r" "registry_typed r" for r
    using that(1) registry_encode_bytes [OF that(2)]
    by (simp add: canonical_digest_def registry_validate_iff [THEN iffD2])
  have "registry_bytes r = registry_bytes s \<longleftrightarrow> registry_view r = registry_view s"
    using registry_bytes_decide [OF assms] registry_bytes_view [OF assms] by blast
  then show ?thesis
    using digest assms registry_encode_bytes [OF assms(3)] registry_encode_bytes [OF assms(4)] by simp
qed

lemma example_registry_typed: "registry_typed (example_registry (\<lambda>_. replicate 32 0))"
  by (simp add: example_registry_def registry_typed_def grant_typed_def reference_typed_def profile_reference_def
      registry_limits logical_id_ok_def ascii_bytes_def is_identifier_byte_def
      workload_limits)

theorem canonical_digest_binds_registry_witness:
  "\<exists>bs cs. registry_encode (example_registry (\<lambda>_. replicate 32 0)) = Inr bs
    \<and> registry_encode (example_registry (\<lambda>_. replicate 32 0)\<lparr>reg_disposition := RevokeActive\<rparr>) = Inr cs \<and> bs \<noteq> cs"
proof -
  let ?r = "example_registry (\<lambda>_. replicate 32 0)"
  have "registry_valid (\<lambda>_. replicate 32 0) (?r\<lparr>reg_disposition := RevokeActive\<rparr>)"
    using example_registry_valid by (simp add: registry_valid_def)
  moreover have "registry_typed (?r\<lparr>reg_disposition := RevokeActive\<rparr>)"
    using example_registry_typed by (simp add: registry_typed_def)
  moreover have "registry_view ?r \<noteq> registry_view (?r\<lparr>reg_disposition := RevokeActive\<rparr>)"
    by (simp add: registry_view_def example_registry_def)
  ultimately show ?thesis
    using canonical_digest_binds_registry [OF example_registry_valid _ example_registry_typed] by blast
qed

end
