(* ===== verification/WorkloadRegistryV2.thy ===== *)
theory WorkloadRegistryV2
  imports WorkloadRegistry
begin

text \<open>
  The second version of the policy registry (\<open>workload_registry_v2.rs\<close>) and of the admission metadata
  (\<open>workload_admission_v2.rs\<close>): profile kinds, execution identities with approved entrypoints, grants
  bound to an identity, the projection to a first-version registry and the resolution of requests.
  An \<open>unreachable!\<close> or failing \<open>expect\<close> of the source is \<open>None\<close>; SHA-256 is a parameter.
\<close>

subsection \<open>Profile kinds\<close>

datatype profile_kind_v2 = LinuxUnixCreateV1 | LinuxTcp4PrivateV1

fun kind_id :: "profile_kind_v2 \<Rightarrow> logical_id option" where
  "kind_id LinuxUnixCreateV1 = baseline_id LinuxUnixCreate"
| "kind_id LinuxTcp4PrivateV1 = expect (logical_id_new (ascii_bytes ''linux-tcp4-private-v1''))"

fun kind_ceiling :: "profile_kind_v2 \<Rightarrow> network_ceiling_v1" where
  "kind_ceiling LinuxUnixCreateV1 = baseline_ceiling LinuxUnixCreate"
| "kind_ceiling LinuxTcp4PrivateV1 =
     \<lparr>direct_socket_authority = AttemptPrivateIpv4StackAllPorts, unix_authority = NoNamedEndpointsSocketPairsOnly,
      external_socket_custody = NoSocketAtTargetEntry, credential_gains = NoGain,
      mediated_communication = ExternalFilesystemAndStdioPolicyAccepted\<rparr>"

fun kind_reference :: "(u8 list \<Rightarrow> u8 list) \<Rightarrow> profile_kind_v2 \<Rightarrow> profile_ref option" where
  "kind_reference sha256 LinuxUnixCreateV1 = baseline_reference sha256 LinuxUnixCreate"
| "kind_reference sha256 LinuxTcp4PrivateV1 =
     Option.bind (expect (encoder_new (ascii_bytes ''profile-definition-v2'') CONTRACT_BYTES)) (\<lambda>e.
     Option.bind (kind_id LinuxTcp4PrivateV1) (\<lambda>i.
     Option.bind (expect (encode_all ([enc_id i, encode_ceiling (kind_ceiling LinuxTcp4PrivateV1)]
         @ map enc_byte [1, 1, 1, 1] @ map enc_u64 [0, 32768, 60999] @ [enc_count 0]) e)) (\<lambda>e.
       Some \<lparr>profile_id = i, semantic_digest = sha256 (enc_bytes e)\<rparr>)))"

subsection \<open>Execution identities\<close>

definition EXECUTION_IDENTITIES :: nat where "EXECUTION_IDENTITIES = 32"

definition GROUPS_PER_IDENTITY :: nat where "GROUPS_PER_IDENTITY = 32"

definition ENTRYPOINTS_PER_IDENTITY :: nat where "ENTRYPOINTS_PER_IDENTITY = 8"

definition ENTRYPOINT_PATH_BYTES :: nat where "ENTRYPOINT_PATH_BYTES = 4096"

lemmas private_limits = EXECUTION_IDENTITIES_def GROUPS_PER_IDENTITY_def ENTRYPOINTS_PER_IDENTITY_def
  ENTRYPOINT_PATH_BYTES_def

record approved_entrypoint_v2 =
  entry_id :: logical_id
  entry_path :: string
  entry_sha256 :: sha256_digest
  entry_size :: u64

record linux_execution_identity_v2 =
  xi_reference :: execution_identity_ref_v2
  xi_enabled :: bool
  xi_uid :: u32
  xi_gid :: u32
  xi_groups :: "u32 list"
  xi_entrypoints :: "approved_entrypoint_v2 list"

datatype private_error =
  NoEntrypoint | DuplicateGroup | InvalidEntrypoint | IdentityDigestDiffers | PrivateFormatDiffers
  | InvalidPrivateProfile | DuplicateIdentity | InvalidPrivateGrant | InvalidPrivateCaller | DuplicatePrivatePlan
  | IdentityAbsent | PrivateProfileRequired | ProjectedProfilesExceedBound | ProjectedGrantsExceedBound
  | ProjectionInvalid registry_error | PrivateEncoding contract_error | CorrelationDiffers

definition lift_private :: "contract_error + 'a \<Rightarrow> private_error + 'a" where
  "lift_private r = (case r of Inl e \<Rightarrow> Inl (PrivateEncoding e) | Inr x \<Rightarrow> Inr x)"

definition bad_path :: "string \<Rightarrow> bool" where
  "bad_path path \<longleftrightarrow>
     take 1 path \<noteq> ''/'' \<or> path = ''/'' \<or> CHR 0x00 \<in> set path
     \<or> list_ex (\<lambda>part. part = [] \<or> part = ''.'' \<or> part = ''..'') (drop 1 (split_on (CHR ''/'') path))"

fun validate_groups :: "u32 list \<Rightarrow> u32 list \<Rightarrow> private_error + unit" where
  "validate_groups prior [] = Inr ()"
| "validate_groups prior (g # gs) =
     (if g \<in> set prior then Inl DuplicateGroup else validate_groups (prior @ [g]) gs)"

fun validate_entrypoints :: "approved_entrypoint_v2 list \<Rightarrow> approved_entrypoint_v2 list \<Rightarrow> private_error + unit" where
  "validate_entrypoints prior [] = Inr ()"
| "validate_entrypoints prior (e # es) =
     (if bad_path (entry_path e) \<or> list_ex (\<lambda>p. entry_id p = entry_id e) prior
      then Inl InvalidEntrypoint else validate_entrypoints (prior @ [e]) es)"

definition validate_fields :: "linux_execution_identity_v2 \<Rightarrow> private_error + unit" where
  "validate_fields x =
     (if xi_entrypoints x = [] then Inl NoEntrypoint
      else and_then (validate_groups [] (xi_groups x)) (\<lambda>_. validate_entrypoints [] (xi_entrypoints x)))"

definition enc_entrypoint :: "approved_entrypoint_v2 \<Rightarrow> encoder_step" where
  "enc_entrypoint e = encode_all
     [enc_id (entry_id e), enc_count (length (entry_path e)), enc_raw (ascii_bytes (entry_path e)),
      enc_u64 (entry_size e), enc_digest (entry_sha256 e)]"

definition enc_identity_account :: "linux_execution_identity_v2 \<Rightarrow> encoder_step" where
  "enc_identity_account x =
     (let groups = sort (xi_groups x); entrypoints = sort_key entry_id (xi_entrypoints x)
      in encode_all ([enc_u64 (ucast (xi_uid x)), enc_u64 (ucast (xi_gid x)), enc_count (length groups)]
           @ map (\<lambda>g. enc_u64 (ucast g)) groups
           @ [enc_count (length entrypoints)] @ map enc_entrypoint entrypoints))"

definition identity_semantic_digest ::
  "(u8 list \<Rightarrow> u8 list) \<Rightarrow> linux_execution_identity_v2 \<Rightarrow> private_error + sha256_digest" where
  "identity_semantic_digest sha256 x =
     and_then (validate_fields x) (\<lambda>_.
     and_then (lift_private (encoder_new (ascii_bytes ''execution-identity-v2'') REGISTRY_BYTES)) (\<lambda>e.
     and_then (lift_private (encode_all [enc_id (identity_id (xi_reference x)), enc_identity_account x] e)) (\<lambda>e.
       Inr (sha256 (enc_bytes e)))))"

definition identity_validate :: "(u8 list \<Rightarrow> u8 list) \<Rightarrow> linux_execution_identity_v2 \<Rightarrow> private_error + unit" where
  "identity_validate sha256 x =
     and_then (identity_semantic_digest sha256 x) (\<lambda>d.
       if d \<noteq> identity_digest (xi_reference x) then Inl IdentityDigestDiffers else Inr ())"

subsection \<open>The registry\<close>

record runtime_private_profile_definition =
  pdef_profile :: profile_kind_v2
  pdef_reference :: profile_ref
  pdef_enabled :: bool

record policy_grant_v2 = policy_grant_v1 +
  pg_execution_identity :: execution_identity_request_v2

record runtime_private_policy_registry =
  preg_format :: string
  preg_revision :: u32
  preg_profiles :: "runtime_private_profile_definition list"
  preg_identities :: "linux_execution_identity_v2 list"
  preg_grants :: "policy_grant_v2 list"
  preg_disposition :: grant_change_disposition

fun validate_private_profiles ::
  "(u8 list \<Rightarrow> u8 list) \<Rightarrow> runtime_private_profile_definition list \<Rightarrow> runtime_private_profile_definition list
    \<Rightarrow> (private_error + unit) option" where
  "validate_private_profiles sha256 prior [] = Some (Inr ())"
| "validate_private_profiles sha256 prior (p # ps) =
     Option.bind (kind_reference sha256 (pdef_profile p)) (\<lambda>reference.
       if pdef_reference p \<noteq> reference
         \<or> list_ex (\<lambda>q. profile_id (pdef_reference q) = profile_id (pdef_reference p)) prior
       then Some (Inl InvalidPrivateProfile)
       else validate_private_profiles sha256 (prior @ [p]) ps)"

fun validate_identities ::
  "(u8 list \<Rightarrow> u8 list) \<Rightarrow> linux_execution_identity_v2 list \<Rightarrow> linux_execution_identity_v2 list
    \<Rightarrow> private_error + unit" where
  "validate_identities sha256 prior [] = Inr ()"
| "validate_identities sha256 prior (x # xs) =
     and_then (identity_validate sha256 x) (\<lambda>_.
       if list_ex (\<lambda>p. identity_id (xi_reference p) = identity_id (xi_reference x)) prior
       then Inl DuplicateIdentity
       else validate_identities sha256 (prior @ [x]) xs)"

fun is_linux :: "caller_selector \<Rightarrow> bool" where
  "is_linux (LinuxCaller _) \<longleftrightarrow> True"
| "is_linux (WindowsCaller _) \<longleftrightarrow> False"

fun validate_private_callers :: "caller_selector list \<Rightarrow> caller_selector list \<Rightarrow> private_error + unit" where
  "validate_private_callers prior [] = Inr ()"
| "validate_private_callers prior (c # cs) =
     (if \<not> is_linux c \<or> c \<in> set prior then Inl InvalidPrivateCaller
      else validate_private_callers (prior @ [c]) cs)"

fun validate_private_plans :: "sha256_digest list \<Rightarrow> sha256_digest list \<Rightarrow> private_error + unit" where
  "validate_private_plans prior [] = Inr ()"
| "validate_private_plans prior (plan # plans) =
     (if plan \<in> set prior then Inl DuplicatePrivatePlan else validate_private_plans (prior @ [plan]) plans)"

definition validate_grant_identity ::
  "runtime_private_profile_definition list \<Rightarrow> linux_execution_identity_v2 list \<Rightarrow> policy_grant_v2
    \<Rightarrow> private_error + unit" where
  "validate_grant_identity profiles identities g =
     (case pg_execution_identity g of
        PreserveCaller \<Rightarrow> Inr ()
      | AdministratorProfile reference \<Rightarrow>
          if \<not> list_ex (\<lambda>x. xi_reference x = reference \<and> (\<not> pg_enabled g \<or> xi_enabled x)) identities
          then Inl IdentityAbsent
          else if \<not> list_ex (\<lambda>p. pdef_reference p = pg_profile g \<and> pdef_profile p = LinuxTcp4PrivateV1) profiles
          then Inl PrivateProfileRequired
          else Inr ())"

definition validate_private_grant ::
  "runtime_private_profile_definition list \<Rightarrow> linux_execution_identity_v2 list \<Rightarrow> policy_grant_v2 list
    \<Rightarrow> policy_grant_v2 \<Rightarrow> private_error + unit" where
  "validate_private_grant profiles identities prior g =
     (if list_ex (\<lambda>p. pg_id p = pg_id g) prior \<or> pg_callers g = [] \<or> pg_approved_plans g = []
        \<or> \<not> list_ex (\<lambda>p. pdef_reference p = pg_profile g
              \<and> ceiling_contains (pg_ceiling g) (kind_ceiling (pdef_profile p))) profiles
      then Inl InvalidPrivateGrant
      else and_then (validate_private_callers [] (pg_callers g)) (\<lambda>_.
           and_then (validate_private_plans [] (pg_approved_plans g)) (\<lambda>_.
             validate_grant_identity profiles identities g)))"

fun validate_private_grants ::
  "runtime_private_profile_definition list \<Rightarrow> linux_execution_identity_v2 list \<Rightarrow> policy_grant_v2 list
    \<Rightarrow> policy_grant_v2 list \<Rightarrow> private_error + unit" where
  "validate_private_grants profiles identities prior [] = Inr ()"
| "validate_private_grants profiles identities prior (g # gs) =
     and_then (validate_private_grant profiles identities prior g) (\<lambda>_.
       validate_private_grants profiles identities (prior @ [g]) gs)"

definition private_validate ::
  "(u8 list \<Rightarrow> u8 list) \<Rightarrow> runtime_private_policy_registry \<Rightarrow> (private_error + unit) option" where
  "private_validate sha256 r =
     (if preg_format r \<noteq> ''memcordon.local-private-policy'' \<or> preg_revision r \<noteq> 1
      then Some (Inl PrivateFormatDiffers)
      else Option.bind (validate_private_profiles sha256 [] (preg_profiles r)) (\<lambda>result.
        Some (and_then result (\<lambda>_.
          and_then (validate_identities sha256 [] (preg_identities r)) (\<lambda>_.
            validate_private_grants (preg_profiles r) (preg_identities r) [] (preg_grants r))))))"

subsection \<open>The projection to the first version\<close>

fun project_profiles ::
  "runtime_profile_definition list \<Rightarrow> runtime_private_profile_definition list
    \<Rightarrow> private_error + runtime_profile_definition list" where
  "project_profiles acc [] = Inr acc"
| "project_profiles acc (p # ps) =
     (if pdef_profile p = LinuxUnixCreateV1
      then case try_push PROFILES acc
             \<lparr>def_profile = LinuxUnixCreate, def_reference = pdef_reference p, def_enabled = pdef_enabled p\<rparr> of
             None \<Rightarrow> Inl ProjectedProfilesExceedBound
           | Some acc' \<Rightarrow> project_profiles acc' ps
      else project_profiles acc ps)"

fun project_grants ::
  "profile_ref \<Rightarrow> policy_grant_v1 list \<Rightarrow> policy_grant_v2 list \<Rightarrow> private_error + policy_grant_v1 list" where
  "project_grants baseline acc [] = Inr acc"
| "project_grants baseline acc (g # gs) =
     (if pg_profile g = baseline \<and> pg_execution_identity g = PreserveCaller
      then case try_push GRANTS acc (policy_grant_v1.truncate g) of
             None \<Rightarrow> Inl ProjectedGrantsExceedBound
           | Some acc' \<Rightarrow> project_grants baseline acc' gs
      else project_grants baseline acc gs)"

definition baseline_v1_projection ::
  "(u8 list \<Rightarrow> u8 list) \<Rightarrow> runtime_private_policy_registry \<Rightarrow> (private_error + runtime_policy_registry) option" where
  "baseline_v1_projection sha256 r =
     Option.bind (private_validate sha256 r) (\<lambda>result.
     case result of Inl e \<Rightarrow> Some (Inl e) | Inr _ \<Rightarrow>
     (case project_profiles [] (preg_profiles r) of Inl e \<Rightarrow> Some (Inl e) | Inr profiles \<Rightarrow>
     Option.bind (baseline_reference sha256 LinuxUnixCreate) (\<lambda>baseline.
     (case project_grants baseline [] (preg_grants r) of Inl e \<Rightarrow> Some (Inl e) | Inr grants \<Rightarrow>
       let projected = \<lparr>reg_format = ''memcordon.local-policy'', reg_revision = 1, reg_profiles = profiles,
             reg_grants = grants, reg_disposition = preg_disposition r\<rparr>
       in Option.bind (registry_validate sha256 projected) (\<lambda>validated.
          Some (case validated of Inl e \<Rightarrow> Inl (ProjectionInvalid e) | Inr _ \<Rightarrow> Inr projected))))))"

subsection \<open>Canonical bytes\<close>

definition enc_private_profile :: "runtime_private_profile_definition \<Rightarrow> encoder_step" where
  "enc_private_profile p = encode_all
     [enc_id (profile_id (pdef_reference p)), enc_digest (semantic_digest (pdef_reference p)),
      enc_bool (pdef_enabled p)]"

definition enc_execution_identity :: "linux_execution_identity_v2 \<Rightarrow> encoder_step" where
  "enc_execution_identity x = encode_all
     [enc_id (identity_id (xi_reference x)), enc_digest (identity_digest (xi_reference x)), enc_bool (xi_enabled x),
      enc_identity_account x]"

fun caller_uid :: "caller_selector \<Rightarrow> u32 option" where
  "caller_uid (LinuxCaller uid) = Some uid"
| "caller_uid (WindowsCaller _) = None"

fun caller_uids :: "caller_selector list \<Rightarrow> u32 list option" where
  "caller_uids [] = Some []"
| "caller_uids (c # cs) =
     Option.bind (caller_uid c) (\<lambda>uid. Option.bind (caller_uids cs) (\<lambda>uids. Some (uid # uids)))"

definition enc_private_grant :: "policy_grant_v2 \<Rightarrow> u32 list \<Rightarrow> encoder_step" where
  "enc_private_grant g uids =
     (let uids = sort uids; plans = sort (pg_approved_plans g)
      in encode_all ([enc_grant_head g, enc_count (length uids)]
           @ concat (map (\<lambda>uid. [enc_byte 1, enc_raw (to_be_bytes 4 uid)]) uids)
           @ [enc_count (length plans)] @ map enc_digest plans @ [enc_identity (pg_execution_identity g)]))"

fun enc_private_grants :: "policy_grant_v2 list \<Rightarrow> encoder \<Rightarrow> (contract_error + encoder) option" where
  "enc_private_grants [] e = Some (Inr e)"
| "enc_private_grants (g # gs) e =
     Option.bind (caller_uids (pg_callers g)) (\<lambda>uids.
       case enc_private_grant g uids e of Inl err \<Rightarrow> Some (Inl err) | Inr e \<Rightarrow> enc_private_grants gs e)"

definition private_canonical_bytes ::
  "(u8 list \<Rightarrow> u8 list) \<Rightarrow> runtime_private_policy_registry \<Rightarrow> (private_error + u8 list) option" where
  "private_canonical_bytes sha256 r =
     Option.bind (private_validate sha256 r) (\<lambda>result.
     case result of Inl err \<Rightarrow> Some (Inl err) | Inr _ \<Rightarrow>
     (let profiles = sort_key (\<lambda>p. profile_id (pdef_reference p)) (preg_profiles r);
          identities = sort_key (\<lambda>x. identity_id (xi_reference x)) (preg_identities r);
          grants = sort_key pg_id (preg_grants r)
      in case and_then (encoder_new (ascii_bytes ''memcordon.local-private-policy/revision1'') REGISTRY_BYTES)
             (encode_all ([enc_count (length profiles)] @ map enc_private_profile profiles
               @ [enc_count (length identities)] @ map enc_execution_identity identities
               @ [enc_count (length grants)])) of
           Inl err \<Rightarrow> Some (Inl (PrivateEncoding err))
         | Inr e \<Rightarrow>
             Option.bind (enc_private_grants grants e) (\<lambda>result.
               Some (lift_private (and_then (and_then result (enc_byte (disposition_tag (preg_disposition r)))) (\<lambda>e.
                 Inr (enc_bytes e)))))))"

definition private_canonical_digest ::
  "(u8 list \<Rightarrow> u8 list) \<Rightarrow> runtime_private_policy_registry \<Rightarrow> (private_error + sha256_digest) option" where
  "private_canonical_digest sha256 r =
     Option.bind (private_canonical_bytes sha256 r) (\<lambda>result. Some (and_then result (\<lambda>bs. Inr (sha256 bs))))"

subsection \<open>Admission\<close>

datatype admission_code_v2 =
  ProfileNotAuthorizedV2 | PlanNotApprovedV2 | ProfileDigestMismatchV2 | PolicyEpochStaleV2 | PolicyIncompatibleV2
  | FeatureNotEnforceableV2 | CallerEnvelopeIncompatibleV2 | DescriptorAuthorityIncompatibleV2
  | HostPrerequisiteUnavailableV2 | EnforcementInstallFailedV2 | EnforcementReadbackFailedV2 | PolicyDriftV2
  | ExecutionIdentityNotAuthorizedV2 | ExecutionIdentityUnavailableV2 | EntrypointAuthorityMismatchV2

datatype candidate_policy_decision_v2 = Accepted | Rejected "admission_code_v2 admission_rejection"

definition grant_matches_v2 :: "workload_contract_v2 \<Rightarrow> caller_selector \<Rightarrow> policy_grant_v2 \<Rightarrow> bool" where
  "grant_matches_v2 request caller g \<longleftrightarrow>
     pg_id g = grant_id (authorization request)
     \<and> pg_revision g = grant_revision (authorization request)
     \<and> pg_enabled g
     \<and> caller \<in> set (pg_callers g)"

fun peer_conflict_v2 :: "tcp_peer_requirement \<Rightarrow> admission_code_v2 option" where
  "peer_conflict_v2 (ExactAddress (EndpointV4 address _)) =
     (if is_loopback_v4 address then None else Some PolicyIncompatibleV2)"
| "peer_conflict_v2 (ExactAddress (EndpointV6 _ _)) = None"
| "peer_conflict_v2 (SameAttemptEndpoint _) = None"

fun requirement_conflict_v2 :: "profile_kind_v2 \<Rightarrow> requirement_v1 \<Rightarrow> admission_code_v2 option" where
  "requirement_conflict_v2 LinuxUnixCreateV1 (UnixSocketCreation _ _) = None"
| "requirement_conflict_v2 LinuxUnixCreateV1 (UnixSocketPair _ _) = None"
| "requirement_conflict_v2 LinuxTcp4PrivateV1 (UnixSocketCreation _ _) = Some FeatureNotEnforceableV2"
| "requirement_conflict_v2 LinuxTcp4PrivateV1 (UnixSocketPair _ _) = Some FeatureNotEnforceableV2"
| "requirement_conflict_v2 LinuxUnixCreateV1 (DenialExercise _ operation) =
     (if operation = InetSocketCreation then None else Some FeatureNotEnforceableV2)"
| "requirement_conflict_v2 LinuxTcp4PrivateV1 (DenialExercise _ operation) =
     (case operation of
        NamedUnixSocketCreation \<Rightarrow> None
      | InetSocketCreation \<Rightarrow> Some PolicyIncompatibleV2
      | ExternalSocketImport \<Rightarrow> Some FeatureNotEnforceableV2)"
| "requirement_conflict_v2 LinuxUnixCreateV1 (Tcp _ _ _ _ _ _) = Some PolicyIncompatibleV2"
| "requirement_conflict_v2 LinuxTcp4PrivateV1 (Tcp _ family _ scope _ peer) =
     (if family = FamilyV4 \<and> scope = AttemptPrivateStack then peer_conflict_v2 peer
      else Some PolicyIncompatibleV2)"
| "requirement_conflict_v2 _ (SuppliedTcpListener _ _ _) = Some FeatureNotEnforceableV2"

definition identity_available :: "runtime_private_policy_registry \<Rightarrow> execution_identity_request_v2 \<Rightarrow> bool" where
  "identity_available registry request =
     (case request of
        PreserveCaller \<Rightarrow> True
      | AdministratorProfile reference \<Rightarrow>
          list_ex (\<lambda>x. xi_enabled x \<and> xi_reference x = reference) (preg_identities registry))"

definition resolve_v2 ::
  "(u8 list \<Rightarrow> u8 list) \<Rightarrow> runtime_private_policy_registry \<Rightarrow> policy_epoch \<Rightarrow> workload_contract_v2 \<Rightarrow> caller_selector
    \<Rightarrow> profile_kind_v2 \<Rightarrow> (admission_code_v2 admission_rejection + policy_grant_v2) option" where
  "resolve_v2 sha256 registry current_epoch request caller native =
     Option.bind (private_validate sha256 registry) (\<lambda>validated. Some (
     if validated \<noteq> Inr () \<or> validate_v2 request \<noteq> Inr () then Inl (single_rejection PolicyIncompatibleV2)
     else if \<not> is_linux caller then Inl (single_rejection ProfileNotAuthorizedV2)
     else case find (grant_matches_v2 request caller) (preg_grants registry) of
        None \<Rightarrow> Inl (single_rejection ProfileNotAuthorizedV2)
      | Some grant \<Rightarrow>
          if workload_plan_digest request \<notin> set (pg_approved_plans grant)
            \<or> approved_plan_digest (authorization request) \<noteq> workload_plan_digest request
          then Inl (single_rejection PlanNotApprovedV2)
          else if current_epoch \<noteq> expected_epoch request then Inl (single_rejection PolicyEpochStaleV2)
          else if pg_profile grant \<noteq> authorized_profile request then Inl (single_rejection ProfileDigestMismatchV2)
          else case find (\<lambda>p. pdef_reference p = pg_profile grant \<and> pdef_enabled p) (preg_profiles registry) of
            None \<Rightarrow> Inl (single_rejection ProfileNotAuthorizedV2)
          | Some profile \<Rightarrow>
              if pdef_profile profile \<noteq> native then Inl (single_rejection HostPrerequisiteUnavailableV2)
              else if pg_execution_identity grant \<noteq> execution_identity request
              then Inl (single_rejection ExecutionIdentityNotAuthorizedV2)
              else if \<not> identity_available registry (execution_identity request)
              then Inl (single_rejection ExecutionIdentityUnavailableV2)
              else if \<not> ceiling_contains (pg_ceiling grant) (ceiling request)
                \<or> \<not> ceiling_contains (ceiling request) (kind_ceiling (pdef_profile profile))
              then Inl (single_rejection PolicyIncompatibleV2)
              else case collect_conflicts (requirement_conflict_v2 native) [] 0
                     (sort_key requirement_id (requirements request)) of
                ([], _) \<Rightarrow> Inr grant
              | (first # others, remainder) \<Rightarrow>
                  Inl \<lparr>rejection_code = conflict_code first, rejection_conflicts = first # others,
                       rejection_remaining = remainder\<rparr>))"

definition evaluate_candidate_policy_v2 ::
  "(u8 list \<Rightarrow> u8 list) \<Rightarrow> runtime_private_policy_registry \<Rightarrow> policy_epoch \<Rightarrow> workload_contract_v2 \<Rightarrow> caller_selector
    \<Rightarrow> profile_kind_v2 \<Rightarrow> candidate_policy_decision_v2 option" where
  "evaluate_candidate_policy_v2 sha256 registry current_epoch request caller native =
     Option.bind (resolve_v2 sha256 registry current_epoch request caller native) (\<lambda>result.
       Some (case result of Inr _ \<Rightarrow> Accepted | Inl rejection \<Rightarrow> Rejected rejection))"

subsection \<open>Admission metadata\<close>

definition PUBLIC_OBJECT_BYTES :: nat where "PUBLIC_OBJECT_BYTES = 128 * 1024"

record runtime_private_admission_snapshot =
  psnap_format :: string
  psnap_revision :: u32
  psnap_request :: workload_contract_v2
  psnap_request_sha256 :: sha256_digest
  psnap_invocation_sha256 :: sha256_digest
  psnap_caller :: caller_selector
  psnap_registry_digest :: sha256_digest
  psnap_epoch :: policy_epoch
  psnap_admission_nonce :: "u8 list"
  psnap_profile_id :: profile_ref

definition private_snapshot_validate ::
  "(u8 list \<Rightarrow> u8 list) \<Rightarrow> runtime_private_admission_snapshot \<Rightarrow> private_error + unit" where
  "private_snapshot_validate sha256 s =
     and_then (lift_private (validate_v2 (psnap_request s))) (\<lambda>_.
       if psnap_format s \<noteq> ''memcordon.private-admission-metadata'' \<or> psnap_revision s \<noteq> 1
       then Inl CorrelationDiffers
       else and_then (lift_private (contract_digest_v2 sha256 (psnap_request s))) (\<lambda>d.
         if d \<noteq> psnap_request_sha256 s
           \<or> psnap_epoch s \<noteq> expected_epoch (psnap_request s)
           \<or> psnap_profile_id s \<noteq> authorized_profile (psnap_request s)
           \<or> \<not> is_linux (psnap_caller s)
         then Inl CorrelationDiffers
         else Inr ()))"

definition private_snapshot_digest ::
  "(u8 list \<Rightarrow> u8 list) \<Rightarrow> runtime_private_admission_snapshot \<Rightarrow> (private_error + sha256_digest) option" where
  "private_snapshot_digest sha256 s =
     (case private_snapshot_validate sha256 s of Inl err \<Rightarrow> Some (Inl err) | Inr _ \<Rightarrow>
      (case and_then (encoder_new (ascii_bytes ''memcordon.private-admission-metadata/revision1'') PUBLIC_OBJECT_BYTES)
          (encode_all [enc_digest (psnap_request_sha256 s), enc_digest (psnap_invocation_sha256 s),
            enc_digest (psnap_registry_digest s)]) of
         Inl err \<Rightarrow> Some (Inl (PrivateEncoding err))
       | Inr e \<Rightarrow>
           Option.bind (caller_uid (psnap_caller s)) (\<lambda>uid.
             Some (lift_private (and_then (encode_all [enc_raw (to_be_bytes 4 uid),
               enc_raw (service_instance (psnap_epoch s)), enc_u64 (epoch_revision (psnap_epoch s)),
               enc_raw (psnap_admission_nonce s), enc_id (profile_id (psnap_profile_id s)),
               enc_digest (semantic_digest (psnap_profile_id s))] e) (\<lambda>e. Inr (sha256 (enc_bytes e))))))))"

record attempt_binding_v2 =
  binding_attempt_id :: string
  binding_admission_digest :: sha256_digest
  binding_envelope_digest :: sha256_digest
  binding_invocation_digest :: sha256_digest

definition attempt_binding_digest ::
  "(u8 list \<Rightarrow> u8 list) \<Rightarrow> attempt_binding_v2 \<Rightarrow> contract_error + sha256_digest" where
  "attempt_binding_digest sha256 b =
     and_then (encoder_new (ascii_bytes ''private-attempt-binding-v2'') CONTRACT_BYTES) (\<lambda>e.
     and_then (encode_all [enc_count (length (binding_attempt_id b)), enc_raw (ascii_bytes (binding_attempt_id b)),
       enc_digest (binding_admission_digest b), enc_digest (binding_envelope_digest b),
       enc_digest (binding_invocation_digest b)] e) (\<lambda>e. Inr (sha256 (enc_bytes e))))"

end
