(* ===== verification/WorkloadAdmissionV2.thy ===== *)
theory WorkloadAdmissionV2
  imports WorkloadDigest WorkloadRegistryV2
begin

text \<open>
  What the second version of the registry promises: validation accepts exactly the well-formed
  registries, a request is admitted exactly when every part of its authority agrees, execution
  identity included, and the projection to the first version always exists and grants nothing
  that the second version does not grant to the same caller.
\<close>

subsection \<open>Profile kinds\<close>

definition private_profile_bytes :: "u8 list" where
  "private_profile_bytes =
     header_bytes (ascii_bytes ''profile-definition-v2'') @ id_bytes (ascii_bytes ''linux-tcp4-private-v1'')
     @ ceiling_bytes (kind_ceiling LinuxTcp4PrivateV1) @ [1, 1, 1, 1]
     @ to_be_bytes 8 (0 :: u64) @ to_be_bytes 8 (32768 :: u64) @ to_be_bytes 8 (60999 :: u64) @ to_be_bytes 2 (0 :: u16)"

fun kind_ref :: "(u8 list \<Rightarrow> u8 list) \<Rightarrow> profile_kind_v2 \<Rightarrow> profile_ref" where
  "kind_ref sha256 LinuxUnixCreateV1 = profile_reference sha256 LinuxUnixCreate"
| "kind_ref sha256 LinuxTcp4PrivateV1 =
     \<lparr>profile_id = ascii_bytes ''linux-tcp4-private-v1'', semantic_digest = sha256 private_profile_bytes\<rparr>"

lemma private_name_ok: "logical_id_ok (ascii_bytes ''linux-tcp4-private-v1'')"
  by (simp add: logical_id_ok_def ascii_bytes_def is_identifier_byte_def IDENTIFIER_BYTES_def)

lemma kind_reference_eq: "kind_reference sha256 k = Some (kind_ref sha256 k)"
proof (cases k)
  case LinuxTcp4PrivateV1
  let ?i = "ascii_bytes ''linux-tcp4-private-v1''"
  let ?f = "encode_all ([enc_id ?i, encode_ceiling (kind_ceiling LinuxTcp4PrivateV1)]
         @ map enc_byte [1, 1, 1, 1] @ map enc_u64 [0, 32768, 60999] @ [enc_count 0])"
  have i: "kind_id LinuxTcp4PrivateV1 = Some ?i"
    using private_name_ok by (simp add: logical_id_new_def expect_def)
  have w: "writes ?f (id_bytes ?i @ ceiling_bytes (kind_ceiling LinuxTcp4PrivateV1) @ [1, 1, 1, 1]
      @ to_be_bytes 8 (0 :: u64) @ to_be_bytes 8 (32768 :: u64) @ to_be_bytes 8 (60999 :: u64) @ to_be_bytes 2 (0 :: u16))"
    unfolding append.simps list.map
    by (intro writes_Cons id_codec.written ceiling_codec.written private_name_ok TrueI)
      (use writes_count [of 0] in \<open>simp add: writes_sequence del: encode_all.simps\<close>)
  have "length private_profile_bytes \<le> CONTRACT_BYTES"
    by (simp add: private_profile_bytes_def header_bytes_def id_bytes_def ascii_bytes_def ceiling_bytes_def
        CONTRACT_BYTES_def)
  from encode_bytes [OF w this [unfolded private_profile_bytes_def]] show ?thesis
    unfolding LinuxTcp4PrivateV1 kind_reference.simps i kind_ref.simps private_profile_bytes_def
    by (auto simp: expect_def and_then_def simp del: encode_all.simps split: sum.splits)
qed (simp add: baseline_reference_eq)

lemma kind_ref_inj: "profile_id (kind_ref sha256 k) = profile_id (kind_ref sha256 l) \<longleftrightarrow> k = l"
  by (cases k; cases l) (simp_all add: profile_reference_def ascii_bytes_def)

subsection \<open>Well-formed registries\<close>

definition private_grant_valid ::
  "runtime_private_profile_definition list \<Rightarrow> linux_execution_identity_v2 list \<Rightarrow> policy_grant_v2 \<Rightarrow> bool" where
  "private_grant_valid profiles identities g \<longleftrightarrow>
     pg_callers g \<noteq> [] \<and> distinct (pg_callers g) \<and> list_all is_linux (pg_callers g)
     \<and> pg_approved_plans g \<noteq> [] \<and> distinct (pg_approved_plans g)
     \<and> list_ex (\<lambda>p. pdef_reference p = pg_profile g
          \<and> ceiling_contains (pg_ceiling g) (kind_ceiling (pdef_profile p))) profiles
     \<and> (case pg_execution_identity g of PreserveCaller \<Rightarrow> True
        | AdministratorProfile reference \<Rightarrow>
            list_ex (\<lambda>x. xi_reference x = reference \<and> (\<not> pg_enabled g \<or> xi_enabled x)) identities
            \<and> list_ex (\<lambda>p. pdef_reference p = pg_profile g \<and> pdef_profile p = LinuxTcp4PrivateV1) profiles)"

definition private_valid :: "(u8 list \<Rightarrow> u8 list) \<Rightarrow> runtime_private_policy_registry \<Rightarrow> bool" where
  "private_valid sha256 r \<longleftrightarrow>
     preg_format r = ''memcordon.local-private-policy'' \<and> preg_revision r = 1
     \<and> list_all (\<lambda>p. pdef_reference p = kind_ref sha256 (pdef_profile p)) (preg_profiles r)
     \<and> distinct (map pdef_profile (preg_profiles r))
     \<and> list_all (\<lambda>x. identity_validate sha256 x = Inr ()) (preg_identities r)
     \<and> distinct (map (\<lambda>x. identity_id (xi_reference x)) (preg_identities r))
     \<and> distinct (map pg_id (preg_grants r))
     \<and> list_all (private_grant_valid (preg_profiles r) (preg_identities r)) (preg_grants r)"

lemma validate_private_profiles_total: "validate_private_profiles sha256 prior ps \<noteq> None"
  by (induction ps arbitrary: prior) (simp_all add: kind_reference_eq)

lemma validate_private_profiles_iff:
  "list_all (\<lambda>p. pdef_reference p = kind_ref sha256 (pdef_profile p)) prior \<Longrightarrow>
    distinct (map pdef_profile prior) \<Longrightarrow>
    validate_private_profiles sha256 prior ps = Some (Inr ()) \<longleftrightarrow>
      list_all (\<lambda>p. pdef_reference p = kind_ref sha256 (pdef_profile p)) ps
      \<and> distinct (map pdef_profile (prior @ ps))"
proof (induction ps arbitrary: prior)
  case (Cons p ps)
  show ?case
  proof (cases "pdef_reference p = kind_ref sha256 (pdef_profile p)")
    case True
    have "list_ex (\<lambda>q. profile_id (pdef_reference q) = profile_id (pdef_reference p)) prior
        \<longleftrightarrow> pdef_profile p \<in> set (map pdef_profile prior)"
      using Cons.prems(1) True unfolding list_ex_eq_image [of pdef_profile, symmetric] set_map
      by (auto simp: list_ex_iff list_all_iff kind_ref_inj)
    then show ?thesis
      using Cons.IH [of "prior @ [p]"] Cons.prems True by (auto simp: kind_reference_eq)
  qed (simp add: kind_reference_eq)
qed simp

lemma validate_identities_iff:
  "distinct (map (\<lambda>x. identity_id (xi_reference x)) prior) \<Longrightarrow>
    validate_identities sha256 prior xs = Inr () \<longleftrightarrow>
      list_all (\<lambda>x. identity_validate sha256 x = Inr ()) xs
      \<and> distinct (map (\<lambda>x. identity_id (xi_reference x)) (prior @ xs))"
proof (induction xs arbitrary: prior)
  case (Cons x xs)
  have "validate_identities sha256 prior (x # xs) = Inr () \<longleftrightarrow> identity_validate sha256 x = Inr ()
      \<and> identity_id (xi_reference x) \<notin> (\<lambda>x. identity_id (xi_reference x)) ` set prior
      \<and> validate_identities sha256 (prior @ [x]) xs = Inr ()"
    by (auto simp: and_then_Inr_iff list_ex_eq_image)
  then show ?case using Cons.IH [of "prior @ [x]"] Cons.prems by auto
qed simp

lemma validate_private_callers_iff:
  "distinct prior \<Longrightarrow>
    validate_private_callers prior cs = Inr () \<longleftrightarrow> list_all is_linux cs \<and> distinct (prior @ cs)"
  by (induction cs arbitrary: prior) auto

lemma validate_private_plans_iff:
  "distinct prior \<Longrightarrow> validate_private_plans prior ps = Inr () \<longleftrightarrow> distinct (prior @ ps)"
  by (induction ps arbitrary: prior) auto

lemma validate_private_grant_iff:
  "validate_private_grant profiles identities prior g = Inr () \<longleftrightarrow>
    pg_id g \<notin> set (map pg_id prior) \<and> private_grant_valid profiles identities g"
  by (cases "pg_execution_identity g")
    (auto simp: validate_private_grant_def private_grant_valid_def validate_grant_identity_def and_then_Inr_iff
      validate_private_callers_iff validate_private_plans_iff list_ex_eq_image)

lemma validate_private_grants_iff:
  "distinct (map pg_id prior) \<Longrightarrow> validate_private_grants profiles identities prior gs = Inr () \<longleftrightarrow>
    distinct (map pg_id (prior @ gs)) \<and> list_all (private_grant_valid profiles identities) gs"
proof (induction gs arbitrary: prior)
  case (Cons g gs)
  have "validate_private_grants profiles identities prior (g # gs) = Inr () \<longleftrightarrow>
      pg_id g \<notin> set (map pg_id prior) \<and> private_grant_valid profiles identities g
      \<and> validate_private_grants profiles identities (prior @ [g]) gs = Inr ()"
    using validate_private_grant_iff [of profiles identities prior g] by (auto simp: and_then_Inr_iff)
  then show ?case using Cons.IH [of "prior @ [g]"] Cons.prems by auto
qed simp

lemma private_validate_total: "\<exists>result. private_validate sha256 r = Some result"
  using validate_private_profiles_total [of sha256 "[]" "preg_profiles r"] by (auto simp: private_validate_def)

lemma private_validate_iff: "private_validate sha256 r = Some (Inr ()) \<longleftrightarrow> private_valid sha256 r"
proof -
  have "private_validate sha256 r = Some (Inr ()) \<longleftrightarrow>
      preg_format r = ''memcordon.local-private-policy'' \<and> preg_revision r = 1
      \<and> validate_private_profiles sha256 [] (preg_profiles r) = Some (Inr ())
      \<and> validate_identities sha256 [] (preg_identities r) = Inr ()
      \<and> validate_private_grants (preg_profiles r) (preg_identities r) [] (preg_grants r) = Inr ()"
    by (auto simp: private_validate_def and_then_Inr_iff split: bind_splits)
  then show ?thesis
    by (auto simp: private_valid_def validate_private_profiles_iff validate_identities_iff validate_private_grants_iff)
qed

subsection \<open>Admission\<close>

lemma find_grant_v2:
  assumes "private_valid sha256 registry"
  shows "find (grant_matches_v2 request caller) (preg_grants registry) = Some g \<longleftrightarrow>
    g \<in> set (preg_grants registry) \<and> grant_matches_v2 request caller g"
proof (rule find_unique)
  fix x y
  assume *: "x \<in> set (preg_grants registry)" "y \<in> set (preg_grants registry)"
    "grant_matches_v2 request caller x" "grant_matches_v2 request caller y"
  have "inj_on pg_id (set (preg_grants registry))"
    using assms by (simp add: private_valid_def distinct_map)
  moreover have "pg_id x = pg_id y" using * by (simp add: grant_matches_v2_def)
  ultimately show "x = y" using * by (auto dest: inj_onD)
qed

lemma private_profile_reference:
  "private_valid sha256 registry \<Longrightarrow> p \<in> set (preg_profiles registry) \<Longrightarrow>
    pdef_reference p = kind_ref sha256 (pdef_profile p)"
  by (auto simp: private_valid_def list_all_iff)

lemma private_profile_unique:
  assumes "private_valid sha256 registry" "p \<in> set (preg_profiles registry)" "q \<in> set (preg_profiles registry)"
    and "pdef_reference p = pdef_reference q"
  shows "p = q"
proof -
  have "pdef_profile p = pdef_profile q"
    using assms private_profile_reference [OF assms(1)] kind_ref_inj [of sha256 "pdef_profile p" "pdef_profile q"] by metis
  moreover have "inj_on pdef_profile (set (preg_profiles registry))"
    using assms(1) by (simp add: private_valid_def distinct_map)
  ultimately show ?thesis using assms(2,3) by (auto dest: inj_onD)
qed

lemma find_private_profile:
  assumes "private_valid sha256 registry"
  shows "find (\<lambda>p. pdef_reference p = ref \<and> pdef_enabled p) (preg_profiles registry) = Some p \<longleftrightarrow>
    p \<in> set (preg_profiles registry) \<and> ref = kind_ref sha256 (pdef_profile p) \<and> pdef_enabled p"
proof -
  have "find (\<lambda>p. pdef_reference p = ref \<and> pdef_enabled p) (preg_profiles registry) = Some p \<longleftrightarrow>
      p \<in> set (preg_profiles registry) \<and> pdef_reference p = ref \<and> pdef_enabled p"
    by (rule find_unique) (auto intro: private_profile_unique [OF assms])
  then show ?thesis using private_profile_reference [OF assms, of p] by auto
qed

lemma resolve_v2_rejects_invalid:
  assumes "\<not> (private_valid sha256 registry \<and> contract_v2_valid request \<and> is_linux caller)"
  shows "resolve_v2 sha256 registry epoch request caller native \<noteq> Some (Inr g)"
proof -
  obtain result where r: "private_validate sha256 registry = Some result" using private_validate_total by blast
  then have "result = Inr () \<longleftrightarrow> private_valid sha256 registry" using private_validate_iff [of sha256 registry] by simp
  with assms show ?thesis by (auto simp: resolve_v2_def r validate_v2_iff [symmetric])
qed

lemma resolve_v2_found:
  assumes "private_valid sha256 registry" "contract_v2_valid request" "is_linux caller"
    and "find (grant_matches_v2 request caller) (preg_grants registry) = Some h"
    and "find (\<lambda>p. pdef_reference p = pg_profile h \<and> pdef_enabled p) (preg_profiles registry) = Some p"
  shows "resolve_v2 sha256 registry epoch request caller native = Some
    (if workload_plan_digest request \<notin> set (pg_approved_plans h)
       \<or> approved_plan_digest (authorization request) \<noteq> workload_plan_digest request
     then Inl (single_rejection PlanNotApprovedV2)
     else if epoch \<noteq> expected_epoch request then Inl (single_rejection PolicyEpochStaleV2)
     else if pg_profile h \<noteq> authorized_profile request then Inl (single_rejection ProfileDigestMismatchV2)
     else if pdef_profile p \<noteq> native then Inl (single_rejection HostPrerequisiteUnavailableV2)
     else if pg_execution_identity h \<noteq> execution_identity request
     then Inl (single_rejection ExecutionIdentityNotAuthorizedV2)
     else if \<not> identity_available registry (execution_identity request)
     then Inl (single_rejection ExecutionIdentityUnavailableV2)
     else if \<not> ceiling_contains (pg_ceiling h) (ceiling request)
       \<or> \<not> ceiling_contains (ceiling request) (kind_ceiling (pdef_profile p))
     then Inl (single_rejection PolicyIncompatibleV2)
     else if list_all (\<lambda>r. requirement_conflict_v2 native r = None) (requirements request) then Inr h
     else Inl (conflict_rejection (requirement_conflict_v2 native) (requirements request)))"
  using assms(1-3)
  by (simp add: resolve_v2_def assms(4,5) requirements_resolved conflict_rejection_def Let_def
      private_validate_iff [THEN iffD2] validate_v2_iff [THEN iffD2] split del: if_split cong: if_cong)

lemma identity_available_granted:
  assumes "private_valid sha256 registry" "g \<in> set (preg_grants registry)" "pg_enabled g"
  shows "identity_available registry (pg_execution_identity g)"
proof -
  have "private_grant_valid (preg_profiles registry) (preg_identities registry) g"
    using assms(1,2) by (auto simp: private_valid_def list_all_iff)
  then show ?thesis
    using assms(3) by (cases "pg_execution_identity g")
      (auto simp: private_grant_valid_def identity_available_def list_ex_iff)
qed

lemma resolve_v2_Inr_iff:
  "resolve_v2 sha256 registry epoch request caller native = Some (Inr g) \<longleftrightarrow>
    private_valid sha256 registry \<and> contract_v2_valid request \<and> is_linux caller
    \<and> g \<in> set (preg_grants registry) \<and> grant_matches_v2 request caller g
    \<and> workload_plan_digest request \<in> set (pg_approved_plans g)
    \<and> approved_plan_digest (authorization request) = workload_plan_digest request
    \<and> epoch = expected_epoch request
    \<and> pg_profile g = authorized_profile request \<and> authorized_profile request = kind_ref sha256 native
    \<and> (\<exists>p. p \<in> set (preg_profiles registry) \<and> pdef_profile p = native \<and> pdef_enabled p)
    \<and> pg_execution_identity g = execution_identity request
    \<and> ceiling_contains (pg_ceiling g) (ceiling request)
    \<and> ceiling_contains (ceiling request) (kind_ceiling native)
    \<and> list_all (\<lambda>r. requirement_conflict_v2 native r = None) (requirements request)"
    (is "_ \<longleftrightarrow> ?rhs")
proof (cases "private_valid sha256 registry \<and> contract_v2_valid request \<and> is_linux caller")
  case False
  then show ?thesis using resolve_v2_rejects_invalid [OF False] by blast
next
  case True
  then have v: "private_valid sha256 registry" "contract_v2_valid request" "is_linux caller" by blast+
  show ?thesis
  proof (cases "find (grant_matches_v2 request caller) (preg_grants registry)")
    case None
    then have "\<not> (g \<in> set (preg_grants registry) \<and> grant_matches_v2 request caller g)"
      by (auto simp: find_None_iff)
    moreover have "resolve_v2 sha256 registry epoch request caller native \<noteq> Some (Inr g)"
      using v None by (simp add: resolve_v2_def private_validate_iff [THEN iffD2] validate_v2_iff [THEN iffD2])
    ultimately show ?thesis by (auto simp: grant_matches_v2_def)
  next
    case (Some h)
    let ?find = "find (\<lambda>p. pdef_reference p = pg_profile h \<and> pdef_enabled p) (preg_profiles registry)"
    have h: "h \<in> set (preg_grants registry)" "grant_matches_v2 request caller h"
      using find_grant_v2 [OF v(1)] Some by blast+
    have available: "identity_available registry (pg_execution_identity h)"
      using identity_available_granted [OF v(1) h(1)] h(2) by (simp add: grant_matches_v2_def)
    have rhs: "?rhs \<longleftrightarrow> g = h \<and> workload_plan_digest request \<in> set (pg_approved_plans h)
        \<and> approved_plan_digest (authorization request) = workload_plan_digest request
        \<and> epoch = expected_epoch request \<and> pg_profile h = authorized_profile request
        \<and> (\<exists>p. ?find = Some p \<and> pdef_profile p = native) \<and> pg_execution_identity h = execution_identity request
        \<and> ceiling_contains (pg_ceiling h) (ceiling request) \<and> ceiling_contains (ceiling request) (kind_ceiling native)
        \<and> list_all (\<lambda>r. requirement_conflict_v2 native r = None) (requirements request)"
      using find_grant_v2 [OF v(1), of request caller g] Some find_private_profile [OF v(1), of "pg_profile h"] v
      by (auto simp: grant_matches_v2_def)
    show ?thesis
    proof (cases ?find)
      case None
      then show ?thesis
        unfolding rhs using v Some
        by (auto simp: resolve_v2_def private_validate_iff [THEN iffD2] validate_v2_iff [THEN iffD2])
    next
      case (Some p)
      note found = resolve_v2_found [OF v \<open>find (grant_matches_v2 request caller) (preg_grants registry) = Some h\<close> Some]
      show ?thesis unfolding rhs found using Some available by auto
    qed
  qed
qed

text \<open>
  C14: The second version admits a request with the grant \<open>g\<close> exactly when the registry and the request
  are valid, the caller is a Linux user, \<open>g\<close> is the enabled grant named by id and revision for this
  caller, it approves the plan, epoch, profile and execution identity agree, the profile
  is enabled and is the native one, the ceilings are nested and every requirement is enforceable;
  the identity of such a grant is always available.
\<close>

theorem resolve_v2_admits_iff:
  "resolve_v2 sha256 registry epoch request caller native = Some (Inr g) \<longleftrightarrow>
    private_valid sha256 registry \<and> contract_v2_valid request \<and> is_linux caller
    \<and> g \<in> set (preg_grants registry)
    \<and> pg_id g = grant_id (authorization request) \<and> pg_revision g = grant_revision (authorization request)
    \<and> pg_enabled g \<and> caller \<in> set (pg_callers g)
    \<and> workload_plan_digest request \<in> set (pg_approved_plans g)
    \<and> approved_plan_digest (authorization request) = workload_plan_digest request
    \<and> epoch = expected_epoch request
    \<and> pg_profile g = authorized_profile request
    \<and> authorized_profile request = kind_ref sha256 native
    \<and> (\<exists>p. p \<in> set (preg_profiles registry) \<and> pdef_profile p = native \<and> pdef_enabled p)
    \<and> pg_execution_identity g = execution_identity request
    \<and> ceiling_contains (pg_ceiling g) (ceiling request)
    \<and> ceiling_contains (ceiling request) (kind_ceiling native)
    \<and> list_all (\<lambda>r. requirement_conflict_v2 native r = None) (requirements request)"
  by (simp only: resolve_v2_Inr_iff grant_matches_v2_def conj_assoc)

subsection \<open>The projection\<close>

definition projected_profile :: "runtime_private_profile_definition \<Rightarrow> runtime_profile_definition" where
  "projected_profile p =
     \<lparr>def_profile = LinuxUnixCreate, def_reference = pdef_reference p, def_enabled = pdef_enabled p\<rparr>"

definition projection :: "(u8 list \<Rightarrow> u8 list) \<Rightarrow> runtime_private_policy_registry \<Rightarrow> runtime_policy_registry" where
  "projection sha256 r =
     \<lparr>reg_format = ''memcordon.local-policy'', reg_revision = 1,
      reg_profiles = map projected_profile (filter (\<lambda>p. pdef_profile p = LinuxUnixCreateV1) (preg_profiles r)),
      reg_grants = map policy_grant_v1.truncate
        (filter (\<lambda>g. pg_profile g = profile_reference sha256 LinuxUnixCreate \<and> pg_execution_identity g = PreserveCaller)
          (preg_grants r)),
      reg_disposition = preg_disposition r\<rparr>"

lemma project_profiles_eq:
  "length acc + length ps \<le> PROFILES \<Longrightarrow> project_profiles acc ps =
    Inr (acc @ map projected_profile (filter (\<lambda>p. pdef_profile p = LinuxUnixCreateV1) ps))"
  by (induction ps arbitrary: acc) (simp_all add: try_push_def projected_profile_def)

lemma project_grants_eq:
  "length acc + length gs \<le> GRANTS \<Longrightarrow> project_grants baseline acc gs =
    Inr (acc @ map policy_grant_v1.truncate
      (filter (\<lambda>g. pg_profile g = baseline \<and> pg_execution_identity g = PreserveCaller) gs))"
  by (induction gs arbitrary: acc) (simp_all add: try_push_def)

lemma truncate_grant [simp]:
  "pg_id (policy_grant_v1.truncate g) = pg_id g" "pg_revision (policy_grant_v1.truncate g) = pg_revision g"
  "pg_profile (policy_grant_v1.truncate g) = pg_profile g" "pg_ceiling (policy_grant_v1.truncate g) = pg_ceiling g"
  "pg_enabled (policy_grant_v1.truncate g) = pg_enabled g" "pg_callers (policy_grant_v1.truncate g) = pg_callers g"
  "pg_approved_plans (policy_grant_v1.truncate g) = pg_approved_plans g"
  by (simp_all add: policy_grant_v1.defs)

lemma linux_caller_valid: "is_linux c \<Longrightarrow> caller_valid c"
  by (cases c) simp_all

lemma projected_grant_valid:
  assumes "private_valid sha256 r" "g \<in> set (preg_grants r)" "pg_profile g = profile_reference sha256 LinuxUnixCreate"
  shows "grant_valid (map projected_profile (filter (\<lambda>p. pdef_profile p = LinuxUnixCreateV1) (preg_profiles r)))
    (policy_grant_v1.truncate g)"
proof -
  have g: "private_grant_valid (preg_profiles r) (preg_identities r) g"
    using assms(1,2) by (auto simp: private_valid_def list_all_iff)
  then obtain p where p: "p \<in> set (preg_profiles r)" "pdef_reference p = pg_profile g"
      "ceiling_contains (pg_ceiling g) (kind_ceiling (pdef_profile p))"
    by (auto simp: private_grant_valid_def list_ex_iff)
  have "profile_id (kind_ref sha256 (pdef_profile p)) = profile_id (kind_ref sha256 LinuxUnixCreateV1)"
    using private_profile_reference [OF assms(1) p(1)] p(2) assms(3) by simp
  then have "pdef_profile p = LinuxUnixCreateV1" by (simp only: kind_ref_inj)
  moreover have "list_all caller_valid (pg_callers g)"
    using g by (auto simp: private_grant_valid_def list_all_iff linux_caller_valid)
  ultimately show ?thesis
    using g p by (auto simp: private_grant_valid_def grant_valid_def list_ex_iff projected_profile_def)
qed

lemma projection_valid:
  assumes "private_valid sha256 r"
  shows "registry_valid sha256 (projection sha256 r)"
proof -
  have "distinct (filter (\<lambda>p. pdef_profile p = LinuxUnixCreateV1) (preg_profiles r))"
    and "inj_on pdef_profile (set (preg_profiles r))"
    using assms by (simp_all add: private_valid_def distinct_map)
  then have "distinct (map def_profile (map projected_profile
      (filter (\<lambda>p. pdef_profile p = LinuxUnixCreateV1) (preg_profiles r))))"
    by (auto simp: distinct_map projected_profile_def inj_on_def)
  moreover have "distinct (map pg_id (preg_grants r))" using assms by (simp add: private_valid_def)
  ultimately show ?thesis
    using projected_grant_valid [OF assms] private_profile_reference [OF assms]
    by (auto simp: registry_valid_def projection_def list_all_iff projected_profile_def comp_def distinct_map_filter)
qed

lemma baseline_v1_projection_eq:
  assumes "private_valid sha256 r" "length (preg_profiles r) \<le> PROFILES" "length (preg_grants r) \<le> GRANTS"
  shows "baseline_v1_projection sha256 r = Some (Inr (projection sha256 r))"
  using assms(2,3) projection_valid [OF assms(1)] private_validate_iff [THEN iffD2, OF assms(1)]
  by (simp add: baseline_v1_projection_def project_profiles_eq project_grants_eq baseline_reference_eq
      registry_validate_iff [symmetric] projection_def Let_def)

lemma projected_conflict:
  "requirement_conflict LinuxUnixCreate r = None \<longleftrightarrow> requirement_conflict_v2 LinuxUnixCreateV1 r = None"
  by (cases r) simp_all

lemma with_identity_simps [simp]:
  "workload_plan_digest (with_identity c i) = workload_plan_digest c"
  "authorized_profile (with_identity c i) = authorized_profile c"
  "authorization (with_identity c i) = authorization c" "ceiling (with_identity c i) = ceiling c"
  "requirements (with_identity c i) = requirements c" "endpoints (with_identity c i) = endpoints c"
  "expected_epoch (with_identity c i) = expected_epoch c" "execution_identity (with_identity c i) = i"
  by (simp_all add: with_identity_def workload_contract_v1.defs workload_contract_v2.defs)

lemma projected_request_valid:
  "contract_valid c \<Longrightarrow> authorized_profile c = profile_reference sha256 LinuxUnixCreate \<Longrightarrow>
    contract_v2_valid (with_identity c PreserveCaller)"
  by (simp add: contract_v2_valid_def contract_valid_def profile_reference_def ascii_bytes_def)

text \<open>
  C15: A valid second-version registry always has its first-version projection, and the projection
  grants a request exactly what the registry itself grants to the same caller for the same request with
  the caller's identity preserved: no delegated or private grant becomes a first-version authorization.
\<close>

theorem projection_preserves_authority:
  assumes "private_valid sha256 r" "length (preg_profiles r) \<le> PROFILES" "length (preg_grants r) \<le> GRANTS"
    and "contract_valid request"
  shows "\<exists>p. baseline_v1_projection sha256 r = Some (Inr p) \<and>
    (resolve p epoch request caller LinuxUnixCreate = Inr g \<longleftrightarrow>
      (\<exists>h. resolve_v2 sha256 r epoch (with_identity request PreserveCaller) caller LinuxUnixCreateV1 = Some (Inr h)
        \<and> g = policy_grant_v1.truncate h))"
proof (intro exI conjI)
  show "baseline_v1_projection sha256 r = Some (Inr (projection sha256 r))"
    using assms(1-3) by (rule baseline_v1_projection_eq)
  have linux: "is_linux caller" if "h \<in> set (preg_grants r)" "caller \<in> set (pg_callers h)" for h
    using assms(1) that by (auto simp: private_valid_def private_grant_valid_def list_all_iff)
  show "resolve (projection sha256 r) epoch request caller LinuxUnixCreate = Inr g \<longleftrightarrow>
      (\<exists>h. resolve_v2 sha256 r epoch (with_identity request PreserveCaller) caller LinuxUnixCreateV1 = Some (Inr h)
        \<and> g = policy_grant_v1.truncate h)"
    unfolding resolve_Inr_iff [OF projection_valid [OF assms(1)]] resolve_v2_Inr_iff
    using assms(1) projected_request_valid [OF assms(4)] linux
    by (auto simp: projection_def grant_matches_def grant_matches_v2_def projected_profile_def projected_conflict)
qed

definition example_private_registry :: "(u8 list \<Rightarrow> u8 list) \<Rightarrow> runtime_private_policy_registry" where
  "example_private_registry sha256 =
     \<lparr>preg_format = ''memcordon.local-private-policy'', preg_revision = 1,
      preg_profiles = [\<lparr>pdef_profile = LinuxUnixCreateV1, pdef_reference = kind_ref sha256 LinuxUnixCreateV1,
        pdef_enabled = True\<rparr>],
      preg_identities = [],
      preg_grants = [\<lparr>pg_id = ascii_bytes ''g1'', pg_revision = 3, pg_profile = kind_ref sha256 LinuxUnixCreateV1,
        pg_ceiling = kind_ceiling LinuxUnixCreateV1, pg_enabled = True, pg_callers = [LinuxCaller 1000],
        pg_approved_plans = [replicate 32 7], pg_execution_identity = PreserveCaller\<rparr>],
      preg_disposition = DrainExisting\<rparr>"

lemma example_private_registry_valid: "private_valid sha256 (example_private_registry sha256)"
  by (simp add: example_private_registry_def private_valid_def private_grant_valid_def ceiling_contains_def)

lemma example_request_valid: "contract_valid (example_request sha256 [UnixSocketPair (ascii_bytes ''u1'') UnixStream])"
  by (simp add: contract_valid_def requirement_ok_def example_request_def example_contract_def endpoint_depends_def acyclic_def)

theorem projection_preserves_authority_witness:
  "\<exists>p. baseline_v1_projection (\<lambda>_. replicate 32 0) (example_private_registry (\<lambda>_. replicate 32 0)) = Some (Inr p)
    \<and> (\<exists>g. resolve p (expected_epoch example_contract)
          (example_request (\<lambda>_. replicate 32 0) [UnixSocketPair (ascii_bytes ''u1'') UnixStream]) (LinuxCaller 1000)
          LinuxUnixCreate = Inr g)"
proof -
  let ?r = "example_private_registry (\<lambda>_. replicate 32 0)"
  let ?request = "example_request (\<lambda>_. replicate 32 0) [UnixSocketPair (ascii_bytes ''u1'') UnixStream]"
  have "contract_v2_valid (with_identity ?request PreserveCaller)"
    by (rule projected_request_valid [OF example_request_valid]) (simp add: example_request_def)
  then have "resolve_v2 (\<lambda>_. replicate 32 0) ?r (expected_epoch example_contract)
      (with_identity ?request PreserveCaller) (LinuxCaller 1000) LinuxUnixCreateV1 = Some (Inr (hd (preg_grants ?r)))"
    using example_private_registry_valid unfolding resolve_v2_Inr_iff
    by (auto simp: example_private_registry_def example_request_def example_contract_def grant_matches_v2_def
        ceiling_contains_def)
  moreover have "length (preg_profiles ?r) \<le> PROFILES" "length (preg_grants ?r) \<le> GRANTS"
    by (simp_all add: example_private_registry_def registry_limits)
  moreover note projection_preserves_authority [OF example_private_registry_valid this example_request_valid [of "\<lambda>_. replicate 32 0"],
      where epoch = "expected_epoch example_contract" and caller = "LinuxCaller 1000"
        and g = "policy_grant_v1.truncate (hd (preg_grants ?r))"]
  ultimately show ?thesis by blast
qed

subsection \<open>Execution identities\<close>

definition canonical_path :: "string list \<Rightarrow> string" where
  "canonical_path parts = concat (map (Cons (CHR ''/'')) parts)"

lemma bad_path_iff:
  "\<not> bad_path path \<longleftrightarrow>
    (\<exists>parts. path = canonical_path parts \<and> parts \<noteq> []
      \<and> list_all (\<lambda>p. p \<noteq> [] \<and> p \<noteq> ''.'' \<and> p \<noteq> ''..'' \<and> CHR ''/'' \<notin> set p \<and> CHR 0x00 \<notin> set p) parts)"
proof
  assume ok: "\<not> bad_path path"
  obtain a ps where split: "split_on (CHR ''/'') path = a # ps" by (cases "split_on (CHR ''/'') path") simp_all
  have path: "path = a @ canonical_path ps" using join_split_on [OF split] by (simp add: canonical_path_def)
  have parts: "list_all (\<lambda>p. CHR ''/'' \<notin> set p) (a # ps)"
    using split_on_pieces [of "CHR ''/''" path] by (simp add: split list_all_iff)
  have "a = []" using ok path parts by (cases a) (auto simp: bad_path_def)
  moreover have "CHR 0x00 \<notin> set p" if "p \<in> set ps" for p
    using ok path that by (auto simp: bad_path_def canonical_path_def split: if_splits)
  moreover have "path \<noteq> []" using ok by (auto simp: bad_path_def)
  ultimately show "\<exists>parts. path = canonical_path parts \<and> parts \<noteq> []
      \<and> list_all (\<lambda>p. p \<noteq> [] \<and> p \<noteq> ''.'' \<and> p \<noteq> ''..'' \<and> CHR ''/'' \<notin> set p \<and> CHR 0x00 \<notin> set p) parts"
    using path parts ok split
    by (intro exI [of _ ps]) (auto simp: bad_path_def canonical_path_def list_all_iff list_ex_iff)
next
  assume "\<exists>parts. path = canonical_path parts \<and> parts \<noteq> []
      \<and> list_all (\<lambda>p. p \<noteq> [] \<and> p \<noteq> ''.'' \<and> p \<noteq> ''..'' \<and> CHR ''/'' \<notin> set p \<and> CHR 0x00 \<notin> set p) parts"
  then obtain parts where p: "path = canonical_path parts" "parts \<noteq> []"
      "list_all (\<lambda>p. p \<noteq> [] \<and> p \<noteq> ''.'' \<and> p \<noteq> ''..'' \<and> CHR ''/'' \<notin> set p \<and> CHR 0x00 \<notin> set p) parts"
    by blast
  then have "split_on (CHR ''/'') path = [] # parts"
    using split_on_join [of "CHR ''/''" "[]" parts] by (simp add: canonical_path_def list_all_iff)
  with p show "\<not> bad_path path"
    by (cases parts) (auto simp: bad_path_def canonical_path_def list_all_iff list_ex_iff)
qed

lemma validate_groups_iff: "distinct prior \<Longrightarrow> validate_groups prior gs = Inr () \<longleftrightarrow> distinct (prior @ gs)"
  by (induction gs arbitrary: prior) auto

lemma validate_entrypoints_iff:
  "distinct (map entry_id prior) \<Longrightarrow> validate_entrypoints prior es = Inr () \<longleftrightarrow>
    distinct (map entry_id (prior @ es)) \<and> list_all (\<lambda>e. \<not> bad_path (entry_path e)) es"
proof (induction es arbitrary: prior)
  case (Cons e es)
  then show ?case using Cons.IH [of "prior @ [e]"] by (auto simp: list_ex_eq_image)
qed simp

lemma validate_fields_iff:
  "validate_fields x = Inr () \<longleftrightarrow>
    xi_entrypoints x \<noteq> [] \<and> distinct (xi_groups x) \<and> distinct (map entry_id (xi_entrypoints x))
    \<and> list_all (\<lambda>e. \<not> bad_path (entry_path e)) (xi_entrypoints x)"
  by (auto simp: validate_fields_def and_then_Inr_iff validate_groups_iff validate_entrypoints_iff)

subsection \<open>Unreachable branches\<close>

lemma caller_uids_linux: "list_all is_linux cs \<Longrightarrow> \<exists>uids. caller_uids cs = Some uids"
proof (induction cs)
  case (Cons c cs)
  then show ?case by (cases c) auto
qed simp

lemma enc_private_grants_total:
  "list_all (\<lambda>g. list_all is_linux (pg_callers g)) gs \<Longrightarrow> \<exists>result. enc_private_grants gs e = Some result"
proof (induction gs arbitrary: e)
  case (Cons g gs)
  then obtain uids where "caller_uids (pg_callers g) = Some uids" using caller_uids_linux by auto
  with Cons show ?case by (cases "enc_private_grant g uids e") auto
qed simp

lemma private_canonical_bytes_total: "\<exists>result. private_canonical_bytes sha256 r = Some result"
proof -
  obtain result where result: "private_validate sha256 r = Some result" using private_validate_total by blast
  show ?thesis
  proof (cases result)
    case (Inr u)
    then have "private_valid sha256 r" using result private_validate_iff [of sha256 r] by simp
    then have "list_all (\<lambda>g. list_all is_linux (pg_callers g)) (sort_key pg_id (preg_grants r))"
      by (auto simp: private_valid_def private_grant_valid_def list_all_iff)
    from enc_private_grants_total [OF this] obtain f
      where "\<And>e. enc_private_grants (sort_key pg_id (preg_grants r)) e = Some (f e)" by metis
    then show ?thesis
      by (simp add: private_canonical_bytes_def result Inr Let_def split: sum.split)
  qed (simp add: private_canonical_bytes_def result)
qed

lemma private_snapshot_digest_total: "\<exists>result. private_snapshot_digest sha256 s = Some result"
proof (cases "private_snapshot_validate sha256 s")
  case (Inr u)
  then have "is_linux (psnap_caller s)"
    by (auto simp: private_snapshot_validate_def and_then_Inr_iff split: if_splits)
  then show ?thesis
    by (cases "psnap_caller s") (auto simp: private_snapshot_digest_def Inr split: sum.split)
qed (simp add: private_snapshot_digest_def)

end
