(* ===== verification/WindowsPe.thy ===== *)
theory WindowsPe
  imports Bytes "HOL-Library.Char_ord" "HOL-Library.List_Lexorder"
begin

unbundle bit_operations_syntax

text \<open>
  The parser of Windows executables (\<open>windows_pe.rs\<close>): headers, import and export tables in file and
  mapped layout, and the deny lists of the two helper binaries. File offsets are \<open>usize\<close> values of a
  64-bit host, as naturals; errors are the messages of the source.
\<close>

subsection \<open>Fields\<close>

type_synonym pe_error = string

definition usize_add :: "nat \<Rightarrow> nat \<Rightarrow> nat option" where
  "usize_add a b = (if a + b < 2 ^ 64 then Some (a + b) else None)"

definition usize_mul :: "nat \<Rightarrow> nat \<Rightarrow> nat option" where
  "usize_mul a b = (if a * b < 2 ^ 64 then Some (a * b) else None)"

definition get_range :: "u8 list \<Rightarrow> nat \<Rightarrow> nat \<Rightarrow> u8 list option" where
  "get_range bs a b = (if a \<le> b \<and> b \<le> length bs then Some (take (b - a) (drop a bs)) else None)"

definition get_tail :: "u8 list \<Rightarrow> nat \<Rightarrow> u8 list option" where
  "get_tail bs a = (if a \<le> length bs then Some (drop a bs) else None)"

definition pe_field :: "nat \<Rightarrow> u8 list \<Rightarrow> nat \<Rightarrow> pe_error + 'a::len word" where
  "pe_field width bs offset =
     and_then (ok_or ''PE offset overflow'' (usize_add offset width)) (\<lambda>end_offset.
     and_then (ok_or ''PE field is truncated'' (get_range bs offset end_offset)) (\<lambda>value.
       Inr (from_le_bytes value)))"

definition pe_word :: "u8 list \<Rightarrow> nat \<Rightarrow> pe_error + u16" where
  "pe_word = pe_field 2"

definition pe_dword :: "u8 list \<Rightarrow> nat \<Rightarrow> pe_error + u32" where
  "pe_dword = pe_field 4"

definition pe_qword :: "u8 list \<Rightarrow> nat \<Rightarrow> pe_error + u64" where
  "pe_qword = pe_field 8"

subsection \<open>Addresses\<close>

record pe_section =
  virtual_address :: u32
  virtual_size :: u32
  raw_offset :: u32
  raw_size :: u32

datatype pe_layout = FileLayout | MappedImage

fun section_offset :: "u8 list \<Rightarrow> u32 \<Rightarrow> pe_section list \<Rightarrow> pe_error + nat" where
  "section_offset bs rva [] = Inl ''PE RVA is not mapped by a section''"
| "section_offset bs rva (s # ss) =
     and_then (ok_or ''PE section RVA overflows'' (checked_add (virtual_address s) (max (virtual_size s) (raw_size s))))
       (\<lambda>end_rva.
       if virtual_address s \<le> rva \<and> rva < end_rva
       then let relative = rva - virtual_address s
            in if raw_size s \<le> relative then Inl ''PE RVA points outside section file data''
               else and_then (ok_or ''PE section file offset overflows'' (checked_add (raw_offset s) relative)) (\<lambda>offset.
                 case get_tail bs (unat offset) of
                   None \<Rightarrow> Inl ''PE section file offset is outside the image''
                 | Some _ \<Rightarrow> Inr (unat offset))
       else section_offset bs rva ss)"

definition rva_offset :: "u8 list \<Rightarrow> u32 \<Rightarrow> u32 \<Rightarrow> pe_section list \<Rightarrow> pe_error + nat" where
  "rva_offset bs rva size_of_headers sections =
     (if rva < size_of_headers
      then case get_tail bs (unat rva) of
             None \<Rightarrow> Inl ''PE header RVA is outside the image''
           | Some _ \<Rightarrow> Inr (unat rva)
      else section_offset bs rva sections)"

fun layout_rva_offset :: "u8 list \<Rightarrow> u32 \<Rightarrow> u32 \<Rightarrow> pe_section list \<Rightarrow> pe_layout \<Rightarrow> pe_error + nat" where
  "layout_rva_offset bs rva size_of_headers sections FileLayout = rva_offset bs rva size_of_headers sections"
| "layout_rva_offset bs rva size_of_headers sections MappedImage =
     (case get_tail bs (unat rva) of
        None \<Rightarrow> Inl ''PE mapped-image RVA is outside the view''
      | Some _ \<Rightarrow> Inr (unat rva))"

subsection \<open>Strings\<close>

definition MAX_PE_STRING_BYTES :: nat where "MAX_PE_STRING_BYTES = 4096"

definition text_of :: "u8 list \<Rightarrow> string" where
  "text_of bs = map (\<lambda>b. char_of (unat b)) bs"

definition ascii_string :: "u8 list \<Rightarrow> nat \<Rightarrow> string \<Rightarrow> pe_error + string" where
  "ascii_string bs offset kind =
     and_then (ok_or (''PE '' @ kind @ '' string offset is outside the image'') (get_tail bs offset)) (\<lambda>tail.
       let bounded = take (MAX_PE_STRING_BYTES + 1) tail; value = takeWhile (\<lambda>b. b \<noteq> 0) bounded
       in if 0 \<notin> set bounded then Inl (''PE '' @ kind @ '' string is unterminated or exceeds its bound'')
          else if \<not> utf8_valid value then Inl (''PE '' @ kind @ '' string is not UTF-8'')
          else if value = [] \<or> \<not> list_all (\<lambda>b. b < 128) value
          then Inl (''PE '' @ kind @ '' string is not canonical ASCII'')
          else Inr (text_of value))"

definition to_ascii_uppercase :: "string \<Rightarrow> string" where
  "to_ascii_uppercase s =
     map (\<lambda>c. if CHR ''a'' \<le> c \<and> c \<le> CHR ''z'' then char_of (of_char c - 32 :: nat) else c) s"

definition dll_name :: "u8 list \<Rightarrow> nat \<Rightarrow> pe_error + string" where
  "dll_name bs offset =
     and_then (ascii_string bs offset ''import name'') (\<lambda>name.
       if name = [] \<or> \<not> list_all (\<lambda>c. of_char c < (128 :: nat)) name \<or> CHR ''/'' \<in> set name
         \<or> CHR 0x5C \<in> set name
       then Inl ''PE import name is not a canonical DLL basename''
       else Inr (to_ascii_uppercase name))"

subsection \<open>Headers\<close>

definition WINDOWS_PE_MACHINE_AMD64 :: u16 where "WINDOWS_PE_MACHINE_AMD64 = 0x8664"

definition WINDOWS_PE_MACHINE_ARM64 :: u16 where "WINDOWS_PE_MACHINE_ARM64 = 0xaa64"

record pe_headers =
  pe_machine :: u16
  image_base :: u64
  size_of_headers :: u32
  pe_sections :: "pe_section list"
  export_rva :: u32
  export_size :: u32
  normal_rva :: u32
  normal_size :: u32
  delay_rva :: u32
  delay_size :: u32

definition hex_digit :: "nat \<Rightarrow> char" where
  "hex_digit n = (if n < 10 then char_of (48 + n) else char_of (87 + n))"

definition show_hex4 :: "u16 \<Rightarrow> string" where
  "show_hex4 w = (let n = unat w in map hex_digit [n div 4096, n div 256 mod 16, n div 16 mod 16, n mod 16])"

definition read_section :: "u8 list \<Rightarrow> nat \<Rightarrow> pe_error + pe_section" where
  "read_section bs offset =
     and_then (pe_dword bs (offset + 8)) (\<lambda>vs.
     and_then (pe_dword bs (offset + 12)) (\<lambda>va.
     and_then (pe_dword bs (offset + 16)) (\<lambda>rs.
     and_then (pe_dword bs (offset + 20)) (\<lambda>ro.
       Inr \<lparr>virtual_address = va, virtual_size = vs, raw_offset = ro, raw_size = rs\<rparr>))))"

fun read_sections :: "u8 list \<Rightarrow> nat \<Rightarrow> nat \<Rightarrow> nat \<Rightarrow> pe_error + pe_section list" where
  "read_sections bs optional_end index 0 = Inr []"
| "read_sections bs optional_end index (Suc n) =
     and_then (ok_or ''PE section index overflow'' (usize_mul index 40)) (\<lambda>relative.
     and_then (ok_or ''PE section offset overflow'' (usize_add optional_end relative)) (\<lambda>offset.
     and_then (ok_or ''PE section header overflow'' (usize_add offset 40)) (\<lambda>end_offset.
     and_then (ok_or ''PE section header is truncated'' (get_range bs offset end_offset)) (\<lambda>_.
     and_then (read_section bs offset) (\<lambda>s.
     and_then (read_sections bs optional_end (index + 1) n) (\<lambda>ss. Inr (s # ss)))))))"

definition read_directories ::
  "u8 list \<Rightarrow> nat \<Rightarrow> u16 \<Rightarrow> u64 \<Rightarrow> u32 \<Rightarrow> pe_section list \<Rightarrow> pe_error + pe_headers" where
  "read_directories bs optional machine base headers_size ss =
     and_then (pe_dword bs (optional + 112)) (\<lambda>er.
     and_then (pe_dword bs (optional + 116)) (\<lambda>es.
     and_then (pe_dword bs (optional + 120)) (\<lambda>nr.
     and_then (pe_dword bs (optional + 124)) (\<lambda>ns.
     and_then (pe_dword bs (optional + 216)) (\<lambda>dr.
     and_then (pe_dword bs (optional + 220)) (\<lambda>ds.
       Inr \<lparr>pe_machine = machine, image_base = base, size_of_headers = headers_size, pe_sections = ss,
            export_rva = er, export_size = es, normal_rva = nr, normal_size = ns, delay_rva = dr,
            delay_size = ds\<rparr>))))))"

definition optional_header :: "u8 list \<Rightarrow> nat \<Rightarrow> u16 \<Rightarrow> pe_error + pe_headers" where
  "optional_header bs pe machine =
     and_then (pe_word bs (pe + 6)) (\<lambda>section_count.
     and_then (pe_word bs (pe + 20)) (\<lambda>optional_size.
     and_then (ok_or ''PE optional-header offset overflow'' (usize_add pe 24)) (\<lambda>optional.
     and_then (pe_word bs optional) (\<lambda>magic.
       if magic \<noteq> 0x20b \<or> unat optional_size < 224 then Inl ''Windows helper is not a complete PE32+ image''
       else
         and_then (ok_or ''PE optional-header size overflow'' (usize_add optional (unat optional_size))) (\<lambda>optional_end.
         and_then (ok_or ''PE optional header is truncated'' (get_range bs optional optional_end)) (\<lambda>_.
         and_then (pe_qword bs (optional + 24)) (\<lambda>base.
         and_then (pe_dword bs (optional + 60)) (\<lambda>headers_size.
         and_then (pe_dword bs (optional + 108)) (\<lambda>directories.
           if directories \<le> 13 then Inl ''Windows helper lacks required PE data directories''
           else
             and_then (read_sections bs optional_end 0 (unat section_count)) (\<lambda>ss.
               read_directories bs optional machine base headers_size ss))))))))))"

definition read_pe_headers :: "u8 list \<Rightarrow> pe_error + pe_headers" where
  "read_pe_headers bs =
     (if get_range bs 0 2 \<noteq> Some [0x4D, 0x5A] then Inl ''Windows helper lacks the DOS header''
      else
        and_then (pe_dword bs 0x3c) (\<lambda>lfanew.
        and_then (ok_or ''PE header offset overflow'' (usize_add (unat lfanew) 4)) (\<lambda>end_offset.
          if get_range bs (unat lfanew) end_offset \<noteq> Some [0x50, 0x45, 0, 0]
          then Inl ''Windows helper lacks the PE signature''
          else
            and_then (pe_word bs (unat lfanew + 4)) (\<lambda>machine.
              if machine \<noteq> WINDOWS_PE_MACHINE_AMD64 \<and> machine \<noteq> WINDOWS_PE_MACHINE_ARM64
              then Inl (''Windows helper has unsupported PE machine 0x'' @ show_hex4 machine)
              else optional_header bs (unat lfanew) machine))))"

subsection \<open>Imports\<close>

definition MAX_IMPORT_DESCRIPTORS :: nat where "MAX_IMPORT_DESCRIPTORS = 1024"

definition MAX_IMPORT_THUNKS :: nat where "MAX_IMPORT_THUNKS = 16384"

datatype import_symbol = SymbolName u16 string | SymbolOrdinal u16

record import_descriptor =
  descriptor_ordinal :: u32
  descriptor_dll :: string
  descriptor_symbols :: "import_symbol list"
  lookup_table_rva :: u32
  iat_rva :: u32
  bound_timestamp :: u32

definition va_or_rva :: "u32 \<Rightarrow> u64 \<Rightarrow> bool \<Rightarrow> string \<Rightarrow> pe_error + u32" where
  "va_or_rva value base rva_based field =
     (if rva_based \<or> value = 0 then Inr value
      else
        and_then (ok_or (''PE delay import '' @ field @ '' precedes image base'') (checked_sub (ucast value) base))
          (\<lambda>relative.
          ok_or (''PE delay import '' @ field @ '' RVA is too large'') (unat_try_from (unat relative))))"

definition headers_offset :: "u8 list \<Rightarrow> u32 \<Rightarrow> pe_headers \<Rightarrow> pe_layout \<Rightarrow> pe_error + nat" where
  "headers_offset bs rva headers layout =
     layout_rva_offset bs rva (size_of_headers headers) (pe_sections headers) layout"

definition thunk_symbol :: "u8 list \<Rightarrow> pe_headers \<Rightarrow> pe_layout \<Rightarrow> u64 \<Rightarrow> pe_error + import_symbol" where
  "thunk_symbol bs headers layout thunk =
     (if bit thunk 63
      then if thunk AND NOT (push_bit 63 1 OR 0xffff) \<noteq> 0 then Inl ''PE ordinal thunk has reserved bits''
           else Inr (SymbolOrdinal (ucast thunk))
      else
        and_then (ok_or ''PE name thunk RVA is too large'' (unat_try_from (unat thunk))) (\<lambda>name_rva.
        and_then (headers_offset bs name_rva headers layout) (\<lambda>name_offset.
        and_then (pe_word bs name_offset) (\<lambda>hint.
        and_then (ascii_string bs (name_offset + 2) ''import symbol'') (\<lambda>name.
          Inr (SymbolName hint name))))))"

fun import_thunks ::
  "u8 list \<Rightarrow> pe_headers \<Rightarrow> pe_layout \<Rightarrow> nat \<Rightarrow> nat \<Rightarrow> nat \<Rightarrow> pe_error + import_symbol list" where
  "import_thunks bs headers layout start index 0 =
     Inl ''PE import thunk table exceeds its bound or is unterminated''"
| "import_thunks bs headers layout start index (Suc n) =
     and_then (ok_or ''PE thunk index overflow'' (usize_mul index 8)) (\<lambda>relative.
     and_then (ok_or ''PE thunk offset overflow'' (usize_add start relative)) (\<lambda>offset.
     and_then (pe_qword bs offset) (\<lambda>thunk.
       if thunk = 0 then Inr []
       else
         and_then (thunk_symbol bs headers layout thunk) (\<lambda>symbol.
         and_then (import_thunks bs headers layout start (index + 1) n) (\<lambda>symbols. Inr (symbol # symbols))))))"

definition import_symbols :: "u8 list \<Rightarrow> u32 \<Rightarrow> pe_headers \<Rightarrow> pe_layout \<Rightarrow> pe_error + import_symbol list" where
  "import_symbols bs lookup_rva headers layout =
     (if lookup_rva = 0 then Inl ''PE import descriptor has no lookup or IAT table''
      else and_then (headers_offset bs lookup_rva headers layout) (\<lambda>start.
        import_thunks bs headers layout start 0 MAX_IMPORT_THUNKS))"

definition descriptor_rva_based :: "u8 list \<Rightarrow> nat \<Rightarrow> bool \<Rightarrow> pe_error + bool" where
  "descriptor_rva_based bs offset delay =
     (if \<not> delay then Inr True else and_then (pe_dword bs offset) (\<lambda>attributes. Inr (bit attributes 0)))"

definition read_descriptor ::
  "u8 list \<Rightarrow> pe_headers \<Rightarrow> pe_layout \<Rightarrow> bool \<Rightarrow> nat \<Rightarrow> nat \<Rightarrow> pe_error + import_descriptor" where
  "read_descriptor bs headers layout delay offset index =
     and_then (descriptor_rva_based bs offset delay) (\<lambda>rva_based.
     and_then (pe_dword bs (offset + (if delay then 4 else 12))) (\<lambda>raw_name.
     and_then (va_or_rva raw_name (image_base headers) rva_based ''name'') (\<lambda>name_rva.
       if name_rva = 0 then Inl ''PE import descriptor has no DLL name''
       else
         and_then (pe_dword bs (offset + (if delay then 12 else 16))) (\<lambda>raw_iat.
         and_then (va_or_rva raw_iat (image_base headers) rva_based ''IAT'') (\<lambda>iat.
         and_then (pe_dword bs (offset + (if delay then 16 else 0))) (\<lambda>raw_lookup.
         and_then (va_or_rva (if raw_lookup = 0 then iat else raw_lookup) (image_base headers) rva_based ''lookup table'')
           (\<lambda>lookup.
         and_then (headers_offset bs name_rva headers layout) (\<lambda>name_offset.
         and_then (dll_name bs name_offset) (\<lambda>dll.
         and_then (import_symbols bs lookup headers layout) (\<lambda>symbols.
         and_then (pe_dword bs (offset + (if delay then 28 else 4))) (\<lambda>timestamp.
           Inr \<lparr>descriptor_ordinal = of_nat index, descriptor_dll = dll, descriptor_symbols = symbols,
                lookup_table_rva = lookup, iat_rva = iat, bound_timestamp = timestamp\<rparr>)))))))))))"

definition descriptor_bytes :: "u8 list \<Rightarrow> nat \<Rightarrow> nat \<Rightarrow> nat \<Rightarrow> pe_error + nat \<times> u8 list" where
  "descriptor_bytes bs start width index =
     and_then (ok_or ''PE import index overflow'' (usize_mul index width)) (\<lambda>relative.
     and_then (ok_or ''PE import descriptor offset overflow'' (usize_add start relative)) (\<lambda>offset.
     and_then (ok_or ''PE import descriptor overflow'' (usize_add offset width)) (\<lambda>end_offset.
     and_then (ok_or ''PE import descriptor is truncated'' (get_range bs offset end_offset)) (\<lambda>descriptor.
       Inr (offset, descriptor)))))"

fun read_descriptors ::
  "u8 list \<Rightarrow> pe_headers \<Rightarrow> pe_layout \<Rightarrow> bool \<Rightarrow> nat \<Rightarrow> nat \<Rightarrow> nat \<Rightarrow> nat \<Rightarrow> pe_error + import_descriptor list" where
  "read_descriptors bs headers layout delay start width index 0 =
     Inl ''PE import directory has no terminating descriptor within its bound''"
| "read_descriptors bs headers layout delay start width index (Suc n) =
     and_then (descriptor_bytes bs start width index) (\<lambda>(offset, descriptor).
       if list_all (\<lambda>b. b = 0) descriptor then Inr []
       else
         and_then (read_descriptor bs headers layout delay offset index) (\<lambda>d.
         and_then (read_descriptors bs headers layout delay start width (index + 1) n) (\<lambda>ds. Inr (d # ds))))"

definition import_descriptors ::
  "u8 list \<Rightarrow> u32 \<Rightarrow> u32 \<Rightarrow> bool \<Rightarrow> pe_headers \<Rightarrow> pe_layout \<Rightarrow> pe_error + import_descriptor list" where
  "import_descriptors bs directory_rva directory_size delay headers layout =
     (if directory_rva = 0 \<and> directory_size = 0 then Inr []
      else if directory_rva = 0 \<or> directory_size = 0 then Inl ''PE import directory is partially absent''
      else let width = (if delay then 32 else 20)
        in and_then (headers_offset bs directory_rva headers layout) (\<lambda>start.
          let maximum = min (unat directory_size div width) MAX_IMPORT_DESCRIPTORS
          in if maximum = 0 then Inl ''PE import directory cannot hold a descriptor''
             else read_descriptors bs headers layout delay start width 0 maximum))"

subsection \<open>Exports\<close>

definition MAX_EXPORTS :: nat where "MAX_EXPORTS = 65536"

datatype export_target = DirectRva u32 | Forwarder string

record pe_export =
  export_ordinal :: u32
  export_name :: "string option"
  export_target :: export_target

fun export_names_loop ::
  "u8 list \<Rightarrow> pe_headers \<Rightarrow> pe_layout \<Rightarrow> nat \<Rightarrow> nat \<Rightarrow> nat \<Rightarrow> nat \<Rightarrow> string option list
    \<Rightarrow> pe_error + string option list" where
  "export_names_loop bs headers layout names ordinals index 0 found = Inr found"
| "export_names_loop bs headers layout names ordinals index (Suc n) found =
     and_then (pe_dword bs (names + index * 4)) (\<lambda>name_rva.
     and_then (pe_word bs (ordinals + index * 2)) (\<lambda>function_index.
       if length found \<le> unat function_index \<or> found ! unat function_index \<noteq> None
       then Inl ''PE export name ordinal is invalid or duplicated''
       else
         and_then (headers_offset bs name_rva headers layout) (\<lambda>offset.
         and_then (ascii_string bs offset ''export name'') (\<lambda>name.
           export_names_loop bs headers layout names ordinals (index + 1) n
             (found[unat function_index := Some name])))))"

definition read_target :: "u8 list \<Rightarrow> pe_headers \<Rightarrow> pe_layout \<Rightarrow> u32 \<Rightarrow> u32 \<Rightarrow> pe_error + export_target" where
  "read_target bs headers layout forwarder_end target_rva =
     (if export_rva headers \<le> target_rva \<and> target_rva < forwarder_end
      then and_then (headers_offset bs target_rva headers layout) (\<lambda>offset.
           and_then (ascii_string bs offset ''export forwarder'') (\<lambda>text. Inr (Forwarder text)))
      else Inr (DirectRva target_rva))"

fun export_targets ::
  "u8 list \<Rightarrow> pe_headers \<Rightarrow> pe_layout \<Rightarrow> nat \<Rightarrow> u32 \<Rightarrow> u32 \<Rightarrow> nat \<Rightarrow> string option list
    \<Rightarrow> pe_error + pe_export list" where
  "export_targets bs headers layout functions forwarder_end ordinal_base index [] = Inr []"
| "export_targets bs headers layout functions forwarder_end ordinal_base index (name # names) =
     and_then (pe_dword bs (functions + index * 4)) (\<lambda>target_rva.
       if target_rva = 0
       then export_targets bs headers layout functions forwarder_end ordinal_base (index + 1) names
       else
         and_then (read_target bs headers layout forwarder_end target_rva) (\<lambda>target.
         and_then (ok_or ''PE export ordinal overflows'' (checked_add ordinal_base (of_nat index))) (\<lambda>ordinal.
         and_then (export_targets bs headers layout functions forwarder_end ordinal_base (index + 1) names) (\<lambda>exports.
           Inr (\<lparr>export_ordinal = ordinal, export_name = name, export_target = target\<rparr> # exports)))))"

definition pe_exports :: "u8 list \<Rightarrow> pe_headers \<Rightarrow> pe_layout \<Rightarrow> pe_error + pe_export list" where
  "pe_exports bs headers layout =
     (if export_rva headers = 0 \<and> export_size headers = 0 then Inr []
      else if export_rva headers = 0 \<or> export_size headers < 40
      then Inl ''PE export directory is partially absent or truncated''
      else
        and_then (headers_offset bs (export_rva headers) headers layout) (\<lambda>directory.
        and_then (pe_dword bs (directory + 16)) (\<lambda>ordinal_base.
        and_then (pe_dword bs (directory + 20)) (\<lambda>function_count.
        and_then (pe_dword bs (directory + 24)) (\<lambda>name_count.
          if MAX_EXPORTS < unat function_count \<or> function_count < name_count \<or> MAX_EXPORTS < unat name_count
          then Inl ''PE export inventory exceeds its bound''
          else
            and_then (and_then (pe_dword bs (directory + 28)) (\<lambda>rva. headers_offset bs rva headers layout)) (\<lambda>functions.
            and_then (and_then (pe_dword bs (directory + 32)) (\<lambda>rva. headers_offset bs rva headers layout)) (\<lambda>names.
            and_then (and_then (pe_dword bs (directory + 36)) (\<lambda>rva. headers_offset bs rva headers layout)) (\<lambda>ordinals.
            and_then (export_names_loop bs headers layout names ordinals 0 (unat name_count)
              (replicate (unat function_count) None)) (\<lambda>export_names.
            and_then (ok_or ''PE export directory RVA overflows'' (checked_add (export_rva headers) (export_size headers)))
              (\<lambda>forwarder_end.
              export_targets bs headers layout functions forwarder_end ordinal_base 0 export_names))))))))))"

subsection \<open>Loader contracts and import inventories\<close>

record loader_contract =
  loader_machine :: u16
  loader_normal :: "import_descriptor list"
  loader_delayed :: "import_descriptor list"
  loader_exports :: "pe_export list"

definition loader_contract_with_layout :: "u8 list \<Rightarrow> pe_layout \<Rightarrow> pe_error + loader_contract" where
  "loader_contract_with_layout bs layout =
     and_then (read_pe_headers bs) (\<lambda>headers.
     and_then (import_descriptors bs (normal_rva headers) (normal_size headers) False headers layout) (\<lambda>normal.
     and_then (import_descriptors bs (delay_rva headers) (delay_size headers) True headers layout) (\<lambda>delayed.
     and_then (pe_exports bs headers layout) (\<lambda>exports.
       Inr \<lparr>loader_machine = pe_machine headers, loader_normal = normal, loader_delayed = delayed,
            loader_exports = exports\<rparr>))))"

definition parse_windows_pe_loader_contract :: "u8 list \<Rightarrow> pe_error + loader_contract" where
  "parse_windows_pe_loader_contract bs = loader_contract_with_layout bs FileLayout"

definition parse_windows_pe_mapped_loader_contract :: "u8 list \<Rightarrow> pe_error + loader_contract" where
  "parse_windows_pe_mapped_loader_contract bs = loader_contract_with_layout bs MappedImage"

record pe_imports =
  imports_machine :: u16
  imports_normal :: "string list"
  imports_delayed :: "string list"

definition descriptor_name ::
  "u8 list \<Rightarrow> bool \<Rightarrow> nat \<Rightarrow> u64 \<Rightarrow> nat \<Rightarrow> pe_error + u32" where
  "descriptor_name bs delay name_field base offset =
     and_then (pe_dword bs (offset + name_field)) (\<lambda>raw_name.
       if raw_name = 0 then Inl ''PE import descriptor has no DLL name''
       else
         and_then (if delay then and_then (pe_dword bs offset) (\<lambda>attributes. Inr (\<not> bit attributes 0)) else Inr False)
           (\<lambda>va_based.
           if va_based
           then and_then (ok_or ''PE delay import name precedes image base'' (checked_sub (ucast raw_name) base))
                  (\<lambda>relative. ok_or ''PE delay import name RVA is too large'' (unat_try_from (unat relative)))
           else Inr raw_name))"

text \<open>The imports of a table are a \<open>BTreeSet\<close>: a sorted list without repetition.\<close>

fun read_names ::
  "u8 list \<Rightarrow> bool \<Rightarrow> nat \<Rightarrow> u64 \<Rightarrow> u32 \<Rightarrow> pe_section list \<Rightarrow> nat \<Rightarrow> nat \<Rightarrow> nat \<Rightarrow> nat \<Rightarrow> string list
    \<Rightarrow> pe_error + string list" where
  "read_names bs delay name_field base headers_size ss start width index 0 found =
     Inl ''PE import directory has no terminating descriptor''"
| "read_names bs delay name_field base headers_size ss start width index (Suc n) found =
     and_then (descriptor_bytes bs start width index) (\<lambda>(offset, descriptor).
       if list_all (\<lambda>b. b = 0) descriptor then Inr found
       else
         and_then (descriptor_name bs delay name_field base offset) (\<lambda>name_rva.
         and_then (rva_offset bs name_rva headers_size ss) (\<lambda>name_offset.
         and_then (dll_name bs name_offset) (\<lambda>name.
           read_names bs delay name_field base headers_size ss start width (index + 1) n (insort_insert name found)))))"

definition import_names ::
  "u8 list \<Rightarrow> u32 \<Rightarrow> u32 \<Rightarrow> nat \<Rightarrow> nat \<Rightarrow> bool \<Rightarrow> u64 \<Rightarrow> u32 \<Rightarrow> pe_section list \<Rightarrow> pe_error + string list" where
  "import_names bs directory_rva directory_size width name_field delay base headers_size ss =
     (if directory_rva = 0 \<and> directory_size = 0 then Inr []
      else if directory_rva = 0 \<or> directory_size = 0 then Inl ''PE import directory is partially absent''
      else and_then (rva_offset bs directory_rva headers_size ss) (\<lambda>start.
        let maximum = unat directory_size div width
        in if maximum = 0 then Inl ''PE import directory cannot hold a descriptor''
           else read_names bs delay name_field base headers_size ss start width 0 maximum []))"

definition parse_windows_pe_imports :: "u8 list \<Rightarrow> pe_error + pe_imports" where
  "parse_windows_pe_imports bs =
     and_then (read_pe_headers bs) (\<lambda>headers.
     and_then (import_names bs (normal_rva headers) (normal_size headers) 20 12 False (image_base headers)
       (size_of_headers headers) (pe_sections headers)) (\<lambda>normal.
     and_then (import_names bs (delay_rva headers) (delay_size headers) 32 4 True (image_base headers)
       (size_of_headers headers) (pe_sections headers)) (\<lambda>delayed.
       Inr \<lparr>imports_machine = pe_machine headers, imports_normal = normal, imports_delayed = delayed\<rparr>)))"

subsection \<open>Deny lists\<close>

definition BOOTSTRAP_DENIED :: "string list" where
  "BOOTSTRAP_DENIED =
     [''USER32.DLL'', ''GDI32.DLL'', ''GDI32FULL.DLL'', ''COMCTL32.DLL'', ''COMDLG32.DLL'', ''OLE32.DLL'',
      ''OLEAUT32.DLL'', ''SHELL32.DLL'', ''SHLWAPI.DLL'']"

definition bootstrap_forbidden :: "string \<Rightarrow> bool" where
  "bootstrap_forbidden name \<longleftrightarrow>
     name \<in> set BOOTSTRAP_DENIED \<or> name = ''MSVCRT.DLL'' \<or> take 9 name = ''VCRUNTIME'' \<or> take 5 name = ''MSVCP''"

definition verify_target_desktop_bootstrap_imports :: "pe_imports \<Rightarrow> pe_error + unit" where
  "verify_target_desktop_bootstrap_imports imports =
     (case find bootstrap_forbidden (imports_normal imports @ imports_delayed imports) of
        Some name \<Rightarrow>
          Inl (''target desktop bootstrap PE imports forbidden redistributable or UI loader dependency '' @ name)
      | None \<Rightarrow> Inr ())"

definition verify_target_desktop_bootstrap_pe :: "u8 list \<Rightarrow> pe_error + pe_imports" where
  "verify_target_desktop_bootstrap_pe bs =
     and_then (parse_windows_pe_imports bs) (\<lambda>imports.
     and_then (verify_target_desktop_bootstrap_imports imports) (\<lambda>_. Inr imports))"

definition BROKER_DENIED :: "string list" where
  "BROKER_DENIED =
     [''USER32.DLL'', ''GDI32.DLL'', ''GDI32FULL.DLL'', ''COMCTL32.DLL'', ''COMDLG32.DLL'', ''OLE32.DLL'',
      ''OLEAUT32.DLL'', ''SHELL32.DLL'', ''SHLWAPI.DLL'', ''URLMON.DLL'', ''WINHTTP.DLL'', ''WININET.DLL'',
      ''WS2_32.DLL'']"

definition verify_session_broker_pe :: "u8 list \<Rightarrow> pe_error + pe_imports" where
  "verify_session_broker_pe bs =
     and_then (parse_windows_pe_imports bs) (\<lambda>imports.
       case find (\<lambda>name. name \<in> set BROKER_DENIED) (imports_normal imports @ imports_delayed imports) of
         Some name \<Rightarrow> Inl (''session broker PE imports forbidden general-purpose dependency '' @ name)
       | None \<Rightarrow> Inr imports)"

end
