(* ===== verification/WindowsPeImports.thy ===== *)
theory WindowsPeImports
  imports WindowsPe
begin

text \<open>
  What the executable parser promises: addresses map into the file, the two inventories of imported
  libraries agree, no accepted helper imports a denied library, and every result is bounded.
\<close>

subsection \<open>Addresses\<close>

lemma get_tail_None_iff: "get_tail bs a = None \<longleftrightarrow> length bs < a"
  by (auto simp: get_tail_def)

lemma section_offset_Inr:
  "section_offset bs rva ss = Inr offset \<Longrightarrow> offset \<le> length bs \<and>
    (\<exists>s. s \<in> set ss \<and> virtual_address s \<le> rva \<and> unat rva - unat (virtual_address s) < unat (raw_size s)
      \<and> offset = unat (raw_offset s) + (unat rva - unat (virtual_address s)))"
proof (induction ss)
  case (Cons s ss)
  show ?case
  proof (cases "section_offset bs rva (s # ss) = section_offset bs rva ss")
    case True
    with Cons show ?thesis by auto
  next
    case False
    then have "virtual_address s \<le> rva" "rva - virtual_address s < raw_size s"
      and "\<exists>w. checked_add (raw_offset s) (rva - virtual_address s) = Some w \<and> offset = unat w \<and> offset \<le> length bs"
      using Cons.prems
      by (auto simp: and_then_Inr_iff Let_def get_tail_def ok_or_def split: if_splits option.splits)
    then show ?thesis
      by (auto simp: checked_Some_iffs word_less_nat_alt unat_sub)
  qed
qed simp

text \<open>An address of the file layout is in the headers or in the file data of a section.\<close>

lemma rva_offset_Inr:
  assumes "rva_offset bs rva headers_size ss = Inr offset"
  shows "offset \<le> length bs \<and> (rva < headers_size \<and> offset = unat rva \<or>
    (\<exists>s. s \<in> set ss \<and> virtual_address s \<le> rva \<and> unat rva - unat (virtual_address s) < unat (raw_size s)
      \<and> offset = unat (raw_offset s) + (unat rva - unat (virtual_address s))))"
  using assms section_offset_Inr [of bs rva ss offset]
  by (auto simp: rva_offset_def get_tail_def split: if_splits)

subsection \<open>Names\<close>

lemma uppercase_char:
  "CHR ''a'' \<le> c \<Longrightarrow> c \<le> CHR ''z'' \<Longrightarrow>
    \<not> (CHR ''a'' \<le> (char_of (of_char c - 32 :: nat) :: char) \<and> char_of (of_char c - 32 :: nat) \<le> CHR ''z'')"
  by (auto simp: less_eq_char_def of_char_of)

lemma to_ascii_uppercase_idem [simp]: "to_ascii_uppercase (to_ascii_uppercase s) = to_ascii_uppercase s"
  using uppercase_char by (auto simp: to_ascii_uppercase_def)

definition canonical_dll :: "string \<Rightarrow> bool" where
  "canonical_dll name \<longleftrightarrow> name \<noteq> [] \<and> to_ascii_uppercase name = name"

lemma dll_name_Inr: "dll_name bs offset = Inr name \<Longrightarrow> canonical_dll name"
  by (auto simp: dll_name_def canonical_dll_def and_then_Inr_iff to_ascii_uppercase_def [of "_ # _"] split: if_splits)
    (simp add: to_ascii_uppercase_def)

subsection \<open>The two inventories\<close>

lemma read_descriptor_name:
  assumes "read_descriptor bs headers FileLayout delay offset index = Inr d"
  shows "\<exists>name_rva name_offset.
    descriptor_name bs delay (if delay then 4 else 12) (image_base headers) offset = Inr name_rva
    \<and> rva_offset bs name_rva (size_of_headers headers) (pe_sections headers) = Inr name_offset
    \<and> dll_name bs name_offset = Inr (descriptor_dll d)"
proof -
  obtain rva_based raw_name name_rva name_offset where
      based: "descriptor_rva_based bs offset delay = Inr rva_based"
    and raw: "pe_dword bs (offset + (if delay then 4 else 12)) = Inr raw_name"
    and name: "va_or_rva raw_name (image_base headers) rva_based ''name'' = Inr name_rva" "name_rva \<noteq> 0"
    and rva: "headers_offset bs name_rva headers FileLayout = Inr name_offset"
    and dll: "dll_name bs name_offset = Inr (descriptor_dll d)"
    using assms by (auto simp: read_descriptor_def and_then_Inr_iff split: if_splits)
  have "raw_name \<noteq> 0" using name by (auto simp: va_or_rva_def)
  then have "descriptor_name bs delay (if delay then 4 else 12) (image_base headers) offset = Inr name_rva"
    using based raw name by (auto simp: descriptor_name_def descriptor_rva_based_def va_or_rva_def split: if_splits)
  with rva dll show ?thesis by (simp add: headers_offset_def)
qed

lemma read_names_descriptors:
  "read_descriptors bs headers FileLayout delay start width index n = Inr ds \<Longrightarrow> n \<le> m \<Longrightarrow>
    read_names bs delay (if delay then 4 else 12) (image_base headers) (size_of_headers headers) (pe_sections headers)
      start width index m found = Inr (fold insort_insert (map descriptor_dll ds) found)"
proof (induction n arbitrary: index ds m found)
  case (Suc n)
  then obtain k where m: "m = Suc k" "n \<le> k" by (cases m) auto
  from Suc.prems(1) obtain offset descriptor where d: "descriptor_bytes bs start width index = Inr (offset, descriptor)"
    by (auto simp: and_then_Inr_iff)
  show ?case
  proof (cases "list_all (\<lambda>b. b = 0) descriptor")
    case True
    with Suc.prems(1) d m show ?thesis by simp
  next
    case False
    with Suc.prems(1) d obtain d1 ds' where ds: "ds = d1 # ds'"
        "read_descriptor bs headers FileLayout delay offset index = Inr d1"
        "read_descriptors bs headers FileLayout delay start width (index + 1) n = Inr ds'"
      by (auto simp: and_then_Inr_iff)
    from read_descriptor_name [OF ds(2)] Suc.IH [OF ds(3) m(2)] False d m ds(1) show ?thesis by auto
  qed
qed simp

lemma fold_insort_insert:
  "sorted found \<Longrightarrow> distinct found \<Longrightarrow>
    sorted (fold insort_insert xs found) \<and> distinct (fold insort_insert xs found)
    \<and> set (fold insort_insert xs found) = set xs \<union> set found"
  by (induction xs arbitrary: found)
    (auto simp: sorted_insort_insert distinct_insort_insert set_insort_insert)

lemma fold_insort_insert_set: "fold insort_insert xs [] = sorted_list_of_set (set xs)"
proof (rule sorted_distinct_set_unique)
  show "sorted (fold insort_insert xs [])" "distinct (fold insort_insert xs [])"
    "set (fold insort_insert xs []) = set (sorted_list_of_set (set xs))"
    using fold_insort_insert [of "[]" xs] by auto
qed auto

lemma import_names_descriptors:
  assumes "import_descriptors bs rva directory_size delay headers FileLayout = Inr ds"
  shows "import_names bs rva directory_size (if delay then 32 else 20) (if delay then 4 else 12) delay
    (image_base headers) (size_of_headers headers) (pe_sections headers)
    = Inr (sorted_list_of_set (set (map descriptor_dll ds)))"
proof (cases "rva = 0 \<and> directory_size = 0")
  case True
  then show ?thesis using assms by (auto simp: import_descriptors_def import_names_def)
next
  case False
  let ?width = "if delay then 32 else 20 :: nat"
  let ?n = "min (unat directory_size div ?width) MAX_IMPORT_DESCRIPTORS"
  obtain start where start: "headers_offset bs rva headers FileLayout = Inr start" "?n \<noteq> 0"
      "read_descriptors bs headers FileLayout delay start ?width 0 ?n = Inr ds" "rva \<noteq> 0" "directory_size \<noteq> 0"
    using assms False by (auto simp: import_descriptors_def and_then_Inr_iff Let_def split: if_splits)
  have "rva_offset bs rva (size_of_headers headers) (pe_sections headers) = Inr start"
    using start(1) by (simp add: headers_offset_def)
  with read_names_descriptors [OF start(3), of "unat directory_size div ?width" "[]"] start(2,4,5)
  show ?thesis by (auto simp: import_names_def Let_def fold_insort_insert_set)
qed

lemma parse_imports_of_contract:
  assumes "parse_windows_pe_loader_contract bs = Inr c"
  shows "parse_windows_pe_imports bs = Inr \<lparr>imports_machine = loader_machine c,
    imports_normal = sorted_list_of_set (set (map descriptor_dll (loader_normal c))),
    imports_delayed = sorted_list_of_set (set (map descriptor_dll (loader_delayed c)))\<rparr>"
proof -
  obtain headers where h: "read_pe_headers bs = Inr headers" "pe_machine headers = loader_machine c"
      "import_descriptors bs (normal_rva headers) (normal_size headers) False headers FileLayout = Inr (loader_normal c)"
      "import_descriptors bs (delay_rva headers) (delay_size headers) True headers FileLayout = Inr (loader_delayed c)"
    using assms
    by (auto simp: parse_windows_pe_loader_contract_def loader_contract_with_layout_def and_then_Inr_iff)
  from import_names_descriptors [OF h(3)] import_names_descriptors [OF h(4)] show ?thesis
    by (simp add: parse_windows_pe_imports_def h(1,2))
qed

lemma read_descriptor_dll:
  "read_descriptor bs headers layout delay offset index = Inr d \<Longrightarrow> canonical_dll (descriptor_dll d)"
  by (auto simp: read_descriptor_def and_then_Inr_iff split: if_splits dest: dll_name_Inr)

lemma read_descriptors_canonical:
  "read_descriptors bs headers layout delay start width index n = Inr ds \<Longrightarrow>
    list_all (\<lambda>d. canonical_dll (descriptor_dll d)) ds"
proof (induction n arbitrary: index ds)
  case (Suc n)
  from Suc.prems consider "ds = []" | offset d ds' where "ds = d # ds'"
      "read_descriptor bs headers layout delay offset index = Inr d"
      "read_descriptors bs headers layout delay start width (index + 1) n = Inr ds'"
    by (auto simp: and_then_Inr_iff split: if_splits)
  then show ?case
  proof cases
    case (2 offset d ds')
    from read_descriptor_dll [OF 2(2)] Suc.IH [OF 2(3)] 2(1) show ?thesis by simp
  qed simp
qed simp

lemma import_descriptors_canonical:
  "import_descriptors bs rva directory_size delay headers layout = Inr ds \<Longrightarrow>
    list_all (\<lambda>d. canonical_dll (descriptor_dll d)) ds"
  by (auto simp: import_descriptors_def and_then_Inr_iff Let_def split: if_splits dest: read_descriptors_canonical)

subsection \<open>Bounds\<close>

lemma import_thunks_length:
  "import_thunks bs headers layout start index n = Inr symbols \<Longrightarrow> length symbols < n"
proof (induction n arbitrary: index symbols)
  case (Suc n)
  then show ?case by (auto simp: and_then_Inr_iff split: if_splits)
qed simp

lemma read_descriptor_symbols:
  "read_descriptor bs headers layout delay offset index = Inr d \<Longrightarrow> length (descriptor_symbols d) < MAX_IMPORT_THUNKS"
  by (auto simp: read_descriptor_def import_symbols_def and_then_Inr_iff split: if_splits dest: import_thunks_length)

lemma read_descriptors_length:
  "read_descriptors bs headers layout delay start width index n = Inr ds \<Longrightarrow>
    length ds < n \<and> list_all (\<lambda>d. length (descriptor_symbols d) < MAX_IMPORT_THUNKS) ds"
proof (induction n arbitrary: index ds)
  case (Suc n)
  from Suc.prems consider "ds = []" | offset d ds' where "ds = d # ds'"
      "read_descriptor bs headers layout delay offset index = Inr d"
      "read_descriptors bs headers layout delay start width (index + 1) n = Inr ds'"
    by (auto simp: and_then_Inr_iff split: if_splits)
  then show ?case
  proof cases
    case (2 offset d ds')
    from read_descriptor_symbols [OF 2(2)] Suc.IH [OF 2(3)] 2(1) show ?thesis by simp
  qed simp
qed simp

lemma import_descriptors_bounded:
  "import_descriptors bs rva directory_size delay headers layout = Inr ds \<Longrightarrow>
    length ds < MAX_IMPORT_DESCRIPTORS \<and> list_all (\<lambda>d. length (descriptor_symbols d) < MAX_IMPORT_THUNKS) ds"
  by (auto simp: import_descriptors_def and_then_Inr_iff Let_def MAX_IMPORT_DESCRIPTORS_def split: if_splits
      dest!: read_descriptors_length)

lemma export_names_length:
  "export_names_loop bs headers layout names ordinals index n found = Inr result \<Longrightarrow> length result = length found"
proof (induction n arbitrary: index found)
  case (Suc n)
  then show ?case by (fastforce simp: and_then_Inr_iff split: if_splits)
qed simp

lemma export_targets_ordinals:
  "export_targets bs headers layout functions fe base index names = Inr es \<Longrightarrow> index + length names \<le> MAX_EXPORTS \<Longrightarrow>
    length es \<le> length names \<and> sorted_wrt (<) (map export_ordinal es)
    \<and> list_all (\<lambda>e. unat base + index \<le> unat (export_ordinal e)) es"
proof (induction names arbitrary: index es)
  case (Cons name names)
  have small: "unat (of_nat index :: u32) = index"
    using Cons.prems(2) by (intro unat_of_nat_small) (simp add: MAX_EXPORTS_def)
  have "index + 1 + length names \<le> MAX_EXPORTS" using Cons.prems(2) by simp
  note IH = Cons.IH [OF _ this]
  from Cons.prems(1) consider
      "export_targets bs headers layout functions fe base (index + 1) names = Inr es"
    | target w es' where "es = \<lparr>export_ordinal = w, export_name = name, export_target = target\<rparr> # es'"
      "checked_add base (of_nat index) = Some w"
      "export_targets bs headers layout functions fe base (index + 1) names = Inr es'"
    by (auto simp: and_then_Inr_iff ok_or_def split: if_splits option.splits)
  then show ?case
  proof cases
    case 1
    from IH [OF this] show ?thesis by (auto simp: list_all_iff)
  next
    case (2 target w es')
    have w: "unat w = unat base + index" using 2(2) small by (simp add: checked_Some_iffs)
    from IH [OF 2(3)] show ?thesis by (auto simp: 2(1) w list_all_iff word_less_nat_alt)
  qed
qed simp

lemma pe_exports_bounded:
  assumes "pe_exports bs headers layout = Inr es"
  shows "length es \<le> MAX_EXPORTS \<and> sorted_wrt (<) (map export_ordinal es)"
proof (cases "export_rva headers = 0 \<and> export_size headers = 0")
  case True
  then show ?thesis using assms by (simp add: pe_exports_def)
next
  case False
  with assms obtain function_count :: u32 and fns names ordinals found fe base n where
      "unat function_count \<le> MAX_EXPORTS"
      "export_names_loop bs headers layout names ordinals 0 n (replicate (unat function_count) None) = Inr found"
      "export_targets bs headers layout fns fe base 0 found = Inr es"
    by (auto simp: pe_exports_def and_then_Inr_iff not_less split: if_splits)
  with export_names_length [of bs headers layout names ordinals 0 n] export_targets_ordinals [of bs headers layout fns fe base 0 found es]
  show ?thesis by fastforce
qed

subsection \<open>Delayed imports by virtual address\<close>

lemma unat_ucast_u64: "unat (ucast (v :: u32) :: u64) = unat v"
proof -
  have "unat v < 2 ^ 64" using unsigned_less [of v, where ?'a = nat] by simp
  then show ?thesis by (simp add: unsigned_ucast_eq take_bit_nat_eq_self)
qed

lemma va_or_rva_rebased:
  assumes "unat base \<le> unat raw"
  shows "\<exists>w. va_or_rva raw base False field = Inr w \<and> unat w = unat raw - unat base"
proof -
  have v: "unat (ucast raw :: u64) = unat raw" by (rule unat_ucast_u64)
  have le: "base \<le> ucast raw" using assms by (simp add: word_le_nat_alt v)
  have "unat raw - unat base < 2 ^ LENGTH(32)" using unsigned_less [of raw, where ?'a = nat] by simp
  then have w: "unat (of_nat (unat raw - unat base) :: u32) = unat raw - unat base" by (rule unat_of_nat_small)
  have "checked_sub (ucast raw) base = Some (ucast raw - base)"
    using le by (simp add: checked_sub_def)
  moreover have "unat (ucast raw - base) = unat raw - unat base"
    using assms by (simp add: unat_sub_if' v)
  moreover have "(unat_try_from (unat raw - unat base) :: u32 option) = Some (of_nat (unat raw - unat base))"
    using \<open>unat raw - unat base < 2 ^ LENGTH(32)\<close> by (simp add: unat_try_from_def)
  ultimately show ?thesis using w by (cases "raw = 0") (auto simp: va_or_rva_def ok_or_def)
qed

lemma va_or_rva_precedes:
  assumes "unat raw < unat base" and "raw \<noteq> 0"
  shows "va_or_rva raw base False field = Inl (''PE delay import '' @ field @ '' precedes image base'')"
proof -
  have "checked_sub (ucast raw) base = None"
    using assms(1) by (simp add: checked_sub_def word_le_nat_alt unat_ucast_u64)
  then show ?thesis using assms(2) by (simp add: va_or_rva_def ok_or_def)
qed

text \<open>
  C34: A delayed descriptor with virtual addresses above the image base and no lookup table falls back to its
  import address table, whose address has been rebased already, and rebases it again. When the address
  is below twice the image base, the descriptor is refused as preceding the image base; otherwise a
  descriptor that is read has the symbols of the table one image base below its import
  address table.
\<close>

theorem delayed_iat_rebased_twice:
  assumes "pe_dword bs offset = Inr attributes" "\<not> bit attributes 0"
    and "pe_dword bs (offset + 4) = Inr raw_name" "image_base headers < ucast raw_name"
    and "pe_dword bs (offset + 12) = Inr raw_iat" "image_base headers < ucast raw_iat"
    and "pe_dword bs (offset + 16) = Inr 0"
  shows "if unat raw_iat < 2 * unat (image_base headers)
    then read_descriptor bs headers layout True offset index = Inl ''PE delay import lookup table precedes image base''
    else \<forall>d. read_descriptor bs headers layout True offset index = Inr d \<longrightarrow>
      unat (iat_rva d) = unat raw_iat - unat (image_base headers)
      \<and> unat (lookup_table_rva d) = unat raw_iat - 2 * unat (image_base headers)
      \<and> import_symbols bs (lookup_table_rva d) headers layout = Inr (descriptor_symbols d)"
proof -
  have less: "unat (image_base headers) < unat raw_name" "unat (image_base headers) < unat raw_iat"
    using assms(4,6) by (simp_all add: word_less_nat_alt unat_ucast_u64)
  obtain name where name: "va_or_rva raw_name (image_base headers) False ''name'' = Inr name"
      "unat name = unat raw_name - unat (image_base headers)"
    using va_or_rva_rebased [of "image_base headers" raw_name] less by auto
  obtain iat where iat: "va_or_rva raw_iat (image_base headers) False ''IAT'' = Inr iat"
      "unat iat = unat raw_iat - unat (image_base headers)"
    using va_or_rva_rebased [of "image_base headers" raw_iat] less by auto
  have nz: "name \<noteq> 0" "iat \<noteq> 0" using name(2) iat(2) less by auto
  note run = read_descriptor_def descriptor_rva_based_def name(1) iat(1) nz assms(1,2,3,5,7)
  show ?thesis
  proof (cases "unat raw_iat < 2 * unat (image_base headers)")
    case True
    then have "va_or_rva iat (image_base headers) False ''lookup table''
        = Inl (''PE delay import '' @ ''lookup table'' @ '' precedes image base'')"
      using iat(2) nz by (intro va_or_rva_precedes) auto
    with True show ?thesis by (simp add: run)
  next
    case False
    then have "unat (image_base headers) \<le> unat iat" using iat(2) by linarith
    from va_or_rva_rebased [OF this, of "''lookup table''"]
    obtain lookup where "va_or_rva iat (image_base headers) False ''lookup table'' = Inr lookup"
        "unat lookup = unat raw_iat - 2 * unat (image_base headers)"
      unfolding iat(2) by auto
    with False iat(2) show ?thesis by (auto simp: run and_then_Inr_iff)
  qed
qed

theorem delayed_iat_rebased_twice_witness:
  "read_descriptor [0, 0, 0, 0, 0, 0, 0x50, 0, 0, 0, 0, 0, 0, 0, 0x41, 0, 0, 0, 0, 0]
     \<lparr>pe_machine = 0x8664, image_base = 0x400000, size_of_headers = 0, pe_sections = [], export_rva = 0,
      export_size = 0, normal_rva = 0, normal_size = 0, delay_rva = 0, delay_size = 0\<rparr> FileLayout True 0 0
   = Inl ''PE delay import lookup table precedes image base''"
  using delayed_iat_rebased_twice [of "[0, 0, 0, 0, 0, 0, 0x50, 0, 0, 0, 0, 0, 0, 0, 0x41, 0, 0, 0, 0, 0]" 0 0 "0x500000"
      "\<lparr>pe_machine = 0x8664, image_base = 0x400000, size_of_headers = 0, pe_sections = [], export_rva = 0,
       export_size = 0, normal_rva = 0, normal_size = 0, delay_rva = 0, delay_size = 0\<rparr>" "0x410000" FileLayout 0]
  by (simp add: pe_dword_def pe_field_def usize_add_def get_range_def ok_or_def)

subsection \<open>An example\<close>

definition example_pe :: "u8 list" where
  "example_pe =
     [0x4D, 0x5A] @ replicate 58 0 @ [0x40, 0, 0, 0]
     @ [0x50, 0x45, 0, 0, 0x64, 0x86, 0, 0] @ replicate 12 0 @ [0xE0, 0, 0, 0]
     @ [0x0B, 0x02] @ replicate 22 0 @ [0, 0, 0, 0x40, 1, 0, 0, 0] @ replicate 28 0 @ [0, 3, 0, 0]
     @ replicate 44 0 @ [14, 0, 0, 0] @ replicate 8 0 @ [0x38, 1, 0, 0, 40, 0, 0, 0] @ replicate 96 0
     @ [0x60, 1, 0, 0] @ replicate 8 0 @ [0x70, 1, 0, 0, 0x60, 1, 0, 0] @ replicate 20 0
     @ [5, 0, 0, 0, 0, 0, 0, 0x80] @ replicate 8 0 @ [107, 46, 100, 108, 108, 0]"

lemma length_example_pe: "length example_pe = 374"
  by (simp add: example_pe_def)

lemmas example_eval = pe_word_def pe_dword_def pe_qword_def pe_field_def usize_add_def usize_mul_def get_range_def
  get_tail_def example_pe_def ok_or_def

lemma from_le_bytes_zero [simp]: "from_le_bytes (replicate n 0) = 0"
  by (induction n) simp_all

lemma example_signatures:
  "get_range example_pe 0 2 = Some [0x4D, 0x5A]" "get_range example_pe 64 68 = Some [0x50, 0x45, 0, 0]"
  by (simp_all add: example_eval)

lemma example_header_fields:
  "pe_dword example_pe 60 = Inr 64" "pe_word example_pe 68 = Inr 0x8664" "pe_word example_pe 70 = Inr 0"
  "pe_word example_pe 84 = Inr 224" "pe_word example_pe 88 = Inr 0x20b" "pe_qword example_pe 112 = Inr 0x140000000"
  "pe_dword example_pe 148 = Inr 0x300" "pe_dword example_pe 196 = Inr 14"
  by (simp_all add: example_eval)

lemma example_directory_fields:
  "pe_dword example_pe 200 = Inr 0" "pe_dword example_pe 204 = Inr 0" "pe_dword example_pe 208 = Inr 312"
  "pe_dword example_pe 212 = Inr 40" "pe_dword example_pe 304 = Inr 0" "pe_dword example_pe 308 = Inr 0"
  by (simp_all add: example_eval)

lemma example_descriptor_fields:
  "pe_dword example_pe 312 = Inr 352" "pe_dword example_pe 316 = Inr 0" "pe_dword example_pe 324 = Inr 368"
  "pe_dword example_pe 328 = Inr 352" "pe_qword example_pe 352 = Inr 0x8000000000000005" "pe_qword example_pe 360 = Inr 0"
  by (simp_all add: example_eval)

definition example_headers :: pe_headers where
  "example_headers = \<lparr>pe_machine = 0x8664, image_base = 0x140000000, size_of_headers = 0x300, pe_sections = [],
     export_rva = 0, export_size = 0, normal_rva = 312, normal_size = 40, delay_rva = 0, delay_size = 0\<rparr>"

lemma example_read_headers: "read_pe_headers example_pe = Inr example_headers"
  using length_example_pe
  by (simp add: read_pe_headers_def optional_header_def read_directories_def example_signatures example_header_fields
      example_directory_fields WINDOWS_PE_MACHINE_AMD64_def usize_add_def ok_or_def get_range_def [of _ 88]
      example_headers_def)

lemma example_text: "text_of [107, 46, 100, 108, 108] = ''k.dll''" "to_ascii_uppercase ''k.dll'' = ''K.DLL''"
  by code_simp+

lemma example_dll: "dll_name example_pe 368 = Inr ''K.DLL''"
proof -
  have "ascii_string example_pe 368 ''import name'' = Inr ''k.dll''"
    using example_text(1)
    by (simp add: ascii_string_def Let_def get_tail_def example_pe_def ok_or_def MAX_PE_STRING_BYTES_def)
  then show ?thesis by (simp add: dll_name_def example_text(2))
qed

lemma example_descriptors:
  "descriptor_bytes example_pe 312 20 0
     = Inr (312, [0x60, 1, 0, 0] @ replicate 8 0 @ [0x70, 1, 0, 0, 0x60, 1, 0, 0])"
  "descriptor_bytes example_pe 312 20 (Suc 0) = Inr (332, replicate 20 0)"
  by (simp_all add: descriptor_bytes_def example_eval)

lemma example_offset: "unat rva \<le> 374 \<Longrightarrow> rva < 0x300 \<Longrightarrow> rva_offset example_pe rva 0x300 [] = Inr (unat rva)"
  by (simp add: rva_offset_def get_tail_def length_example_pe)

lemma example_headers_simps [simp]:
  "pe_machine example_headers = 0x8664" "image_base example_headers = 0x140000000"
  "size_of_headers example_headers = 0x300" "pe_sections example_headers = []"
  "export_rva example_headers = 0" "export_size example_headers = 0" "normal_rva example_headers = 312"
  "normal_size example_headers = 40" "delay_rva example_headers = 0" "delay_size example_headers = 0"
  by (simp_all add: example_headers_def)

lemma example_thunks: "import_thunks example_pe example_headers FileLayout 352 0 (Suc (Suc n)) = Inr [SymbolOrdinal 5]"
  by (simp add: usize_mul_def usize_add_def ok_or_def example_descriptor_fields thunk_symbol_def)

lemma example_symbols: "import_symbols example_pe 352 example_headers FileLayout = Inr [SymbolOrdinal 5]"
  using example_thunks [of 16382]
  by (simp add: import_symbols_def headers_offset_def example_offset MAX_IMPORT_THUNKS_def)

definition example_descriptor :: import_descriptor where
  "example_descriptor = \<lparr>descriptor_ordinal = 0, descriptor_dll = ''K.DLL'', descriptor_symbols = [SymbolOrdinal 5],
     lookup_table_rva = 352, iat_rva = 352, bound_timestamp = 0\<rparr>"

lemma example_read_descriptor:
  "read_descriptor example_pe example_headers FileLayout False 312 0 = Inr example_descriptor"
  by (simp add: read_descriptor_def descriptor_rva_based_def va_or_rva_def example_descriptor_fields headers_offset_def
      example_offset example_dll example_symbols example_descriptor_def)

lemma example_import_descriptors:
  "import_descriptors example_pe 312 40 False example_headers FileLayout = Inr [example_descriptor]"
proof -
  have "min (unat (40 :: u32) div 20) MAX_IMPORT_DESCRIPTORS = Suc (Suc 0)" by (simp add: MAX_IMPORT_DESCRIPTORS_def)
  moreover have "read_descriptors example_pe example_headers FileLayout False 312 20 0 (Suc (Suc 0)) = Inr [example_descriptor]"
    by (simp add: example_descriptors example_read_descriptor list_all_iff)
  ultimately show ?thesis by (simp add: import_descriptors_def headers_offset_def example_offset Let_def)
qed

lemma example_loader_contract:
  "parse_windows_pe_loader_contract example_pe = Inr \<lparr>loader_machine = 0x8664, loader_normal = [example_descriptor],
     loader_delayed = [], loader_exports = []\<rparr>"
  by (simp add: parse_windows_pe_loader_contract_def loader_contract_with_layout_def example_read_headers
      example_import_descriptors import_descriptors_def [of _ 0] pe_exports_def)

subsection \<open>Properties\<close>

lemma find_append_None: "find P (xs @ ys) = None \<longleftrightarrow> list_all (\<lambda>x. \<not> P x) xs \<and> list_all (\<lambda>x. \<not> P x) ys"
  by (auto simp: find_None_iff list_all_iff)

lemma loader_dlls_canonical:
  "parse_windows_pe_loader_contract bs = Inr c \<Longrightarrow>
    list_all (\<lambda>d. canonical_dll (descriptor_dll d)) (loader_normal c @ loader_delayed c)"
  by (auto simp: parse_windows_pe_loader_contract_def loader_contract_with_layout_def and_then_Inr_iff
      dest!: import_descriptors_canonical)

lemma bootstrap_imports_allowed:
  assumes "verify_target_desktop_bootstrap_pe bs = Inr imports" and "parse_windows_pe_loader_contract bs = Inr c"
  shows "list_all (\<lambda>d. \<not> bootstrap_forbidden (descriptor_dll d)) (loader_normal c @ loader_delayed c)"
proof -
  have "find bootstrap_forbidden (imports_normal imports @ imports_delayed imports) = None"
    using assms(1) by (auto simp: verify_target_desktop_bootstrap_pe_def verify_target_desktop_bootstrap_imports_def
        and_then_Inr_iff split: option.splits)
  moreover have "parse_windows_pe_imports bs = Inr imports"
    using assms(1) by (auto simp: verify_target_desktop_bootstrap_pe_def and_then_Inr_iff)
  ultimately show ?thesis
    using parse_imports_of_contract [OF assms(2)] by (auto simp: find_append_None list_all_iff)
qed

text \<open>
  C23: An executable that passes the deny list of the session broker imports none of the denied
  libraries: whenever its loader contract can be read, the two inventories list the same
  libraries, both tables of the contract are free of denied names, and no name escapes the list by
  its letter case.
\<close>

theorem broker_imports_allowed:
  assumes "verify_session_broker_pe bs = Inr imports" and "parse_windows_pe_loader_contract bs = Inr c"
  shows "imports = \<lparr>imports_machine = loader_machine c,
      imports_normal = sorted_list_of_set (set (map descriptor_dll (loader_normal c))),
      imports_delayed = sorted_list_of_set (set (map descriptor_dll (loader_delayed c)))\<rparr>
    \<and> list_all (\<lambda>d. descriptor_dll d \<notin> set BROKER_DENIED
        \<and> to_ascii_uppercase (descriptor_dll d) = descriptor_dll d) (loader_normal c @ loader_delayed c)"
proof -
  have none: "find (\<lambda>name. name \<in> set BROKER_DENIED) (imports_normal imports @ imports_delayed imports) = None"
    and "parse_windows_pe_imports bs = Inr imports"
    using assms(1) by (auto simp: verify_session_broker_pe_def and_then_Inr_iff split: option.splits)
  then have i: "imports = \<lparr>imports_machine = loader_machine c,
      imports_normal = sorted_list_of_set (set (map descriptor_dll (loader_normal c))),
      imports_delayed = sorted_list_of_set (set (map descriptor_dll (loader_delayed c)))\<rparr>"
    using parse_imports_of_contract [OF assms(2)] by simp
  moreover have "list_all (\<lambda>d. descriptor_dll d \<notin> set BROKER_DENIED) (loader_normal c @ loader_delayed c)"
    using none unfolding find_append_None by (auto simp: i list_all_iff)
  ultimately show ?thesis
    using loader_dlls_canonical [OF assms(2)] by (auto simp: list_all_iff canonical_dll_def)
qed

theorem broker_imports_allowed_witness:
  "verify_session_broker_pe example_pe
    = Inr \<lparr>imports_machine = 0x8664, imports_normal = [''K.DLL''], imports_delayed = []\<rparr>
   \<and> descriptor_dll example_descriptor \<notin> set BROKER_DENIED"
proof -
  let ?i = "\<lparr>imports_machine = 0x8664, imports_normal = [''K.DLL''], imports_delayed = []\<rparr>"
  have "verify_session_broker_pe example_pe = Inr ?i"
    using parse_imports_of_contract [OF example_loader_contract]
    by (simp add: verify_session_broker_pe_def example_descriptor_def BROKER_DENIED_def)
  with broker_imports_allowed [OF this example_loader_contract] show ?thesis by simp
qed

text \<open>
  In both layouts a loader contract is bounded: fewer than 1024 descriptors per table, fewer than
  16384 symbols per descriptor and at most 65536 exports, whose ordinals strictly increase.
\<close>

theorem loader_contract_bounded:
  assumes "loader_contract_with_layout bs layout = Inr c"
  shows "length (loader_normal c) < 1024 \<and> length (loader_delayed c) < 1024
    \<and> list_all (\<lambda>d. length (descriptor_symbols d) < 16384) (loader_normal c @ loader_delayed c)
    \<and> length (loader_exports c) \<le> 65536 \<and> sorted_wrt (<) (map export_ordinal (loader_exports c))"
proof -
  obtain headers where "read_pe_headers bs = Inr headers"
    and n: "import_descriptors bs (normal_rva headers) (normal_size headers) False headers layout = Inr (loader_normal c)"
    and d: "import_descriptors bs (delay_rva headers) (delay_size headers) True headers layout = Inr (loader_delayed c)"
    and e: "pe_exports bs headers layout = Inr (loader_exports c)"
    using assms by (auto simp: loader_contract_with_layout_def and_then_Inr_iff)
  from import_descriptors_bounded [OF n] import_descriptors_bounded [OF d] pe_exports_bounded [OF e] show ?thesis
    by (simp add: MAX_IMPORT_DESCRIPTORS_def MAX_IMPORT_THUNKS_def MAX_EXPORTS_def)
qed

theorem loader_contract_bounded_witness:
  "\<exists>c. loader_contract_with_layout example_pe FileLayout = Inr c \<and> length (loader_normal c) < 1024"
  using loader_contract_bounded [of example_pe FileLayout] example_loader_contract
  by (auto simp: parse_windows_pe_loader_contract_def)

end
