(* ===== verification/ByteSize.thy ===== *)
theory ByteSize
  imports Prelude
begin

text \<open>
  Byte sizes (\<open>ByteSize\<close> of \<open>memcordon-core/src/policy.rs\<close>): the newtype with its order, the
  saturating \<open>gib\<close> constructor, \<open>Display\<close>, and the parser of memory sizes with its decimal
  fractions and units. The lemmas show what a successful parse computed: the exact decimal
  value times the unit, rounded up to a whole byte.
\<close>

datatype byte_size = ByteSize (byte_count: u64)

instantiation byte_size :: linorder
begin

definition less_eq_byte_size :: "byte_size \<Rightarrow> byte_size \<Rightarrow> bool" where
  "less_eq_byte_size a b \<longleftrightarrow> byte_count a \<le> byte_count b"

definition less_byte_size :: "byte_size \<Rightarrow> byte_size \<Rightarrow> bool" where
  "less_byte_size a b \<longleftrightarrow> byte_count a < byte_count b"

instance
  by standard (auto simp: less_eq_byte_size_def less_byte_size_def byte_size.expand)

end

definition from_bytes :: "u64 \<Rightarrow> byte_size" where
  "from_bytes n = ByteSize n"

definition gib :: "u64 \<Rightarrow> byte_size" where
  "gib value = ByteSize (saturating_mul value (1024 * 1024 * 1024))"

definition byte_size_fmt :: "byte_size \<Rightarrow> string" where
  "byte_size_fmt b = show_nat (unat (byte_count b)) @ ''B''"

datatype byte_size_parse_error = MissingNumber | InvalidUnit string | InvalidDecimal | Overflow

text \<open>The unit table of \<open>from_str\<close>.\<close>

definition unit_multiplier :: "string \<Rightarrow> u128 option" where
  "unit_multiplier unit =
     (if unit = '''' \<or> unit = ''B'' then Some 1
      else if unit = ''KB'' then Some 1000
      else if unit = ''MB'' then Some 1000000
      else if unit = ''GB'' then Some 1000000000
      else if unit = ''TB'' then Some 1000000000000
      else if unit = ''PB'' then Some 1000000000000000
      else if unit = ''EB'' then Some 1000000000000000000
      else if unit = ''KiB'' then Some (push_bit 10 1)
      else if unit = ''MiB'' then Some (push_bit 20 1)
      else if unit = ''GiB'' then Some (push_bit 30 1)
      else if unit = ''TiB'' then Some (push_bit 40 1)
      else if unit = ''PiB'' then Some (push_bit 50 1)
      else if unit = ''EiB'' then Some (push_bit 60 1)
      else None)"

text \<open>The fractional part, scaled by the unit and rounded up.\<close>

definition rounded_fraction :: "string \<Rightarrow> u128 \<Rightarrow> byte_size_parse_error + u128" where
  "rounded_fraction digits multiplier =
     and_then (ok_or Overflow (parse_uint digits :: u128 option)) (\<lambda>value.
     and_then (ok_or Overflow (checked_mul value multiplier)) (\<lambda>numerator.
     and_then (ok_or Overflow (unat_try_from (length digits) :: u32 option)) (\<lambda>exponent.
     and_then (ok_or Overflow (checked_pow (10 :: u128) (unat exponent))) (\<lambda>denominator.
     and_then (ok_or Overflow (checked_add numerator (denominator - 1))) (\<lambda>rounded.
       Inr (rounded div denominator))))))"

definition is_number_char :: "char \<Rightarrow> bool" where
  "is_number_char c \<longleftrightarrow> is_ascii_digit c \<or> c = CHR ''.''"

definition byte_size_from_str :: "string \<Rightarrow> byte_size_parse_error + byte_size" where
  "byte_size_from_str input =
     (let number = takeWhile is_number_char input;
          unit = dropWhile is_number_char input
      in if number = [] then Inl MissingNumber
         else and_then (ok_or (InvalidUnit unit) (unit_multiplier unit)) (\<lambda>multiplier.
           (case split_on (CHR ''.'') number of
              [] \<Rightarrow> Inl InvalidDecimal
            | whole # rest \<Rightarrow>
                (let fraction = (case rest of [] \<Rightarrow> None | digits # _ \<Rightarrow> Some digits)
                 in if 1 < length rest \<or> whole = [] \<or> \<not> list_all is_ascii_digit whole
                       \<or> is_some_and (\<lambda>digits. digits = [] \<or> \<not> list_all is_ascii_digit digits) fraction
                    then Inl InvalidDecimal
                    else and_then (ok_or Overflow (parse_uint whole)) (\<lambda>value.
                      and_then (ok_or Overflow (checked_mul value multiplier)) (\<lambda>scaled_whole.
                      and_then (case fraction of
                          Some digits \<Rightarrow>
                            and_then (rounded_fraction digits multiplier)
                              (\<lambda>rounded. ok_or Overflow (checked_add scaled_whole rounded))
                        | None \<Rightarrow> Inr scaled_whole) (\<lambda>bytes.
                      and_then (ok_or Overflow (unat_try_from (unat bytes))) (\<lambda>b.
                        Inr (ByteSize b)))))))))"

subsection \<open>What a parse computes\<close>

text \<open>The exact value of a decimal numeral: digits, optionally a point and more digits.\<close>

definition decimal_value :: "string \<Rightarrow> string option \<Rightarrow> real" where
  "decimal_value w f = real (digits_val w)
     + (case f of None \<Rightarrow> 0 | Some d \<Rightarrow> real (digits_val d) / 10 ^ length d)"

lemma ceiling_div_nat:
  assumes "0 < b"
  shows "\<lceil>real a / real b\<rceil> = int ((a + b - 1) div b)"
proof (rule ceiling_unique)
  let ?q = "(a + b - 1) div b"
  have "?q * b \<le> a + b - 1" by (rule div_times_less_eq_dividend)
  then have lt: "?q * b < a + b" using assms by linarith
  have "a + b - 1 < b + b * ?q" using assms by (rule dividend_less_times_div)
  then have le: "a \<le> ?q * b" using assms by (simp add: algebra_simps)
  have "real (?q * b) < real (a + b)" using lt by (simp only: of_nat_less_iff)
  then show "of_int (int ?q) - 1 < real a / real b"
    using assms by (simp add: field_simps)
  have "real a \<le> real (?q * b)" using le by (simp only: of_nat_le_iff)
  then show "real a / real b \<le> of_int (int ?q)"
    using assms by (simp add: pos_divide_le_eq)
qed

lemma rounded_fraction_Inr:
  assumes "rounded_fraction digits m = Inr r" and "digits \<noteq> []" and "list_all is_ascii_digit digits"
  shows "unat r = (digits_val digits * unat m + 10 ^ length digits - 1) div 10 ^ length digits"
proof -
  from assms obtain v n e d q where v: "unat (v :: u128) = digits_val digits" "unat (n :: u128) = unat v * unat m"
    and e: "unat (e :: u32) = length digits" and d: "unat (d :: u128) = 10 ^ unat e"
    and q: "unat q = unat n + unat (d - 1)" and r: "r = q div d"
    by (auto simp: rounded_fraction_def parse_uint_digits checked_Some_iffs)
  have "unat (d - 1) = unat d - 1"
    using d by (intro unat_minus_one) auto
  then show ?thesis
    using v e d q r by (simp add: unat_div algebra_simps)
qed

lemma split_on_digits: "list_all is_ascii_digit s \<Longrightarrow> split_on (CHR ''.'') s = [s]"
  by (rule split_on_no_sep) (auto simp: list_all_iff)

lemma split_on_decimal:
  assumes "list_all is_ascii_digit w" and "list_all is_ascii_digit f"
  shows "split_on (CHR ''.'') (w @ CHR ''.'' # f) = [w, f]"
proof -
  have "CHR ''.'' \<notin> set w" using assms by (auto simp: list_all_iff)
  then show ?thesis using assms by (simp add: split_on_sep split_on_digits)
qed

text \<open>The numeral and the unit of an input are found where they were put.\<close>

lemma unit_not_number: "unit_multiplier u = Some m \<Longrightarrow> u = [] \<or> \<not> is_number_char (hd u)"
  by (auto simp: unit_multiplier_def is_number_char_def is_ascii_digit_def split: if_splits)

lemma number_unit_split:
  assumes "list_all is_number_char number" and "unit_multiplier u = Some m"
  shows "takeWhile is_number_char (number @ u) = number"
    and "dropWhile is_number_char (number @ u) = u"
proof -
  have *: "takeWhile is_number_char u = []" "dropWhile is_number_char u = u"
    using unit_not_number [OF assms(2)] by (cases u; simp)+
  have "\<forall>c \<in> set number. is_number_char c"
    using assms(1) by (simp add: list_all_iff)
  with * show "takeWhile is_number_char (number @ u) = number"
    and "dropWhile is_number_char (number @ u) = u"
    by (simp_all add: takeWhile_append2 dropWhile_append2)
qed

lemma digits_are_number: "list_all is_ascii_digit s \<Longrightarrow> list_all is_number_char s"
  by (auto simp: list_all_iff is_number_char_def)

lemma unit_multiplier_bounds:
  assumes "unit_multiplier u = Some m"
  shows "0 < unat m" and "unat m \<le> 2 ^ 60"
  using assms by (auto simp: unit_multiplier_def push_bit_eq_mult split: if_splits)

lemma digits_val_bound: "list_all is_ascii_digit s \<Longrightarrow> digits_val s < 10 ^ length s"
proof (induction s rule: rev_induct)
  case Nil
  then show ?case by simp
next
  case (snoc c s)
  then have "digits_val s < 10 ^ length s" and "of_char c - 48 < (10::nat)"
    by (auto simp: is_ascii_digit_def)
  then show ?case by (simp add: digits_val_snoc)
qed

text \<open>The 128-bit arithmetic on a fraction succeeds exactly when its last sum fits.\<close>

definition fraction_fits :: "string \<Rightarrow> u128 \<Rightarrow> bool" where
  "fraction_fits digits m \<longleftrightarrow> digits_val digits * unat m + 10 ^ length digits \<le> 2 ^ 128"

lemma power_ten_bound:
  assumes "(10 :: nat) ^ k \<le> 2 ^ 128"
  shows "(10 :: nat) ^ k < 2 ^ 128" and "k < 39"
proof -
  show "k < 39"
  proof (rule ccontr)
    assume "\<not> k < 39"
    then have "(10 :: nat) ^ 39 \<le> 10 ^ k" by (intro power_increasing) auto
    with assms show False by simp
  qed
  then have "(10 :: nat) ^ k \<le> 10 ^ 38" by (intro power_increasing) auto
  then show "(10 :: nat) ^ k < 2 ^ 128" by simp
qed

lemma fraction_fits_short:
  assumes "list_all is_ascii_digit digits" and "length digits \<le> 18" and "unat m \<le> 2 ^ 60"
  shows "fraction_fits digits m"
proof -
  have pow: "(10::nat) ^ length digits \<le> 10 ^ 18"
    using assms(2) by (intro power_increasing) auto
  then have "digits_val digits * unat m \<le> 10 ^ 18 * 2 ^ 60"
    using digits_val_bound [OF assms(1)] assms(3) by (intro mult_mono) auto
  then show ?thesis using pow by (simp add: fraction_fits_def)
qed

lemma rounded_fraction_fits:
  assumes "digits \<noteq> []" and "list_all is_ascii_digit digits" and "0 < unat m" and "fraction_fits digits m"
  shows "\<exists>r. rounded_fraction digits m = Inr r"
proof -
  let ?F = "digits_val digits" and ?k = "length digits"
  have Fm: "?F * unat m + 10 ^ ?k \<le> 2 ^ 128" using assms(4) by (simp only: fraction_fits_def)
  then have k: "(10 :: nat) ^ ?k < 2 ^ 128" "?k < 39" using power_ten_bound [of ?k] by linarith+
  have "?F \<le> ?F * unat m" using assms(3) by simp
  moreover have pos: "0 < (10 :: nat) ^ ?k" by simp
  ultimately have F: "?F < 2 ^ 128" "?F * unat m < 2 ^ 128" using Fm by linarith+
  have p: "parse_uint digits = Some (of_nat ?F :: u128)"
    using F by (simp add: parse_uint_digits assms unat_try_from_def)
  have uF: "unat (of_nat ?F :: u128) = ?F"
    using F by (simp add: unat_of_nat)
  have mul: "checked_mul (of_nat ?F) m = Some (of_nat ?F * m)"
    using F by (simp add: checked_mul_def uF)
  have umul: "unat (of_nat ?F * m) = ?F * unat m"
    using mul by (simp only: checked_mul_Some_iff uF)
  have len: "unat_try_from ?k = Some (of_nat ?k :: u32)" and uk: "unat (of_nat ?k :: u32) = ?k"
    using k(2) by (simp_all add: unat_try_from_def unat_of_nat)
  have pw: "checked_pow (10 :: u128) ?k = Some (10 ^ ?k)"
    using k(1) by (simp add: checked_pow_def)
  have upw: "unat ((10 :: u128) ^ ?k) = 10 ^ ?k"
    using pw by (simp add: checked_pow_Some_iff)
  then have "unat ((10 :: u128) ^ ?k - 1) = 10 ^ ?k - 1"
    by (metis unat_minus_one power_not_zero unat_0 zero_neq_numeral)
  moreover have "?F * unat m + (10 ^ ?k - 1) < 2 ^ 128" using Fm pos by linarith
  ultimately have "checked_add (of_nat ?F * m) ((10 :: u128) ^ ?k - 1) = Some (of_nat ?F * m + (10 ^ ?k - 1))"
    by (simp add: checked_add_def umul)
  then show ?thesis
    by (simp add: rounded_fraction_def p mul len uk pw)
qed

lemma rounded_fraction_overflow:
  assumes "digits \<noteq> []" and "list_all is_ascii_digit digits" and "\<not> fraction_fits digits m"
  shows "rounded_fraction digits m = Inl Overflow"
proof (cases "rounded_fraction digits m")
  case (Inl e)
  then show ?thesis by (auto simp: rounded_fraction_def and_then_Inl_iff)
next
  case (Inr r)
  from assms Inr obtain v n e d q where v: "unat (v :: u128) = digits_val digits" "unat (n :: u128) = unat v * unat m"
    and e: "unat (e :: u32) = length digits" and d: "unat (d :: u128) = 10 ^ unat e"
    and q: "unat (q :: u128) = unat n + unat (d - 1)"
    by (auto simp: rounded_fraction_def parse_uint_digits checked_Some_iffs)
  have "unat (d - 1) = unat d - 1"
    using d by (intro unat_minus_one) auto
  moreover have "unat q < 2 ^ 128" using unsigned_less [of q] by simp
  ultimately show ?thesis using assms(3) v e d q by (simp add: fraction_fits_def)
qed

text \<open>Scaling the whole part, adding the rounded fraction and narrowing to 64 bits.\<close>

lemma scaled_total:
  fixes m r :: u128
  assumes "w \<noteq> []" and "list_all is_ascii_digit w" and "0 < unat m"
  shows "and_then (ok_or Overflow (parse_uint w)) (\<lambda>value.
           and_then (ok_or Overflow (checked_mul value m)) (\<lambda>scaled_whole.
           and_then (ok_or Overflow (checked_add scaled_whole r)) (\<lambda>bytes.
           and_then (ok_or Overflow (unat_try_from (unat bytes))) (\<lambda>b. Inr (ByteSize b)))))
       = (if digits_val w * unat m + unat r < 2 ^ 64
          then Inr (ByteSize (of_nat (digits_val w * unat m + unat r))) else Inl Overflow)"
    (is "?run = (if ?total < _ then _ else _)")
proof (cases "?total < 2 ^ 128")
  case True
  have "digits_val w \<le> digits_val w * unat m" using assms(3) by simp
  with True have W: "digits_val w < 2 ^ 128" by linarith
  then have uW: "unat (of_nat (digits_val w) :: u128) = digits_val w"
    by (simp add: unat_of_nat)
  have p: "parse_uint w = Some (of_nat (digits_val w) :: u128)"
    using W by (simp add: parse_uint_digits assms unat_try_from_def)
  have mul: "checked_mul (of_nat (digits_val w)) m = Some (of_nat (digits_val w) * m)"
    using True by (simp add: checked_mul_def uW)
  have umul: "unat (of_nat (digits_val w) * m) = digits_val w * unat m"
    using mul by (simp only: checked_mul_Some_iff uW)
  have add: "checked_add (of_nat (digits_val w) * m) r = Some (of_nat (digits_val w) * m + r)"
    using True by (simp add: checked_add_def umul)
  have uadd: "unat (of_nat (digits_val w) * m + r) = ?total"
    using add by (simp only: checked_add_Some_iff umul)
  show ?thesis
    by (simp add: p mul add uadd unat_try_from_def)
next
  case False
  have "?run \<noteq> Inr b" for b
  proof
    assume "?run = Inr b"
    then obtain v s t where "unat (v :: u128) = digits_val w" "unat (s :: u128) = unat v * unat m"
      "unat (t :: u128) = unat s + unat r"
      by (auto simp: parse_uint_digits assms checked_Some_iffs)
    then have "unat t = ?total" by simp
    moreover have "unat t < 2 ^ 128" using unsigned_less [of t] by simp
    ultimately show False using False by simp
  qed
  moreover have "e = Overflow" if "?run = Inl e" for e
    using that by (auto simp: and_then_Inl_iff)
  ultimately have "?run = Inl Overflow"
    by (cases ?run) auto
  with False show ?thesis by simp
qed

definition decimal_text :: "string \<Rightarrow> string option \<Rightarrow> string" where
  "decimal_text w f = w @ (case f of None \<Rightarrow> [] | Some d \<Rightarrow> CHR ''.'' # d)"

definition is_digits :: "string \<Rightarrow> bool" where
  "is_digits s \<longleftrightarrow> s \<noteq> [] \<and> list_all is_ascii_digit s"

lemma decimal_text_number:
  "is_digits w \<Longrightarrow> (\<And>d. f = Some d \<Longrightarrow> is_digits d) \<Longrightarrow>
    decimal_text w f \<noteq> [] \<and> list_all is_number_char (decimal_text w f)"
  by (auto simp: decimal_text_def is_digits_def is_number_char_def list_all_iff split: option.splits)

lemma ceiling_scaled:
  assumes "0 < k"
  shows "\<lceil>(real W + real F / real k) * real m\<rceil> = int (W * m + (F * m + k - 1) div k)"
proof -
  have "(real W + real F / real k) * real m = real (F * m) / real k + of_int (int (W * m))"
    using assms by (simp add: field_simps)
  then have "\<lceil>(real W + real F / real k) * real m\<rceil> = \<lceil>real (F * m) / real k\<rceil> + int (W * m)"
    by (simp only: ceiling_add_of_int)
  also have "\<dots> = int (W * m + (F * m + k - 1) div k)"
    by (simp only: ceiling_div_nat [OF assms] of_nat_add)
  finally show ?thesis .
qed

lemma from_str_decimal:
  assumes "is_digits w" and "\<And>d. f = Some d \<Longrightarrow> is_digits d" and "unit_multiplier u = Some m"
  shows "byte_size_from_str (decimal_text w f @ u) =
    and_then (ok_or Overflow (parse_uint w)) (\<lambda>value.
    and_then (ok_or Overflow (checked_mul value m)) (\<lambda>scaled_whole.
    and_then (case f of
        Some digits \<Rightarrow> and_then (rounded_fraction digits m)
          (\<lambda>rounded. ok_or Overflow (checked_add scaled_whole rounded))
      | None \<Rightarrow> Inr scaled_whole) (\<lambda>bytes.
    and_then (ok_or Overflow (unat_try_from (unat bytes))) (\<lambda>b. Inr (ByteSize b)))))"
proof -
  let ?n = "decimal_text w f"
  have n: "?n \<noteq> []" "list_all is_number_char ?n"
    using decimal_text_number [of w f] assms by auto
  have "split_on (CHR ''.'') ?n = w # (case f of None \<Rightarrow> [] | Some d \<Rightarrow> [d])"
    using assms by (auto simp: decimal_text_def is_digits_def split_on_digits split_on_decimal
        split: option.splits)
  then show ?thesis
    using assms n unfolding byte_size_from_str_def number_unit_split [OF n(2) assms(3)]
    by (auto simp: is_digits_def split: option.splits)
qed

lemma from_str_whole:
  assumes "is_digits w" and "unit_multiplier u = Some m"
  shows "byte_size_from_str (decimal_text w None @ u) =
    (if digits_val w * unat m < 2 ^ 64 then Inr (ByteSize (of_nat (digits_val w * unat m)))
     else Inl Overflow)"
proof -
  have "byte_size_from_str (decimal_text w None @ u) =
    and_then (ok_or Overflow (parse_uint w)) (\<lambda>value.
    and_then (ok_or Overflow (checked_mul value m)) (\<lambda>scaled_whole.
    and_then (ok_or Overflow (checked_add scaled_whole 0)) (\<lambda>bytes.
    and_then (ok_or Overflow (unat_try_from (unat bytes))) (\<lambda>b. Inr (ByteSize b)))))"
    by (subst from_str_decimal) (use assms in auto)
  also have "\<dots> = (if digits_val w * unat m + unat (0 :: u128) < 2 ^ 64
      then Inr (ByteSize (of_nat (digits_val w * unat m + unat (0 :: u128)))) else Inl Overflow)"
    using assms unit_multiplier_bounds [OF assms(2)] by (intro scaled_total) (auto simp: is_digits_def)
  finally show ?thesis by (simp del: of_nat_mult)
qed

lemma from_str_fraction:
  fixes n :: nat
  assumes "is_digits w" and "is_digits d" and "unit_multiplier u = Some m"
  defines "n \<equiv> digits_val w * unat m + (digits_val d * unat m + 10 ^ length d - 1) div 10 ^ length d"
  shows "byte_size_from_str (decimal_text w (Some d) @ u) =
    (if fraction_fits d m \<and> n < 2 ^ 64 then Inr (ByteSize (of_nat n)) else Inl Overflow)"
proof (cases "fraction_fits d m")
  case True
  obtain r where r: "rounded_fraction d m = Inr r"
    using rounded_fraction_fits [of d m] True assms unit_multiplier_bounds [OF assms(3)]
    by (auto simp: is_digits_def)
  then have ur: "digits_val w * unat m + unat r = n"
    using rounded_fraction_Inr [OF r] assms by (auto simp: is_digits_def)
  have "byte_size_from_str (decimal_text w (Some d) @ u) =
    and_then (ok_or Overflow (parse_uint w)) (\<lambda>value.
    and_then (ok_or Overflow (checked_mul value m)) (\<lambda>scaled_whole.
    and_then (ok_or Overflow (checked_add scaled_whole r)) (\<lambda>bytes.
    and_then (ok_or Overflow (unat_try_from (unat bytes))) (\<lambda>b. Inr (ByteSize b)))))"
    by (subst from_str_decimal) (use assms r in auto)
  also have "\<dots> = (if digits_val w * unat m + unat r < 2 ^ 64
      then Inr (ByteSize (of_nat (digits_val w * unat m + unat r))) else Inl Overflow)"
    using assms unit_multiplier_bounds [OF assms(3)] by (intro scaled_total) (auto simp: is_digits_def)
  finally show ?thesis unfolding ur using True by simp
next
  case False
  then have r: "rounded_fraction d m = Inl Overflow" using assms(2) by (simp add: is_digits_def rounded_fraction_overflow)
  have "byte_size_from_str (decimal_text w (Some d) @ u) =
    and_then (ok_or Overflow (parse_uint w)) (\<lambda>value.
    and_then (ok_or Overflow (checked_mul value m)) (\<lambda>scaled_whole. Inl Overflow))"
    by (subst from_str_decimal) (use assms r in auto)
  also have "\<dots> = Inl Overflow"
    by (cases "parse_uint w :: u128 option"; cases "checked_mul (the (parse_uint w)) m") simp_all
  finally show ?thesis using False by simp
qed

lemma int_lt_2_64: "int n < 2 ^ 64 \<longleftrightarrow> n < 2 ^ 64"
  by (metis of_nat_less_iff of_nat_numeral of_nat_power)

text \<open>C29: the parser of memory sizes is exact. On a decimal numeral (digits, optionally a
  point and more digits) followed by a unit of the table, the result is the mathematical value of the
  numeral times the unit, rounded up to a whole byte, when that fits 64 bits and the scaled fraction
  fits the 128-bit intermediate arithmetic, and \<open>Overflow\<close> when either does not: no input is truncated, wrapped
  or rounded down. A fraction of up to eighteen digits always fits, one of thirty-nine or more never
  does, however small the value.\<close>

theorem byte_size_from_str_exact:
  assumes "is_digits w" and "\<And>d. f = Some d \<Longrightarrow> is_digits d" and "unit_multiplier u = Some m"
  shows "byte_size_from_str (decimal_text w f @ u) =
      (if is_none_or (\<lambda>d. digits_val d * unat m + 10 ^ length d \<le> 2 ^ 128) f \<and> \<lceil>decimal_value w f * real (unat m)\<rceil> < 2 ^ 64
       then Inr (ByteSize (of_int \<lceil>decimal_value w f * real (unat m)\<rceil>)) else Inl Overflow)
    \<and> is_none_or (\<lambda>d. (length d \<le> 18 \<longrightarrow> digits_val d * unat m + 10 ^ length d \<le> 2 ^ 128)
        \<and> (39 \<le> length d \<longrightarrow> \<not> digits_val d * unat m + 10 ^ length d \<le> 2 ^ 128)) f"
proof (cases f)
  case None
  have "decimal_value w None = real (digits_val w)" by (simp add: decimal_value_def)
  then have ceil: "\<lceil>decimal_value w None * real (unat m)\<rceil> = int (digits_val w * unat m)"
    by (metis ceiling_of_nat of_nat_mult)
  show ?thesis
    unfolding None ceil int_lt_2_64 of_int_of_nat_eq from_str_whole [OF assms(1,3)] by simp
next
  case (Some d)
  have ceil: "\<lceil>decimal_value w (Some d) * real (unat m)\<rceil> = int (digits_val w * unat m
      + (digits_val d * unat m + 10 ^ length d - 1) div 10 ^ length d)"
    using ceiling_scaled [of "10 ^ length d" "digits_val w" "digits_val d" "unat m"]
    by (simp add: decimal_value_def)
  have d: "is_digits d" using assms(2) Some by simp
  have "length d \<le> 18 \<longrightarrow> fraction_fits d m"
    using d unit_multiplier_bounds [OF assms(3)] by (simp add: is_digits_def fraction_fits_short)
  moreover have "39 \<le> length d \<longrightarrow> \<not> fraction_fits d m"
    using power_ten_bound(2) [of "length d"] unfolding fraction_fits_def by linarith
  ultimately show ?thesis
    unfolding Some ceil int_lt_2_64 of_int_of_nat_eq from_str_fraction [OF assms(1) d assms(3)] is_none_or_simps
      fraction_fits_def [symmetric] by blast
qed

theorem byte_size_from_str_exact_witness:
  "byte_size_from_str ''1.5KiB'' = Inr (ByteSize 1536)"
proof -
  have "byte_size_from_str (decimal_text ''1'' (Some ''5'') @ ''KiB'') = Inr (ByteSize 1536)"
    by (subst byte_size_from_str_exact [where m = "push_bit 10 1", THEN conjunct1])
      (simp_all add: is_digits_def is_ascii_digit_def unit_multiplier_def digits_val_def decimal_value_def push_bit_eq_mult)
  then show ?thesis by (simp add: decimal_text_def)
qed

text \<open>What \<open>Display\<close> prints for a byte size parses back to the same byte size, for all
  \<open>2\<^sup>6\<^sup>4\<close> values.\<close>

theorem byte_size_display_roundtrip: "byte_size_from_str (byte_size_fmt b) = Inr b"
proof -
  have one: "unit_multiplier ''B'' = Some 1"
    by (simp add: unit_multiplier_def)
  have w: "is_digits (show_nat (unat (byte_count b)))"
    by (simp add: is_digits_def show_nat_digits)
  have "byte_size_from_str (decimal_text (show_nat (unat (byte_count b))) None @ ''B'') = Inr b"
    using from_str_whole [OF w one] unsigned_less [of "byte_count b", where ?'a = nat] by simp
  then show ?thesis
    by (simp add: decimal_text_def byte_size_fmt_def)
qed

text \<open>The \<open>gib\<close> constructor never wraps: it is the exact product when that fits 64 bits
  and the largest byte size otherwise.\<close>

theorem gib_saturates:
  "unat (byte_count (gib value)) = min (unat value * 2 ^ 30) (2 ^ 64 - 1)"
proof (cases "unat value * 2 ^ 30 < 2 ^ 64")
  case True
  then have "unat (value * 1073741824) = unat value * 2 ^ 30"
    by (simp add: unat_word_ariths)
  with True show ?thesis
    by (simp add: gib_def saturating_mul_def)
next
  case False
  then show ?thesis
    by (simp add: gib_def saturating_mul_def unat_max)
qed

end
