(* ===== verification/Deadline.thy ===== *)
theory Deadline
  imports ByteSize
begin

text \<open>
  Deadlines: \<open>DeadlinePolicy\<close> of \<open>memcordon-core/src/policy.rs\<close> with its wire form, and
  \<open>DeadlineEvidence\<close> of \<open>memcordon-core/src/outcome.rs\<close>, the record of a deadline that fired.
  Both are built by a validating constructor, and their deserializers go through it. A wire
  record holds the fields of the serialized object.
\<close>

datatype deadline_scope = Attempt | Supervision

subsection \<open>Deadline policy\<close>

record deadline_policy =
  dp_duration :: duration
  dp_scope :: deadline_scope

datatype deadline_policy_error = DeadlinePolicyError

definition deadline_policy_new ::
  "duration \<Rightarrow> deadline_scope \<Rightarrow> deadline_policy_error + deadline_policy" where
  "deadline_policy_new d scope =
     (let milliseconds = as_millis d
      in if (milliseconds = 0 \<and> d \<noteq> 0) \<or> (unat_try_from milliseconds :: u64 option) = None
         then Inl DeadlinePolicyError
         else Inr \<lparr>dp_duration = d, dp_scope = scope\<rparr>)"

record deadline_policy_wire =
  dpw_duration_ms :: u64
  dpw_scope :: deadline_scope

definition deadline_policy_serialize :: "deadline_policy \<Rightarrow> deadline_policy_error + deadline_policy_wire" where
  "deadline_policy_serialize p =
     and_then (ok_or DeadlinePolicyError (unat_try_from (as_millis (dp_duration p)))) (\<lambda>ms.
       Inr \<lparr>dpw_duration_ms = ms, dpw_scope = dp_scope p\<rparr>)"

definition deadline_policy_deserialize :: "deadline_policy_wire \<Rightarrow> deadline_policy_error + deadline_policy" where
  "deadline_policy_deserialize w = deadline_policy_new (from_millis (dpw_duration_ms w)) (dpw_scope w)"

text \<open>A deadline policy accepted by the constructor always serializes, and what comes
  back is a policy of the same scope whose duration is the original one cut to whole
  milliseconds: never longer, less than a millisecond shorter, and zero exactly when the
  original was zero.\<close>

theorem deadline_policy_roundtrip:
  assumes "deadline_policy_new d scope = Inr p"
  shows "\<exists>w q. deadline_policy_serialize p = Inr w \<and> deadline_policy_deserialize w = Inr q
    \<and> dp_scope q = scope \<and> dp_duration q = d div 10 ^ 6 * 10 ^ 6
    \<and> dp_duration q \<le> d \<and> d < dp_duration q + 10 ^ 6 \<and> (dp_duration q = 0 \<longleftrightarrow> d = 0)"
proof -
  from assms have p: "p = \<lparr>dp_duration = d, dp_scope = scope\<rparr>"
    and nz: "as_millis d = 0 \<longrightarrow> d = 0"
    and fit: "(unat_try_from (as_millis d) :: u64 option) \<noteq> None"
    by (auto simp: deadline_policy_new_def Let_def split: if_splits)
  from fit obtain ms :: u64 where ms: "unat_try_from (as_millis d) = Some ms"
    by blast
  then have ums: "unat ms = d div 10 ^ 6"
    by (simp add: unat_try_from_Some_iff as_millis_def)
  let ?w = "\<lparr>dpw_duration_ms = ms, dpw_scope = scope\<rparr>"
  have w: "deadline_policy_serialize p = Inr ?w"
    by (simp add: deadline_policy_serialize_def p ms)
  have "as_millis (from_millis ms) = 0 \<longrightarrow> from_millis ms = 0"
    by (simp add: from_millis_def as_millis_def)
  moreover have "(unat_try_from (as_millis (from_millis ms)) :: u64 option) \<noteq> None"
    by (metis as_millis_from_millis option.discI unat_try_from_Some_iff)
  ultimately have q: "deadline_policy_deserialize ?w = Inr \<lparr>dp_duration = from_millis ms, dp_scope = scope\<rparr>"
    by (auto simp: deadline_policy_deserialize_def deadline_policy_new_def Let_def)
  have "from_millis ms = d div 10 ^ 6 * 10 ^ 6"
    by (simp add: from_millis_def ums)
  moreover have "d < d div 10 ^ 6 * 10 ^ 6 + 10 ^ 6"
    using dividend_less_times_div [of "10 ^ 6" d] by simp
  moreover have "d div 10 ^ 6 * 10 ^ 6 = 0 \<longleftrightarrow> d = 0"
    using nz by (auto simp: as_millis_def)
  ultimately show ?thesis
    using w q by (intro exI [of _ ?w] exI conjI) auto
qed

theorem deadline_policy_roundtrip_witness:
  "\<exists>w q. deadline_policy_serialize \<lparr>dp_duration = 2500001, dp_scope = Attempt\<rparr> = Inr w
    \<and> deadline_policy_deserialize w = Inr q \<and> dp_duration q = 2000000"
  using deadline_policy_roundtrip [of 2500001 Attempt "\<lparr>dp_duration = 2500001, dp_scope = Attempt\<rparr>"]
  by (auto simp: deadline_policy_new_def as_millis_def unat_try_from_def)

subsection \<open>Deadline evidence\<close>

record deadline_evidence =
  de_duration_ms :: u64
  de_scope :: deadline_scope
  de_origin :: string
  de_overshoot_ms :: u64
  de_expires_offset_ms :: u64
  de_observed_offset_ms :: u64
  de_grace_requested_ms :: u64
  de_grace_elapsed_ms :: u64
  de_graceful_action :: "string option"
  de_force_action :: "string option"

datatype deadline_evidence_error = DeadlineEvidenceError | OvershootMismatch

definition deadline_evidence_new ::
  "u64 \<Rightarrow> deadline_scope \<Rightarrow> string \<Rightarrow> u64 \<Rightarrow> u64 \<Rightarrow> u64 \<Rightarrow> u64 \<Rightarrow> string option \<Rightarrow> string option
    \<Rightarrow> deadline_evidence_error + deadline_evidence" where
  "deadline_evidence_new duration_ms scope origin expires observed grace_requested grace_elapsed
     graceful_action force_action =
     (if origin = [] \<or> observed < expires \<or> grace_elapsed > grace_requested
         \<or> (grace_elapsed > 0 \<and> is_none graceful_action)
      then Inl DeadlineEvidenceError
      else Inr \<lparr>de_duration_ms = duration_ms, de_scope = scope, de_origin = origin,
                de_overshoot_ms = observed - expires, de_expires_offset_ms = expires,
                de_observed_offset_ms = observed, de_grace_requested_ms = grace_requested,
                de_grace_elapsed_ms = grace_elapsed, de_graceful_action = graceful_action,
                de_force_action = force_action\<rparr>)"

text \<open>The wire object has the same fields, so it is a value of the same record type whose
  contents have not been checked yet.\<close>

definition deadline_evidence_deserialize ::
  "deadline_evidence \<Rightarrow> deadline_evidence_error + deadline_evidence" where
  "deadline_evidence_deserialize wire =
     and_then (deadline_evidence_new (de_duration_ms wire) (de_scope wire) (de_origin wire)
         (de_expires_offset_ms wire) (de_observed_offset_ms wire) (de_grace_requested_ms wire)
         (de_grace_elapsed_ms wire) (de_graceful_action wire) (de_force_action wire)) (\<lambda>evidence.
       if de_overshoot_ms evidence \<noteq> de_overshoot_ms wire then Inl OvershootMismatch
       else Inr evidence)"

text \<open>What every constructed deadline evidence satisfies.\<close>

definition deadline_evidence_invariant :: "deadline_evidence \<Rightarrow> bool" where
  "deadline_evidence_invariant e \<longleftrightarrow>
     de_origin e \<noteq> []
     \<and> unat (de_observed_offset_ms e) = unat (de_expires_offset_ms e) + unat (de_overshoot_ms e)
     \<and> de_grace_elapsed_ms e \<le> de_grace_requested_ms e
     \<and> (de_grace_elapsed_ms e > 0 \<longrightarrow> is_some (de_graceful_action e))"

lemma deadline_evidence_new_invariant:
  "deadline_evidence_new dur sc orig ex ob gr ge ga fa = Inr e \<Longrightarrow> deadline_evidence_invariant e"
  by (auto simp: deadline_evidence_new_def deadline_evidence_invariant_def unat_sub not_less
      word_le_nat_alt word_less_nat_alt split: if_splits)

lemma deadline_evidence_rebuild:
  assumes "deadline_evidence_invariant e"
  shows "deadline_evidence_new (de_duration_ms e) (de_scope e) (de_origin e)
    (de_expires_offset_ms e) (de_observed_offset_ms e) (de_grace_requested_ms e)
    (de_grace_elapsed_ms e) (de_graceful_action e) (de_force_action e) = Inr e"
proof -
  from assms have "\<not> de_observed_offset_ms e < de_expires_offset_ms e"
    and "de_observed_offset_ms e - de_expires_offset_ms e = de_overshoot_ms e"
    by (auto simp: deadline_evidence_invariant_def word_less_nat_alt word_unat_eq_iff unat_sub
        word_le_nat_alt)
  with assms show ?thesis
    by (auto simp: deadline_evidence_new_def deadline_evidence_invariant_def)
qed

text \<open>deserialization of deadline evidence is exactly validation: a wire object is
  accepted if and only if it satisfies the constructor's invariant (a non-empty origin, an
  overshoot equal to observed minus expiry without wrap-around, grace elapsed within grace
  requested and backed by an action), and an accepted object is returned unchanged. In
  particular everything the constructor builds survives a round trip.\<close>

theorem deadline_evidence_deserialize_iff:
  "deadline_evidence_deserialize w = Inr e \<longleftrightarrow> e = w \<and> deadline_evidence_invariant w"
proof
  assume "deadline_evidence_deserialize w = Inr e"
  then have n: "deadline_evidence_new (de_duration_ms w) (de_scope w) (de_origin w)
      (de_expires_offset_ms w) (de_observed_offset_ms w) (de_grace_requested_ms w)
      (de_grace_elapsed_ms w) (de_graceful_action w) (de_force_action w) = Inr e"
    and o: "de_overshoot_ms e = de_overshoot_ms w"
    by (auto simp: deadline_evidence_deserialize_def split: if_splits)
  from n have "e = w\<lparr>de_overshoot_ms := de_overshoot_ms e\<rparr>"
    by (auto simp: deadline_evidence_new_def split: if_splits)
  with o have "e = w" by simp
  with deadline_evidence_new_invariant [OF n] show "e = w \<and> deadline_evidence_invariant w"
    by simp
next
  assume "e = w \<and> deadline_evidence_invariant w"
  then show "deadline_evidence_deserialize w = Inr e"
    by (simp add: deadline_evidence_deserialize_def deadline_evidence_rebuild)
qed

end
