(* ===== verification/CliBudget.thy ===== *)
theory CliBudget
  imports Deadline Bytes
begin

text \<open>
  Budgets on the command line: the duration parser of \<open>memcordon-cli/src/lib.rs\<close> and the
  \<open>+MEMORY\<close> and \<open>+TIME\<close> tokens of \<open>memcordon-cli/src/invocation.rs\<close>. An operating-system string is
  the list of its encoded bytes; a usage error is its stable code, the texts of the messages are left out.
  The duration parser accepts exactly the decimals with a unit and rounds up to a millisecond, and no
  token is both a size and a duration.
\<close>

subsection \<open>Durations\<close>

datatype duration_error =
  UnsupportedDurationUnit string | MissingDurationNumber | InvalidDurationDecimal | DurationTooLarge

definition duration_unit :: "string \<Rightarrow> u128 option" where
  "duration_unit unit =
     (if unit = ''ms'' then Some 1
      else if unit = ''s'' then Some 1000
      else if unit = ''m'' then Some 60000
      else if unit = ''h'' then Some 3600000
      else None)"

definition duration_fraction :: "string \<Rightarrow> u128 \<Rightarrow> duration_error + u128" where
  "duration_fraction digits multiplier =
     and_then (ok_or DurationTooLarge (parse_uint digits :: u128 option)) (\<lambda>value.
     and_then (ok_or DurationTooLarge (checked_mul value multiplier)) (\<lambda>numerator.
     and_then (ok_or DurationTooLarge (unat_try_from (length digits) :: u32 option)) (\<lambda>exponent.
     and_then (ok_or DurationTooLarge (checked_pow (10 :: u128) (unat exponent))) (\<lambda>denominator.
     and_then (ok_or DurationTooLarge (checked_add numerator (denominator - 1))) (\<lambda>rounded.
       Inr (rounded div denominator))))))"

definition scale_millis :: "string \<Rightarrow> string option \<Rightarrow> u128 \<Rightarrow> duration_error + u64" where
  "scale_millis whole fraction multiplier =
     and_then (ok_or DurationTooLarge (parse_uint whole)) (\<lambda>value.
     and_then (ok_or DurationTooLarge (checked_mul value multiplier)) (\<lambda>scaled_whole.
     and_then (case fraction of
         Some digits \<Rightarrow>
           and_then (duration_fraction digits multiplier)
             (\<lambda>rounded. ok_or DurationTooLarge (checked_add scaled_whole rounded))
       | None \<Rightarrow> Inr scaled_whole) (\<lambda>millis.
     ok_or DurationTooLarge (unat_try_from (unat millis)))))"

definition parse_duration :: "string \<Rightarrow> duration_error + duration" where
  "parse_duration input =
     (let number = takeWhile is_number_char input;
          unit = dropWhile is_number_char input
      in and_then (ok_or (UnsupportedDurationUnit unit) (duration_unit unit)) (\<lambda>multiplier.
           (case split_on (CHR ''.'') number of
              [] \<Rightarrow> Inl MissingDurationNumber
            | whole # rest \<Rightarrow>
                (let fraction = (case rest of [] \<Rightarrow> None | digits # _ \<Rightarrow> Some digits)
                 in if 1 < length rest \<or> whole = [] \<or> \<not> list_all is_ascii_digit whole
                       \<or> is_some_and (\<lambda>digits. digits = [] \<or> \<not> list_all is_ascii_digit digits) fraction
                    then Inl InvalidDurationDecimal
                    else and_then (scale_millis whole fraction multiplier) (\<lambda>millis.
                      Inr (from_millis millis))))))"

subsection \<open>Tokens and the budget set\<close>

type_synonym os_string = string
type_synonym cli_error = string

definition to_str :: "os_string \<Rightarrow> string option" where
  "to_str s = (if utf8_valid (map (\<lambda>c. of_nat (of_char c)) s) then Some s else None)"

definition is_ascii :: "string \<Rightarrow> bool" where
  "is_ascii s \<longleftrightarrow> list_all (\<lambda>c. (of_char c :: nat) < 128) s"

definition strip_plus :: "string \<Rightarrow> string option" where
  "strip_plus s = (case s of c # cs \<Rightarrow> if c = CHR ''+'' then Some cs else None | [] \<Rightarrow> None)"

definition starts_with :: "string \<Rightarrow> char \<Rightarrow> bool" where
  "starts_with s c \<longleftrightarrow> s \<noteq> [] \<and> hd s = c"

datatype budget_token =
  MemoryToken (token_raw: os_string) (token_bytes: byte_size)
| TimeToken (token_raw: os_string) (token_duration: duration)

record budget_set =
  source_order :: "budget_token list"
  budget_memory :: "byte_size option"
  budget_deadline :: "duration option"

definition budget_set_default :: budget_set where
  "budget_set_default = \<lparr>source_order = [], budget_memory = None, budget_deadline = None\<rparr>"

text \<open>\<open>find_map\<close> skips a memory token that is not text.\<close>

fun first_memory_text :: "budget_token list \<Rightarrow> string option" where
  "first_memory_text [] = None"
| "first_memory_text (MemoryToken raw _ # ts) =
     (case to_str raw of Some text \<Rightarrow> Some text | None \<Rightarrow> first_memory_text ts)"
| "first_memory_text (TimeToken _ _ # ts) = first_memory_text ts"

definition memory_token :: "budget_set \<Rightarrow> string option" where
  "memory_token b = first_memory_text (source_order b)"

definition push_budget :: "budget_set \<Rightarrow> budget_token \<Rightarrow> cli_error + budget_set" where
  "push_budget b token =
     (if length (source_order b) = 2 then Inl ''MCCLI-BUDGET-COUNT''
      else and_then
        (case token of
           MemoryToken _ bytes \<Rightarrow>
             if is_some (budget_memory b) then Inl ''MCCLI-BUDGET-DUPLICATE-MEMORY''
             else Inr (b\<lparr>budget_memory := Some bytes\<rparr>)
         | TimeToken _ d \<Rightarrow>
             if is_some (budget_deadline b) then Inl ''MCCLI-BUDGET-DUPLICATE-TIME''
             else Inr (b\<lparr>budget_deadline := Some d\<rparr>)) (\<lambda>b'.
        Inr (b'\<lparr>source_order := source_order b' @ [token]\<rparr>)))"

definition parse_budget :: "os_string \<Rightarrow> cli_error + budget_token" where
  "parse_budget raw =
     and_then (ok_or ''MCCLI-BUDGET-ENCODING'' (case to_str raw of
         Some text \<Rightarrow> if is_ascii text then Some text else None
       | None \<Rightarrow> None)) (\<lambda>text.
     and_then (ok_or ''MCCLI-BUDGET'' (strip_plus text)) (\<lambda>value.
     if value = [] \<or> starts_with value (CHR ''+'') then Inl ''MCCLI-BUDGET''
     else (case (byte_size_from_str value, parse_duration value) of
         (Inr bytes, Inl _) \<Rightarrow> Inr (MemoryToken raw bytes)
       | (Inl _, Inr d) \<Rightarrow> Inr (TimeToken raw d)
       | (Inr _, Inr _) \<Rightarrow> Inl ''MCCLI-BUDGET-AMBIGUOUS''
       | (Inl _, Inl _) \<Rightarrow> Inl ''MCCLI-BUDGET'')))"

record limit_token =
  limit_raw :: os_string
  limit_bytes :: byte_size

definition limit_token_parse :: "os_string \<Rightarrow> cli_error + limit_token" where
  "limit_token_parse raw =
     and_then (ok_or ''MCCLI-LIMIT-ENCODING'' (to_str raw)) (\<lambda>text.
     if \<not> is_ascii text then Inl ''MCCLI-LIMIT-ENCODING''
     else and_then (ok_or ''MCCLI-MISSING-LIMIT-MARKER'' (strip_plus text)) (\<lambda>value.
     if starts_with value (CHR ''+'') then Inl ''MCCLI-LIMIT''
     else (case byte_size_from_str value of
         Inl _ \<Rightarrow> Inl ''MCCLI-LIMIT''
       | Inr bytes \<Rightarrow> Inr \<lparr>limit_raw = raw, limit_bytes = bytes\<rparr>)))"

text \<open>\<open>display\<close> panics on a token that is not text.\<close>

definition limit_token_display :: "limit_token \<Rightarrow> string option" where
  "limit_token_display t = to_str (limit_raw t)"

subsection \<open>The duration parser is exact\<close>

lemma duration_unit_bounds: "duration_unit u = Some m \<Longrightarrow> 0 < unat m \<and> unat m \<le> 2 ^ 60"
  by (auto simp: duration_unit_def split: if_splits)

lemma split_on_one: "split_on c s = [w] \<Longrightarrow> s = w"
  by (induction s arbitrary: w) (auto split: if_splits list.splits)

lemma split_on_two: "split_on c s = [w, d] \<Longrightarrow> s = w @ c # d"
proof (induction s arbitrary: w)
  case (Cons x s)
  then show ?case
    by (auto split: if_splits list.splits dest: split_on_one)
qed simp

text \<open>The pieces at the point are those of a decimal numeral.\<close>

definition decimal_parts :: "string \<Rightarrow> string option \<Rightarrow> bool" where
  "decimal_parts w f \<longleftrightarrow> is_digits w \<and> is_none_or is_digits f"

lemma decimal_parts_split:
  assumes "decimal_parts w f"
  shows "split_on (CHR ''.'') (decimal_text w f) = w # (case f of None \<Rightarrow> [] | Some d \<Rightarrow> [d])"
  using assms
  by (auto simp: decimal_parts_def decimal_text_def is_digits_def split_on_digits split_on_decimal
      split: option.splits)

lemma split_decimal_parts:
  assumes "split_on (CHR ''.'') n = w # rest" and "length rest \<le> 1"
    and "f = (case rest of [] \<Rightarrow> None | d # _ \<Rightarrow> Some d)"
  shows "n = decimal_text w f"
proof (cases rest)
  case Nil
  then show ?thesis using assms split_on_one [of _ n w] by (simp add: decimal_text_def)
next
  case (Cons d ds)
  then have "ds = []" using assms(2) by simp
  then show ?thesis using assms Cons split_on_two [of _ n w d] by (simp add: decimal_text_def)
qed

text \<open>When the scaled numeral is computed without overflow.\<close>

definition fraction_fits :: "u128 \<Rightarrow> string option \<Rightarrow> bool" where
  "fraction_fits m f \<longleftrightarrow> is_none_or (\<lambda>d. digits_val d * unat m + 10 ^ length d \<le> 2 ^ 128) f"

lemma power10_bound:
  assumes "(10 :: nat) ^ n \<le> 2 ^ 128"
  shows "10 ^ n < (2 :: nat) ^ 128" and "n < 39"
proof -
  have "\<not> (39 \<le> n)"
  proof
    assume "39 \<le> n"
    then have "(10 :: nat) ^ 39 \<le> 10 ^ n" by (intro power_increasing) auto
    then show False using assms by simp
  qed
  then show n: "n < 39" by simp
  then have "(10 :: nat) ^ n \<le> 10 ^ 38" by (intro power_increasing) auto
  then show "10 ^ n < (2 :: nat) ^ 128" by (rule le_less_trans) simp
qed

lemma duration_fraction_iff:
  assumes "is_digits d" and "0 < unat m"
  shows "duration_fraction d m = Inr r \<longleftrightarrow> digits_val d * unat m + 10 ^ length d \<le> 2 ^ 128
    \<and> unat r = (digits_val d * unat m + 10 ^ length d - 1) div 10 ^ length d"
    (is "?L \<longleftrightarrow> ?F * unat m + 10 ^ ?k \<le> 2 ^ 128 \<and> _")
proof
  assume ?L
  with assms(1) obtain v n e p q where v: "unat (v :: u128) = ?F" "unat (n :: u128) = unat v * unat m"
    and e: "unat (e :: u32) = ?k" and p: "unat (p :: u128) = 10 ^ unat e"
    and q: "unat q = unat n + unat (p - 1)" and r: "r = q div p"
    by (auto simp: duration_fraction_def parse_uint_digits is_digits_def checked_Some_iffs)
  have "unat (p - 1) = unat p - 1" using p by (intro unat_minus_one) auto
  then have uq: "unat q = ?F * unat m + 10 ^ ?k - 1" using v e p q by simp
  moreover have "unat q < 2 ^ 128" using unsigned_less [of q] by simp
  ultimately show "?F * unat m + 10 ^ ?k \<le> 2 ^ 128 \<and> unat r = (?F * unat m + 10 ^ ?k - 1) div 10 ^ ?k"
    using r e p by (simp add: unat_div)
next
  assume R: "?F * unat m + 10 ^ ?k \<le> 2 ^ 128 \<and> unat r = (?F * unat m + 10 ^ ?k - 1) div 10 ^ ?k"
  then have "10 ^ ?k \<le> (2 :: nat) ^ 128" by linarith
  note pow = power10_bound [OF this]
  have lt: "?F * unat m + (10 ^ ?k - 1) < 2 ^ 128"
    using R zero_less_power [of "10 :: nat" ?k] by linarith
  have "?F \<le> ?F * unat m" using assms(2) by simp
  then have F: "?F < 2 ^ 128" using lt by linarith
  have par: "parse_uint d = Some (of_nat ?F :: u128)"
    using F assms(1) by (simp add: parse_uint_digits is_digits_def unat_try_from_def)
  have uF: "unat (of_nat ?F :: u128) = ?F" using F by (simp add: unat_of_nat)
  have "?F * unat m < 2 ^ 128" using lt by linarith
  then have mul: "checked_mul (of_nat ?F) m = Some (of_nat ?F * m)" by (simp add: checked_mul_def uF)
  have umul: "unat (of_nat ?F * m) = ?F * unat m" using mul by (simp only: checked_mul_Some_iff uF)
  have len: "unat_try_from ?k = Some (of_nat ?k :: u32)" using pow(2) by (simp add: unat_try_from_def)
  have uk: "unat (of_nat ?k :: u32) = ?k" using pow(2) by (simp add: unat_of_nat)
  have pw: "checked_pow (10 :: u128) ?k = Some (10 ^ ?k)" using pow(1) by (simp add: checked_pow_def)
  have upw: "unat ((10 :: u128) ^ ?k) = 10 ^ ?k" using pw by (simp add: checked_pow_Some_iff)
  then have one: "unat ((10 :: u128) ^ ?k - 1) = 10 ^ ?k - 1"
    by (metis unat_minus_one power_not_zero unat_0 zero_neq_numeral)
  have add: "checked_add (of_nat ?F * m) ((10 :: u128) ^ ?k - 1) = Some (of_nat ?F * m + (10 ^ ?k - 1))"
    using lt by (simp add: checked_add_def umul one)
  have uadd: "unat (of_nat ?F * m + (10 ^ ?k - 1)) = ?F * unat m + (10 ^ ?k - 1)"
    using add by (simp only: checked_add_Some_iff umul one)
  have "unat ((of_nat ?F * m + (10 ^ ?k - 1)) div 10 ^ ?k) = unat r"
    using R by (simp add: unat_div uadd upw)
  then have "(of_nat ?F * m + (10 ^ ?k - 1)) div 10 ^ ?k = r" by (simp only: word_unat_eq_iff)
  then show ?L by (simp add: duration_fraction_def par mul len uk pw add)
qed

text \<open>The scaled value of a decimal numeral, rounded up.\<close>

definition scaled_ceiling :: "string \<Rightarrow> string option \<Rightarrow> u128 \<Rightarrow> nat" where
  "scaled_ceiling w f m = nat \<lceil>decimal_value w f * real (unat m)\<rceil>"

lemma scaled_ceiling_eq:
  "scaled_ceiling w None m = digits_val w * unat m"
  "scaled_ceiling w (Some d) m = digits_val w * unat m + (digits_val d * unat m + 10 ^ length d - 1) div 10 ^ length d"
proof -
  have "decimal_value w None = real (digits_val w)" by (simp add: decimal_value_def)
  then show "scaled_ceiling w None m = digits_val w * unat m"
    by (metis ceiling_of_nat nat_int of_nat_mult scaled_ceiling_def)
  have "\<lceil>decimal_value w (Some d) * real (unat m)\<rceil> = int (digits_val w * unat m
      + (digits_val d * unat m + 10 ^ length d - 1) div 10 ^ length d)"
    using ceiling_scaled [of "10 ^ length d" "digits_val w" "digits_val d" "unat m"]
    by (simp add: decimal_value_def)
  then show "scaled_ceiling w (Some d) m = digits_val w * unat m + (digits_val d * unat m + 10 ^ length d - 1) div 10 ^ length d"
    by (simp only: scaled_ceiling_def nat_int)
qed

lemma of_nat_unat_iff: "n < 2 ^ LENGTH('a) \<and> b = of_nat n \<longleftrightarrow> unat (b :: 'a::len word) = n"
  using unsigned_less [of b] by (auto simp: unat_of_nat)

lemma scaled_total_millis:
  fixes m r :: u128
  assumes "is_digits w" and "0 < unat m"
  shows "(\<exists>value scaled_whole millis. parse_uint w = Some value \<and> checked_mul value m = Some scaled_whole
      \<and> checked_add scaled_whole r = Some millis \<and> unat_try_from (unat millis) = Some (b :: u64))
    \<longleftrightarrow> unat b = digits_val w * unat m + unat r"
    (is "?L \<longleftrightarrow> unat b = ?n")
proof -
  have "?L \<longleftrightarrow> and_then (ok_or Overflow (parse_uint w)) (\<lambda>value.
           and_then (ok_or Overflow (checked_mul value m)) (\<lambda>scaled_whole.
           and_then (ok_or Overflow (checked_add scaled_whole r)) (\<lambda>bytes.
           and_then (ok_or Overflow (unat_try_from (unat bytes))) (\<lambda>b. Inr (ByteSize b))))) = Inr (ByteSize b)"
    by (simp add: and_then_Inr_iff)
  also have "\<dots> \<longleftrightarrow> ?n < 2 ^ 64 \<and> b = of_nat ?n"
    using scaled_total [of w m r] assms by (auto simp: is_digits_def)
  also have "\<dots> \<longleftrightarrow> unat b = ?n"
    using of_nat_unat_iff [of ?n b] by simp
  finally show ?thesis .
qed

lemma scale_millis_iff:
  assumes "decimal_parts w f" and "0 < unat m"
  shows "scale_millis w f m = Inr b \<longleftrightarrow> fraction_fits m f \<and> unat b = scaled_ceiling w f m"
proof (cases f)
  case None
  have zero: "checked_add s 0 = Some s" for s :: u128
    using unsigned_less [of s] by (simp add: checked_add_def)
  show ?thesis
    using scaled_total_millis [of w m 0 b] assms
    by (simp add: None scale_millis_def and_then_Inr_iff zero fraction_fits_def scaled_ceiling_eq decimal_parts_def)
next
  case (Some d)
  have d: "is_digits d" "is_digits w" using assms(1) by (simp_all add: Some decimal_parts_def)
  have "scale_millis w f m = Inr b \<longleftrightarrow> (\<exists>r. duration_fraction d m = Inr r \<and> unat b = digits_val w * unat m + unat r)"
    unfolding scaled_total_millis [OF d(2) assms(2), symmetric]
    by (auto simp: Some scale_millis_def and_then_Inr_iff)
  also have "\<dots> \<longleftrightarrow> fraction_fits m f \<and> unat b = scaled_ceiling w f m"
  proof -
    let ?s = "digits_val d * unat m + 10 ^ length d"
    let ?q = "(?s - 1) div 10 ^ length d"
    have q: "?q < 2 ^ 128" if "?s \<le> 2 ^ 128"
    proof -
      have "?q \<le> ?s - 1" by (rule div_le_dividend)
      moreover have "0 < ?s" by simp
      ultimately show ?thesis using that by linarith
    qed
    have "\<exists>r :: u128. unat r = ?q" if "?s \<le> 2 ^ 128"
      using of_nat_unat_iff [of ?q "of_nat ?q :: u128"] q [OF that] by auto
    then show ?thesis
      unfolding duration_fraction_iff [OF d(1) assms(2)]
      unfolding Some fraction_fits_def is_none_or_simps scaled_ceiling_eq by metis
  qed
  finally show ?thesis .
qed


lemma duration_unit_split:
  assumes "list_all is_number_char number" and "duration_unit u = Some m"
  shows "takeWhile is_number_char (number @ u) = number" and "dropWhile is_number_char (number @ u) = u"
proof -
  have "u \<noteq> [] \<and> \<not> is_number_char (hd u)"
    using assms(2) by (auto simp: duration_unit_def is_number_char_def is_ascii_digit_def split: if_splits)
  then have *: "takeWhile is_number_char u = []" "dropWhile is_number_char u = u"
    by (cases u; simp)+
  have "\<forall>c \<in> set number. is_number_char c" using assms(1) by (simp add: list_all_iff)
  with * show "takeWhile is_number_char (number @ u) = number" and "dropWhile is_number_char (number @ u) = u"
    by (simp_all add: takeWhile_append2 dropWhile_append2)
qed

lemma parse_duration_decimal:
  assumes "decimal_parts w f" and "duration_unit u = Some m"
  shows "parse_duration (decimal_text w f @ u) = and_then (scale_millis w f m) (\<lambda>ms. Inr (from_millis ms))"
proof -
  have n: "list_all is_number_char (decimal_text w f)"
    using assms(1) decimal_text_number [of w f] by (auto simp: decimal_parts_def is_none_or_iff)
  have ok: "is_digits w" "is_none_or is_digits f" using assms(1) by (simp_all add: decimal_parts_def)
  show ?thesis
    unfolding parse_duration_def Let_def duration_unit_split [OF n assms(2)] decimal_parts_split [OF assms(1)]
    using ok assms(2) by (cases f) (simp_all add: is_digits_def)
qed

lemma parse_duration_Inr:
  assumes "parse_duration s = Inr d"
  obtains w f u m ms where "s = decimal_text w f @ u" and "decimal_parts w f" and "duration_unit u = Some m"
    and "scale_millis w f m = Inr ms" and "d = from_millis ms"
proof -
  let ?n = "takeWhile is_number_char s" and ?u = "dropWhile is_number_char s"
  obtain w rest where wr: "split_on (CHR ''.'') ?n = w # rest"
    by (metis list.exhaust split_on_nonempty)
  define f where "f = (case rest of [] \<Rightarrow> None | d # _ \<Rightarrow> Some d)"
  obtain m ms where *: "duration_unit ?u = Some m" "\<not> (1 < length rest)" "is_digits w" "is_none_or is_digits f"
    "scale_millis w f m = Inr ms" "d = from_millis ms"
    using assms unfolding parse_duration_def Let_def wr list.case f_def [symmetric]
    by (cases f) (auto simp: is_digits_def split: if_splits)
  have "?n = decimal_text w f"
    using split_decimal_parts [OF wr _ f_def] *(2) by simp
  then have "s = decimal_text w f @ ?u"
    using takeWhile_dropWhile_id [of is_number_char s] by simp
  with * show ?thesis by (intro that) (auto simp: decimal_parts_def)
qed

text \<open>C39: the duration parser is exact. It accepts a text exactly when this is a decimal numeral
  (digits, optionally a point and more digits) followed by \<open>ms\<close>, \<open>s\<close>, \<open>m\<close> or \<open>h\<close>, the 128-bit
  computation of the fraction has room, and the value in milliseconds, rounded up, fits 64 bits;
  the result is that whole number of milliseconds. Nothing is truncated, wrapped or rounded down.\<close>

theorem parse_duration_exact:
  "parse_duration s = Inr d \<longleftrightarrow> (\<exists>w f u m. s = decimal_text w f @ u \<and> decimal_parts w f
     \<and> duration_unit u = Some m \<and> fraction_fits m f \<and> scaled_ceiling w f m < 2 ^ 64
     \<and> d = scaled_ceiling w f m * 10 ^ 6)"
    (is "_ \<longleftrightarrow> ?R")
proof
  assume "parse_duration s = Inr d"
  then obtain w f u m ms where *: "s = decimal_text w f @ u" "decimal_parts w f" "duration_unit u = Some m"
    "scale_millis w f m = Inr ms" "d = from_millis ms"
    by (rule parse_duration_Inr)
  then have "fraction_fits m f" "unat ms = scaled_ceiling w f m"
    using duration_unit_bounds [OF *(3)] by (simp_all add: scale_millis_iff)
  moreover have "unat ms < 2 ^ 64" using unsigned_less [of ms] by simp
  ultimately show ?R using * by (auto simp: from_millis_def)
next
  assume ?R
  then obtain w f u m where *: "s = decimal_text w f @ u" "decimal_parts w f" "duration_unit u = Some m"
    "fraction_fits m f" "scaled_ceiling w f m < 2 ^ 64" "d = scaled_ceiling w f m * 10 ^ 6"
    by blast
  let ?ms = "of_nat (scaled_ceiling w f m) :: u64"
  have u: "unat ?ms = scaled_ceiling w f m"
    using of_nat_unat_iff [of "scaled_ceiling w f m" ?ms] *(5) by simp
  then have "scale_millis w f m = Inr ?ms"
    using * duration_unit_bounds [OF *(3)] by (simp add: scale_millis_iff)
  then show "parse_duration s = Inr d"
    using *(1,6) by (simp add: parse_duration_decimal [OF *(2,3)] from_millis_def u)
qed

lemma parse_duration_millis: "parse_duration s = Inr d \<Longrightarrow> \<exists>ms. d = from_millis ms"
  by (elim parse_duration_Inr) auto

subsection \<open>A token is a size or a duration, never both\<close>

lemma units_disjoint: "unit_multiplier u = Some m \<Longrightarrow> duration_unit u = None"
  by (auto simp: unit_multiplier_def duration_unit_def split: if_splits)

lemma size_not_duration: "byte_size_from_str s = Inr b \<Longrightarrow> \<exists>e. parse_duration s = Inl e"
  unfolding byte_size_from_str_def parse_duration_def
  by (auto simp: Let_def units_disjoint split: if_splits)

text \<open>What a budget token is: a plus sign and one ASCII size or duration.\<close>

definition budget_text :: "os_string \<Rightarrow> string \<Rightarrow> bool" where
  "budget_text raw v \<longleftrightarrow> raw = CHR ''+'' # v \<and> is_ascii raw"

lemma unat_of_char_u8: "unat (of_nat (of_char c) :: u8) = of_char c"
  by (simp add: unat_of_nat take_bit_eq_mod)

lemma to_str_ascii: "is_ascii s \<Longrightarrow> to_str s = Some s"
proof -
  assume "is_ascii s"
  then have "list_all (\<lambda>b. b < 0x80) (map (\<lambda>c. of_nat (of_char c)) s :: u8 list)"
    by (auto simp: is_ascii_def list_all_iff word_less_nat_alt unat_of_char_u8)
  then show ?thesis by (simp add: to_str_def utf8_valid_ascii)
qed

lemma budget_value_start:
  "byte_size_from_str v = Inr b \<Longrightarrow> v \<noteq> [] \<and> is_number_char (hd v)"
  "parse_duration v = Inr d \<Longrightarrow> v \<noteq> [] \<and> is_number_char (hd v)"
proof -
  show "byte_size_from_str v = Inr b \<Longrightarrow> v \<noteq> [] \<and> is_number_char (hd v)"
    by (cases v) (auto simp: byte_size_from_str_def split: if_splits)
  assume "parse_duration v = Inr d"
  then obtain w f u where *: "v = decimal_text w f @ u" "decimal_parts w f"
    by (rule parse_duration_Inr)
  then obtain c cs where "w = c # cs" "is_ascii_digit c"
    by (cases w) (auto simp: decimal_parts_def is_digits_def)
  with * show "v \<noteq> [] \<and> is_number_char (hd v)"
    by (simp add: decimal_text_def is_number_char_def)
qed

lemma parse_budget_Inr_iff:
  "parse_budget raw = Inr t \<longleftrightarrow> (\<exists>v. budget_text raw v \<and> ((\<exists>b. byte_size_from_str v = Inr b \<and> t = MemoryToken raw b)
     \<or> (\<exists>d. parse_duration v = Inr d \<and> t = TimeToken raw d)))"
    (is "_ \<longleftrightarrow> ?R")
proof
  assume "parse_budget raw = Inr t"
  then show ?R
    by (auto simp: parse_budget_def budget_text_def to_str_def strip_plus_def split: option.splits if_splits list.splits sum.splits)
next
  assume ?R
  then obtain v where v: "raw = CHR ''+'' # v" "is_ascii raw"
    "(\<exists>b. byte_size_from_str v = Inr b \<and> t = MemoryToken raw b) \<or> (\<exists>d. parse_duration v = Inr d \<and> t = TimeToken raw d)"
    by (auto simp: budget_text_def)
  then have "v \<noteq> [] \<and> is_number_char (hd v)"
    using budget_value_start by blast
  then have "v \<noteq> []" "hd v \<noteq> CHR ''+''"
    by (auto simp: is_number_char_def)
  then show "parse_budget raw = Inr t"
    using v size_not_duration [of v] to_str_ascii [OF v(2)]
    by (auto simp: parse_budget_def strip_plus_def starts_with_def split: sum.splits)
qed

text \<open>A budget token is understood in exactly one way. A token is taken as a memory budget
  exactly when it is a plus sign followed by an ASCII text the size parser accepts, as a time budget
  exactly when the duration parser accepts the text, the value is the one of that parser, and the branch for a
  text that both accept is never taken.\<close>

theorem parse_budget_exact:
  "(parse_budget raw = Inr (MemoryToken r b) \<longleftrightarrow>
      r = raw \<and> (\<exists>v. budget_text raw v \<and> byte_size_from_str v = Inr b))
   \<and> (parse_budget raw = Inr (TimeToken r d) \<longleftrightarrow>
      r = raw \<and> (\<exists>v. budget_text raw v \<and> parse_duration v = Inr d))
   \<and> parse_budget raw \<noteq> Inl ''MCCLI-BUDGET-AMBIGUOUS''"
proof (intro conjI)
  show "parse_budget raw = Inr (MemoryToken r b) \<longleftrightarrow> r = raw \<and> (\<exists>v. budget_text raw v \<and> byte_size_from_str v = Inr b)"
    and "parse_budget raw = Inr (TimeToken r d) \<longleftrightarrow> r = raw \<and> (\<exists>v. budget_text raw v \<and> parse_duration v = Inr d)"
    unfolding parse_budget_Inr_iff by auto
  show "parse_budget raw \<noteq> Inl ''MCCLI-BUDGET-AMBIGUOUS''"
    using size_not_duration by (auto simp: parse_budget_def and_then_Inl_iff split: sum.splits if_splits) force
qed

lemma parse_budget_millis: "parse_budget raw = Inr (TimeToken r d) \<Longrightarrow> \<exists>ms. d = from_millis ms"
  by (auto simp: parse_budget_Inr_iff dest: parse_duration_millis)

text \<open>The budget set holds at most one budget of each kind, each the value of its token, and
  whole milliseconds of time.\<close>

definition memory_values :: "budget_token list \<Rightarrow> byte_size list" where
  "memory_values ts = concat (map (\<lambda>t. case t of MemoryToken _ b \<Rightarrow> [b] | TimeToken _ _ \<Rightarrow> []) ts)"

definition time_values :: "budget_token list \<Rightarrow> duration list" where
  "time_values ts = concat (map (\<lambda>t. case t of MemoryToken _ _ \<Rightarrow> [] | TimeToken _ d \<Rightarrow> [d]) ts)"

definition budget_set_ok :: "budget_set \<Rightarrow> bool" where
  "budget_set_ok b \<longleftrightarrow> memory_values (source_order b) = (case budget_memory b of None \<Rightarrow> [] | Some x \<Rightarrow> [x])
     \<and> time_values (source_order b) = (case budget_deadline b of None \<Rightarrow> [] | Some d \<Rightarrow> [d])
     \<and> is_none_or (\<lambda>d. \<exists>ms. d = from_millis ms) (budget_deadline b)"

lemma budget_set_default_ok: "budget_set_ok budget_set_default"
  by (simp add: budget_set_ok_def budget_set_default_def memory_values_def time_values_def)

lemma push_budget_ok:
  assumes "budget_set_ok b" and "parse_budget raw = Inr t" and "push_budget b t = Inr b'"
  shows "budget_set_ok b'" and "source_order b' = source_order b @ [t]"
  using assms
  by (cases t; auto simp: push_budget_def budget_set_ok_def memory_values_def time_values_def
      split: if_splits dest: parse_budget_millis)+

text \<open>The display of an accepted limit token never panics.\<close>

lemma limit_token_display_total: "limit_token_parse raw = Inr t \<Longrightarrow> limit_token_display t = Some raw"
  by (auto simp: limit_token_parse_def limit_token_display_def to_str_def split: if_splits sum.splits)

end
