(* ===== verification/ContractParse.thy ===== *)
theory ContractParse
  imports WorkloadRoundtrip
begin

text \<open>
  Reading a contract from JSON (\<open>WorkloadContract::parse\<close> of
  \<open>memcordon-core/src/workload_contract.rs\<close>) and the first pass that rejects repeated object keys, in
  its two forms (there and in \<open>memcordon-core/src/canonical_json.rs\<close>). The \<open>serde_json\<close> library is a parameter:
  the document it presents to a visitor and the values the derived deserializers build. The
  visitors themselves, the version dispatch and the validation are those of the source.
\<close>

subsection \<open>Documents and the visitors of the first pass\<close>

datatype json =
  JNull | JBool bool | JUnsigned u64 | JSigned int | JFloat string | JString string
| JArray "json list" | JObject "(string \<times> json) list"

datatype json_error =
  InvalidDiagnosticText | KeyCountExceedsBound | DuplicateJsonKey | FloatingForbidden | JsonSyntax

definition bounded_text_new :: "nat \<Rightarrow> string \<Rightarrow> json_error + string" where
  "bounded_text_new n s = (if n < length s \<or> char_of (0 :: nat) \<in> set s then Inl InvalidDiagnosticText else Inr s)"

fun visit_unique :: "json \<Rightarrow> json_error + unit"
  and visit_unique_map :: "string list \<Rightarrow> (string \<times> json) list \<Rightarrow> json_error + unit"
  and visit_unique_seq :: "json list \<Rightarrow> json_error + unit" where
  "visit_unique JNull = Inr ()"
| "visit_unique (JBool _) = Inr ()"
| "visit_unique (JUnsigned _) = Inr ()"
| "visit_unique (JSigned _) = Inr ()"
| "visit_unique (JFloat _) = Inr ()"
| "visit_unique (JString _) = Inr ()"
| "visit_unique (JArray xs) = visit_unique_seq xs"
| "visit_unique (JObject ms) = visit_unique_map [] ms"
| "visit_unique_map keys [] = Inr ()"
| "visit_unique_map keys ((k, v) # ms) =
     and_then (bounded_text_new 256 k) (\<lambda>key.
     if 256 \<le> length keys then Inl KeyCountExceedsBound
     else if key \<in> set keys then Inl DuplicateJsonKey
     else and_then (visit_unique v) (\<lambda>_. visit_unique_map (key # keys) ms))"
| "visit_unique_seq [] = Inr ()"
| "visit_unique_seq (x # xs) = and_then (visit_unique x) (\<lambda>_. visit_unique_seq xs)"

fun visit_canonical :: "json \<Rightarrow> json_error + unit"
  and visit_canonical_map :: "string list \<Rightarrow> (string \<times> json) list \<Rightarrow> json_error + unit"
  and visit_canonical_seq :: "json list \<Rightarrow> json_error + unit" where
  "visit_canonical JNull = Inr ()"
| "visit_canonical (JBool _) = Inr ()"
| "visit_canonical (JUnsigned _) = Inr ()"
| "visit_canonical (JSigned _) = Inr ()"
| "visit_canonical (JFloat _) = Inl FloatingForbidden"
| "visit_canonical (JString _) = Inr ()"
| "visit_canonical (JArray xs) = visit_canonical_seq xs"
| "visit_canonical (JObject ms) = visit_canonical_map [] ms"
| "visit_canonical_map keys [] = Inr ()"
| "visit_canonical_map keys ((k, v) # ms) =
     (if 256 < length k \<or> 256 \<le> length keys then Inl KeyCountExceedsBound
      else if k \<in> set keys then Inl DuplicateJsonKey
      else and_then (visit_canonical v) (\<lambda>_. visit_canonical_map (k # keys) ms))"
| "visit_canonical_seq [] = Inr ()"
| "visit_canonical_seq (x # xs) = and_then (visit_canonical x) (\<lambda>_. visit_canonical_seq xs)"

text \<open>What \<open>serde_json\<close> computes of the bytes of a document.\<close>

record json_reader =
  jr_document :: "u8 list \<Rightarrow> json option"
  jr_version :: "u8 list \<Rightarrow> u16 option"
  jr_v1 :: "u8 list \<Rightarrow> workload_contract_v1 option"
  jr_v2 :: "u8 list \<Rightarrow> workload_contract_v2 option"

definition reject_duplicate_json_keys :: "json_reader \<Rightarrow> u8 list \<Rightarrow> json_error + unit" where
  "reject_duplicate_json_keys reader bytes =
     and_then (ok_or JsonSyntax (jr_document reader bytes)) visit_unique"

definition reject_noncanonical_json :: "json_reader \<Rightarrow> u8 list \<Rightarrow> json_error + unit" where
  "reject_noncanonical_json reader bytes =
     and_then (ok_or JsonSyntax (jr_document reader bytes)) visit_canonical"

subsection \<open>Contracts\<close>

datatype workload_contract = V1 workload_contract_v1 | V2 workload_contract_v2

datatype parse_error =
  ContractTooLong | ContractJson json_error | ContractFields | ContractInvalid contract_error
| UnsupportedVersion | ExpectedVersionTwo

definition contract_parse :: "json_reader \<Rightarrow> u8 list \<Rightarrow> parse_error + workload_contract" where
  "contract_parse reader bytes =
     (if CONTRACT_BYTES < length bytes then Inl ContractTooLong
      else and_then (map_sum ContractJson id (reject_duplicate_json_keys reader bytes)) (\<lambda>_.
        and_then (ok_or ContractFields (jr_version reader bytes)) (\<lambda>version.
        if version = 1 then
          and_then (ok_or ContractFields (jr_v1 reader bytes)) (\<lambda>request.
          and_then (map_sum ContractInvalid id (validate_v1 request)) (\<lambda>_. Inr (V1 request)))
        else if version = 2 then
          and_then (ok_or ContractFields (jr_v2 reader bytes)) (\<lambda>request.
          and_then (map_sum ContractInvalid id (validate_v2 request)) (\<lambda>_. Inr (V2 request)))
        else Inl UnsupportedVersion)))"

definition contract_v2_parse :: "json_reader \<Rightarrow> u8 list \<Rightarrow> parse_error + workload_contract_v2" where
  "contract_v2_parse reader bytes =
     and_then (contract_parse reader bytes) (\<lambda>c. case c of V2 request \<Rightarrow> Inr request | V1 _ \<Rightarrow> Inl ExpectedVersionTwo)"

definition contract_v1_parse :: "json_reader \<Rightarrow> u8 list \<Rightarrow> parse_error + workload_contract_v1" where
  "contract_v1_parse reader bytes =
     (if CONTRACT_BYTES < length bytes then Inl ContractTooLong
      else and_then (map_sum ContractJson id (reject_duplicate_json_keys reader bytes)) (\<lambda>_.
        and_then (ok_or ContractFields (jr_v1 reader bytes)) (\<lambda>request.
        and_then (map_sum ContractInvalid id (validate_v1 request)) (\<lambda>_. Inr request))))"

subsection \<open>What the first pass accepts\<close>

text \<open>The objects of a document at every depth, and whether it has a floating-point number.\<close>

fun json_objects :: "json \<Rightarrow> (string \<times> json) list list" where
  "json_objects (JArray xs) = concat (map json_objects xs)"
| "json_objects (JObject ms) = ms # concat (map (\<lambda>m. json_objects (snd m)) ms)"
| "json_objects _ = []"

fun json_has_float :: "json \<Rightarrow> bool" where
  "json_has_float (JFloat _) \<longleftrightarrow> True"
| "json_has_float (JArray xs) \<longleftrightarrow> list_ex json_has_float xs"
| "json_has_float (JObject ms) \<longleftrightarrow> list_ex (\<lambda>m. json_has_float (snd m)) ms"
| "json_has_float _ \<longleftrightarrow> False"

text \<open>An object is fine when it has at most 256 members with different, acceptable keys.\<close>

definition object_ok :: "(string \<Rightarrow> bool) \<Rightarrow> (string \<times> 'a) list \<Rightarrow> bool" where
  "object_ok key_ok ms \<longleftrightarrow> distinct (map fst ms) \<and> length ms \<le> 256 \<and> list_all key_ok (map fst ms)"

text \<open>A visitor of the first pass: it goes through every value, collects the keys of an object and
  stops at the first fault. Both passes of the source are instances.\<close>

locale json_visitor =
  fixes visit :: "json \<Rightarrow> json_error + unit"
    and visit_map :: "string list \<Rightarrow> (string \<times> json) list \<Rightarrow> json_error + unit"
    and visit_seq :: "json list \<Rightarrow> json_error + unit"
    and key_ok :: "string \<Rightarrow> bool"
    and float_ok :: bool
  assumes visit_object: "visit (JObject ms) = visit_map [] ms"
    and visit_array: "visit (JArray xs) = visit_seq xs"
    and visit_float: "visit (JFloat t) = Inr () \<longleftrightarrow> float_ok"
    and visit_scalar: "visit JNull = Inr ()" "visit (JBool b) = Inr ()" "visit (JUnsigned u) = Inr ()"
      "visit (JSigned i) = Inr ()" "visit (JString s) = Inr ()"
    and map_Nil: "visit_map ks [] = Inr ()"
    and map_Cons: "visit_map ks ((k, v) # ms) = Inr () \<longleftrightarrow>
      key_ok k \<and> length ks < 256 \<and> k \<notin> set ks \<and> visit v = Inr () \<and> visit_map (k # ks) ms = Inr ()"
    and seq_Nil: "visit_seq [] = Inr ()"
    and seq_Cons: "visit_seq (x # xs) = Inr () \<longleftrightarrow> visit x = Inr () \<and> visit_seq xs = Inr ()"
begin

lemma visit_seq_iff: "visit_seq xs = Inr () \<longleftrightarrow> list_all (\<lambda>x. visit x = Inr ()) xs"
  by (induction xs) (simp_all add: seq_Nil seq_Cons)

lemma visit_map_iff:
  "visit_map ks ms = Inr () \<longleftrightarrow> distinct (map fst ms) \<and> set ks \<inter> fst ` set ms = {}
     \<and> (ms \<noteq> [] \<longrightarrow> length ks + length ms \<le> 256) \<and> list_all key_ok (map fst ms)
     \<and> list_all (\<lambda>m. visit (snd m) = Inr ()) ms"
proof (induction ms arbitrary: ks)
  case (Cons m ms)
  obtain k v where m: "m = (k, v)" by (cases m)
  show ?case
    unfolding m map_Cons Cons.IH by (cases ms) auto
qed (simp add: map_Nil)

lemma visit_iff:
  "visit j = Inr () \<longleftrightarrow> (\<forall>ms \<in> set (json_objects j). object_ok key_ok ms) \<and> (float_ok \<or> \<not> json_has_float j)"
proof (induction j)
  case (JArray xs)
  then show ?case
    by (auto simp: visit_array visit_seq_iff list_all_iff list_ex_iff)
next
  case (JObject ms)
  then have IH: "visit (snd m) = Inr () \<longleftrightarrow> (\<forall>ms \<in> set (json_objects (snd m)). object_ok key_ok ms)
      \<and> (float_ok \<or> \<not> json_has_float (snd m))" if "m \<in> set ms" for m
    using that by (cases m) (auto simp: snds.simps)
  have "visit (JObject ms) = Inr () \<longleftrightarrow> object_ok key_ok ms \<and> (\<forall>m \<in> set ms. visit (snd m) = Inr ())"
    by (auto simp: visit_object visit_map_iff object_ok_def list_all_iff)
  also have "(\<forall>m \<in> set ms. visit (snd m) = Inr ()) \<longleftrightarrow>
    (\<forall>m \<in> set ms. (\<forall>ms \<in> set (json_objects (snd m)). object_ok key_ok ms) \<and> (float_ok \<or> \<not> json_has_float (snd m)))"
    using IH by blast
  finally show ?case by (auto simp: list_ex_iff)
qed (simp_all add: visit_scalar visit_float)

end

definition unique_key_ok :: "string \<Rightarrow> bool" where
  "unique_key_ok k \<longleftrightarrow> length k \<le> 256 \<and> char_of (0 :: nat) \<notin> set k"

interpretation unique: json_visitor visit_unique visit_unique_map visit_unique_seq unique_key_ok True
  by unfold_locales
    (auto simp: and_then_Inr_iff bounded_text_new_def unique_key_ok_def not_less not_le split: if_splits)

interpretation canonical: json_visitor visit_canonical visit_canonical_map visit_canonical_seq "\<lambda>k. length k \<le> 256" False
  by unfold_locales (auto simp: and_then_Inr_iff not_less not_le split: if_splits)

text \<open>A document whose objects all have different keys.\<close>

definition unique_document :: "json \<Rightarrow> bool" where
  "unique_document j \<longleftrightarrow> list_all (object_ok unique_key_ok) (json_objects j)"

lemma visit_unique_iff: "visit_unique j = Inr () \<longleftrightarrow> unique_document j"
  by (simp add: unique.visit_iff unique_document_def list_all_iff)

lemma visit_canonical_iff:
  "visit_canonical j = Inr () \<longleftrightarrow> list_all (object_ok (\<lambda>k. length k \<le> 256)) (json_objects j) \<and> \<not> json_has_float j"
  by (simp add: canonical.visit_iff list_all_iff)

text \<open>C38: what the key check accepts. The first pass over a contract succeeds exactly when the bytes
  are a JSON document in which every object, at every depth, has at most 256 members, no key twice
  and only keys of at most 256 bytes without a zero byte; the stricter pass of the current wire
  decoders accepts the documents whose objects have at most 256 members with different keys of at most 256 bytes
  and that hold no floating-point number.\<close>

theorem duplicate_keys_rejected:
  "(reject_duplicate_json_keys reader bytes = Inr () \<longleftrightarrow>
     (\<exists>doc. jr_document reader bytes = Some doc \<and> list_all (object_ok unique_key_ok) (json_objects doc)))
   \<and> (reject_noncanonical_json reader bytes = Inr () \<longleftrightarrow>
     (\<exists>doc. jr_document reader bytes = Some doc \<and> list_all (object_ok (\<lambda>k. length k \<le> 256)) (json_objects doc)
       \<and> \<not> json_has_float doc))"
  by (simp add: reject_duplicate_json_keys_def reject_noncanonical_json_def and_then_Inr_iff
      visit_unique_iff visit_canonical_iff unique_document_def)

subsection \<open>What a parsed contract is\<close>

lemma map_sum_id_Inr: "map_sum f id r = Inr y \<longleftrightarrow> r = Inr y"
  by (cases r) auto

text \<open>C37: a contract read from a file is a valid contract of the version it declares. Parsing returns a
  contract of the first or the second version exactly when the bytes are within the size
  limit, the document repeats no key at any depth, its declared version is that one, the fields
  decode to that contract and the contract is valid by its declarative specification.\<close>

theorem contract_parse_exact:
  "contract_parse reader bytes = Inr c \<longleftrightarrow>
     length bytes \<le> CONTRACT_BYTES
     \<and> (\<exists>doc. jr_document reader bytes = Some doc \<and> unique_document doc)
     \<and> (case c of
          V1 r \<Rightarrow> jr_version reader bytes = Some 1 \<and> jr_v1 reader bytes = Some r \<and> contract_valid r
        | V2 r \<Rightarrow> jr_version reader bytes = Some 2 \<and> jr_v2 reader bytes = Some r \<and> contract_v2_valid r)"
  by (cases c) (auto simp: contract_parse_def reject_duplicate_json_keys_def and_then_Inr_iff map_sum_id_Inr
      visit_unique_iff validate_v1_iff validate_v2_iff not_less split: if_splits intro!: exI [of _ 1])

text \<open>What a consumer of a parsed contract needs.\<close>

lemma contract_parse_valid:
  "contract_parse reader bytes = Inr (V1 r) \<Longrightarrow> validate_v1 r = Inr ()"
  "contract_parse reader bytes = Inr (V2 r') \<Longrightarrow> validate_v2 r' = Inr ()"
  by (auto simp: contract_parse_def and_then_Inr_iff map_sum_id_Inr split: if_splits)

end
