(* ===== verification/F64.thy ===== *)
theory F64
  imports Prelude
begin

text \<open>
  The \<open>f64\<close> operations of the restart code: IEEE 754 binary64 with round to nearest, ties to
  even. A finite value is the real number it stands for; the sign of a zero is not kept,
  because no operation of the modelled code observes it (the only division by zero in it is
  by a quotient of non-negative numbers).

  A finite binary64 number is an integer multiple \<open>n * 2 ^ q\<close> of the smallest subnormal
  \<open>2 ^ - 1074\<close> with \<open>n \<le> 2 ^ 53\<close>: \<open>quantum\<close> finds \<open>q\<close> by binary search and \<open>round_pos\<close> rounds to
  the nearest multiple of \<open>2 ^ q\<close>. The lemmas show that rounding is monotone, exact on
  representable numbers and within half a unit in the last place.

  \<open>exp2\<close> is the C library's function and is a parameter of the code that calls it; the
  locale \<open>exp2_library\<close> holds what that code relies on.
\<close>

named_theorems f64_defs \<open>definitions of the floating-point operations\<close>

datatype f64 = Nan | PosInf | NegInf | Fin real

subsection \<open>Rounding\<close>

definition round_half_even :: "real \<Rightarrow> int" where
  "round_half_even x =
     (let f = \<lfloor>x\<rfloor>; d = x - of_int f
      in if d < 1 / 2 then f else if 1 / 2 < d then f + 1 else if even f then f else f + 1)"

text \<open>The greatest \<open>q\<close> below 2048 with \<open>2 ^ (q + 52) \<le> X\<close>, or 0.\<close>

fun find_quantum :: "nat \<Rightarrow> real \<Rightarrow> nat \<Rightarrow> nat" where
  "find_quantum 0 X q = q"
| "find_quantum (Suc j) X q =
     find_quantum j X (if 2 ^ (q + 2 ^ j + 52) \<le> X then q + 2 ^ j else q)"

definition quantum :: "real \<Rightarrow> nat" where
  "quantum X = find_quantum 11 X 0"

text \<open>Rounding of \<open>X\<close>, a non-negative number in units of \<open>2 ^ - 1074\<close>, to such units.\<close>

definition round_units :: "real \<Rightarrow> int" where
  "round_units X = round_half_even (X / 2 ^ quantum X) * 2 ^ quantum X"

definition units_per_one :: real where
  "units_per_one = 2 ^ 1074"

definition f64_round_pos :: "real \<Rightarrow> f64" where
  "f64_round_pos x =
     (let u = round_units (x * units_per_one)
      in if 2 ^ 2098 \<le> u then PosInf else Fin (of_int u / units_per_one))"

definition f64_neg :: "f64 \<Rightarrow> f64" where
  "f64_neg v = (case v of Nan \<Rightarrow> Nan | PosInf \<Rightarrow> NegInf | NegInf \<Rightarrow> PosInf | Fin x \<Rightarrow> Fin (- x))"

definition f64_round :: "real \<Rightarrow> f64" where
  "f64_round x = (if 0 \<le> x then f64_round_pos x else f64_neg (f64_round_pos (- x)))"

subsection \<open>Operations\<close>

definition f64_of_int :: "int \<Rightarrow> f64" where
  "f64_of_int n = f64_round (of_int n)"

definition f64_of_word :: "'a::len word \<Rightarrow> f64" where
  "f64_of_word w = f64_of_int (int (unat w))"

fun f64_add :: "f64 \<Rightarrow> f64 \<Rightarrow> f64" where
  "f64_add (Fin x) (Fin y) = f64_round (x + y)"
| "f64_add PosInf (Fin y) = PosInf"
| "f64_add (Fin x) PosInf = PosInf"
| "f64_add PosInf PosInf = PosInf"
| "f64_add NegInf (Fin y) = NegInf"
| "f64_add (Fin x) NegInf = NegInf"
| "f64_add NegInf NegInf = NegInf"
| "f64_add _ _ = Nan"

definition f64_sub :: "f64 \<Rightarrow> f64 \<Rightarrow> f64" where
  "f64_sub x y = f64_add x (f64_neg y)"

definition f64_inf_times :: "real \<Rightarrow> f64" where
  "f64_inf_times s = (if s = 0 then Nan else if 0 < s then PosInf else NegInf)"

fun f64_mul :: "f64 \<Rightarrow> f64 \<Rightarrow> f64" where
  "f64_mul (Fin x) (Fin y) = f64_round (x * y)"
| "f64_mul PosInf (Fin y) = f64_inf_times y"
| "f64_mul NegInf (Fin y) = f64_inf_times (- y)"
| "f64_mul (Fin x) PosInf = f64_inf_times x"
| "f64_mul (Fin x) NegInf = f64_inf_times (- x)"
| "f64_mul PosInf PosInf = PosInf"
| "f64_mul NegInf NegInf = PosInf"
| "f64_mul PosInf NegInf = NegInf"
| "f64_mul NegInf PosInf = NegInf"
| "f64_mul _ _ = Nan"

fun f64_div :: "f64 \<Rightarrow> f64 \<Rightarrow> f64" where
  "f64_div (Fin x) (Fin y) = (if y = 0 then f64_inf_times x else f64_round (x / y))"
| "f64_div PosInf (Fin y) = (if 0 \<le> y then PosInf else NegInf)"
| "f64_div NegInf (Fin y) = (if 0 \<le> y then NegInf else PosInf)"
| "f64_div (Fin x) PosInf = Fin 0"
| "f64_div (Fin x) NegInf = Fin 0"
| "f64_div _ _ = Nan"

definition f64_recip :: "f64 \<Rightarrow> f64" where
  "f64_recip x = f64_div (Fin 1) x"

fun f64_ceil :: "f64 \<Rightarrow> f64" where
  "f64_ceil (Fin x) = Fin (of_int \<lceil>x\<rceil>)"
| "f64_ceil v = v"

fun f64_le :: "f64 \<Rightarrow> f64 \<Rightarrow> bool" where
  "f64_le Nan _ = False"
| "f64_le _ Nan = False"
| "f64_le NegInf _ = True"
| "f64_le _ PosInf = True"
| "f64_le (Fin x) (Fin y) = (x \<le> y)"
| "f64_le _ _ = False"

fun f64_is_finite :: "f64 \<Rightarrow> bool" where
  "f64_is_finite (Fin x) = True"
| "f64_is_finite _ = False"

text \<open>The \<open>as u64\<close> cast: truncation towards zero, saturating at both ends, 0 for NaN.\<close>

fun f64_as_u64 :: "f64 \<Rightarrow> u64" where
  "f64_as_u64 Nan = 0"
| "f64_as_u64 PosInf = - 1"
| "f64_as_u64 NegInf = 0"
| "f64_as_u64 (Fin x) = (if x \<le> 0 then 0 else if 2 ^ 64 \<le> x then - 1 else of_int \<lfloor>x\<rfloor>)"

subsection \<open>The quantum\<close>

lemma find_quantum_lower:
  "q = 0 \<or> 2 ^ (q + 52) \<le> X \<Longrightarrow>
    find_quantum j X q = 0 \<or> 2 ^ (find_quantum j X q + 52) \<le> X"
  by (induction j arbitrary: q) auto

lemma find_quantum_upper:
  "X < 2 ^ (q + 2 ^ j + 52) \<Longrightarrow> X < 2 ^ (find_quantum j X q + 53)"
proof (induction j arbitrary: q)
  case 0
  then show ?case by (simp add: add.commute)
next
  case (Suc j)
  show ?case
  proof (cases "2 ^ (q + 2 ^ j + 52) \<le> X")
    case True
    have "q + 2 ^ Suc j + 52 = q + 2 ^ j + 2 ^ j + 52" by simp
    with Suc.prems have "X < 2 ^ (q + 2 ^ j + 2 ^ j + 52)" by (simp only:)
    from Suc.IH [OF this] True show ?thesis by simp
  next
    case False
    then have "X < 2 ^ (q + 2 ^ j + 52)" by simp
    from Suc.IH [OF this] False show ?thesis by simp
  qed
qed

lemma quantum_lower: "quantum X = 0 \<or> 2 ^ (quantum X + 52) \<le> X"
  unfolding quantum_def by (rule find_quantum_lower) simp

text \<open>The search covers all numbers below \<open>2 ^ 2100\<close> units, which is past the overflow
  threshold of \<open>2 ^ 2098\<close>.\<close>

definition units_limit :: real where
  "units_limit = 2 ^ (0 + 2 ^ 11 + 52)"

lemma quantum_upper: "X < units_limit \<Longrightarrow> X < 2 ^ (quantum X + 53)"
  unfolding quantum_def units_limit_def by (rule find_quantum_upper)

lemma quantum_mono:
  assumes "X \<le> Y" and "Y < units_limit"
  shows "quantum X \<le> quantum Y"
proof (rule ccontr)
  assume "\<not> quantum X \<le> quantum Y"
  then have gt: "quantum Y + 1 \<le> quantum X" by simp
  then have "2 ^ (quantum X + 52) \<le> X"
    using quantum_lower [of X] by auto
  moreover have "(2::real) ^ (quantum Y + 53) \<le> 2 ^ (quantum X + 52)"
    using gt by (intro power_increasing) auto
  moreover have "Y < 2 ^ (quantum Y + 53)"
    using assms(2) by (rule quantum_upper)
  ultimately show False using assms(1) by linarith
qed

subsection \<open>Rounding to integers\<close>

lemma round_half_even_of_int [simp]: "round_half_even (of_int n) = n"
  by (simp add: round_half_even_def Let_def)

lemma round_half_even_floor: "\<lfloor>x\<rfloor> \<le> round_half_even x" "round_half_even x \<le> \<lfloor>x\<rfloor> + 1"
  by (auto simp: round_half_even_def Let_def)

lemma round_half_even_mono:
  assumes "x \<le> y"
  shows "round_half_even x \<le> round_half_even y"
proof (cases "\<lfloor>x\<rfloor> = \<lfloor>y\<rfloor>")
  case True
  with assms show ?thesis
    by (auto simp: round_half_even_def Let_def)
next
  case False
  with floor_mono [OF assms] have "\<lfloor>x\<rfloor> + 1 \<le> \<lfloor>y\<rfloor>" by simp
  then show ?thesis
    using round_half_even_floor(2) [of x] round_half_even_floor(1) [of y] by linarith
qed

lemma round_half_even_error: "\<bar>of_int (round_half_even x) - x\<bar> \<le> 1 / 2"
  using of_int_floor_le [of x] floor_less_iff [of x "\<lfloor>x\<rfloor> + 1"]
  by (auto simp: round_half_even_def Let_def abs_le_iff)

lemma round_half_even_ge: "of_int n \<le> x \<Longrightarrow> n \<le> round_half_even x"
  using round_half_even_mono [of "of_int n" x] by simp

lemma round_half_even_le: "x \<le> of_int n \<Longrightarrow> round_half_even x \<le> n"
  using round_half_even_mono [of x "of_int n"] by simp

subsection \<open>Rounding in units of the smallest subnormal\<close>

lemma round_units_upper:
  assumes "X < units_limit"
  shows "round_units X \<le> 2 ^ (quantum X + 53)"
proof -
  have "X / 2 ^ quantum X \<le> of_int (2 ^ 53)"
    using quantum_upper [OF assms] by (simp add: divide_le_eq power_add mult.commute less_imp_le)
  then have "round_half_even (X / 2 ^ quantum X) \<le> 2 ^ 53"
    by (rule round_half_even_le)
  then have "round_units X \<le> 2 ^ 53 * 2 ^ quantum X"
    unfolding round_units_def by (rule mult_right_mono) simp
  then show ?thesis by (simp add: power_add mult.commute)
qed

lemma round_units_lower:
  assumes "0 < quantum X"
  shows "2 ^ (quantum X + 52) \<le> round_units X"
proof -
  have "2 ^ (quantum X + 52) \<le> X"
    using quantum_lower [of X] assms by auto
  then have "of_int (2 ^ 52) \<le> X / 2 ^ quantum X"
    by (simp add: le_divide_eq power_add mult.commute)
  then have "2 ^ 52 \<le> round_half_even (X / 2 ^ quantum X)"
    by (rule round_half_even_ge)
  then have "2 ^ 52 * 2 ^ quantum X \<le> round_units X"
    unfolding round_units_def by (rule mult_right_mono) simp
  then show ?thesis by (simp add: power_add mult.commute)
qed

lemma round_units_mono:
  assumes "X \<le> Y" and "Y < units_limit"
  shows "round_units X \<le> round_units Y"
proof (cases "quantum X = quantum Y")
  case True
  have "X / 2 ^ quantum X \<le> Y / 2 ^ quantum X"
    using assms(1) by (rule divide_right_mono) simp
  then have "round_half_even (X / 2 ^ quantum X) \<le> round_half_even (Y / 2 ^ quantum X)"
    by (rule round_half_even_mono)
  then show ?thesis
    unfolding round_units_def True [symmetric] by (rule mult_right_mono) simp
next
  case False
  with quantum_mono [OF assms] have lt: "quantum X + 1 \<le> quantum Y" by simp
  have "round_units X \<le> 2 ^ (quantum X + 53)"
    by (rule round_units_upper) (rule le_less_trans [OF assms])
  also have "\<dots> \<le> 2 ^ (quantum Y + 52)"
    using lt by (intro power_increasing) auto
  also have "\<dots> \<le> round_units Y"
    using lt by (intro round_units_lower) simp
  finally show ?thesis .
qed

lemma round_units_nonneg:
  assumes "0 \<le> X"
  shows "0 \<le> round_units X"
proof -
  have "of_int 0 \<le> X / 2 ^ quantum X" using assms by simp
  then have "0 \<le> round_half_even (X / 2 ^ quantum X)" by (rule round_half_even_ge)
  then show ?thesis by (simp add: round_units_def)
qed

lemma round_units_exact:
  fixes n q :: nat
  assumes "n \<le> 2 ^ 53"
  shows "round_units (real n * 2 ^ q) = int n * 2 ^ q"
proof -
  let ?X = "real n * 2 ^ q"
  have "real n \<le> 2 ^ 53"
    using of_nat_mono [OF assms, where ?'a = real] by simp
  then have "?X \<le> 2 ^ 53 * 2 ^ q"
    by (intro mult_right_mono) simp_all
  then have X: "?X \<le> 2 ^ (q + 53)" by (simp add: power_add mult.commute)
  have q: "quantum ?X \<le> q \<or> n = 2 ^ 53 \<and> quantum ?X = q + 1"
  proof (rule ccontr)
    assume *: "\<not> (quantum ?X \<le> q \<or> n = 2 ^ 53 \<and> quantum ?X = q + 1)"
    then have low: "2 ^ (quantum ?X + 52) \<le> ?X"
      using quantum_lower [of ?X] by auto
    show False
    proof (cases "quantum ?X = q + 1")
      case True
      with low have "2 ^ 53 * 2 ^ q \<le> ?X" by (simp add: power_add algebra_simps)
      then have "2 ^ 53 \<le> real n" by simp
      then have "2 ^ 53 \<le> n" by (metis of_nat_le_iff of_nat_numeral of_nat_power)
      with * True assms show False by simp
    next
      case False
      with * have "q + 54 \<le> quantum ?X + 52" by simp
      then have "(2::real) ^ (q + 54) \<le> 2 ^ (quantum ?X + 52)"
        by (intro power_increasing) auto
      moreover have "(2::real) ^ (q + 53) < 2 ^ (q + 54)" by simp
      ultimately show False using low X by linarith
    qed
  qed
  have int_quot: "?X / 2 ^ quantum ?X = of_int (int n * 2 ^ q div 2 ^ quantum ?X)"
    and dvd: "(2::int) ^ quantum ?X dvd int n * 2 ^ q"
  proof -
    show dvd: "(2::int) ^ quantum ?X dvd int n * 2 ^ q"
      using q
    proof
      assume "quantum ?X \<le> q"
      then show ?thesis by (intro dvd_mult le_imp_power_dvd)
    next
      assume *: "n = 2 ^ 53 \<and> quantum ?X = q + 1"
      then have eq: "int n * 2 ^ q = 2 ^ (q + 1) * 2 ^ 52"
        by (simp add: power_add)
      from * have "quantum ?X = q + 1" by (rule conjunct2)
      then show ?thesis by (simp only: eq dvd_triv_left)
    qed
    have "of_int (int n * 2 ^ q div 2 ^ quantum ?X) = of_int (int n * 2 ^ q) / (of_int (2 ^ quantum ?X) :: real)"
      using dvd by (rule real_of_int_div)
    then show "?X / 2 ^ quantum ?X = of_int (int n * 2 ^ q div 2 ^ quantum ?X)"
      by (simp only: of_int_mult of_int_power of_int_numeral of_int_of_nat_eq)
  qed
  show ?thesis
    unfolding round_units_def int_quot round_half_even_of_int using dvd by (simp only: dvd_div_mult_self)
qed

lemma round_units_error: "\<bar>of_int (round_units X) - X\<bar> \<le> 2 ^ quantum X / 2"
proof -
  let ?d = "of_int (round_half_even (X / 2 ^ quantum X)) - X / 2 ^ quantum X"
  have "of_int (round_units X) - X = ?d * 2 ^ quantum X"
    by (simp add: round_units_def left_diff_distrib)
  then have "\<bar>of_int (round_units X) - X\<bar> = \<bar>?d\<bar> * 2 ^ quantum X"
    by (simp only: abs_mult) simp
  also have "\<dots> \<le> 1 / 2 * 2 ^ quantum X"
    by (rule mult_right_mono [OF round_half_even_error]) simp
  finally show ?thesis by simp
qed

subsection \<open>The rounding function on reals\<close>

text \<open>\<open>fl x\<close> is the value of \<open>f64_round x\<close> where that does not overflow.\<close>

definition fl :: "real \<Rightarrow> real" where
  "fl x = (if 0 \<le> x then of_int (round_units (x * units_per_one)) / units_per_one
           else - (of_int (round_units (- x * units_per_one)) / units_per_one))"

abbreviation in_range :: "real \<Rightarrow> bool" where
  "in_range x \<equiv> \<bar>x\<bar> \<le> 2 ^ 200"

lemma units_pos [simp]: "0 < units_per_one" "0 \<le> units_per_one" "units_per_one \<noteq> 0"
  by (simp_all add: units_per_one_def)

lemma in_range_units:
  assumes "in_range x"
  shows "\<bar>x\<bar> * units_per_one \<le> 2 ^ 1274"
proof -
  have "\<bar>x\<bar> * units_per_one \<le> 2 ^ 200 * units_per_one"
    using assms by (rule mult_right_mono) simp
  also have "\<dots> = 2 ^ (200 + 1074)"
    unfolding units_per_one_def by (simp only: power_add)
  finally show ?thesis by simp
qed

lemma below_limit: "X \<le> 2 ^ 1274 \<Longrightarrow> X < units_limit"
proof -
  assume "X \<le> 2 ^ 1274"
  also have "(2::real) ^ 1274 < 2 ^ (0 + 2 ^ 11 + 52)"
    by (rule power_strict_increasing) simp_all
  finally show ?thesis unfolding units_limit_def .
qed

lemma round_units_in_range:
  assumes "X \<le> 2 ^ 1274"
  shows "round_units X < 2 ^ 2098"
proof -
  have "round_units X \<le> round_units (2 ^ 1274)"
    by (rule round_units_mono [OF assms below_limit]) simp
  also have "\<dots> = 2 ^ 1274"
    using round_units_exact [of 1 1274] by simp
  also have "(2::int) ^ 1274 < 2 ^ 2098"
    by (rule power_strict_increasing) simp_all
  finally show ?thesis .
qed

lemma f64_round_Fin [simp]:
  assumes "in_range x"
  shows "f64_round x = Fin (fl x)"
proof -
  have "\<not> 2 ^ 2098 \<le> round_units (\<bar>x\<bar> * units_per_one)"
    using round_units_in_range [OF in_range_units [OF assms]] by (simp only: not_le)
  then show ?thesis
    by (cases "0 \<le> x")
      (simp_all add: f64_round_def f64_round_pos_def f64_neg_def fl_def Let_def del: power_numeral)
qed

lemma fl_minus: "fl (- x) = - fl x"
proof (cases "x = 0")
  case True
  have "round_units 0 = 0" using round_units_exact [of 0 0] by simp
  with True show ?thesis by (simp add: fl_def)
next
  case False
  then show ?thesis by (simp add: fl_def)
qed

lemma fl_nonneg: "0 \<le> x \<Longrightarrow> 0 \<le> fl x"
  by (simp add: fl_def round_units_nonneg)

lemma fl_mono_pos:
  assumes "0 \<le> x" and "x \<le> y" and "in_range y"
  shows "fl x \<le> fl y"
proof -
  have "x * units_per_one \<le> y * units_per_one"
    using assms(2) by (rule mult_right_mono) simp
  moreover have "y * units_per_one < units_limit"
    using in_range_units [OF assms(3)] assms(1,2) by (intro below_limit) simp
  ultimately have "round_units (x * units_per_one) \<le> round_units (y * units_per_one)"
    by (rule round_units_mono)
  then show ?thesis
    using assms(1,2) by (simp add: fl_def divide_right_mono)
qed

lemma fl_mono:
  assumes "x \<le> y" and "in_range x" and "in_range y"
  shows "fl x \<le> fl y"
proof (cases "0 \<le> x")
  case True
  then show ?thesis using assms by (intro fl_mono_pos)
next
  case False
  then have x: "fl (- x) = - fl x" "0 \<le> - x" by (simp_all add: fl_minus)
  show ?thesis
  proof (cases "0 \<le> y")
    case True
    have "0 \<le> fl (- x)" using x(2) by (rule fl_nonneg)
    with x(1) fl_nonneg [OF True] show ?thesis by linarith
  next
    case False
    then have "fl (- y) \<le> fl (- x)"
      using assms by (intro fl_mono_pos) auto
    then show ?thesis by (simp add: fl_minus)
  qed
qed

lemma fl_exact:
  fixes n q :: nat
  assumes "n \<le> 2 ^ 53"
  shows "fl (real n * 2 ^ q / units_per_one) = real n * 2 ^ q / units_per_one"
  by (simp add: fl_def round_units_exact [OF assms])

lemma fl_nat: "n \<le> 2 ^ 53 \<Longrightarrow> fl (real n) = real n"
  using fl_exact [of n 1074] by (simp only: units_per_one_def) simp

lemma fl_int: "\<bar>n\<bar> \<le> 2 ^ 53 \<Longrightarrow> fl (of_int n) = of_int n"
proof (cases "0 \<le> n")
  case True
  assume "\<bar>n\<bar> \<le> 2 ^ 53"
  with True have "nat n \<le> 2 ^ 53" by simp
  from fl_nat [OF this] True show ?thesis by simp
next
  case False
  assume "\<bar>n\<bar> \<le> 2 ^ 53"
  with False have "nat (- n) \<le> 2 ^ 53" by simp
  from fl_nat [OF this] False have "fl (- of_int n) = - of_int n" by simp
  then show ?thesis by (simp add: fl_minus)
qed

lemma fl_half_power: "k \<le> 1074 \<Longrightarrow> fl (1 / 2 ^ k) = 1 / 2 ^ k"
proof -
  assume k: "k \<le> 1074"
  then have "(2::real) ^ 1074 = 2 ^ (1074 - k) * 2 ^ k"
    by (simp only: power_add [symmetric]) simp
  then have "1 / 2 ^ k = real 1 * 2 ^ (1074 - k) / units_per_one"
    unfolding units_per_one_def by (simp add: field_simps)
  then show ?thesis using fl_exact [of 1 "1074 - k"] by simp
qed

lemma fl_zero [simp]: "fl 0 = 0"
  using fl_nat [of 0] by simp

lemma fl_one [simp]: "fl 1 = 1"
  using fl_nat [of 1] by simp

text \<open>The relative error of rounding is at most \<open>2 ^ - 53\<close> above the subnormal range.\<close>

lemma fl_relative_error:
  assumes "1 / 2 ^ 200 \<le> x" and "in_range x"
  shows "\<bar>fl x - x\<bar> \<le> x / 2 ^ 53"
proof -
  let ?X = "x * units_per_one" and ?q = "quantum (x * units_per_one)"
  have x: "0 < x" using assms(1) by (rule less_le_trans [rotated]) simp
  have "1 / 2 ^ 200 * units_per_one \<le> ?X"
    using assms(1) by (rule mult_right_mono) simp
  moreover have "(1::real) / 2 ^ 200 * units_per_one = 2 ^ 874"
  proof -
    have "units_per_one = 2 ^ 200 * 2 ^ 874"
      unfolding units_per_one_def by (simp only: power_add [symmetric]) simp
    then show ?thesis by simp
  qed
  ultimately have big: "2 ^ 874 \<le> ?X" by (simp only:)
  have lim: "?X < units_limit"
    using in_range_units [OF assms(2)] x by (intro below_limit) simp
  have low: "2 ^ (?q + 52) \<le> ?X"
  proof (rule ccontr)
    assume "\<not> 2 ^ (?q + 52) \<le> ?X"
    then have "?q = 0" using quantum_lower [of ?X] by simp
    with quantum_upper [OF lim] have "?X < 2 ^ 53" by simp
    moreover have "(2::real) ^ 53 \<le> 2 ^ 874" by (rule power_increasing) simp_all
    ultimately show False using big by linarith
  qed
  have "\<bar>of_int (round_units ?X) - ?X\<bar> \<le> 2 ^ ?q / 2" by (rule round_units_error)
  also have "\<dots> \<le> ?X / 2 ^ 53"
    using low by (simp add: power_add field_simps)
  finally have "\<bar>of_int (round_units ?X) - ?X\<bar> / units_per_one \<le> ?X / 2 ^ 53 / units_per_one"
    by (rule divide_right_mono) simp
  moreover have "fl x - x = (of_int (round_units ?X) - ?X) / units_per_one"
    using x by (simp add: fl_def diff_divide_distrib)
  then have "\<bar>fl x - x\<bar> = \<bar>of_int (round_units ?X) - ?X\<bar> / units_per_one"
    by (simp add: abs_divide)
  ultimately show ?thesis by simp
qed

lemma fl_lower:
  assumes "1 / 2 ^ 200 \<le> x" and "in_range x"
  shows "x * (1 - 1 / 2 ^ 53) \<le> fl x"
proof -
  have "x - fl x \<le> x / 2 ^ 53" using fl_relative_error [OF assms] by linarith
  then show ?thesis by (simp add: algebra_simps)
qed

lemma fl_upper:
  assumes "1 / 2 ^ 200 \<le> x" and "in_range x"
  shows "fl x \<le> x * (1 + 1 / 2 ^ 53)"
proof -
  have "fl x - x \<le> x / 2 ^ 53" using fl_relative_error [OF assms] by linarith
  then show ?thesis by (simp add: algebra_simps)
qed

lemma fl_representation:
  assumes "0 \<le> y" and "in_range y"
  obtains n q :: nat where "fl y = real n * 2 ^ q / units_per_one" and "n \<le> 2 ^ 53"
    and "q = 0 \<or> 2 ^ (q + 52) \<le> y * units_per_one"
proof -
  let ?X = "y * units_per_one" and ?q = "quantum (y * units_per_one)"
  let ?n = "round_half_even (?X / 2 ^ ?q)"
  have lim: "?X < units_limit"
    using in_range_units [OF assms(2)] assms(1) by (intro below_limit) simp
  have n0: "0 \<le> ?n"
    by (rule round_half_even_ge) (use assms in simp)
  have n53: "?n \<le> 2 ^ 53"
    using quantum_upper [OF lim]
    by (intro round_half_even_le) (simp add: divide_le_eq power_add mult.commute less_imp_le)
  have "fl y = real (nat ?n) * 2 ^ ?q / units_per_one"
    using assms n0 by (simp add: fl_def round_units_def)
  moreover have "nat ?n \<le> 2 ^ 53"
    using n53 by (simp add: nat_le_iff)
  ultimately show ?thesis
    using that quantum_lower [of ?X] by blast
qed

text \<open>Subtracting 1 from a rounded number between 1 and 128 is exact.\<close>

lemma fl_minus_one_exact:
  assumes "1 \<le> y" and "y < 128"
  shows "fl (fl y - 1) = fl y - 1"
proof -
  obtain n q :: nat where fly: "fl y = real n * 2 ^ q / units_per_one" and n53: "n \<le> 2 ^ 53"
    and low: "q = 0 \<or> 2 ^ (q + 52) \<le> y * units_per_one"
    by (rule fl_representation [of y]) (use assms in auto)
  have q: "q \<le> 1074"
  proof (rule ccontr)
    assume *: "\<not> q \<le> 1074"
    then have "2 ^ (q + 52) \<le> y * units_per_one" using low by auto
    also have "\<dots> \<le> 2 ^ 7 * units_per_one"
      using assms by (intro mult_right_mono) auto
    also have "\<dots> = 2 ^ (7 + 1074)"
      unfolding units_per_one_def by (simp only: power_add)
    finally have "(2::real) ^ (q + 52) \<le> 2 ^ (7 + 1074)" .
    then have "q + 52 \<le> 7 + 1074" by (rule power_le_imp_le_exp [rotated]) simp
    with * show False by simp
  qed
  then have "1074 = (1074 - q) + q" by simp
  then have "(2::real) ^ 1074 = 2 ^ (1074 - q) * 2 ^ q" by (metis power_add)
  then have U: "units_per_one = 2 ^ (1074 - q) * 2 ^ q"
    by (rule trans [OF units_per_one_def])
  have "fl 1 \<le> fl y"
    using assms by (intro fl_mono) auto
  then have "units_per_one \<le> real n * 2 ^ q"
    by (simp add: fly le_divide_eq)
  then have "(2::real) ^ (1074 - q) \<le> real n" by (simp add: U)
  then have ge: "2 ^ (1074 - q) \<le> n"
    by (metis of_nat_le_iff of_nat_numeral of_nat_power)
  have "fl y - 1 = real (n - 2 ^ (1074 - q)) * 2 ^ q / units_per_one"
    unfolding fly using ge by (simp add: of_nat_diff U field_simps)
  moreover have "n - 2 ^ (1074 - q) \<le> 2 ^ 53" using n53 by simp
  ultimately show ?thesis
    using fl_exact [of "n - 2 ^ (1074 - q)" q] by simp
qed

subsection \<open>The \<open>exp2\<close> function\<close>

text \<open>What the backoff code relies on of the C library's \<open>exp2\<close>: the power of zero is one,
  and on the non-positive arguments it is called with the result is a finite number between
  zero and one. Monotonicity is a separate contract, used where intervals at different times
  are compared.\<close>

locale exp2_library =
  fixes exp2 :: "f64 \<Rightarrow> f64"
  assumes exp2_zero: "exp2 (Fin 0) = Fin 1"
    and exp2_decay: "x \<le> 0 \<Longrightarrow> \<exists>y. exp2 (Fin x) = Fin y \<and> 0 \<le> y \<and> y \<le> 1"

locale exp2_monotone = exp2_library +
  assumes exp2_mono: "x \<le> y \<Longrightarrow> y \<le> 0 \<Longrightarrow> exp2 (Fin x) = Fin a \<Longrightarrow> exp2 (Fin y) = Fin b \<Longrightarrow> a \<le> b"

text \<open>The correctly rounded power of two meets both contracts.\<close>

fun exp2_nearest :: "f64 \<Rightarrow> f64" where
  "exp2_nearest (Fin x) = f64_round (2 powr x)"
| "exp2_nearest PosInf = PosInf"
| "exp2_nearest NegInf = Fin 0"
| "exp2_nearest Nan = Nan"

lemma powr_le_one: "x \<le> 0 \<Longrightarrow> 2 powr x \<le> (1::real)"
  using powr_mono [of x 0 "2::real"] by simp

lemma exp2_nearest_nonpos: "x \<le> 0 \<Longrightarrow> exp2_nearest (Fin x) = Fin (fl (2 powr x))"
  using powr_le_one [of x] by simp

interpretation nearest: exp2_monotone exp2_nearest
proof
  show "exp2_nearest (Fin 0) = Fin 1" by simp
next
  fix x :: real
  assume x: "x \<le> 0"
  have "fl (2 powr x) \<le> fl 1"
    using powr_le_one [OF x] by (intro fl_mono) auto
  moreover have "0 \<le> fl (2 powr x)"
    by (rule fl_nonneg) simp
  ultimately show "\<exists>y. exp2_nearest (Fin x) = Fin y \<and> 0 \<le> y \<and> y \<le> 1"
    using exp2_nearest_nonpos [OF x] by auto
next
  fix x y a b :: real
  assume le: "x \<le> y" "y \<le> 0" and "exp2_nearest (Fin x) = Fin a" "exp2_nearest (Fin y) = Fin b"
  then have "a = fl (2 powr x)" "b = fl (2 powr y)"
    using exp2_nearest_nonpos by auto
  moreover have "fl (2 powr x) \<le> fl (2 powr y)"
    using le powr_le_one [of x] powr_le_one [of y] by (intro fl_mono powr_mono) auto
  ultimately show "a \<le> b" by simp
qed

end
