(* ===== verification/Multiplier.thy ===== *)
theory Multiplier
  imports ByteSize
begin

text \<open>
  The backoff multiplier of \<open>memcordon-core/src/restart.rs\<close>: an exact rational between 1 and
  100 in lowest terms, its constructor, the \<open>gcd\<close> loop, and the parser of its decimal form.
\<close>

record backoff_multiplier =
  bm_numerator :: u32
  bm_denominator :: u32

datatype multiplier_parse_error = MultiplierSyntax | MultiplierRange

text \<open>The \<open>while right != 0\<close> loop of \<open>gcd\<close>.\<close>

function gcd_u64 :: "u64 \<Rightarrow> u64 \<Rightarrow> u64" where
  "gcd_u64 left right = (if right \<noteq> 0 then gcd_u64 right (left mod right) else left)"
  by pat_completeness auto
termination
proof (relation "measure (\<lambda>(left, right). unat right)")
  fix left right :: u64
  assume "right \<noteq> 0"
  then have "left mod right < right"
    by (simp add: word_less_nat_alt unat_mod unat_gt_0)
  then show "((right, left mod right), left, right) \<in> measure (\<lambda>(left, right). unat right)"
    by (simp add: word_less_nat_alt)
qed simp

declare gcd_u64.simps [simp del]

lemma unat_gcd_u64: "unat (gcd_u64 a b) = gcd (unat a) (unat b)"
proof (induction a b rule: gcd_u64.induct)
  case (1 left right)
  show ?case
  proof (cases "right = 0")
    case True
    then show ?thesis by (simp add: gcd_u64.simps)
  next
    case False
    with "1.IH" have "unat (gcd_u64 right (left mod right)) = gcd (unat right) (unat (left mod right))"
      by simp
    with False show ?thesis
      by (subst gcd_u64.simps) (simp add: unat_mod gcd_red_nat [symmetric])
  qed
qed

definition backoff_multiplier_new :: "u32 \<Rightarrow> u32 \<Rightarrow> multiplier_parse_error + backoff_multiplier" where
  "backoff_multiplier_new numerator denominator =
     (if denominator = 0 \<or> numerator < denominator then Inl MultiplierSyntax
      else and_then (ok_or MultiplierRange (checked_mul (ucast denominator :: u64) 100)) (\<lambda>upper.
        if ucast numerator > upper then Inl MultiplierSyntax
        else (let divisor = gcd_u64 (ucast numerator) (ucast denominator)
              in and_then (ok_or MultiplierRange
                   (unat_try_from (unat (ucast numerator div divisor)))) (\<lambda>n.
                 and_then (ok_or MultiplierRange
                   (unat_try_from (unat (ucast denominator div divisor)))) (\<lambda>d.
                 Inr \<lparr>bm_numerator = n, bm_denominator = d\<rparr>)))))"

definition backoff_multiplier_two :: backoff_multiplier where
  "backoff_multiplier_two = \<lparr>bm_numerator = 2, bm_denominator = 1\<rparr>"

text \<open>The deserializer of the wire object with the two fields.\<close>

definition backoff_multiplier_deserialize :: "backoff_multiplier \<Rightarrow> multiplier_parse_error + backoff_multiplier" where
  "backoff_multiplier_deserialize wire = backoff_multiplier_new (bm_numerator wire) (bm_denominator wire)"

definition backoff_multiplier_from_str :: "string \<Rightarrow> multiplier_parse_error + backoff_multiplier" where
  "backoff_multiplier_from_str value =
     (if value = [] \<or> hd value \<in> {CHR ''+'', CHR ''-''} \<or> CHR ''e'' \<in> set value \<or> CHR ''E'' \<in> set value
      then Inl MultiplierSyntax
      else (case split_on (CHR ''.'') value of
          [] \<Rightarrow> Inl MultiplierSyntax
        | whole # rest \<Rightarrow>
            (let fraction = (case rest of [] \<Rightarrow> None | digits # _ \<Rightarrow> Some digits)
             in if 1 < length rest \<or> whole = [] \<or> \<not> list_all is_ascii_digit whole
                   \<or> is_some_and (\<lambda>digits. digits = [] \<or> \<not> list_all is_ascii_digit digits) fraction
                then Inl MultiplierSyntax
                else (let digits = (case fraction of None \<Rightarrow> [] | Some digits \<Rightarrow> digits)
                  in and_then (ok_or MultiplierRange (unat_try_from (length digits) :: u32 option)) (\<lambda>exponent.
                     and_then (ok_or MultiplierRange (checked_pow (10 :: u64) (unat exponent))) (\<lambda>denominator.
                     and_then (ok_or MultiplierRange (parse_uint whole)) (\<lambda>w.
                     and_then (if digits = [] then Inr 0 else ok_or MultiplierRange (parse_uint digits)) (\<lambda>fractional.
                     and_then (ok_or MultiplierRange
                       (Option.bind (checked_mul w denominator) (\<lambda>number. checked_add number fractional))) (\<lambda>numerator.
                     (let divisor = gcd_u64 numerator denominator
                      in and_then (ok_or MultiplierRange (unat_try_from (unat (numerator div divisor)))) (\<lambda>n.
                         and_then (ok_or MultiplierRange (unat_try_from (unat (denominator div divisor)))) (\<lambda>d.
                         backoff_multiplier_new n d))))))))))))"

subsection \<open>The multiplier invariant\<close>

definition multiplier_value :: "backoff_multiplier \<Rightarrow> real" where
  "multiplier_value m = real (unat (bm_numerator m)) / real (unat (bm_denominator m))"

definition multiplier_invariant :: "backoff_multiplier \<Rightarrow> bool" where
  "multiplier_invariant m \<longleftrightarrow>
     0 < unat (bm_denominator m)
     \<and> unat (bm_denominator m) \<le> unat (bm_numerator m)
     \<and> unat (bm_numerator m) \<le> 100 * unat (bm_denominator m)
     \<and> coprime (unat (bm_numerator m)) (unat (bm_denominator m))"

lemma multiplier_value_bounds:
  assumes "multiplier_invariant m"
  shows "1 \<le> multiplier_value m" and "multiplier_value m \<le> 100"
proof -
  from assms have *: "0 < real (unat (bm_denominator m))"
    "real (unat (bm_denominator m)) \<le> real (unat (bm_numerator m))"
    "real (unat (bm_numerator m)) \<le> 100 * real (unat (bm_denominator m))"
    by (simp_all add: multiplier_invariant_def del: of_nat_unat)
  then show "1 \<le> multiplier_value m" and "multiplier_value m \<le> 100"
    by (simp_all add: multiplier_value_def divide_le_eq del: of_nat_unat)
qed

lemma unat_ucast_u32: "unat (ucast (w :: u32) :: u64) = unat w"
proof -
  have "unat w < 2 ^ 64" using unsigned_less [of w, where ?'a = nat] by simp
  then show ?thesis by (simp add: unsigned_ucast_eq take_bit_nat_eq_self_iff)
qed

lemma u32_mul_100:
  obtains upper :: u64 where "checked_mul (ucast (d :: u32)) 100 = Some upper" "unat upper = 100 * unat d"
proof -
  have "unat d * 100 < 2 ^ 64" using unsigned_less [of d, where ?'a = nat] by simp
  then have "checked_mul (ucast d :: u64) 100 = Some (of_nat (unat d * 100))"
    by (simp add: checked_mul_Some_iff unat_ucast_u32 unat_of_nat_small del: of_nat_mult)
  then show ?thesis
    by (rule that) (use \<open>_ < 2 ^ 64\<close> in \<open>simp add: unat_of_nat_small del: of_nat_mult\<close>)
qed

lemma lowest_terms_unique:
  fixes a b n d :: nat
  assumes "coprime a b" and "0 < b" and "a * d = n * b" and "0 < d"
  shows "n div gcd n d = a" and "d div gcd n d = b"
proof -
  from assms have "b dvd a * d" by simp
  with \<open>coprime a b\<close> have "b dvd d"
    by (simp add: coprime_commute coprime_dvd_mult_right_iff)
  then obtain k where d: "d = b * k" ..
  with assms have n: "n = a * k" by simp
  have "gcd n d = k"
    using \<open>coprime a b\<close> by (simp add: n d gcd_mult_distrib_nat [symmetric] mult.commute [of _ k])
  with n d \<open>0 < d\<close> show "n div gcd n d = a" and "d div gcd n d = b"
    by simp_all
qed

lemma backoff_multiplier_new_Inr_iff:
  "backoff_multiplier_new n d = Inr m \<longleftrightarrow>
     0 < unat d \<and> unat d \<le> unat n \<and> unat n \<le> 100 * unat d
     \<and> unat (bm_numerator m) = unat n div gcd (unat n) (unat d)
     \<and> unat (bm_denominator m) = unat d div gcd (unat n) (unat d)"
proof -
  obtain upper :: u64 where up: "checked_mul (ucast d) 100 = Some upper" "unat upper = 100 * unat d"
    by (rule u32_mul_100)
  show ?thesis
    unfolding backoff_multiplier_new_def up(1) ok_or_simps and_then_simps
    by (cases m) (auto simp: and_then_Inr_iff unat_try_from_Some_iff unat_div unat_gcd_u64 Let_def
        unat_ucast_u32 word_less_nat_alt unat_gt_0 up(2) not_less split: if_splits)
qed

text \<open>The constructor in terms of values: it accepts exactly the fractions between one and a
  hundred and returns the multiplier of the same value in lowest terms.\<close>

lemma backoff_multiplier_new_value_iff:
  "backoff_multiplier_new n d = Inr m \<longleftrightarrow>
     0 < unat d \<and> multiplier_invariant m \<and> unat (bm_numerator m) * unat d = unat n * unat (bm_denominator m)"
  (is "_ \<longleftrightarrow> ?R")
proof
  let ?g = "gcd (unat n) (unat d)"
  assume "backoff_multiplier_new n d = Inr m"
  then have *: "0 < unat d" "unat d \<le> unat n" "unat n \<le> 100 * unat d"
    "unat (bm_numerator m) = unat n div ?g" "unat (bm_denominator m) = unat d div ?g"
    by (simp_all add: backoff_multiplier_new_Inr_iff)
  then have g: "0 < ?g" by simp
  obtain a b where ab: "unat n = a * ?g" "unat d = b * ?g"
    by (metis dvd_div_mult_self gcd_dvd1 gcd_dvd2)
  then have m: "unat (bm_numerator m) = a" "unat (bm_denominator m) = b"
    using * g by (metis nonzero_mult_div_cancel_right less_numeral_extra(3))+
  have "coprime a b"
    using * m by (metis div_gcd_coprime less_numeral_extra(3))
  moreover have "0 < b" using ab *(1) by (metis gr0I mult_0 less_irrefl)
  moreover have "b \<le> a" using ab *(2) g by (metis mult_le_cancel2)
  moreover have "a * ?g \<le> (100 * b) * ?g" using ab *(3) by (metis mult.assoc)
  then have "a \<le> 100 * b" using g by (metis mult_le_cancel2)
  moreover have "a * unat d = unat n * b" using ab by (metis mult.assoc mult.commute)
  ultimately show ?R
    using m *(1) by (simp add: multiplier_invariant_def)
next
  assume R: ?R
  then have inv: "0 < unat (bm_denominator m)" "unat (bm_denominator m) \<le> unat (bm_numerator m)"
    "unat (bm_numerator m) \<le> 100 * unat (bm_denominator m)"
    "coprime (unat (bm_numerator m)) (unat (bm_denominator m))"
    and cross: "unat (bm_numerator m) * unat d = unat n * unat (bm_denominator m)" and d: "0 < unat d"
    by (simp_all add: multiplier_invariant_def)
  have "unat d * unat (bm_denominator m) \<le> unat n * unat (bm_denominator m)"
    using inv(2) by (metis cross mult.commute mult_le_mono1)
  then have "unat d \<le> unat n" using inv(1) by simp
  moreover have "unat n * unat (bm_denominator m) \<le> (100 * unat d) * unat (bm_denominator m)"
    using inv(3) by (metis cross mult.assoc mult.commute mult_le_mono1)
  then have "unat n \<le> 100 * unat d" using inv(1) by simp
  ultimately show "backoff_multiplier_new n d = Inr m"
    using lowest_terms_unique [OF inv(4,1) cross d] d by (simp add: backoff_multiplier_new_Inr_iff)
qed

subsection \<open>The parser\<close>

abbreviation fraction_digits :: "string option \<Rightarrow> string" where
  "fraction_digits f \<equiv> (case f of None \<Rightarrow> [] | Some digits \<Rightarrow> digits)"

abbreviation scaled_value :: "string \<Rightarrow> string option \<Rightarrow> nat" where
  "scaled_value w f \<equiv> digits_val w * 10 ^ length (fraction_digits f) + digits_val (fraction_digits f)"

lemma digits_no_sign_exponent:
  assumes "is_digits w" and "is_none_or is_digits f"
  shows "hd (decimal_text w f) \<noteq> CHR ''+''" "hd (decimal_text w f) \<noteq> CHR ''-''"
    "CHR ''e'' \<notin> set (decimal_text w f)" "CHR ''E'' \<notin> set (decimal_text w f)"
proof -
  have no: "\<not> is_ascii_digit CHR ''-''" "\<not> is_ascii_digit CHR ''e''" "\<not> is_ascii_digit CHR ''E''"
    by (simp_all add: is_ascii_digit_def)
  have "hd (decimal_text w f) \<in> set w"
    using assms(1) by (cases w) (auto simp: decimal_text_def is_digits_def)
  then show "hd (decimal_text w f) \<noteq> CHR ''+''" "hd (decimal_text w f) \<noteq> CHR ''-''"
    using assms(1) no(1) not_digit_plus by (auto simp: is_digits_def list_all_iff)
  have "\<forall>c \<in> set (decimal_text w f). is_ascii_digit c \<or> c = CHR ''.''"
    using assms by (auto simp: is_none_or_iff decimal_text_def is_digits_def list_all_iff split: option.splits)
  then show "CHR ''e'' \<notin> set (decimal_text w f)" "CHR ''E'' \<notin> set (decimal_text w f)"
    using no by auto
qed

lemma multiplier_from_str_decimal:
  assumes "is_digits w" and "is_none_or is_digits f"
  shows "backoff_multiplier_from_str (decimal_text w f) =
    and_then (ok_or MultiplierRange (unat_try_from (length (fraction_digits f)) :: u32 option)) (\<lambda>exponent.
    and_then (ok_or MultiplierRange (checked_pow (10 :: u64) (unat exponent))) (\<lambda>denominator.
    and_then (ok_or MultiplierRange (unat_try_from (digits_val w))) (\<lambda>whole.
    and_then (ok_or MultiplierRange (unat_try_from (digits_val (fraction_digits f)))) (\<lambda>fractional.
    and_then (ok_or MultiplierRange
      (Option.bind (checked_mul whole denominator) (\<lambda>number. checked_add number fractional))) (\<lambda>numerator.
    (let divisor = gcd_u64 numerator denominator
     in and_then (ok_or MultiplierRange (unat_try_from (unat (numerator div divisor)))) (\<lambda>n.
        and_then (ok_or MultiplierRange (unat_try_from (unat (denominator div divisor)))) (\<lambda>d.
        backoff_multiplier_new n d))))))))"
proof -
  have nonempty: "decimal_text w f \<noteq> []"
    using decimal_text_number [of w f] assms by (simp add: is_none_or_iff)
  have split: "split_on (CHR ''.'') (decimal_text w f) = w # (case f of None \<Rightarrow> [] | Some d \<Rightarrow> [d])"
    using assms by (auto simp: is_none_or_iff decimal_text_def is_digits_def split_on_digits split_on_decimal
        split: option.splits)
  have zero: "(unat_try_from 0 :: u64 option) = Some 0"
    by (simp add: unat_try_from_def)
  have no: "hd (decimal_text w f) \<noteq> CHR ''+''" "hd (decimal_text w f) \<noteq> CHR ''-''"
    "CHR ''e'' \<notin> set (decimal_text w f)" "CHR ''E'' \<notin> set (decimal_text w f)"
    using digits_no_sign_exponent [OF assms] by auto
  have w: "w \<noteq> []" "list_all is_ascii_digit w" and d: "\<And>d. f = Some d \<Longrightarrow> d \<noteq> [] \<and> list_all is_ascii_digit d"
    using assms by (auto simp: is_none_or_iff is_digits_def)
  show ?thesis
    using w d no nonempty unfolding backoff_multiplier_from_str_def split
    by (cases f) (simp_all add: parse_uint_digits zero)
qed

lemma multiplier_from_str_Inr_iff:
  assumes "is_digits w" and "is_none_or is_digits f" and len: "length (fraction_digits f) \<le> 17"
  defines "N \<equiv> scaled_value w f" and "D \<equiv> 10 ^ length (fraction_digits f)"
  shows "backoff_multiplier_from_str (decimal_text w f) = Inr m \<longleftrightarrow>
    N < 2 ^ 64 \<and> (\<exists>n d. unat n = N div gcd N D \<and> unat d = D div gcd N D \<and> backoff_multiplier_new n d = Inr m)"
proof -
  have D: "0 < D" "D < 2 ^ 64"
    using power_increasing [OF len, of "10 :: nat"] by (simp_all add: D_def)
  obtain e :: u32 where e: "unat_try_from (length (fraction_digits f)) = Some e" "unat e = length (fraction_digits f)"
    using len by (auto simp: unat_try_from_def unat_of_nat_small)
  obtain de :: u64 where de: "checked_pow 10 (unat e) = Some de" "unat de = D"
  proof
    show "unat (of_nat D :: u64) = D" by (rule unat_of_nat_small) (use D in simp)
    then show "checked_pow 10 (unat e) = Some (of_nat D :: u64)"
      by (simp add: checked_pow_Some_iff e(2) D_def)
  qed
  note eq = multiplier_from_str_decimal [OF assms(1,2)]
  have W: "digits_val w \<le> N" "digits_val (fraction_digits f) \<le> N" "digits_val w * D \<le> N"
    using D(1) by (auto simp: N_def D_def trans_le_add1)
  have "backoff_multiplier_from_str (decimal_text w f) = Inr m \<longleftrightarrow>
    (\<exists>numerator :: u64. unat numerator = N \<and> (\<exists>n d. unat n = N div gcd N D \<and> unat d = D div gcd N D
      \<and> backoff_multiplier_new n d = Inr m))" (is "_ \<longleftrightarrow> ?R")
  proof
    assume "backoff_multiplier_from_str (decimal_text w f) = Inr m"
    then show ?R
      unfolding eq e(1) and_then_simps ok_or_simps de(1)
      by (auto simp: bind_eq_Some_conv checked_Some_iffs de(2) unat_div unat_gcd_u64 N_def D_def Let_def) blast+
  next
    assume ?R
    then obtain numerator :: u64 and n d where nd: "unat numerator = N" "unat n = N div gcd N D"
      "unat d = D div gcd N D" "backoff_multiplier_new n d = Inr m"
      by blast
    then have "N < 2 ^ 64" using unsigned_less [of numerator, where ?'a = nat] by simp
    then have fits: "unat (of_nat k :: u64) = k" if "k \<le> N" for k
      using that by (intro unat_of_nat_small) simp
    have "checked_mul (of_nat (digits_val w)) de = Some (of_nat (digits_val w * D))"
      "checked_add (of_nat (digits_val w * D)) (of_nat (digits_val (fraction_digits f))) = Some numerator"
      using W nd(1) de(2) by (simp_all add: checked_Some_iffs fits N_def D_def del: of_nat_mult)
    moreover have "unat_try_from (digits_val w) = Some (of_nat (digits_val w) :: u64)"
      "unat_try_from (digits_val (fraction_digits f)) = Some (of_nat (digits_val (fraction_digits f)) :: u64)"
      using W by (simp_all add: checked_Some_iffs fits)
    moreover have "unat_try_from (unat (numerator div gcd_u64 numerator de)) = Some n"
      "unat_try_from (unat (de div gcd_u64 numerator de)) = Some d"
      using nd de(2) by (simp_all add: checked_Some_iffs unat_div unat_gcd_u64)
    ultimately show "backoff_multiplier_from_str (decimal_text w f) = Inr m"
      unfolding eq e(1) and_then_simps ok_or_simps de(1)
      using nd(4) by (simp add: Let_def del: of_nat_mult)
  qed
  moreover have "(\<exists>numerator :: u64. unat numerator = N) \<longleftrightarrow> N < 2 ^ 64"
    using ex_unat_eq [of N, where ?'a = 64] by simp
  ultimately show ?thesis by blast
qed

lemma multiplier_value_eq_iff:
  "multiplier_invariant m \<Longrightarrow> multiplier_value m = decimal_value w f \<longleftrightarrow>
    unat (bm_numerator m) * 10 ^ length (fraction_digits f) = scaled_value w f * unat (bm_denominator m)"
proof -
  define D where "D = (10 :: nat) ^ length (fraction_digits f)"
  have D: "0 < real D" by (simp add: D_def)
  assume "multiplier_invariant m"
  then have den: "0 < real (unat (bm_denominator m))"
    by (simp add: multiplier_invariant_def del: of_nat_unat)
  have "decimal_value w f = real (scaled_value w f) / real D"
    by (cases f) (simp_all add: decimal_value_def D_def add_divide_distrib)
  then have "multiplier_value m = decimal_value w f \<longleftrightarrow>
      real (unat (bm_numerator m)) * real D = real (scaled_value w f) * real (unat (bm_denominator m))"
    using den D by (simp add: multiplier_value_def frac_eq_eq del: of_nat_unat of_nat_add of_nat_mult)
  then show ?thesis
    unfolding D_def [symmetric] of_nat_mult [symmetric] of_nat_eq_iff .
qed

text \<open>the parser of backoff multipliers is exact. A decimal numeral with at most seventeen
  fractional digits is accepted with result \<open>m\<close> exactly when its mathematical value is that of
  \<open>m\<close> and \<open>m\<close> satisfies the type's invariant: value between 1 and 100, numerator and
  denominator in lowest terms and 32 bits wide. No numeral is rounded.\<close>

theorem multiplier_from_str_exact:
  assumes "is_digits w" and "is_none_or (\<lambda>d. is_digits d \<and> length d \<le> 17) f"
  shows "backoff_multiplier_from_str (decimal_text w f) = Inr m \<longleftrightarrow>
    multiplier_invariant m \<and> multiplier_value m = decimal_value w f"
proof -
  let ?D = "10 ^ length (fraction_digits f) :: nat" and ?N = "scaled_value w f"
  have digits: "is_none_or is_digits f" and len: "length (fraction_digits f) \<le> 17"
    using assms(2) by (cases f; simp)+
  note iff = multiplier_from_str_Inr_iff [OF assms(1) digits len, of m]
  show ?thesis
  proof
    assume "backoff_multiplier_from_str (decimal_text w f) = Inr m"
    then obtain n d where nd: "unat n = ?N div gcd ?N ?D" "unat d = ?D div gcd ?N ?D"
      "backoff_multiplier_new n d = Inr m"
      using iff by blast
    then have inv: "multiplier_invariant m"
      and cross: "unat (bm_numerator m) * unat d = unat n * unat (bm_denominator m)"
      by (simp_all add: backoff_multiplier_new_value_iff)
    have "unat (bm_numerator m) * (unat d * gcd ?N ?D) = (unat n * gcd ?N ?D) * unat (bm_denominator m)"
      using arg_cong [OF cross, of "\<lambda>x. x * gcd ?N ?D"] by (simp only: ac_simps)
    then have "unat (bm_numerator m) * ?D = ?N * unat (bm_denominator m)"
      unfolding nd(1,2) by (simp only: dvd_div_mult_self gcd_dvd1 gcd_dvd2)
    then show "multiplier_invariant m \<and> multiplier_value m = decimal_value w f"
      using multiplier_value_eq_iff [OF inv] inv by blast
  next
    assume *: "multiplier_invariant m \<and> multiplier_value m = decimal_value w f"
    then have inv: "0 < unat (bm_denominator m)" "coprime (unat (bm_numerator m)) (unat (bm_denominator m))"
      "unat (bm_numerator m) \<le> 100 * unat (bm_denominator m)"
      and cross: "unat (bm_numerator m) * ?D = ?N * unat (bm_denominator m)"
      using multiplier_value_eq_iff by (auto simp: multiplier_invariant_def)
    have "?N * unat (bm_denominator m) \<le> (100 * ?D) * unat (bm_denominator m)"
      unfolding cross [symmetric] using inv(3) by (metis mult.assoc mult.commute mult_le_mono1)
    then have "?N \<le> 100 * ?D" using inv(1) by simp
    also have "\<dots> \<le> 100 * 10 ^ 17" using power_increasing [OF len, of "10 :: nat"] by simp
    finally have "?N < 2 ^ 64" by simp
    moreover have "?N div gcd ?N ?D = unat (bm_numerator m)" "?D div gcd ?N ?D = unat (bm_denominator m)"
      using lowest_terms_unique [OF inv(2,1) cross] by simp_all
    moreover have "backoff_multiplier_new (bm_numerator m) (bm_denominator m) = Inr m"
      using * inv(1) by (simp add: backoff_multiplier_new_value_iff)
    ultimately show "backoff_multiplier_from_str (decimal_text w f) = Inr m"
      using iff by metis
  qed
qed

theorem multiplier_from_str_exact_witness:
  "backoff_multiplier_from_str ''2.50'' = Inr \<lparr>bm_numerator = 5, bm_denominator = 2\<rparr>"
proof -
  have "coprime (5 :: nat) 2" by code_simp
  then have "backoff_multiplier_from_str (decimal_text ''2'' (Some ''50'')) = Inr \<lparr>bm_numerator = 5, bm_denominator = 2\<rparr>"
    by (subst multiplier_from_str_exact)
      (simp_all add: is_digits_def is_ascii_digit_def multiplier_invariant_def multiplier_value_def
        decimal_value_def digits_val_def)
  then show ?thesis by (simp add: decimal_text_def)
qed


end
