(* ===== verification/Backoff.thy ===== *)
theory Backoff
  imports F64 Multiplier
begin

text \<open>
  Half-life logistic backoff of \<open>memcordon-core/src/restart.rs\<close>: the policy and its
  validation, the next-interval formula in binary64 arithmetic, and the backoff state. The
  C library's \<open>exp2\<close> is the parameter \<open>exp2\<close>; the locales \<open>exp2_library\<close> and
  \<open>exp2_monotone\<close> state what is relied on.
\<close>

datatype restart_controller_error =
  NoEffectiveCondition | InvalidConditions | InvalidBackoff | BackoffRange | BackoffTimeReversed
| InvalidCircuit | CounterRange | InvalidTransition

definition duration_millis :: "duration \<Rightarrow> restart_controller_error + u64" where
  "duration_millis d = ok_or BackoffRange (unat_try_from (as_millis d))"

record backoff_policy =
  bp_base_interval :: duration
  bp_multiplier :: backoff_multiplier
  bp_asymptote_interval :: duration
  bp_recovery_half_life :: duration

definition backoff_policy_default :: backoff_policy where
  "backoff_policy_default =
     \<lparr>bp_base_interval = from_millis 250,
      bp_multiplier = \<lparr>bm_numerator = 4, bm_denominator = 1\<rparr>,
      bp_asymptote_interval = from_secs 900,
      bp_recovery_half_life = from_secs 900\<rparr>"

definition decay_factor :: "(f64 \<Rightarrow> f64) \<Rightarrow> u64 \<Rightarrow> u64 \<Rightarrow> f64" where
  "decay_factor exp2 elapsed half_life =
     exp2 (f64_neg (f64_div (f64_of_word elapsed) (f64_of_word half_life)))"

definition recovered_interval :: "(f64 \<Rightarrow> f64) \<Rightarrow> u64 \<Rightarrow> u64 \<Rightarrow> u64 \<Rightarrow> u64 \<Rightarrow> f64" where
  "recovered_interval exp2 base_interval current_interval half_life elapsed =
     (let interval_delta = int (unat current_interval) - int (unat base_interval)
      in f64_add (f64_of_word base_interval)
           (f64_mul (f64_of_int interval_delta) (decay_factor exp2 elapsed half_life)))"

definition half_life_logistic_next_millis ::
  "(f64 \<Rightarrow> f64) \<Rightarrow> u64 \<Rightarrow> u64 \<Rightarrow> u64 \<Rightarrow> backoff_multiplier \<Rightarrow> u64 \<Rightarrow> u64 \<Rightarrow> restart_controller_error + u64" where
  "half_life_logistic_next_millis exp2 base_interval current_interval asymptote_interval m
       recovery_half_life elapsed_since_last_backoff =
     (if base_interval = 0 \<or> asymptote_interval = 0 \<or> recovery_half_life = 0 then Inl InvalidBackoff
      else (let recovered = recovered_interval exp2 base_interval current_interval recovery_half_life
                  elapsed_since_last_backoff;
                normalized_recovered = f64_div recovered (f64_of_word asymptote_interval);
                multiplier = f64_div (f64_of_word (bm_numerator m)) (f64_of_word (bm_denominator m));
                normalized_denominator =
                  f64_add (f64_recip normalized_recovered) (f64_sub multiplier (Fin 1));
                normalized_next = f64_div multiplier normalized_denominator;
                next_interval = f64_ceil (f64_mul (f64_of_word asymptote_interval) normalized_next)
            in Inr (f64_as_u64 next_interval)))"

definition backoff_policy_validate :: "(f64 \<Rightarrow> f64) \<Rightarrow> backoff_policy \<Rightarrow> restart_controller_error + unit" where
  "backoff_policy_validate exp2 p =
     and_then (duration_millis (bp_base_interval p)) (\<lambda>base_interval.
     and_then (duration_millis (bp_asymptote_interval p)) (\<lambda>asymptote_interval.
     and_then (duration_millis (bp_recovery_half_life p)) (\<lambda>recovery_half_life.
     if base_interval = 0 \<or> asymptote_interval = 0 \<or> recovery_half_life = 0 then Inl InvalidBackoff
     else and_then (half_life_logistic_next_millis exp2 base_interval base_interval asymptote_interval
            (bp_multiplier p) recovery_half_life 0) (\<lambda>_. Inr ()))))"

definition backoff_policy_new ::
  "(f64 \<Rightarrow> f64) \<Rightarrow> duration \<Rightarrow> backoff_multiplier \<Rightarrow> duration \<Rightarrow> duration \<Rightarrow> restart_controller_error + backoff_policy" where
  "backoff_policy_new exp2 base_interval m asymptote_interval recovery_half_life =
     (let value = \<lparr>bp_base_interval = base_interval, bp_multiplier = m,
                   bp_asymptote_interval = asymptote_interval, bp_recovery_half_life = recovery_half_life\<rparr>
      in and_then (backoff_policy_validate exp2 value) (\<lambda>_. Inr value))"

record backoff_policy_wire =
  bw_base_interval_ms :: u64
  bw_multiplier :: backoff_multiplier
  bw_asymptote_interval_ms :: u64
  bw_recovery_half_life_ms :: u64

definition backoff_policy_serialize :: "backoff_policy \<Rightarrow> restart_controller_error + backoff_policy_wire" where
  "backoff_policy_serialize p =
     and_then (duration_millis (bp_base_interval p)) (\<lambda>b.
     and_then (duration_millis (bp_asymptote_interval p)) (\<lambda>a.
     and_then (duration_millis (bp_recovery_half_life p)) (\<lambda>h.
     Inr \<lparr>bw_base_interval_ms = b, bw_multiplier = bp_multiplier p,
          bw_asymptote_interval_ms = a, bw_recovery_half_life_ms = h\<rparr>)))"

text \<open>The error of the wire form: a malformed multiplier or an invalid policy.\<close>

definition backoff_policy_deserialize ::
  "(f64 \<Rightarrow> f64) \<Rightarrow> backoff_policy_wire \<Rightarrow> (multiplier_parse_error + restart_controller_error) + backoff_policy" where
  "backoff_policy_deserialize exp2 wire =
     (case backoff_multiplier_deserialize (bw_multiplier wire) of
        Inl e \<Rightarrow> Inl (Inl e)
      | Inr m \<Rightarrow> map_sum Inr id (backoff_policy_new exp2 (from_millis (bw_base_interval_ms wire)) m
          (from_millis (bw_asymptote_interval_ms wire)) (from_millis (bw_recovery_half_life_ms wire))))"

record backoff_state =
  bs_policy :: backoff_policy
  bs_current_interval :: duration
  bs_last_backoff_at :: "duration option"

definition backoff_state_new :: "(f64 \<Rightarrow> f64) \<Rightarrow> backoff_policy \<Rightarrow> restart_controller_error + backoff_state" where
  "backoff_state_new exp2 p =
     and_then (backoff_policy_validate exp2 p) (\<lambda>_.
     Inr \<lparr>bs_policy = p, bs_current_interval = bp_base_interval p, bs_last_backoff_at = None\<rparr>)"

definition effective_interval :: "(f64 \<Rightarrow> f64) \<Rightarrow> backoff_state \<Rightarrow> duration \<Rightarrow> restart_controller_error + duration" where
  "effective_interval exp2 s now =
     (case bs_last_backoff_at s of
        None \<Rightarrow> Inr (bp_base_interval (bs_policy s))
      | Some last_backoff_at \<Rightarrow>
          and_then (ok_or BackoffTimeReversed (duration_checked_sub now last_backoff_at)) (\<lambda>elapsed.
          and_then (duration_millis (bp_base_interval (bs_policy s))) (\<lambda>base_interval.
          and_then (duration_millis (bs_current_interval s)) (\<lambda>current_interval.
          and_then (duration_millis (bp_recovery_half_life (bs_policy s))) (\<lambda>recovery_half_life.
          and_then (duration_millis elapsed) (\<lambda>elapsed_ms.
          Inr (from_millis (f64_as_u64 (f64_ceil
            (recovered_interval exp2 base_interval current_interval recovery_half_life elapsed_ms))))))))))"

text \<open>The mutating method returns the state and the result; the state is changed only on
  success, at the end.\<close>

definition on_backoff :: "(f64 \<Rightarrow> f64) \<Rightarrow> backoff_state \<Rightarrow> duration \<Rightarrow> backoff_state \<times> (restart_controller_error + duration)" where
  "on_backoff exp2 s now =
     (case
        and_then (case bs_last_backoff_at s of
            Some last_backoff_at \<Rightarrow> ok_or BackoffTimeReversed (duration_checked_sub now last_backoff_at)
          | None \<Rightarrow> Inr 0) (\<lambda>elapsed.
        and_then (duration_millis (bp_base_interval (bs_policy s))) (\<lambda>base_interval.
        and_then (duration_millis (bs_current_interval s)) (\<lambda>current_interval.
        and_then (duration_millis (bp_asymptote_interval (bs_policy s))) (\<lambda>asymptote_interval.
        and_then (duration_millis (bp_recovery_half_life (bs_policy s))) (\<lambda>recovery_half_life.
        and_then (duration_millis elapsed) (\<lambda>elapsed_ms.
        half_life_logistic_next_millis exp2 base_interval current_interval asymptote_interval
          (bp_multiplier (bs_policy s)) recovery_half_life elapsed_ms))))))
      of Inl e \<Rightarrow> (s, Inl e)
       | Inr next_interval \<Rightarrow>
           (s\<lparr>bs_current_interval := from_millis next_interval, bs_last_backoff_at := Some now\<rparr>,
            Inr (from_millis next_interval)))"

subsection \<open>Validation\<close>

lemma duration_millis_Inr_iff: "duration_millis d = Inr ms \<longleftrightarrow> unat ms = as_millis d"
  by (simp add: duration_millis_def unat_try_from_Some_iff)

lemma duration_millis_from_millis [simp]: "duration_millis (from_millis ms) = Inr ms"
  by (simp add: duration_millis_Inr_iff)

lemma next_millis_total:
  "b \<noteq> 0 \<Longrightarrow> a \<noteq> 0 \<Longrightarrow> h \<noteq> 0 \<Longrightarrow> \<exists>n. half_life_logistic_next_millis exp2 b c a m h e = Inr n"
  by (simp add: half_life_logistic_next_millis_def Let_def)

text \<open>Whole milliseconds of a duration that fit the 64-bit millisecond counts, and are not
  zero.\<close>

definition proper_millis :: "duration \<Rightarrow> bool" where
  "proper_millis d \<longleftrightarrow> 0 < as_millis d \<and> as_millis d < 2 ^ 64"

lemma proper_millis_iff: "proper_millis d \<longleftrightarrow> (\<exists>ms. duration_millis d = Inr ms \<and> ms \<noteq> 0)"
proof -
  have "(\<exists>ms :: u64. unat ms = as_millis d \<and> ms \<noteq> 0) \<longleftrightarrow> proper_millis d"
    using ex_unat_eq [of "as_millis d", where ?'a = 64]
    by (auto simp: proper_millis_def unat_gt_0 dest: sym) 
  then show ?thesis by (auto simp: duration_millis_Inr_iff)
qed

lemma backoff_policy_validate_iff:
  "backoff_policy_validate exp2 p = Inr () \<longleftrightarrow>
     proper_millis (bp_base_interval p) \<and> proper_millis (bp_asymptote_interval p)
     \<and> proper_millis (bp_recovery_half_life p)"
proof
  assume "backoff_policy_validate exp2 p = Inr ()"
  then show "proper_millis (bp_base_interval p) \<and> proper_millis (bp_asymptote_interval p)
     \<and> proper_millis (bp_recovery_half_life p)"
    by (auto simp: backoff_policy_validate_def proper_millis_iff split: if_splits)
next
  assume "proper_millis (bp_base_interval p) \<and> proper_millis (bp_asymptote_interval p)
     \<and> proper_millis (bp_recovery_half_life p)"
  then obtain b a h where
    "duration_millis (bp_base_interval p) = Inr b" "b \<noteq> 0"
    "duration_millis (bp_asymptote_interval p) = Inr a" "a \<noteq> 0"
    "duration_millis (bp_recovery_half_life p) = Inr h" "h \<noteq> 0"
    by (auto simp: proper_millis_iff)
  then show "backoff_policy_validate exp2 p = Inr ()"
    using next_millis_total [of b a h exp2 b "bp_multiplier p" 0]
    by (auto simp: backoff_policy_validate_def)
qed

declare of_nat_unat [simp del]

subsection \<open>The formula over rounded reals\<close>

text \<open>The same computation on real numbers, with \<open>fl\<close> for each rounding.\<close>

definition recovered_real :: "real \<Rightarrow> real \<Rightarrow> real \<Rightarrow> real" where
  "recovered_real B C d = fl (B + fl ((C - B) * d))"

definition logistic_real :: "real \<Rightarrow> real \<Rightarrow> real \<Rightarrow> real" where
  "logistic_real A M r = fl (A * fl (M / fl (fl (1 / fl (r / A)) + (M - 1))))"

lemma fl_idem: "0 \<le> x \<Longrightarrow> in_range x \<Longrightarrow> fl (fl x) = fl x"
  by (metis fl_representation fl_exact)

lemma in_rangeI: "0 \<le> x \<Longrightarrow> x \<le> 2 ^ 54 \<Longrightarrow> in_range x"
  using power_increasing [of 54 200 "2 :: real"] by simp

lemma in_range_unit: "0 \<le> x \<Longrightarrow> x \<le> 1 \<Longrightarrow> in_range x"
  by (rule in_rangeI) simp_all

lemma recovered_real_bounds:
  fixes b c :: nat
  assumes "b < 2 ^ 53" and "c < 2 ^ 53" and d: "0 \<le> d" "d \<le> 1"
  shows "real (min b c) \<le> recovered_real (real b) (real c) d"
    and "recovered_real (real b) (real c) d \<le> real (max b c)"
    and "in_range ((real c - real b) * d)"
    and "in_range (real b + fl ((real c - real b) * d))"
proof -
  define D where "D = real_of_int (int c - int b)"
  have D: "real c - real b = D" by (simp add: D_def)
  have flD: "fl D = D" using assms unfolding D_def by (intro fl_int) simp
  have absD: "\<bar>D\<bar> \<le> 2 ^ 53" using assms by (simp add: D_def)
  have "\<bar>D * d\<bar> \<le> \<bar>D\<bar>" using d by (simp add: abs_mult mult_left_le)
  then have r1: "in_range (D * d)" and rD: "in_range D" using absD by simp_all
  have p: "min 0 D \<le> fl (D * d) \<and> fl (D * d) \<le> max 0 D"
  proof (cases "0 \<le> D")
    case True
    then have "0 \<le> D * d" "D * d \<le> D" using d by (simp_all add: mult_left_le)
    then show ?thesis
      using True fl_mono [of 0 "D * d"] fl_mono [of "D * d" D] r1 rD flD by simp
  next
    case False
    then have "D * d \<le> 0" "D \<le> D * d" using d
      by (simp_all add: mult_nonpos_nonneg mult_le_cancel_left1)
    then show ?thesis
      using False fl_mono [of "D * d" 0] fl_mono [of D "D * d"] r1 rD flD by simp
  qed
  have lo: "real (min b c) \<le> real b + fl (D * d)" and hi: "real b + fl (D * d) \<le> real (max b c)"
    using p D by (auto simp: min_def max_def split: if_splits)
  have nonneg: "0 \<le> real (min b c)" by simp
  have top: "real (max b c) \<le> 2 ^ 53" using assms by simp
  have "real b + fl (D * d) \<le> 2 ^ 54" by (rule order_trans [OF hi], rule order_trans [OF top]) simp
  then have r2: "in_range (real b + fl (D * d))" using order_trans [OF nonneg lo] by (intro in_rangeI)
  then show "in_range (real b + fl ((real c - real b) * d))" and "in_range ((real c - real b) * d)"
    using r1 by (simp_all only: D)
  have "fl (real (min b c)) \<le> fl (real b + fl (D * d))" "fl (real b + fl (D * d)) \<le> fl (real (max b c))"
    using lo hi r2 nonneg top by (auto intro!: fl_mono simp: min_def max_def)
  then show "real (min b c) \<le> recovered_real (real b) (real c) d"
    and "recovered_real (real b) (real c) d \<le> real (max b c)"
    unfolding recovered_real_def D using assms by (simp_all add: fl_nat del: of_nat_min of_nat_max)
qed

lemma recovered_real_mono:
  fixes b c c' :: nat
  assumes "b < 2 ^ 53" and "c' < 2 ^ 53" and d: "0 \<le> d" "d \<le> 1" and "c \<le> c'"
  shows "recovered_real (real b) (real c) d \<le> recovered_real (real b) (real c') d"
proof -
  have c: "c < 2 ^ 53" using assms by simp
  note r = recovered_real_bounds [OF assms(1) c d] recovered_real_bounds [OF assms(1,2) d]
  have "(real c - real b) * d \<le> (real c' - real b) * d"
    using assms by (intro mult_right_mono) auto
  then have "fl ((real c - real b) * d) \<le> fl ((real c' - real b) * d)"
    using r(3,7) by (rule fl_mono)
  then show ?thesis
    unfolding recovered_real_def using r(4,8) by (intro fl_mono) auto
qed

lemma recovered_real_decay_mono:
  fixes b c :: nat
  assumes "b < 2 ^ 53" and "c < 2 ^ 53" and "b \<le> c" and d: "0 \<le> d" "d \<le> d'" "d' \<le> 1"
  shows "recovered_real (real b) (real c) d \<le> recovered_real (real b) (real c) d'"
proof -
  have dd: "d \<le> 1" "0 \<le> d'" using d by auto
  note r = recovered_real_bounds [OF assms(1,2) d(1) dd(1)] recovered_real_bounds [OF assms(1,2) dd(2) d(3)]
  have "(real c - real b) * d \<le> (real c - real b) * d'"
    using assms by (intro mult_left_mono) auto
  then have "fl ((real c - real b) * d) \<le> fl ((real c - real b) * d')"
    using r(3,7) by (rule fl_mono)
  then show ?thesis
    unfolding recovered_real_def using r(4,8) by (intro fl_mono) auto
qed

text \<open>Ranges of the intermediate values of the logistic step: \<open>r\<close> is the recovered interval,
  \<open>M\<close> the rounded multiplier.\<close>

lemma logistic_stages:
  fixes a :: nat
  assumes a: "0 < a" "a < 2 ^ 53" and r: "1 \<le> r" "r \<le> real a" and y: "1 \<le> y" "y \<le> 100"
  defines "A \<equiv> real a" and "M \<equiv> fl y"
  shows "1 \<le> M" and "M \<le> 100" and "fl M = M" and "fl (M - 1) = M - 1"
    and "1 / 2 ^ 53 \<le> r / A" and "r / A \<le> 1"
    and "1 / 2 ^ 53 \<le> fl (r / A)" and "fl (r / A) \<le> 1"
    and "1 \<le> fl (1 / fl (r / A))" and "fl (1 / fl (r / A)) \<le> 2 ^ 53"
    and "M \<le> fl (fl (1 / fl (r / A)) + (M - 1))" and "fl (fl (1 / fl (r / A)) + (M - 1)) \<le> 2 ^ 54"
    and "1 / 2 ^ 54 \<le> fl (M / fl (fl (1 / fl (r / A)) + (M - 1)))"
    and "fl (M / fl (fl (1 / fl (r / A)) + (M - 1))) \<le> 1"
    and "1 / 2 ^ 54 \<le> logistic_real A M r" and "logistic_real A M r \<le> A"
proof -
  let ?r = "fl (r / A)"
  let ?q = "fl (1 / ?r)"
  let ?D = "fl (?q + (M - 1))"
  have A: "1 \<le> A" "A \<le> 2 ^ 53" using a by (simp_all add: A_def)
  have M: "1 \<le> M" "M \<le> 100" "fl M = M" "fl (M - 1) = M - 1"
    using y fl_mono [of 1 y] fl_mono [of y 100] fl_nat [of 100] fl_idem [of y] fl_minus_one_exact [of y]
    by (simp_all add: M_def)
  then show "1 \<le> M" "M \<le> 100" "fl M = M" "fl (M - 1) = M - 1" .
  have "1 / 2 ^ 53 \<le> 1 / A" using A by (intro divide_left_mono) auto
  also have "\<dots> \<le> r / A" using A r by (simp add: divide_right_mono)
  finally show r0: "1 / 2 ^ 53 \<le> r / A" .
  show r1: "r / A \<le> 1" using r A by (simp add: A_def)
  have rr: "in_range (r / A)" using r0 r1 by (intro in_rangeI) (simp_all add: order_trans [of 0 "1 / 2 ^ 53"])
  show fr0: "1 / 2 ^ 53 \<le> ?r" using fl_mono [OF r0 _ rr] fl_half_power [of 53] by simp
  show fr1: "?r \<le> 1" using fl_mono [OF r1 rr] by simp
  have fr: "0 < ?r" using fr0 by (rule less_le_trans [rotated]) simp
  have q: "1 \<le> 1 / ?r" "1 / ?r \<le> 2 ^ 53" using fr fr0 fr1 by (simp_all add: field_simps)
  then have qr: "in_range (1 / ?r)" using fr by (intro in_rangeI) simp_all
  show q0: "1 \<le> ?q" using fl_mono [OF q(1) _ qr] by simp
  show q1: "?q \<le> 2 ^ 53" using fl_mono [OF q(2) qr] fl_nat [of "2 ^ 53"] by simp
  have d: "M \<le> ?q + (M - 1)" "?q + (M - 1) \<le> 2 ^ 53 + 100" using q0 q1 M by simp_all
  then have dr: "in_range (?q + (M - 1))" using M by (intro in_rangeI) simp_all
  show D0: "M \<le> ?D" using fl_mono [OF d(1) _ dr] M by simp
  have "?q + (M - 1) \<le> 2 ^ 54" using d by simp
  then have "?D \<le> fl (2 ^ 54)" using dr by (rule fl_mono) simp
  moreover have "fl (2 ^ 54) = 2 ^ 54" using fl_exact [of 1 "1074 + 54"] by (simp add: units_per_one_def power_add)
  ultimately show D1: "?D \<le> 2 ^ 54" by simp
  have "1 / 2 ^ 54 \<le> M / ?D"
    using D0 D1 M by (intro frac_le) auto
  moreover have n1: "M / ?D \<le> 1" using D0 M by (simp add: divide_le_eq)
  moreover have nr: "in_range (M / ?D)" by (rule in_range_unit [OF _ n1]) (use M D0 in simp)
  ultimately show n0: "1 / 2 ^ 54 \<le> fl (M / ?D)" and nn: "fl (M / ?D) \<le> 1"
    using fl_mono [of "1 / 2 ^ 54" "M / ?D"] fl_mono [of "M / ?D" 1] fl_half_power [of 54] by simp_all
  have p0: "1 / 2 ^ 54 \<le> A * fl (M / ?D)"
    using mult_mono [OF A(1) n0] A by simp
  have p1: "A * fl (M / ?D) \<le> A" using nn A by (simp add: mult_left_le)
  have "0 \<le> A * fl (M / ?D)" using p0 by (rule order_trans [rotated]) simp
  moreover have "A * fl (M / ?D) \<le> 2 ^ 54" using order_trans [OF p1 A(2)] by (rule order_trans) simp
  ultimately have pr: "in_range (A * fl (M / ?D))" by (rule in_rangeI)
  show "1 / 2 ^ 54 \<le> logistic_real A M r"
    unfolding logistic_real_def using fl_mono [OF p0 _ pr] fl_half_power [of 54] by simp
  show "logistic_real A M r \<le> A"
    unfolding logistic_real_def using fl_mono [OF p1 pr] fl_nat [of a] a A by (simp add: A_def)
qed

lemma logistic_real_mono:
  fixes a :: nat
  assumes a: "0 < a" "a < 2 ^ 53" and r: "1 \<le> r" "r \<le> r'" "r' \<le> real a" and y: "1 \<le> y" "y \<le> 100"
  shows "logistic_real (real a) (fl y) r \<le> logistic_real (real a) (fl y) r'"
proof -
  have r2: "r \<le> real a" "1 \<le> r'" using r by auto
  note s = logistic_stages [OF a r(1) r2(1) y] and s' = logistic_stages [OF a r2(2) r(3) y]
  let ?A = "real a" and ?M = "fl y"
  have A: "0 < ?A" "?A \<le> 2 ^ 54" using a by auto
  have pos: "0 < fl (r / ?A)" "0 < fl (r' / ?A)"
    using s(7) s'(7) by (auto intro: less_le_trans [rotated])
  have range1: "in_range (1 / fl (r / ?A))"
    using s(7) pos by (intro in_rangeI) (simp_all add: field_simps)
  have "r / ?A \<le> r' / ?A" using r A by (simp add: divide_right_mono)
  then have "fl (r / ?A) \<le> fl (r' / ?A)"
    using r A by (intro fl_mono_pos in_range_unit) auto
  then have "1 / fl (r' / ?A) \<le> 1 / fl (r / ?A)"
    using pos by (simp add: frac_le)
  then have q: "fl (1 / fl (r' / ?A)) \<le> fl (1 / fl (r / ?A))"
    using range1 pos by (intro fl_mono_pos) auto
  have D: "fl (fl (1 / fl (r' / ?A)) + (?M - 1)) \<le> fl (fl (1 / fl (r / ?A)) + (?M - 1))"
    using q s(1,2,9,10) s'(9) by (intro fl_mono_pos in_rangeI) auto
  have Dpos: "0 < fl (fl (1 / fl (r / ?A)) + (?M - 1))" "0 < fl (fl (1 / fl (r' / ?A)) + (?M - 1))"
    using s(1,11) s'(11) by linarith+
  have N: "?M / fl (fl (1 / fl (r / ?A)) + (?M - 1)) \<le> ?M / fl (fl (1 / fl (r' / ?A)) + (?M - 1))"
    using D Dpos s(1) by (intro divide_left_mono) auto
  moreover have "?M / fl (fl (1 / fl (r' / ?A)) + (?M - 1)) \<le> 1"
    using s'(11) Dpos by (simp add: divide_le_eq)
  ultimately have "fl (?M / fl (fl (1 / fl (r / ?A)) + (?M - 1))) \<le> fl (?M / fl (fl (1 / fl (r' / ?A)) + (?M - 1)))"
    using s(1) Dpos by (intro fl_mono_pos in_range_unit) auto
  then have P: "?A * fl (?M / fl (fl (1 / fl (r / ?A)) + (?M - 1))) \<le> ?A * fl (?M / fl (fl (1 / fl (r' / ?A)) + (?M - 1)))"
    using A by (intro mult_left_mono) auto
  have "0 \<le> fl (?M / fl (fl (1 / fl (r / ?A)) + (?M - 1)))" using s(13) by (rule order_trans [rotated]) simp
  moreover have "?A * fl (?M / fl (fl (1 / fl (r' / ?A)) + (?M - 1))) \<le> 2 ^ 54"
    using s'(14) A by (intro order_trans [OF mult_left_le]) auto
  ultimately show ?thesis
    unfolding logistic_real_def using P A by (intro fl_mono_pos in_rangeI) (auto intro: order_trans)
qed

lemma logistic_real_fixpoint:
  assumes "0 < a" "a < 2 ^ 53" and "1 \<le> y" "y \<le> 100"
  shows "logistic_real (real a) (fl y) (real a) = real a"
proof -
  note s = logistic_stages [OF assms(1,2) _ order_refl assms(3,4)]
  show ?thesis
    using assms s(1,3) by (simp add: logistic_real_def fl_nat)
qed

lemma error_factor:
  fixes u :: real
  assumes "0 < u" "u < 1"
  shows "1 - 5 * u \<le> (1 - u) ^ 3 / (1 + u) ^ 2"
proof -
  have "(1 - 5 * u) * (1 + u) ^ 2 \<le> (1 - u) ^ 3"
  proof -
    have "(1 - u) ^ 3 - (1 - 5 * u) * (1 + u) ^ 2 = u\<^sup>2 * (12 + 4 * u)"
      by (simp add: power2_eq_square power3_eq_cube algebra_simps)
    then show ?thesis using assms by (metis add_nonneg_nonneg diff_ge_0_iff_ge less_imp_le mult_nonneg_nonneg zero_le_numeral zero_le_power2)
  qed
  then show ?thesis using assms by (simp add: pos_le_divide_eq)
qed

lemma growth_arith:
  fixes A C M u r q D n P :: real
  assumes u: "0 < u" "u < 1" and AC: "1 \<le> C" "C \<le> A" and M: "1 \<le> M"
    and r: "(C / A) * (1 - u) \<le> r" and q: "q \<le> (1 / r) * (1 + u)"
    and D: "D \<le> (q + (M - 1)) * (1 + u)" "0 < D"
    and n: "(M / D) * (1 - u) \<le> n" and P: "(A * n) * (1 - u) \<le> P"
  shows "C * (1 - 5 * u) \<le> P"
proof -
  define K L S where "K = 1 - u" "L = 1 + u" "S = A / C + (M - 1)"
  note KLS = this
  have pos: "0 < K" "0 < L" "0 < S" "1 \<le> L / K" "0 < A" "0 < C"
    using u AC M by (simp_all add: KLS add_pos_nonneg)
  have lb: "0 < (C / A) * K" "(C / A) * K \<le> r" using pos r by (simp_all add: KLS)
  moreover have "0 < r" using lb by (rule less_le_trans)
  ultimately have "1 / r \<le> 1 / ((C / A) * K)"
    by (intro divide_left_mono mult_pos_pos [of r]) auto
  then have "(1 / r) * L \<le> (A / C) / K * L"
    using pos by (intro mult_right_mono) auto
  then have "q \<le> (A / C) * (L / K)"
    using q by (simp add: KLS)
  moreover have "M - 1 \<le> (M - 1) * (L / K)"
    using mult_left_mono [OF pos(4), of "M - 1"] M by simp
  ultimately have "q + (M - 1) \<le> S * (L / K)"
    unfolding KLS(3) by (simp only: distrib_right)
  then have "(q + (M - 1)) * L \<le> S * (L / K) * L"
    using pos by (intro mult_right_mono) auto
  then have D': "D \<le> S * (L / K) * L"
    using D(1) by (simp add: KLS)
  have "(M / S) * (K / L\<^sup>2) = M / (S * (L / K) * L)"
    using pos by (simp add: field_simps power2_eq_square)
  also have "\<dots> \<le> M / D"
    using D' D(2) M pos by (intro divide_left_mono) auto
  finally have "(M / S) * (K / L\<^sup>2) * K \<le> (M / D) * K"
    using pos by (intro mult_right_mono) auto
  then have "A * ((M / S) * (K / L\<^sup>2) * K) * K \<le> (A * n) * K"
    using n pos by (intro mult_right_mono mult_left_mono) (auto simp: KLS)
  then have "(A * M / S) * (K ^ 3 / L\<^sup>2) \<le> P"
    using P pos by (simp add: KLS power3_eq_cube power2_eq_square field_simps)
  moreover have "C * S \<le> A * M"
  proof -
    have "0 \<le> (A - C) * (M - 1)" using AC M by simp
    then show ?thesis using pos by (simp add: KLS algebra_simps)
  qed
  then have "C * (K ^ 3 / L\<^sup>2) \<le> (A * M / S) * (K ^ 3 / L\<^sup>2)"
    using pos by (intro mult_right_mono) (auto simp: pos_le_divide_eq)
  moreover have "C * (1 - 5 * u) \<le> C * (K ^ 3 / L\<^sup>2)"
    using error_factor [OF u] pos by (intro mult_left_mono) (auto simp: KLS)
  ultimately show ?thesis by linarith
qed

lemma logistic_real_growth:
  fixes a c :: nat
  assumes c: "1 \<le> c" "c \<le> a" and a: "a < 2 ^ 50" and y: "1 \<le> y" "y \<le> 100"
  shows "real c - 1 < logistic_real (real a) (fl y) (real c)"
proof -
  define A M C u where "A = real a" "M = fl y" "C = real c" "u = 1 / (2 :: real) ^ 53"
  note defs = this
  have u: "0 < u" "u < 1" by (simp_all add: defs)
  have AC: "1 \<le> C" "C \<le> A" "A < 2 ^ 50" using c a by (simp_all add: defs)
  have a0: "0 < a" "a < 2 ^ 53" using c a by simp_all
  note s = logistic_stages [of a "C" y, folded defs(1,2)]
  have s': "1 \<le> M" "1 / 2 ^ 53 \<le> C / A" "C / A \<le> 1" "1 / 2 ^ 53 \<le> fl (C / A)" "fl (C / A) \<le> 1"
    "1 \<le> fl (1 / fl (C / A))" "fl (1 / fl (C / A)) \<le> 2 ^ 53" "M \<le> 100"
    "M \<le> fl (fl (1 / fl (C / A)) + (M - 1))" "fl (fl (1 / fl (C / A)) + (M - 1)) \<le> 2 ^ 54"
    "1 / 2 ^ 54 \<le> fl (M / fl (fl (1 / fl (C / A)) + (M - 1)))"
    "fl (M / fl (fl (1 / fl (C / A)) + (M - 1))) \<le> 1"
    using s AC a0 y by simp_all
  define r q D n where "r = fl (C / A)" "q = fl (1 / r)" "D = fl (q + (M - 1))" "n = fl (M / D)"
  note stages = this
  have low: "1 / 2 ^ 200 \<le> x" if "1 / 2 ^ 54 \<le> x" for x :: real
    using that by (rule order_trans [rotated]) (simp add: field_simps)
  have low53: "1 / 2 ^ 200 \<le> x" if "1 / 2 ^ 53 \<le> x" for x :: real
    using that by (intro low) (rule order_trans [rotated], assumption, simp add: field_simps)
  have low1: "1 / 2 ^ 200 \<le> x" if "1 \<le> x" for x :: real
    using that by (intro low) (rule order_trans [rotated], assumption, simp)
  have r0: "0 < r" using s'(4) unfolding stages(1) by (rule less_le_trans [rotated]) simp
  have r: "(C / A) * (1 - u) \<le> r"
    unfolding stages(1) defs(4) using s'(2,3) AC
    by (intro fl_lower low53 in_range_unit) auto
  have rinv: "1 \<le> 1 / r" "1 / r \<le> 2 ^ 53"
    using s'(4,5) r0 by (simp_all add: stages(1) field_simps)
  then have q: "q \<le> (1 / r) * (1 + u)"
    unfolding stages(2) defs(4) using r0 by (intro fl_upper low1 in_rangeI) auto
  have qs: "1 \<le> q" "q \<le> 2 ^ 53" using s'(6,7) by (simp_all add: stages)
  have D: "D \<le> (q + (M - 1)) * (1 + u)"
    unfolding stages(3) defs(4) using qs s'(1,8) by (intro fl_upper low1 in_rangeI) auto
  have D0: "M \<le> D" "D \<le> 2 ^ 54" using s'(9,10) by (simp_all add: stages)
  have "1 / 2 ^ 54 \<le> M / D" "M / D \<le> 1" "0 < D"
    using D0 s'(1) frac_le [of M 1 D "2 ^ 54"] by (simp_all add: divide_le_eq)
  then have n: "(M / D) * (1 - u) \<le> n"
    unfolding stages(4) defs(4) using s'(1) by (intro fl_lower low in_range_unit) auto
  have ns: "1 / 2 ^ 54 \<le> n" "n \<le> 1" using s'(11,12) by (simp_all only: stages)
  have "1 / 2 ^ 54 \<le> A * n" using mult_mono [of 1 A "1 / 2 ^ 54" n] ns AC by simp
  moreover have "A * n \<le> 2 ^ 54" using mult_mono [of A "2 ^ 54" n 1] ns AC by simp
  moreover have "0 \<le> A * n" using calculation(1) by (rule order_trans [rotated]) simp
  ultimately have "(A * n) * (1 - u) \<le> fl (A * n)"
    unfolding defs(4) by (intro fl_lower low in_rangeI)
  then have "C * (1 - 5 * u) \<le> fl (A * n)"
    using growth_arith [OF u AC(1,2) s'(1) r q D \<open>0 < D\<close> n] by blast
  moreover have "C * (5 * u) < 1" using AC by (simp add: defs(4))
  moreover have "C * (1 - 5 * u) = C - C * (5 * u)" by (simp add: algebra_simps)
  moreover have "fl (A * n) = logistic_real A M C" by (simp add: logistic_real_def stages)
  ultimately show ?thesis unfolding defs(1,2,3) by linarith
qed

subsection \<open>The formula computes the rounded reals\<close>

lemma f64_of_word_u64: "f64_of_word (w :: u64) = Fin (fl (real (unat w)))"
proof -
  have "real (unat w) < real (2 ^ 64)"
    using unsigned_less [of w, where ?'a = nat] unfolding of_nat_less_iff by simp
  then have "in_range (real (unat w))"
    using power_increasing [of 64 200 "2 :: real"] by simp
  then show ?thesis by (simp add: f64_of_word_def f64_of_int_def)
qed

lemma f64_of_word_exact: "unat w \<le> 2 ^ 53 \<Longrightarrow> f64_of_word w = Fin (real (unat w))"
proof -
  assume *: "unat w \<le> 2 ^ 53"
  then have "in_range (real (unat w))"
    by (intro in_rangeI) simp_all
  with * show ?thesis by (simp add: f64_of_word_def f64_of_int_def fl_nat)
qed

lemma f64_of_word_u32: "f64_of_word (w :: u32) = Fin (real (unat w))"
  using unsigned_less [of w, where ?'a = nat] by (intro f64_of_word_exact) simp

lemma fl_u64_bounds:
  fixes w :: u64
  shows "fl (real (unat w)) \<le> 2 ^ 64" and "w \<noteq> 0 \<Longrightarrow> 1 \<le> fl (real (unat w))"
proof -
  have "real (unat w) \<le> real (2 ^ 64)"
    using unsigned_less [of w, where ?'a = nat] unfolding of_nat_le_iff by simp
  then have le: "real (unat w) \<le> 2 ^ 64" by simp
  then have rng: "in_range (real (unat w))"
    using power_increasing [of 64 200 "2 :: real"] by simp
  have "fl (2 ^ 64) = 2 ^ 64" using fl_exact [of 1 "1074 + 64"] by (simp add: units_per_one_def power_add)
  then show "fl (real (unat w)) \<le> 2 ^ 64" using fl_mono [OF le rng] by simp
  assume "w \<noteq> 0"
  then have "1 \<le> real (unat w)" using unat_gt_0 [of w] by linarith
  then show "1 \<le> fl (real (unat w))" using fl_mono [of 1 "real (unat w)"] rng by simp
qed

context exp2_library
begin

lemma decay_arg:
  assumes "h \<noteq> 0"
  shows "decay_factor exp2 e h = exp2 (Fin (- fl (fl (real (unat e)) / fl (real (unat h)))))"
    and "in_range (fl (real (unat e)) / fl (real (unat h)))" and "0 \<le> fl (real (unat e)) / fl (real (unat h))"
proof -
  let ?e = "fl (real (unat e))" and ?h = "fl (real (unat h))"
  have e: "0 \<le> ?e" "?e \<le> 2 ^ 64" using fl_u64_bounds(1) [of e] by (auto intro: fl_nonneg)
  have h: "1 \<le> ?h" using fl_u64_bounds(2) [OF assms] .
  show nonneg: "0 \<le> ?e / ?h" using e h by simp
  have "?e / ?h \<le> 2 ^ 64 / 1" using e h by (intro frac_le) auto
  then show rng: "in_range (?e / ?h)"
    using nonneg power_increasing [of 64 200 "2 :: real"] by simp
  show "decay_factor exp2 e h = exp2 (Fin (- fl (?e / ?h)))"
    using h rng by (simp add: f64_of_word_u64 f64_neg_def decay_factor_def)
qed

lemma decay_real:
  assumes "h \<noteq> 0"
  obtains d where "decay_factor exp2 e h = Fin d" "0 \<le> d" "d \<le> 1" "e = 0 \<Longrightarrow> d = 1"
proof -
  note a = decay_arg [OF assms, of e]
  have "- fl (fl (real (unat e)) / fl (real (unat h))) \<le> 0" using a(3) by (simp add: fl_nonneg)
  then obtain d where d: "decay_factor exp2 e h = Fin d" "0 \<le> d" "d \<le> 1"
    unfolding a(1) using exp2_decay by blast
  moreover have "d = 1" if "e = 0"
    using d(1) a(1) exp2_zero that by simp
  ultimately show ?thesis by (rule that)
qed

lemma recovered_interval_real:
  assumes "unat b < 2 ^ 53" and "unat c < 2 ^ 53" and "decay_factor exp2 e h = Fin d" "0 \<le> d" "d \<le> 1"
  shows "recovered_interval exp2 b c h e = Fin (recovered_real (real (unat b)) (real (unat c)) d)"
proof -
  have "\<bar>int (unat c) - int (unat b)\<bar> \<le> 2 ^ 53" using assms(1,2) by simp
  then have D: "fl (real_of_int (int (unat c) - int (unat b))) = real_of_int (int (unat c) - int (unat b))"
    by (rule fl_int)
  have "in_range (real_of_int (int (unat c) - int (unat b)))"
    using assms(1,2) by simp
  then have "f64_of_int (int (unat c) - int (unat b)) = Fin (real (unat c) - real (unat b))"
    using D by (simp add: f64_of_int_def)
  then show ?thesis
    using recovered_real_bounds [OF assms(1,2,4,5)] assms(1,3)
    by (simp add: recovered_interval_def Let_def f64_of_word_exact recovered_real_def)
qed

text \<open>What the whole formula returns, for intervals up to the asymptote.\<close>

lemma next_millis_real:
  assumes m: "multiplier_invariant m"
    and b: "0 < unat b" "unat b \<le> unat a" and c: "0 < unat c" "unat c \<le> unat a"
    and a: "unat a < 2 ^ 53" and h: "h \<noteq> 0"
    and d: "decay_factor exp2 e h = Fin d" "0 \<le> d" "d \<le> 1"
  defines "n \<equiv> logistic_real (real (unat a)) (fl (multiplier_value m))
      (recovered_real (real (unat b)) (real (unat c)) d)"
  shows "0 < n" and "n \<le> real (unat a)"
    and "half_life_logistic_next_millis exp2 b c a m h e = Inr (of_int \<lceil>n\<rceil>)"
    and "int (unat (of_int \<lceil>n\<rceil> :: u64)) = \<lceil>n\<rceil>"
proof -
  have lt: "unat b < 2 ^ 53" "unat c < 2 ^ 53" using a b c by simp_all
  define r y where "r = recovered_real (real (unat b)) (real (unat c)) d" and "y = multiplier_value m"
  have r: "1 \<le> r" "r \<le> real (unat a)"
    using recovered_real_bounds(1,2) [OF lt d(2,3)] b c by (auto simp: r_def min_def max_def split: if_splits)
  have y: "1 \<le> y" "y \<le> 100" using multiplier_value_bounds [OF m] by (simp_all add: y_def)
  have a0: "0 < unat a" using b by simp
  note s = logistic_stages [OF a0 a r y]
  note n = n_def [folded r_def y_def]
  show n0: "0 < n" using s(15) unfolding n by (rule less_le_trans [rotated]) simp
  show n1: "n \<le> real (unat a)" using s(16) by (simp add: n)
  have "real (unat a) \<le> real (2 ^ 53)" unfolding of_nat_le_iff using a by simp
  then have n2: "n < 2 ^ 53 + 1" using n1 by simp
  have ceil: "0 < \<lceil>n\<rceil>" "\<lceil>n\<rceil> < 2 ^ 64" using n0 n2 by (simp_all add: ceiling_less_iff)
  then show "int (unat (of_int \<lceil>n\<rceil> :: u64)) = \<lceil>n\<rceil>"
    by (simp add: unat_eq_nat_uint uint_word_of_int)
  have nz: "b \<noteq> 0" "a \<noteq> 0" using b a0 by (simp_all add: unat_gt_0)
  define A M R q D N where "A = real (unat a)" "M = fl y" "R = fl (r / A)" "q = fl (1 / R)"
    "D = fl (q + (M - 1))" "N = fl (M / D)"
  note defs = this
  have A: "0 < A" "A \<le> 2 ^ 53" "f64_of_word a = Fin A"
    using a0 a \<open>real (unat a) \<le> real (2 ^ 53)\<close> by (simp_all add: defs f64_of_word_exact)
  have st: "1 \<le> M" "M \<le> 100" "fl (M - 1) = M - 1" "r / A \<le> 1" "1 / 2 ^ 53 \<le> R" "1 \<le> q" "q \<le> 2 ^ 53"
    "M \<le> D" "1 / 2 ^ 54 \<le> N" "N \<le> 1"
    using s by (simp_all only: defs)
  have R: "0 < R" using st(5) by (rule less_le_trans [rotated]) simp
  have N: "0 < N" using st(9) by (rule less_le_trans [rotated]) simp
  have 0: "f64_div (f64_of_word (bm_numerator m)) (f64_of_word (bm_denominator m)) = Fin M"
    using m y in_rangeI [of y] unfolding f64_of_word_u32 f64_div.simps
    by (auto simp: defs y_def multiplier_value_def multiplier_invariant_def)
  have 1: "f64_div (Fin r) (Fin A) = Fin R"
    using st(4) r A in_range_unit [of "r / A"] by (simp add: defs(3))
  have "1 / R \<le> 2 ^ 53" using st(5) R by (simp add: field_simps)
  then have "in_range (1 / R)" using R by (intro in_rangeI) auto
  then have 2: "f64_recip (Fin R) = Fin q"
    using R by (simp add: f64_recip_def defs(4))
  have 3: "f64_sub (Fin M) (Fin 1) = Fin (M - 1)"
    using st(1-3) in_rangeI [of "M - 1"] by (simp add: f64_sub_def f64_neg_def)
  have 4: "f64_add (Fin q) (Fin (M - 1)) = Fin D"
    using st in_rangeI [of "q + (M - 1)"] by (simp add: defs(5))
  have "M / D \<le> 1" using st by (simp add: divide_le_eq)
  then have 5: "f64_div (Fin M) (Fin D) = Fin N"
    using st in_range_unit [of "M / D"] by (simp add: defs(6))
  have "A * N \<le> 2 ^ 53" using A st(10) mult_mono [of A "2 ^ 53" N 1] N by simp
  then have 6: "f64_mul (Fin A) (Fin N) = Fin n"
    using A N in_rangeI [of "A * N"] by (simp add: n logistic_real_def defs)
  have rec: "recovered_interval exp2 b c h e = Fin r"
    using recovered_interval_real [OF lt d] by (simp add: r_def)
  have "f64_as_u64 (f64_ceil (Fin n)) = of_int \<lceil>n\<rceil>"
    using ceil by simp
  then show "half_life_logistic_next_millis exp2 b c a m h e = Inr (of_int \<lceil>n\<rceil>)"
    using nz h unfolding half_life_logistic_next_millis_def Let_def rec 0 A(3) 1 2 3 4 5 6
    by (simp only: if_False simp_thms)
qed

end

context exp2_monotone
begin

lemma decay_mono:
  assumes "h \<noteq> 0" and "e \<le> e'" and "decay_factor exp2 e h = Fin d" and "decay_factor exp2 e' h = Fin d'"
  shows "d' \<le> d"
proof -
  note a = decay_arg [OF assms(1), of e] and a' = decay_arg [OF assms(1), of e']
  have "real (unat e') \<le> real (2 ^ 64)"
    using unsigned_less [of e', where ?'a = nat] unfolding of_nat_le_iff by simp
  then have "in_range (real (unat e'))"
    using power_increasing [of 64 200 "2 :: real"] by simp
  then have "fl (real (unat e)) \<le> fl (real (unat e'))"
    using assms(2) by (intro fl_mono_pos) (auto simp: word_le_nat_alt)
  then have "fl (real (unat e)) / fl (real (unat h)) \<le> fl (real (unat e')) / fl (real (unat h))"
    using fl_u64_bounds(2) [OF assms(1)] by (simp add: divide_right_mono)
  then have "- fl (fl (real (unat e')) / fl (real (unat h))) \<le> - fl (fl (real (unat e)) / fl (real (unat h)))"
    using a(3) a'(2) by (simp add: fl_mono_pos)
  moreover have "- fl (fl (real (unat e)) / fl (real (unat h))) \<le> 0"
    using a(3) by (simp add: fl_nonneg)
  ultimately show ?thesis
    using exp2_mono assms(3,4) a(1) a'(1) by metis
qed

end

text \<open>The intervals for which the arithmetic is exact enough: the base and the current
  interval lie between one millisecond and the asymptote, which is below \<open>2 ^ 53\<close>
  milliseconds (about 285 thousand years).\<close>

definition interval_range :: "u64 \<Rightarrow> u64 \<Rightarrow> u64 \<Rightarrow> bool" where
  "interval_range b c a \<longleftrightarrow> 0 < b \<and> b \<le> a \<and> 0 < c \<and> c \<le> a \<and> a < 2 ^ 53"

lemma interval_range_nat:
  "interval_range b c a \<longleftrightarrow> 0 < unat b \<and> unat b \<le> unat a \<and> 0 < unat c \<and> unat c \<le> unat a \<and> unat a < 2 ^ 53"
  by (simp add: interval_range_def word_le_nat_alt word_less_nat_alt)

text \<open>The next interval before it is rounded up to a whole millisecond.\<close>

definition next_real :: "u64 \<Rightarrow> u64 \<Rightarrow> u64 \<Rightarrow> backoff_multiplier \<Rightarrow> real \<Rightarrow> real" where
  "next_real b c a m d = logistic_real (real (unat a)) (fl (multiplier_value m))
     (recovered_real (real (unat b)) (real (unat c)) d)"

lemma next_millis_ceiling:
  assumes "exp2_library exp2" and "multiplier_invariant m" and "interval_range b c a" and "h \<noteq> 0"
    and "decay_factor exp2 e h = Fin d" "0 \<le> d" "d \<le> 1"
  obtains n where "half_life_logistic_next_millis exp2 b c a m h e = Inr n"
    and "int (unat n) = \<lceil>next_real b c a m d\<rceil>" and "0 < n" and "n \<le> a"
proof
  note ir = assms(3) [unfolded interval_range_nat]
  let ?x = "next_real b c a m d"
  note r = exp2_library.next_millis_real [OF assms(1,2) _ _ _ _ _ assms(4-7), of b a c, folded next_real_def]
  show "half_life_logistic_next_millis exp2 b c a m h e = Inr (of_int \<lceil>?x\<rceil>)"
    and u: "int (unat (of_int \<lceil>?x\<rceil> :: u64)) = \<lceil>?x\<rceil>"
    using r ir by auto
  have "0 < ?x" "?x \<le> real (unat a)" using r ir by auto
  then have "0 < int (unat (of_int \<lceil>?x\<rceil> :: u64))" "int (unat (of_int \<lceil>?x\<rceil> :: u64)) \<le> int (unat a)"
    unfolding u by (simp_all add: ceiling_le_iff)
  then show "0 < (of_int \<lceil>?x\<rceil> :: u64)" "of_int \<lceil>?x\<rceil> \<le> a"
    by (simp_all add: word_less_nat_alt word_le_nat_alt)
qed

lemma next_millis_bounds:
  assumes "exp2_library exp2" and "multiplier_invariant m" and "interval_range b c a" and "h \<noteq> 0"
  obtains n where "half_life_logistic_next_millis exp2 b c a m h e = Inr n" "0 < n" "n \<le> a"
  by (rule exp2_library.decay_real [OF assms(1,4)], rule next_millis_ceiling [OF assms])

lemma recovered_in_range:
  assumes "interval_range b c a" and "0 \<le> d" "d \<le> 1"
  shows "1 \<le> recovered_real (real (unat b)) (real (unat c)) d"
    and "recovered_real (real (unat b)) (real (unat c)) d \<le> real (unat a)"
proof -
  have lt: "unat b < 2 ^ 53" "unat c < 2 ^ 53" and pos: "1 \<le> unat b" "1 \<le> unat c"
    and le: "unat b \<le> unat a" "unat c \<le> unat a"
    using assms(1) unfolding interval_range_nat by auto
  show "1 \<le> recovered_real (real (unat b)) (real (unat c)) d"
    by (rule order_trans [OF _ recovered_real_bounds(1) [OF lt assms(2,3)]]) (use pos in simp)
  show "recovered_real (real (unat b)) (real (unat c)) d \<le> real (unat a)"
    by (rule order_trans [OF recovered_real_bounds(2) [OF lt assms(2,3)]]) (use le in simp)
qed

text \<open>Comparing two next intervals comes down to comparing the recovered intervals.\<close>

lemma next_interval_le:
  assumes "exp2_library exp2" and "multiplier_invariant m"
    and ir: "interval_range b c a" "interval_range b c' a" and "h \<noteq> 0"
    and d: "decay_factor exp2 e h = Fin d" "0 \<le> d" "d \<le> 1"
    and d': "decay_factor exp2 e' h = Fin d'" "0 \<le> d'" "d' \<le> 1"
    and le: "recovered_real (real (unat b)) (real (unat c)) d \<le> recovered_real (real (unat b)) (real (unat c')) d'"
  shows "\<exists>n n'. half_life_logistic_next_millis exp2 b c a m h e = Inr n
    \<and> half_life_logistic_next_millis exp2 b c' a m h e' = Inr n' \<and> n \<le> n' \<and> n' \<le> a"
proof -
  obtain n where n: "half_life_logistic_next_millis exp2 b c a m h e = Inr n"
    "int (unat n) = \<lceil>next_real b c a m d\<rceil>"
    using next_millis_ceiling [OF assms(1,2) ir(1) assms(5) d] .
  obtain n' where n': "half_life_logistic_next_millis exp2 b c' a m h e' = Inr n'"
    "int (unat n') = \<lceil>next_real b c' a m d'\<rceil>" "n' \<le> a"
    using next_millis_ceiling [OF assms(1,2) ir(2) assms(5) d'] .
  have "next_real b c a m d \<le> next_real b c' a m d'"
    unfolding next_real_def
    using ir(1) multiplier_value_bounds [OF assms(2)]
      recovered_in_range(1) [OF ir(1) d(2,3)] recovered_in_range(2) [OF ir(2) d'(2,3)] le
    by (intro logistic_real_mono) (auto simp: interval_range_nat)
  then have "int (unat n) \<le> int (unat n')"
    unfolding n(2) n'(2) by (rule ceiling_mono)
  then show ?thesis using n(1) n'(1,3) by (auto simp: word_le_nat_alt)
qed

text \<open>The backoff interval is monotone in the current interval: with the same policy and
  the same time since the last backoff, a longer current interval never gives a shorter next
  one, whatever the roundings of the binary64 operations are.\<close>

theorem next_interval_monotone:
  assumes "exp2_library exp2" and "multiplier_invariant m"
    and "interval_range b c a" and "interval_range b c' a" and "h \<noteq> 0" and "c \<le> c'"
  shows "\<exists>n n'. half_life_logistic_next_millis exp2 b c a m h e = Inr n
    \<and> half_life_logistic_next_millis exp2 b c' a m h e = Inr n' \<and> n \<le> n' \<and> n' \<le> a"
proof -
  obtain d where d: "decay_factor exp2 e h = Fin d" "0 \<le> d" "d \<le> 1"
    using exp2_library.decay_real [OF assms(1,5)] by blast
  have "recovered_real (real (unat b)) (real (unat c)) d \<le> recovered_real (real (unat b)) (real (unat c')) d"
    using assms(3,4,6) d by (intro recovered_real_mono) (auto simp: interval_range_nat word_le_nat_alt)
  then show ?thesis
    by (rule next_interval_le [OF assms(1-5) d d])
qed

theorem next_interval_monotone_witness:
  "\<exists>n n'. half_life_logistic_next_millis exp2_nearest 250 1000 900000 \<lparr>bm_numerator = 4, bm_denominator = 1\<rparr> 900000 60000 = Inr n
    \<and> half_life_logistic_next_millis exp2_nearest 250 4000 900000 \<lparr>bm_numerator = 4, bm_denominator = 1\<rparr> 900000 60000 = Inr n'
    \<and> n \<le> n' \<and> n' \<le> 900000"
  by (rule next_interval_monotone [OF nearest.exp2_library_axioms])
    (simp_all add: multiplier_invariant_def interval_range_nat word_le_nat_alt)

text \<open>recovery is monotone in time: while the current interval is at least the base
  interval, a longer quiet period before a backoff never gives a longer next interval.\<close>

theorem recovery_monotone:
  assumes "exp2_monotone exp2" and "multiplier_invariant m"
    and "interval_range b c a" and "h \<noteq> 0" and "b \<le> c" and "e \<le> e'"
  shows "\<exists>n n'. half_life_logistic_next_millis exp2 b c a m h e' = Inr n'
    \<and> half_life_logistic_next_millis exp2 b c a m h e = Inr n \<and> n' \<le> n \<and> n \<le> a"
proof -
  note lib = exp2_monotone.axioms(1) [OF assms(1)]
  obtain d where d: "decay_factor exp2 e h = Fin d" "0 \<le> d" "d \<le> 1"
    using exp2_library.decay_real [OF lib assms(4)] by blast
  obtain d' where d': "decay_factor exp2 e' h = Fin d'" "0 \<le> d'" "d' \<le> 1"
    using exp2_library.decay_real [OF lib assms(4)] by blast
  have "d' \<le> d" using exp2_monotone.decay_mono [OF assms(1,4,6) d(1) d'(1)] .
  then have "recovered_real (real (unat b)) (real (unat c)) d' \<le> recovered_real (real (unat b)) (real (unat c)) d"
    using assms(3,5) d d' by (intro recovered_real_decay_mono) (auto simp: interval_range_nat word_le_nat_alt)
  then show ?thesis
    using next_interval_le [OF lib assms(2,3,3,4) d' d] by blast
qed

theorem recovery_monotone_witness:
  "\<exists>n n'. half_life_logistic_next_millis exp2_nearest 250 4000 900000 \<lparr>bm_numerator = 4, bm_denominator = 1\<rparr> 900000 80000 = Inr n'
    \<and> half_life_logistic_next_millis exp2_nearest 250 4000 900000 \<lparr>bm_numerator = 4, bm_denominator = 1\<rparr> 900000 60000 = Inr n
    \<and> n' \<le> n \<and> n \<le> 900000"
  by (rule recovery_monotone [OF nearest.exp2_monotone_axioms])
    (simp_all add: multiplier_invariant_def interval_range_nat word_le_nat_alt)

text \<open>A policy whose base interval is the asymptote stays there.\<close>

lemma next_millis_at_asymptote:
  assumes "exp2_library exp2" and "multiplier_invariant m" and "interval_range a a a" and "h \<noteq> 0"
  shows "half_life_logistic_next_millis exp2 a a a m h e = Inr a"
proof -
  note ir = assms(3) [unfolded interval_range_nat] and y = multiplier_value_bounds [OF assms(2)]
  obtain d where d: "decay_factor exp2 e h = Fin d" "0 \<le> d" "d \<le> 1"
    using exp2_library.decay_real [OF assms(1,4)] by blast
  obtain n where n: "half_life_logistic_next_millis exp2 a a a m h e = Inr n"
    "int (unat n) = \<lceil>next_real a a a m d\<rceil>"
    using next_millis_ceiling [OF assms d] .
  have "next_real a a a m d = real (unat a)"
    using ir y logistic_real_fixpoint [of "unat a" "multiplier_value m"]
    by (simp add: next_real_def recovered_real_def fl_nat)
  then have "n = a" using n(2) by (simp add: word_unat_eq_iff)
  with n(1) show ?thesis by simp
qed

text \<open>without recovery time the interval never shrinks and never leaves the asymptote: a
  backoff immediately after the previous one returns at least the current interval, and an
  interval that has reached the asymptote stays there.\<close>

theorem immediate_backoff_grows:
  assumes "exp2_library exp2" and "multiplier_invariant m"
    and "interval_range b c a" and "a < 2 ^ 50" and "h \<noteq> 0"
  shows "\<exists>n. half_life_logistic_next_millis exp2 b c a m h 0 = Inr n \<and> c \<le> n \<and> n \<le> a \<and> (c = a \<longrightarrow> n = a)"
proof -
  obtain d where d: "decay_factor exp2 0 h = Fin d" and "d = 1"
    using exp2_library.decay_real [OF assms(1,5), of 0] by metis
  then have one: "decay_factor exp2 0 h = Fin 1" by simp
  note ir = assms(3) [unfolded interval_range_nat] and y = multiplier_value_bounds [OF assms(2)]
  obtain n where n: "half_life_logistic_next_millis exp2 b c a m h 0 = Inr n"
    "int (unat n) = \<lceil>next_real b c a m 1\<rceil>" "n \<le> a"
    using next_millis_ceiling [OF assms(1,2,3,5) one] by (metis order_refl zero_le_one)
  have "recovered_real (real (unat b)) (real (unat c)) 1 = real (unat c)"
  proof -
    have "unat b < 2 ^ 53" "unat c < 2 ^ 53" using ir by auto
    then have "\<bar>int (unat c) - int (unat b)\<bar> \<le> 2 ^ 53" by simp
    then have "fl (real_of_int (int (unat c) - int (unat b))) = real_of_int (int (unat c) - int (unat b))"
      by (rule fl_int)
    then show ?thesis using ir by (simp add: recovered_real_def fl_nat)
  qed
  then have x: "next_real b c a m 1 = logistic_real (real (unat a)) (fl (multiplier_value m)) (real (unat c))"
    by (simp add: next_real_def)
  have "unat a < 2 ^ 50" using assms(4) by (simp add: word_less_nat_alt)
  then have "real (unat c) - 1 < next_real b c a m 1"
    unfolding x using ir y by (intro logistic_real_growth) auto
  then have "int (unat c) - 1 < \<lceil>next_real b c a m 1\<rceil>" by (simp add: less_ceiling_iff)
  then have "c \<le> n" using n(2) by (simp add: word_le_nat_alt)
  then show ?thesis using n(1,3) by auto
qed

theorem immediate_backoff_grows_witness:
  "\<exists>n. half_life_logistic_next_millis exp2_nearest 250 900000 900000 \<lparr>bm_numerator = 4, bm_denominator = 1\<rparr> 900000 0 = Inr n
    \<and> n = 900000"
  using immediate_backoff_grows [OF nearest.exp2_library_axioms,
      of "\<lparr>bm_numerator = 4, bm_denominator = 1\<rparr>" 250 900000 900000 900000]
  by (simp add: multiplier_invariant_def interval_range_nat word_less_nat_alt)

subsection \<open>The backoff state\<close>

definition backoff_policy_ordered :: "backoff_policy \<Rightarrow> bool" where
  "backoff_policy_ordered p \<longleftrightarrow>
     multiplier_invariant (bp_multiplier p) \<and> 0 < as_millis (bp_base_interval p)
     \<and> as_millis (bp_base_interval p) \<le> as_millis (bp_asymptote_interval p)
     \<and> as_millis (bp_asymptote_interval p) < 2 ^ 53 \<and> proper_millis (bp_recovery_half_life p)"

definition backoff_invariant :: "backoff_state \<Rightarrow> bool" where
  "backoff_invariant s \<longleftrightarrow>
     backoff_policy_ordered (bs_policy s) \<and> 0 < as_millis (bs_current_interval s)
     \<and> as_millis (bs_current_interval s) \<le> as_millis (bp_asymptote_interval (bs_policy s))"

lemma backoff_state_new_invariant:
  "backoff_policy_ordered p \<Longrightarrow> \<exists>s. backoff_state_new exp2 p = Inr s \<and> backoff_invariant s \<and> bs_policy s = p"
  by (auto simp: backoff_state_new_def backoff_policy_validate_iff backoff_policy_ordered_def
      backoff_invariant_def proper_millis_def and_then_Inr_iff)

lemma on_backoff_policy [simp]: "bs_policy (fst (on_backoff exp2 s now)) = bs_policy s"
  by (simp add: on_backoff_def split: sum.splits)

lemma on_backoff_Inl [simp]: "on_backoff exp2 s now = (s', Inl e) \<Longrightarrow> s' = s"
  by (auto simp: on_backoff_def split: sum.splits)

lemma on_backoff_Inr:
  assumes "on_backoff exp2 s now = (s', Inr w)"
  obtains b c a h e n where
    "unat b = as_millis (bp_base_interval (bs_policy s))" "unat c = as_millis (bs_current_interval s)"
    "unat a = as_millis (bp_asymptote_interval (bs_policy s))" "unat h = as_millis (bp_recovery_half_life (bs_policy s))"
    "half_life_logistic_next_millis exp2 b c a (bp_multiplier (bs_policy s)) h e = Inr n"
    "w = from_millis n" "s' = s\<lparr>bs_current_interval := w, bs_last_backoff_at := Some now\<rparr>"
proof -
  from assms obtain b c a h e n where
    "duration_millis (bp_base_interval (bs_policy s)) = Inr b" "duration_millis (bs_current_interval s) = Inr c"
    "duration_millis (bp_asymptote_interval (bs_policy s)) = Inr a"
    "duration_millis (bp_recovery_half_life (bs_policy s)) = Inr h"
    "half_life_logistic_next_millis exp2 b c a (bp_multiplier (bs_policy s)) h e = Inr n"
    "w = from_millis n" "s' = s\<lparr>bs_current_interval := w, bs_last_backoff_at := Some now\<rparr>"
    unfolding on_backoff_def by (auto split: sum.splits)
  then show ?thesis by (intro that) (simp_all add: duration_millis_Inr_iff)
qed

text \<open>A sequence of backoffs at given times, with the results.\<close>

fun backoff_run :: "(f64 \<Rightarrow> f64) \<Rightarrow> backoff_state \<Rightarrow> duration list \<Rightarrow> (restart_controller_error + duration) list" where
  "backoff_run exp2 s [] = []"
| "backoff_run exp2 s (now # later) =
     (let (s', r) = on_backoff exp2 s now in r # backoff_run exp2 s' later)"

lemma proper_millis_word:
  assumes "0 < as_millis d" and "as_millis d < 2 ^ 64"
  obtains ms where "duration_millis d = Inr ms" "unat ms = as_millis d" "ms \<noteq> 0"
  using assms proper_millis_iff [of d] by (auto simp: proper_millis_def duration_millis_Inr_iff)

lemma on_backoff_progress:
  assumes "exp2_library exp2" and inv: "backoff_invariant s"
    and now: "as_millis now < 2 ^ 64" "\<And>t. bs_last_backoff_at s = Some t \<Longrightarrow> t \<le> now"
  obtains w where "on_backoff exp2 s now = (s\<lparr>bs_current_interval := w, bs_last_backoff_at := Some now\<rparr>, Inr w)"
    and "from_millis 1 \<le> w" and "w \<le> bp_asymptote_interval (bs_policy s)"
    and "0 < as_millis w" and "as_millis w \<le> as_millis (bp_asymptote_interval (bs_policy s))"
proof -
  let ?p = "bs_policy s"
  note iv = inv [unfolded backoff_invariant_def backoff_policy_ordered_def proper_millis_def]
  obtain b where b: "duration_millis (bp_base_interval ?p) = Inr b" "unat b = as_millis (bp_base_interval ?p)"
    by (rule proper_millis_word [of "bp_base_interval ?p"]) (use iv in auto)
  obtain c where c: "duration_millis (bs_current_interval s) = Inr c" "unat c = as_millis (bs_current_interval s)"
    by (rule proper_millis_word [of "bs_current_interval s"]) (use iv in auto)
  obtain a where a: "duration_millis (bp_asymptote_interval ?p) = Inr a" "unat a = as_millis (bp_asymptote_interval ?p)"
    by (rule proper_millis_word [of "bp_asymptote_interval ?p"]) (use iv in auto)
  obtain h where h: "duration_millis (bp_recovery_half_life ?p) = Inr h" "h \<noteq> 0"
    by (rule proper_millis_word [of "bp_recovery_half_life ?p"]) (use iv in auto)
  obtain el where el: "(case bs_last_backoff_at s of
      Some t \<Rightarrow> ok_or BackoffTimeReversed (duration_checked_sub now t) | None \<Rightarrow> Inr 0) = Inr el" "el \<le> now"
    using now(2) by (cases "bs_last_backoff_at s") (auto simp: duration_checked_sub_def)
  have "as_millis el < 2 ^ 64" using el(2) now(1) div_le_mono [OF el(2)] by (simp add: as_millis_def) 
  then obtain e where e: "duration_millis el = Inr e"
    using ex_unat_eq [of "as_millis el", where ?'a = 64] by (auto simp: duration_millis_Inr_iff)
  have "interval_range b c a" using iv b c a by (simp add: interval_range_nat)
  then obtain n where n: "half_life_logistic_next_millis exp2 b c a (bp_multiplier ?p) h e = Inr n" "0 < n" "n \<le> a"
    using next_millis_bounds [OF assms(1) _ _ h(2)] iv by blast
  show ?thesis
  proof
    show "on_backoff exp2 s now = (s\<lparr>bs_current_interval := from_millis n, bs_last_backoff_at := Some now\<rparr>, Inr (from_millis n))"
      unfolding on_backoff_def el(1) by (simp add: b c a h e n)
    have "from_millis n \<le> from_millis a" using n(3) by (simp add: from_millis_mono)
    also have "\<dots> \<le> bp_asymptote_interval ?p" using a(2) by (simp add: from_millis_def as_millis_def)
    finally show "from_millis n \<le> bp_asymptote_interval ?p" .
    show "from_millis 1 \<le> from_millis n" using n(2) by (simp add: from_millis_mono word_le_nat_alt word_less_nat_alt)
    show "0 < as_millis (from_millis n)" "as_millis (from_millis n) \<le> as_millis (bp_asymptote_interval ?p)"
      using n(2,3) a(2) by (simp_all add: word_le_nat_alt word_less_nat_alt)
  qed
qed

lemma on_backoff_reversed:
  "bs_last_backoff_at s = Some t \<Longrightarrow> now < t \<Longrightarrow> on_backoff exp2 s now = (s, Inl BackoffTimeReversed)"
  by (simp add: on_backoff_def duration_checked_sub_def)

definition time_reversed :: "duration option \<Rightarrow> duration list \<Rightarrow> nat \<Rightarrow> bool" where
  "time_reversed start nows i \<longleftrightarrow> is_some_and (\<lambda>t. nows ! i < t) start \<or> (\<exists>j < i. nows ! i < nows ! j)"

lemma time_reversed_Suc:
  "time_reversed start (now # later) (Suc i) \<longleftrightarrow>
     time_reversed (if is_some_and (\<lambda>t. now < t) start then start else Some now) later i"
  by (cases start) (auto simp: time_reversed_def less_Suc_eq_0_disj)

lemma backoff_run_bounded_from:
  assumes "exp2_library exp2" and "backoff_invariant s" and "\<forall>now \<in> set nows. as_millis now < 2 ^ 64" and "i < length nows"
  shows "if time_reversed (bs_last_backoff_at s) nows i then backoff_run exp2 s nows ! i = Inl BackoffTimeReversed
    else \<exists>w. backoff_run exp2 s nows ! i = Inr w \<and> from_millis 1 \<le> w \<and> w \<le> bp_asymptote_interval (bs_policy s)"
  using assms(2-)
proof (induction nows arbitrary: s i)
  case (Cons now later)
  show ?case
  proof (cases "is_some_and (\<lambda>t. now < t) (bs_last_backoff_at s)")
    case True
    then have "on_backoff exp2 s now = (s, Inl BackoffTimeReversed)" by (auto simp: is_some_and_iff on_backoff_reversed)
    then show ?thesis
      using Cons.IH [OF Cons.prems(1)] Cons.prems(2,3) True
      by (cases i) (simp_all add: time_reversed_Suc, simp add: time_reversed_def)
  next
    case False
    obtain w where w: "on_backoff exp2 s now = (s\<lparr>bs_current_interval := w, bs_last_backoff_at := Some now\<rparr>, Inr w)"
      "from_millis 1 \<le> w" "w \<le> bp_asymptote_interval (bs_policy s)"
      "0 < as_millis w" "as_millis w \<le> as_millis (bp_asymptote_interval (bs_policy s))"
      by (rule on_backoff_progress [OF assms(1) Cons.prems(1), of now])
        (use Cons.prems False in \<open>auto simp: is_some_and_iff not_less\<close>)
    have "backoff_invariant (s\<lparr>bs_current_interval := w, bs_last_backoff_at := Some now\<rparr>)"
      using Cons.prems(1) w(4,5) by (simp add: backoff_invariant_def)
    from Cons.IH [OF this] show ?thesis
      using Cons.prems w False by (cases i) (simp_all add: time_reversed_Suc cong: if_cong, simp add: time_reversed_def)
  qed
qed simp

text \<open>C28: the waits of a policy with a base interval up to the asymptote and an asymptote below \<open>2\<^sup>5\<^sup>3\<close> milliseconds are
  bounded. Whatever the times of its backoffs (up to the \<open>2\<^sup>6\<^sup>4\<close> milliseconds that the code counts), the state
  created from such a policy answers each one that is not earlier than some backoff before it with a wait between
  a millisecond and the asymptote, and each that is earlier with \<open>BackoffTimeReversed\<close>; no other error occurs. The result of
  \<open>exp2\<close> is only assumed to be as accurate as documented. Without the two bounds on the policy, which the code does
  not ask for, a wait may exceed the asymptote.\<close>

theorem backoff_run_bounded:
  assumes "exp2_library exp2" and "multiplier_invariant (bp_multiplier p)" and "backoff_state_new exp2 p = Inr s"
    and "as_millis (bp_base_interval p) \<le> as_millis (bp_asymptote_interval p)" and "as_millis (bp_asymptote_interval p) < 2 ^ 53"
    and "\<forall>now \<in> set nows. as_millis now < 2 ^ 64" and "i < length nows"
  shows "if \<exists>j < i. nows ! i < nows ! j then backoff_run exp2 s nows ! i = Inl BackoffTimeReversed
    else \<exists>w. backoff_run exp2 s nows ! i = Inr w \<and> from_millis 1 \<le> w \<and> w \<le> bp_asymptote_interval p"
proof -
  have "backoff_policy_ordered p"
    using assms(2-5) by (auto simp: backoff_policy_ordered_def backoff_state_new_def and_then_Inr_iff backoff_policy_validate_iff
        proper_millis_def)
  then have "backoff_invariant s" and s: "bs_policy s = p" "bs_last_backoff_at s = None"
    using backoff_state_new_invariant [of p exp2] assms(3) by (auto simp: backoff_state_new_def)
  from backoff_run_bounded_from [OF assms(1) this(1) assms(6,7)] show ?thesis
    unfolding s time_reversed_def by simp
qed

theorem backoff_run_bounded_witness:
  "backoff_run exp2_nearest
      \<lparr>bs_policy = backoff_policy_default, bs_current_interval = from_millis 250, bs_last_backoff_at = None\<rparr>
      [from_secs 2, from_secs 1] ! 1 = Inl BackoffTimeReversed"
proof -
  let ?s = "\<lparr>bs_policy = backoff_policy_default, bs_current_interval = from_millis 250, bs_last_backoff_at = None\<rparr>"
  have ord: "multiplier_invariant (bp_multiplier backoff_policy_default)"
    "as_millis (bp_base_interval backoff_policy_default) \<le> as_millis (bp_asymptote_interval backoff_policy_default)"
    "as_millis (bp_asymptote_interval backoff_policy_default) < 2 ^ 53"
    by (simp_all add: backoff_policy_default_def multiplier_invariant_def as_millis_def from_secs_def from_millis_def)
  have new: "backoff_state_new exp2_nearest backoff_policy_default = Inr ?s"
    by (auto simp: backoff_state_new_def and_then_Inr_iff backoff_policy_validate_iff proper_millis_def backoff_policy_default_def
        as_millis_def from_secs_def from_millis_def)
  show ?thesis
    using backoff_run_bounded [OF nearest.exp2_library_axioms ord(1) new ord(2,3), of "[from_secs 2, from_secs 1]" 1]
    by (simp add: from_secs_def as_millis_def)
qed

end
