(* ===== verification/Outcome.thy ===== *)
theory Outcome
  imports Deadline "HOL-Library.Multiset"
begin

text \<open>
  Attempt outcomes (\<open>memcordon-core/src/outcome.rs\<close>): how a child ended, the events of one
  observation cycle and their precedence, the cleanup summary and the outcome of an attempt;
  with the two functions that turn an outcome into an exit status, \<open>outcome_status\<close> of
  \<open>memcordon-core/src/supervision.rs\<close> and \<open>outcome_exit_code\<close> of
  \<open>memcordon-cli/src/exit_mapping.rs\<close>. A struct variant \<open>V { a, b }\<close> is the constructor \<open>V a b\<close>.
\<close>

subsection \<open>Data\<close>

datatype child_termination =
    ExitCode i32
  | UnixSignal i32
  | WindowsStatus u32
  | Unavailable

record interruption =
  signal :: i32

record limit_evidence =
  le_backend :: string
  le_metric :: string
  le_detail :: string

datatype attempt_event_kind =
    MemoryLimitEvent | DeadlineEvent | MonitorFailureEvent | InterruptionEvent | CompletionEvent

fun precedence :: "attempt_event_kind \<Rightarrow> u8" where
  "precedence MemoryLimitEvent = 0"
| "precedence DeadlineEvent = 1"
| "precedence MonitorFailureEvent = 2"
| "precedence InterruptionEvent = 3"
| "precedence CompletionEvent = 4"

text \<open>\<open>Iterator::min_by_key\<close>: the first of the elements with the least key.\<close>

fun min_by_key :: "('a \<Rightarrow> 'k::linorder) \<Rightarrow> 'a list \<Rightarrow> 'a option" where
  "min_by_key key [] = None"
| "min_by_key key (x # xs) = Some (foldl (\<lambda>m y. if key y < key m then y else m) x xs)"

definition select :: "attempt_event_kind list \<Rightarrow> attempt_event_kind option" where
  "select events = min_by_key precedence events"

record cleanup_error_record =
  ce_operation :: string
  ce_message :: string

record cleanup_summary =
  graceful_attempted :: bool
  force_attempted :: bool
  direct_child_reaped :: bool
  workload_empty :: "bool option"
  cleanup_errors :: "cleanup_error_record list"

definition cleanup_summary_default :: cleanup_summary where
  "cleanup_summary_default = \<lparr>graceful_attempted = False, force_attempted = False,
     direct_child_reaped = False, workload_empty = None, cleanup_errors = []\<rparr>"

datatype run_outcome =
    Exited child_termination "byte_size option" cleanup_summary
  | LimitExceeded byte_size "byte_size option" "byte_size option" limit_evidence
      "child_termination option" cleanup_summary
  | DeadlineExceeded deadline_evidence "child_termination option" "byte_size option" cleanup_summary
  | Interrupted interruption "child_termination option" cleanup_summary
  | MonitorFailed string "child_termination option" cleanup_summary

fun outcome_cleanup :: "run_outcome \<Rightarrow> cleanup_summary" where
  "outcome_cleanup (Exited _ _ cleanup) = cleanup"
| "outcome_cleanup (LimitExceeded _ _ _ _ _ cleanup) = cleanup"
| "outcome_cleanup (DeadlineExceeded _ _ _ cleanup) = cleanup"
| "outcome_cleanup (Interrupted _ _ cleanup) = cleanup"
| "outcome_cleanup (MonitorFailed _ _ cleanup) = cleanup"

text \<open>Writing through \<open>cleanup_mut\<close>.\<close>

fun set_outcome_cleanup :: "cleanup_summary \<Rightarrow> run_outcome \<Rightarrow> run_outcome" where
  "set_outcome_cleanup c (Exited child peak _) = Exited child peak c"
| "set_outcome_cleanup c (LimitExceeded limit obs peak ev child _) = LimitExceeded limit obs peak ev child c"
| "set_outcome_cleanup c (DeadlineExceeded d child peak _) = DeadlineExceeded d child peak c"
| "set_outcome_cleanup c (Interrupted s child _) = Interrupted s child c"
| "set_outcome_cleanup c (MonitorFailed e child _) = MonitorFailed e child c"

subsection \<open>Exit statuses\<close>

definition i32_max :: int where
  "i32_max = 2 ^ 31 - 1"

definition i32_saturating_add :: "i32 \<Rightarrow> i32 \<Rightarrow> i32" where
  "i32_saturating_add a b = max (- (2 ^ 31)) (min i32_max (a + b))"

text \<open>Plain \<open>+\<close> on \<open>i32\<close>: \<open>None\<close> where it overflows (a panic with overflow checks on).\<close>

definition i32_add :: "i32 \<Rightarrow> i32 \<Rightarrow> i32 option" where
  "i32_add a b = (if - (2 ^ 31) \<le> a + b \<and> a + b \<le> i32_max then Some (a + b) else None)"

definition i32_try_from_u32 :: "u32 \<Rightarrow> i32 option" where
  "i32_try_from_u32 s = (if int (unat s) \<le> i32_max then Some (int (unat s)) else None)"

definition unwrap_or :: "'a \<Rightarrow> 'a option \<Rightarrow> 'a" where
  "unwrap_or d x = (case x of None \<Rightarrow> d | Some y \<Rightarrow> y)"

fun outcome_status :: "run_outcome \<Rightarrow> i32" where
  "outcome_status (LimitExceeded _ _ _ _ _ _) = 124"
| "outcome_status (DeadlineExceeded _ _ _ _) = 123"
| "outcome_status (MonitorFailed _ _ _) = 125"
| "outcome_status (Interrupted s _ _) = i32_saturating_add 128 (signal s)"
| "outcome_status (Exited child _ cleanup) =
     (if cleanup_errors cleanup \<noteq> [] \<or> \<not> direct_child_reaped cleanup
         \<or> workload_empty cleanup = Some False
      then 125
      else (case child of
              ExitCode code \<Rightarrow> code
            | UnixSignal s \<Rightarrow> i32_saturating_add 128 s
            | WindowsStatus status \<Rightarrow> unwrap_or 125 (i32_try_from_u32 status)
            | Unavailable \<Rightarrow> 125))"

fun child_exit_code :: "child_termination \<Rightarrow> i32 option" where
  "child_exit_code (ExitCode code) = Some code"
| "child_exit_code (UnixSignal s) = i32_add 128 s"
| "child_exit_code (WindowsStatus status) = Some (unwrap_or 125 (i32_try_from_u32 status))"
| "child_exit_code Unavailable = Some 125"

fun outcome_exit_code :: "run_outcome \<Rightarrow> i32 option" where
  "outcome_exit_code (LimitExceeded _ _ _ _ _ _) = Some 124"
| "outcome_exit_code (DeadlineExceeded _ _ _ _) = Some 123"
| "outcome_exit_code (MonitorFailed _ _ _) = Some 125"
| "outcome_exit_code (Interrupted s _ cleanup) =
     (if cleanup_errors cleanup \<noteq> [] \<or> workload_empty cleanup = Some False then Some 125
      else i32_add 128 (signal s))"
| "outcome_exit_code (Exited child _ cleanup) =
     (if cleanup_errors cleanup \<noteq> [] \<or> workload_empty cleanup = Some False then Some 125
      else child_exit_code child)"

subsection \<open>Event selection\<close>

lemma precedence_inj: "precedence a = precedence b \<longleftrightarrow> a = b"
  by (cases a; cases b) simp_all

lemma foldl_min_in: "foldl (\<lambda>m y. if key y < key m then y else m) x xs \<in> insert x (set xs)"
  by (induction xs arbitrary: x) (auto split: if_splits)

lemma foldl_min_le:
  "z \<in> insert x (set xs) \<Longrightarrow>
    key (foldl (\<lambda>m y. if key y < key m then y else m) x xs) \<le> (key z :: 'k::linorder)"
proof (induction xs arbitrary: x z)
  case Nil
  then show ?case by simp
next
  case (Cons y ys)
  let ?m = "if key y < key x then y else x"
  have le: "key (foldl (\<lambda>m y. if key y < key m then y else m) ?m ys) \<le> key ?m"
    by (rule Cons.IH) simp
  show ?case
  proof (cases "z \<in> set ys")
    case True
    then show ?thesis using Cons.IH [of z ?m] by simp
  next
    case False
    with Cons.prems have "key ?m \<le> key z" by auto
    with le show ?thesis by simp
  qed
qed

lemma min_by_key_Some:
  assumes "min_by_key key xs = Some m"
  shows "m \<in> set xs" and "x \<in> set xs \<Longrightarrow> key m \<le> key x"
  using assms foldl_min_in [of key] foldl_min_le [of x _ _ key] by (cases xs; fastforce)+

lemma min_by_key_None: "min_by_key key xs = None \<longleftrightarrow> xs = []"
  by (cases xs) auto

text \<open>the event selected from one observation cycle is the one of highest precedence
  (memory limit, then deadline, monitor failure, interruption, completion). It does not
  depend on the order or multiplicity in which the events were observed, and nothing is
  selected exactly when nothing was observed.\<close>

theorem select_highest_precedence:
  "select events = Some e \<longleftrightarrow> e \<in> set events \<and> (\<forall>e' \<in> set events. precedence e \<le> precedence e')"
proof
  assume "select events = Some e"
  then show "e \<in> set events \<and> (\<forall>e' \<in> set events. precedence e \<le> precedence e')"
    using min_by_key_Some by (auto simp: select_def)
next
  assume *: "e \<in> set events \<and> (\<forall>e' \<in> set events. precedence e \<le> precedence e')"
  then obtain m where m: "select events = Some m"
    by (cases "select events") (auto simp: select_def min_by_key_None)
  then have "precedence m \<le> precedence e" and "m \<in> set events"
    using min_by_key_Some * by (auto simp: select_def)
  with * have "precedence m = precedence e" by force
  with m show "select events = Some e" by (simp add: precedence_inj)
qed

theorem select_highest_precedence_witness:
  "select [CompletionEvent, DeadlineEvent, InterruptionEvent] = Some DeadlineEvent"
  by (subst select_highest_precedence) simp

subsection \<open>Properties of the statuses\<close>

lemma cleanup_get_set [simp]: "outcome_cleanup (set_outcome_cleanup c out) = c"
  by (cases out) auto

lemma cleanup_set_get [simp]: "set_outcome_cleanup (outcome_cleanup out) out = out"
  by (cases out) auto

text \<open>Signals of a recorded outcome: native signal numbers are between 1 and 127.\<close>

definition native_signal :: "i32 \<Rightarrow> bool" where
  "native_signal s \<longleftrightarrow> 0 < s \<and> s < 128"

fun outcome_signals_native :: "run_outcome \<Rightarrow> bool" where
  "outcome_signals_native (Interrupted s _ _) = native_signal (signal s)"
| "outcome_signals_native (Exited (UnixSignal s) _ _) = native_signal s"
| "outcome_signals_native _ = True"

lemma native_signal_add:
  "native_signal s \<Longrightarrow> i32_saturating_add 128 s = 128 + s \<and> i32_add 128 s = Some (128 + s)"
  by (auto simp: native_signal_def i32_saturating_add_def i32_add_def i32_max_def)

text \<open>Status 0 is reported only for a clean success. An attempt outcome maps to exit
  status 0 exactly when the direct child itself ended with code 0 (or Windows status 0), it
  was reaped, no cleanup error was recorded and the workload was not observed non-empty.\<close>

theorem status_zero_iff_clean_success:
  assumes "outcome_signals_native out"
  shows "outcome_status out = 0 \<longleftrightarrow>
    (\<exists>child peak c. out = Exited child peak c \<and> child \<in> {ExitCode 0, WindowsStatus 0}
       \<and> direct_child_reaped c \<and> cleanup_errors c = [] \<and> workload_empty c \<noteq> Some False)"
proof (cases out)
  case (Exited child peak c)
  have "i32_saturating_add 128 s \<noteq> 0" if "child = UnixSignal s" for s
    using assms that Exited native_signal_add [of s] by (auto simp: native_signal_def)
  moreover have "unwrap_or 125 (i32_try_from_u32 w) = 0 \<longleftrightarrow> w = 0" for w
    by (auto simp: unwrap_or_def i32_try_from_u32_def i32_max_def uint_0_iff)
  ultimately show ?thesis
    by (cases child) (auto simp: Exited)
next
  case (Interrupted s child c)
  then have "i32_saturating_add 128 (signal s) \<noteq> 0"
    using assms native_signal_add [of "signal s"] by (auto simp: native_signal_def)
  with Interrupted show ?thesis by simp
qed auto

theorem status_zero_iff_clean_success_witness:
  "outcome_status (Exited (ExitCode 0) None
     \<lparr>graceful_attempted = False, force_attempted = True, direct_child_reaped = True,
      workload_empty = Some True, cleanup_errors = []\<rparr>) = 0"
  by (subst status_zero_iff_clean_success) auto

text \<open>C31: the supervisor's status function and the command line's status function differ in
  exactly two situations: an interruption whose cleanup failed (the supervisor still reports
  128 plus the signal, the command line 125), and an exit whose direct child was not reaped
  although no other cleanup failure was recorded (the supervisor reports 125, the command
  line the child's own status).\<close>

theorem status_functions_differ_iff:
  assumes "outcome_signals_native out"
  shows "outcome_exit_code out \<noteq> Some (outcome_status out) \<longleftrightarrow>
    (\<exists>s child c. out = Interrupted s child c \<and> (cleanup_errors c \<noteq> [] \<or> workload_empty c = Some False))
  \<or> (\<exists>child peak c. out = Exited child peak c \<and> cleanup_errors c = []
       \<and> workload_empty c \<noteq> Some False \<and> \<not> direct_child_reaped c \<and> child_exit_code child \<noteq> Some 125)"
proof (cases out)
  case (Exited child peak c)
  have sig: "i32_add 128 s = Some (i32_saturating_add 128 s)" if "child = UnixSignal s" for s
    using assms that Exited native_signal_add [of s] by auto
  show ?thesis
    by (cases child) (auto simp: Exited sig)
next
  case (Interrupted s child c)
  have "native_signal (signal s)" using assms Interrupted by simp
  then have "i32_add 128 (signal s) = Some (i32_saturating_add 128 (signal s))"
    and "i32_saturating_add 128 (signal s) \<noteq> 125"
    using native_signal_add [of "signal s"] by (auto simp: native_signal_def)
  then show ?thesis by (auto simp: Interrupted)
qed auto

theorem status_functions_differ_iff_witness:
  "outcome_exit_code (Interrupted \<lparr>signal = 15\<rparr> None
     (cleanup_summary_default\<lparr>workload_empty := Some False\<rparr>))
   \<noteq> Some (outcome_status (Interrupted \<lparr>signal = 15\<rparr> None
     (cleanup_summary_default\<lparr>workload_empty := Some False\<rparr>)))"
  by (subst status_functions_differ_iff) (auto simp: native_signal_def)

end
