(* ===== verification/RestartPolicy.thy ===== *)
theory RestartPolicy
  imports Backoff Outcome
begin

unbundle bit_operations_syntax

text \<open>
  Restart policy of \<open>memcordon-core/src/restart.rs\<close>: the condition sets with their wire form,
  limits, the circuit-breaker policy, the validated settings, the monotonic-clock interface,
  and the records of \<open>supervision.rs\<close> a restart decision is reported in.
\<close>

subsection \<open>Clocks\<close>

record logical_clock =
  lc_now :: duration

definition logical_checked_add :: "logical_clock \<Rightarrow> duration \<Rightarrow> duration \<Rightarrow> duration option" where
  "logical_checked_add clock instant d = duration_checked_add instant d"

definition logical_duration_since :: "logical_clock \<Rightarrow> duration \<Rightarrow> duration \<Rightarrow> duration" where
  "logical_duration_since clock later earlier = duration_saturating_sub later earlier"

text \<open>\<open>clock_deadline\<close> over the operations of a clock.\<close>

definition clock_deadline ::
  "('c \<Rightarrow> 'i) \<Rightarrow> ('c \<Rightarrow> 'i \<Rightarrow> duration \<Rightarrow> 'i option) \<Rightarrow> ('c \<Rightarrow> 'i \<Rightarrow> 'i \<Rightarrow> duration)
   \<Rightarrow> 'c \<Rightarrow> 'i \<Rightarrow> duration \<Rightarrow> restart_controller_error + ('i \<times> duration)" where
  "clock_deadline clock_now clock_add clock_since clock origin d =
     and_then (ok_or CounterRange (clock_add clock origin d)) (\<lambda>deadline.
       Inr (deadline, clock_since clock (clock_now clock) origin))"

locale monotonic_clock =
  fixes clock_now :: "'c \<Rightarrow> 'i::linorder"
    and clock_add :: "'c \<Rightarrow> 'i \<Rightarrow> duration \<Rightarrow> 'i option"
    and clock_since :: "'c \<Rightarrow> 'i \<Rightarrow> 'i \<Rightarrow> duration"
  assumes add_since: "clock_add c i d = Some j \<Longrightarrow> clock_since c j i = d"
    and add_mono: "clock_add c i d = Some j \<Longrightarrow> i \<le> j"
    and since_mono: "i \<le> j \<Longrightarrow> j \<le> k \<Longrightarrow> clock_since c j i \<le> clock_since c k i"
begin

lemma deadline_reached:
  assumes "clock_deadline clock_now clock_add clock_since c origin d = Inr (deadline, elapsed)"
    and "deadline \<le> clock_now c"
  shows "d \<le> elapsed"
proof -
  from assms(1) have add: "clock_add c origin d = Some deadline"
    and elapsed: "elapsed = clock_since c (clock_now c) origin"
    by (auto simp: clock_deadline_def)
  have "clock_since c deadline origin \<le> clock_since c (clock_now c) origin"
    using add_mono [OF add] assms(2) by (rule since_mono)
  then show ?thesis
    using add_since [OF add] elapsed by simp
qed

end

interpretation logical: monotonic_clock lc_now logical_checked_add logical_duration_since
  by unfold_locales
    (auto simp: logical_checked_add_def logical_duration_since_def duration_checked_add_def
      duration_saturating_sub_def split: if_splits)

abbreviation logical_deadline :: "logical_clock \<Rightarrow> duration \<Rightarrow> duration \<Rightarrow> restart_controller_error + (duration \<times> duration)" where
  "logical_deadline \<equiv> clock_deadline lc_now logical_checked_add logical_duration_since"

lemma logical_deadline_now:
  "logical_deadline \<lparr>lc_now = t\<rparr> 0 t = (if t \<le> duration_max then Inr (t, t) else Inl CounterRange)"
  by (simp add: clock_deadline_def logical_checked_add_def logical_duration_since_def
      duration_checked_add_def duration_saturating_sub_def)

subsection \<open>Conditions\<close>

datatype restart_condition = MemoryLimit | DeadlineCondition

fun condition_bit :: "restart_condition \<Rightarrow> u8" where
  "condition_bit MemoryLimit = 1"
| "condition_bit DeadlineCondition = 2"

datatype restart_conditions = RestartConditions (condition_bits: u8)

definition conditions_none :: restart_conditions where
  "conditions_none = RestartConditions 0"

definition conditions_memory_limit :: restart_conditions where
  "conditions_memory_limit = RestartConditions 1"

definition conditions_deadline :: restart_conditions where
  "conditions_deadline = RestartConditions 2"

definition conditions_both :: restart_conditions where
  "conditions_both = RestartConditions 3"

definition conditions_contains :: "restart_conditions \<Rightarrow> restart_condition \<Rightarrow> bool" where
  "conditions_contains c x \<longleftrightarrow> condition_bits c AND condition_bit x \<noteq> 0"

definition conditions_is_empty :: "restart_conditions \<Rightarrow> bool" where
  "conditions_is_empty c \<longleftrightarrow> condition_bits c = 0"

definition conditions_serialize :: "restart_conditions \<Rightarrow> string list" where
  "conditions_serialize c =
     (if conditions_contains c MemoryLimit then [''memory-limit''] else [])
     @ (if conditions_contains c DeadlineCondition then [''deadline''] else [])"

datatype conditions_error = UnknownCondition | DuplicateCondition

fun conditions_add_names :: "u8 \<Rightarrow> string list \<Rightarrow> conditions_error + u8" where
  "conditions_add_names value [] = Inr value"
| "conditions_add_names value (name # names) =
     and_then (if name = ''memory-limit'' then Inr (condition_bits conditions_memory_limit)
               else if name = ''deadline'' then Inr (condition_bits conditions_deadline)
               else Inl UnknownCondition) (\<lambda>bit.
       if value AND bit \<noteq> 0 then Inl DuplicateCondition
       else conditions_add_names (value OR bit) names)"

definition conditions_deserialize :: "string list \<Rightarrow> conditions_error + restart_conditions" where
  "conditions_deserialize names =
     and_then (conditions_add_names (condition_bits conditions_none) names) (\<lambda>value. Inr (RestartConditions value))"

subsection \<open>Limits, circuit breaker and settings\<close>

datatype restart_limit = Unlimited | Count u64 \<comment> \<open>the count is non-zero\<close>

record circuit_breaker_policy =
  cb_threshold :: f64
  cb_half_life :: duration
  cb_cooldown :: duration

definition circuit_validate :: "circuit_breaker_policy \<Rightarrow> restart_controller_error + unit" where
  "circuit_validate p =
     (if \<not> f64_is_finite (cb_threshold p) \<or> f64_le (cb_threshold p) (Fin 0)
         \<or> cb_half_life p < from_millis 1
      then Inl InvalidCircuit else Inr ())"

definition circuit_new :: "f64 \<Rightarrow> duration \<Rightarrow> duration \<Rightarrow> restart_controller_error + circuit_breaker_policy" where
  "circuit_new threshold half_life cooldown =
     (let value = \<lparr>cb_threshold = threshold, cb_half_life = half_life, cb_cooldown = cooldown\<rparr>
      in and_then (circuit_validate value) (\<lambda>_. Inr value))"

record circuit_wire =
  cw_threshold :: f64
  cw_half_life_ms :: u64
  cw_cooldown_ms :: u64

definition circuit_serialize :: "circuit_breaker_policy \<Rightarrow> restart_controller_error + circuit_wire" where
  "circuit_serialize p =
     and_then (duration_millis (cb_half_life p)) (\<lambda>h.
     and_then (duration_millis (cb_cooldown p)) (\<lambda>c.
     Inr \<lparr>cw_threshold = cb_threshold p, cw_half_life_ms = h, cw_cooldown_ms = c\<rparr>))"

definition circuit_deserialize :: "circuit_wire \<Rightarrow> restart_controller_error + circuit_breaker_policy" where
  "circuit_deserialize wire =
     circuit_new (cw_threshold wire) (from_millis (cw_half_life_ms wire)) (from_millis (cw_cooldown_ms wire))"

record dormant_restart_condition =
  dc_condition :: restart_condition
  dc_reason :: string

record restart_settings =
  rs_configured_conditions :: restart_conditions
  rs_effective_conditions :: restart_conditions
  rs_dormant_conditions :: "dormant_restart_condition list"
  rs_limit :: restart_limit
  rs_backoff :: backoff_policy
  rs_circuit_breaker :: "circuit_breaker_policy option"

text \<open>The loop over the dormant conditions, with the accumulator \<open>seen\<close>.\<close>

fun dormant_seen :: "u8 \<Rightarrow> u8 \<Rightarrow> dormant_restart_condition list \<Rightarrow> restart_controller_error + u8" where
  "dormant_seen dormant seen [] = Inr seen"
| "dormant_seen dormant seen (c # cs) =
     (let bit = condition_bit (dc_condition c)
      in if dc_reason c = [] \<or> dormant AND bit = 0 \<or> seen AND bit \<noteq> 0 then Inl InvalidConditions
         else dormant_seen dormant (seen OR bit) cs)"

definition settings_validate :: "(f64 \<Rightarrow> f64) \<Rightarrow> restart_settings \<Rightarrow> restart_controller_error + unit" where
  "settings_validate exp2 s =
     (let configured = condition_bits (rs_configured_conditions s);
          effective = condition_bits (rs_effective_conditions s)
      in if conditions_is_empty (rs_effective_conditions s) \<or> effective AND NOT configured \<noteq> 0
         then Inl NoEffectiveCondition
         else (let dormant = configured AND NOT effective
               in and_then (dormant_seen dormant 0 (rs_dormant_conditions s)) (\<lambda>seen.
                  if seen \<noteq> dormant then Inl InvalidConditions
                  else and_then (backoff_policy_validate exp2 (rs_backoff s)) (\<lambda>_.
                    case rs_circuit_breaker s of
                      Some circuit \<Rightarrow> and_then (circuit_validate circuit) (\<lambda>_. Inr ())
                    | None \<Rightarrow> Inr ()))))"

definition settings_new ::
  "(f64 \<Rightarrow> f64) \<Rightarrow> restart_conditions \<Rightarrow> restart_conditions \<Rightarrow> dormant_restart_condition list
   \<Rightarrow> restart_limit \<Rightarrow> backoff_policy \<Rightarrow> circuit_breaker_policy option
   \<Rightarrow> restart_controller_error + restart_settings" where
  "settings_new exp2 configured effective dormant limit backoff circuit =
     (let value = \<lparr>rs_configured_conditions = configured, rs_effective_conditions = effective,
                   rs_dormant_conditions = dormant, rs_limit = limit, rs_backoff = backoff,
                   rs_circuit_breaker = circuit\<rparr>
      in and_then (settings_validate exp2 value) (\<lambda>_. Inr value))"

text \<open>The deserializer rebuilds the settings from the already decoded fields.\<close>

definition settings_deserialize :: "(f64 \<Rightarrow> f64) \<Rightarrow> restart_settings \<Rightarrow> restart_controller_error + restart_settings" where
  "settings_deserialize exp2 wire =
     settings_new exp2 (rs_configured_conditions wire) (rs_effective_conditions wire)
       (rs_dormant_conditions wire) (rs_limit wire) (rs_backoff wire) (rs_circuit_breaker wire)"

datatype restart_policy = Never | OnLimits restart_settings

subsection \<open>Records of a restart decision\<close>

datatype circuit_state = Closed | Open | HalfOpen

datatype restart_wait_kind = HalfLifeLogisticBackoffWait | CircuitCooldownWait

datatype restart_decision_kind =
  NoneDisabled | NoneConditionNotSelected | NoneLimitExhausted | NoneCleanupUnsafe
| NoneTerminalDeadline | HalfLifeLogisticBackoff | CircuitCooldown | HalfOpenLaunch
| AbortedByInterruption

record restart_decision_record =
  rd_trigger :: "restart_condition option"
  rd_decision :: restart_decision_kind
  rd_restart_number :: "u64 option"
  rd_half_life_logistic_sequence_index :: "u64 option"
  rd_configured_wait_ms :: "u64 option"
  rd_actual_wait_ms :: "u64 option"
  rd_wait_kind :: "restart_wait_kind option"
  rd_circuit_state :: circuit_state
  rd_supervision_deadline_truncated_wait :: bool

definition restart_decision_record_default :: restart_decision_record where
  "restart_decision_record_default =
     \<lparr>rd_trigger = None, rd_decision = NoneDisabled, rd_restart_number = None,
      rd_half_life_logistic_sequence_index = None, rd_configured_wait_ms = None,
      rd_actual_wait_ms = None, rd_wait_kind = None, rd_circuit_state = Closed,
      rd_supervision_deadline_truncated_wait = False\<rparr>"

record restart_summary =
  su_enabled :: bool
  su_restarts_launched :: u64
  su_restart_limit_exhausted :: bool
  su_half_life_logistic_waits :: u64
  su_cooldowns :: u64
  su_circuit_open_count :: u64
  su_final_circuit_state :: circuit_state

definition restart_summary_default :: restart_summary where
  "restart_summary_default =
     \<lparr>su_enabled = False, su_restarts_launched = 0, su_restart_limit_exhausted = False,
      su_half_life_logistic_waits = 0, su_cooldowns = 0, su_circuit_open_count = 0,
      su_final_circuit_state = Closed\<rparr>"

definition summary_is_consistent :: "restart_summary \<Rightarrow> u64 \<Rightarrow> bool" where
  "summary_is_consistent s targets_authorized \<longleftrightarrow> su_restarts_launched s \<le> targets_authorized"

definition summary_is_standalone_valid :: "restart_summary \<Rightarrow> bool" where
  "summary_is_standalone_valid s \<longleftrightarrow>
     su_cooldowns s \<le> su_circuit_open_count s
     \<and> (su_enabled s
        \<or> (su_restarts_launched s = 0 \<and> \<not> su_restart_limit_exhausted s
           \<and> su_half_life_logistic_waits s = 0 \<and> su_cooldowns s = 0
           \<and> su_circuit_open_count s = 0 \<and> su_final_circuit_state s = Closed))"

datatype restart_summary_error = InvalidRestartSummary

definition summary_deserialize :: "restart_summary \<Rightarrow> restart_summary_error + restart_summary" where
  "summary_deserialize wire =
     (if \<not> summary_is_standalone_valid wire then Inl InvalidRestartSummary else Inr wire)"

datatype boundary_requirement = Standard | Sealed

record restart_safety_proof =
  sp_direct_child_reaped :: bool
  sp_workload_empty :: "bool option"
  sp_helpers_reaped :: bool
  sp_containment_removed :: bool
  sp_containment_incapable_of_live_members :: bool
  sp_sealed_boundary_retired :: bool
  sp_errors :: "string list"

definition is_safe_for :: "restart_safety_proof \<Rightarrow> boundary_requirement \<Rightarrow> bool" where
  "is_safe_for p boundary \<longleftrightarrow>
     sp_direct_child_reaped p
     \<and> sp_workload_empty p = Some True
     \<and> sp_helpers_reaped p
     \<and> (sp_containment_removed p \<or> sp_containment_incapable_of_live_members p)
     \<and> (boundary \<noteq> Sealed \<or> sp_sealed_boundary_retired p)
     \<and> sp_errors p = []"

definition is_safe :: "restart_safety_proof \<Rightarrow> bool" where
  "is_safe p = is_safe_for p Standard"

definition safety_from_cleanup :: "cleanup_summary \<Rightarrow> restart_safety_proof" where
  "safety_from_cleanup cleanup =
     \<lparr>sp_direct_child_reaped = direct_child_reaped cleanup,
      sp_workload_empty = workload_empty cleanup,
      sp_helpers_reaped = False, sp_containment_removed = False,
      sp_containment_incapable_of_live_members = False, sp_sealed_boundary_retired = False,
      sp_errors = map (\<lambda>e. ce_operation e @ '': '' @ ce_message e) (cleanup_errors cleanup)\<rparr>"

subsection \<open>Properties of conditions and settings\<close>

fun condition_index :: "restart_condition \<Rightarrow> nat" where
  "condition_index MemoryLimit = 0"
| "condition_index DeadlineCondition = 1"

lemma condition_bit_eq: "condition_bit x = 2 ^ condition_index x"
  by (cases x) auto

lemma and_condition_bit: "v AND condition_bit x = 0 \<longleftrightarrow> \<not> bit v (condition_index x)"
  unfolding condition_bit_eq and_exp_eq_0_iff_not_bit ..

lemma conditions_contains_bit: "conditions_contains c x \<longleftrightarrow> bit (condition_bits c) (condition_index x)"
  by (simp add: conditions_contains_def and_condition_bit)

lemma or_condition_bit:
  "bit (v OR condition_bit x) (condition_index y) \<longleftrightarrow> bit v (condition_index y) \<or> x = y"
  by (cases x; cases y) (simp_all add: bit_or_iff bit_0 bit_numeral_rec even_or_iff)

text \<open>Condition sets hold no bits but the two defined ones.\<close>

definition conditions_wf :: "restart_conditions \<Rightarrow> bool" where
  "conditions_wf c \<longleftrightarrow> condition_bits c \<in> {0, 1, 2, 3}"

lemma two_bit_cases: "v \<in> {0, 1, 2, 3 :: u8} \<Longrightarrow> (v = 0 \<Longrightarrow> P) \<Longrightarrow> (v = 1 \<Longrightarrow> P) \<Longrightarrow> (v = 2 \<Longrightarrow> P) \<Longrightarrow> (v = 3 \<Longrightarrow> P) \<Longrightarrow> P"
  by auto

lemma two_bit_eqI:
  assumes "v \<in> {0, 1, 2, 3 :: u8}" and "w \<in> {0, 1, 2, 3}"
    and "\<And>x. bit v (condition_index x) \<longleftrightarrow> bit w (condition_index x)"
  shows "v = w"
  using assms(3) [of MemoryLimit] assms(3) [of DeadlineCondition] assms(1,2)
  by (auto simp: bit_0 bit_numeral_rec)

lemma two_bit_ops:
  assumes "v \<in> {0, 1, 2, 3 :: u8}" and "w \<in> {0, 1, 2, 3}"
  shows "v OR w \<in> {0, 1, 2, 3}" and "v AND NOT w \<in> {0, 1, 2, 3}"
  using assms by (auto simp: not_eq_complement)

lemma conditions_add_names_Inr_iff:
  "conditions_add_names 0 names = Inr v \<longleftrightarrow>
     (names, v) \<in> {([], 0), ([''memory-limit''], 1), ([''deadline''], 2),
       ([''memory-limit'', ''deadline''], 3), ([''deadline'', ''memory-limit''], 3)}"
proof -
  have full: "conditions_add_names 3 ns = Inr v \<longleftrightarrow> ns = [] \<and> v = 3" for ns v
    by (cases ns) (auto simp: conditions_memory_limit_def conditions_deadline_def)
  have one: "conditions_add_names 1 ns = Inr v \<longleftrightarrow> ns = [] \<and> v = 1 \<or> ns = [''deadline''] \<and> v = 3" for ns v
    by (cases ns) (auto simp: conditions_memory_limit_def conditions_deadline_def full)
  have two: "conditions_add_names 2 ns = Inr v \<longleftrightarrow> ns = [] \<and> v = 2 \<or> ns = [''memory-limit''] \<and> v = 3" for ns v
    by (cases ns) (auto simp: conditions_memory_limit_def conditions_deadline_def full)
  show ?thesis
    by (cases names) (auto simp: conditions_memory_limit_def conditions_deadline_def one two)
qed

lemma distinct_set_single:
  assumes "distinct xs" and "set xs = {a}"
  shows "xs = [a]"
proof (cases xs)
  case (Cons x ys)
  with assms have "x = a" "ys = []" by (cases ys; auto)+
  with Cons show ?thesis by simp
qed (use assms in simp)

lemma distinct_set_pair:
  assumes "distinct xs" and "a \<noteq> b" and "set xs = {a, b}"
  shows "xs = [a, b] \<or> xs = [b, a]"
proof (cases xs)
  case (Cons x ys)
  then have "distinct ys" "set ys = {a, b} - {x}" "x \<in> {a, b}" using assms by auto
  then show ?thesis
    using Cons distinct_set_single [of ys a] distinct_set_single [of ys b] assms(2) by auto
qed (use assms in simp)

text \<open>The four condition sets and their names.\<close>

lemma conditions_serialize_cases:
  "conditions_serialize (RestartConditions 0) = []"
  "conditions_serialize (RestartConditions 1) = [''memory-limit'']"
  "conditions_serialize (RestartConditions 2) = [''deadline'']"
  "conditions_serialize (RestartConditions 3) = [''memory-limit'', ''deadline'']"
  by (simp_all add: conditions_serialize_def conditions_contains_def)

text \<open>the wire form of a condition set is a faithful list of names. A list decodes to
  \<open>c\<close> exactly when it has no repetition and names the members of \<open>c\<close>, in any order; in
  particular every condition set decodes from what it serializes to, and duplicated or
  unknown names are rejected.\<close>

theorem conditions_wire_exact:
  "conditions_deserialize names = Inr c \<longleftrightarrow>
     conditions_wf c \<and> distinct names \<and> set names = set (conditions_serialize c)"
proof
  assume "conditions_deserialize names = Inr c"
  then have "(names, condition_bits c) \<in> {([], 0), ([''memory-limit''], 1), ([''deadline''], 2),
      ([''memory-limit'', ''deadline''], 3), ([''deadline'', ''memory-limit''], 3)}"
    unfolding conditions_add_names_Inr_iff [symmetric]
    by (auto simp: conditions_deserialize_def conditions_none_def)
  then show "conditions_wf c \<and> distinct names \<and> set names = set (conditions_serialize c)"
    by (cases c) (auto simp: conditions_wf_def conditions_serialize_cases)
next
  assume *: "conditions_wf c \<and> distinct names \<and> set names = set (conditions_serialize c)"
  obtain v where c: "c = RestartConditions v" by (cases c)
  have v: "v \<in> {0, 1, 2, 3}" using * c by (simp add: conditions_wf_def)
  have d: "distinct names" and names: "set names = set (conditions_serialize (RestartConditions v))"
    using * c by simp_all
  from v have "(names, v) \<in> {([], 0), ([''memory-limit''], 1), ([''deadline''], 2),
      ([''memory-limit'', ''deadline''], 3), ([''deadline'', ''memory-limit''], 3)}"
  proof (rule two_bit_cases)
    assume "v = 0" then show ?thesis using names by (simp add: conditions_serialize_cases)
  next
    assume v: "v = 1"
    then have "names = [''memory-limit'']"
      using names by (intro distinct_set_single [OF d]) (simp add: conditions_serialize_cases)
    then show ?thesis using v by simp
  next
    assume v: "v = 2"
    then have "names = [''deadline'']"
      using names by (intro distinct_set_single [OF d]) (simp add: conditions_serialize_cases)
    then show ?thesis using v by simp
  next
    assume v: "v = 3"
    then have "set names = {''memory-limit'', ''deadline''}"
      using names by (simp only: conditions_serialize_cases list.set)
    then have "names = [''memory-limit'', ''deadline''] \<or> names = [''deadline'', ''memory-limit'']"
      by (intro distinct_set_pair [OF d]) simp_all
    then show ?thesis using v by (elim disjE) simp_all
  qed
  then have "conditions_add_names 0 names = Inr v"
    unfolding conditions_add_names_Inr_iff .
  then show "conditions_deserialize names = Inr c"
    by (simp add: conditions_deserialize_def conditions_none_def c)
qed

text \<open>The loop over the dormant conditions.\<close>

lemma dormant_seen_Inr:
  assumes "dormant_seen dormant seen cs = Inr w" and "seen \<in> {0, 1, 2, 3}"
  shows "w \<in> {0, 1, 2, 3} \<and> distinct (map dc_condition cs) \<and> (\<forall>c \<in> set cs. dc_reason c \<noteq> [])
    \<and> (\<forall>x \<in> dc_condition ` set cs. bit dormant (condition_index x) \<and> \<not> bit seen (condition_index x))
    \<and> (\<forall>x. bit w (condition_index x) \<longleftrightarrow> bit seen (condition_index x) \<or> x \<in> dc_condition ` set cs)"
  using assms
proof (induction cs arbitrary: seen)
  case (Cons c cs)
  have ok: "dc_reason c \<noteq> []" "bit dormant (condition_index (dc_condition c))"
    "\<not> bit seen (condition_index (dc_condition c))"
    and rec: "dormant_seen dormant (seen OR condition_bit (dc_condition c)) cs = Inr w"
    using Cons.prems(1) by (auto simp: Let_def and_condition_bit split: if_splits)
  have "condition_bit (dc_condition c) \<in> {0, 1, 2, 3}" by (cases "dc_condition c") auto
  note IH = Cons.IH [OF rec two_bit_ops(1) [OF Cons.prems(2) this]]
  then have "dc_condition c \<notin> dc_condition ` set cs" using or_condition_bit by blast
  with IH ok show ?case unfolding or_condition_bit by auto
qed simp

lemma dormant_seen_complete:
  assumes "distinct (map dc_condition cs)" and "\<forall>c \<in> set cs. dc_reason c \<noteq> []"
    and "\<forall>x \<in> dc_condition ` set cs. bit dormant (condition_index x) \<and> \<not> bit seen (condition_index x)"
  shows "\<exists>w. dormant_seen dormant seen cs = Inr w"
  using assms
proof (induction cs arbitrary: seen)
  case (Cons c cs)
  have "\<exists>w. dormant_seen dormant (seen OR condition_bit (dc_condition c)) cs = Inr w"
    using Cons.prems or_condition_bit by (intro Cons.IH) auto
  then show ?case using Cons.prems by (auto simp: Let_def and_condition_bit)
qed simp

abbreviation condition_set :: "restart_conditions \<Rightarrow> restart_condition set" where
  "condition_set c \<equiv> {x. conditions_contains c x}"

definition circuit_policy_ok :: "circuit_breaker_policy \<Rightarrow> bool" where
  "circuit_policy_ok p \<longleftrightarrow> (\<exists>t > 0. cb_threshold p = Fin t) \<and> from_millis 1 \<le> cb_half_life p"

lemma circuit_validate_iff: "circuit_validate p = Inr () \<longleftrightarrow> circuit_policy_ok p"
  by (cases "cb_threshold p") (auto simp: circuit_validate_def circuit_policy_ok_def)

lemma settings_validate_iff:
  assumes "conditions_wf (rs_configured_conditions s)" and "conditions_wf (rs_effective_conditions s)"
  shows "settings_validate exp2 s = Inr () \<longleftrightarrow>
    condition_set (rs_effective_conditions s) \<noteq> {}
    \<and> condition_set (rs_effective_conditions s) \<subseteq> condition_set (rs_configured_conditions s)
    \<and> distinct (map dc_condition (rs_dormant_conditions s))
    \<and> dc_condition ` set (rs_dormant_conditions s)
        = condition_set (rs_configured_conditions s) - condition_set (rs_effective_conditions s)
    \<and> (\<forall>c \<in> set (rs_dormant_conditions s). dc_reason c \<noteq> [])
    \<and> proper_millis (bp_base_interval (rs_backoff s)) \<and> proper_millis (bp_asymptote_interval (rs_backoff s))
    \<and> proper_millis (bp_recovery_half_life (rs_backoff s))
    \<and> (\<forall>p. rs_circuit_breaker s = Some p \<longrightarrow> circuit_policy_ok p)"
proof -
  define C E D where "C = condition_bits (rs_configured_conditions s)"
    "E = condition_bits (rs_effective_conditions s)" "D = C AND NOT E"
  note defs = this
  let ?cs = "rs_dormant_conditions s"
  have CE: "C \<in> {0, 1, 2, 3}" "E \<in> {0, 1, 2, 3}" using assms by (simp_all add: defs conditions_wf_def)
  have D: "D \<in> {0, 1, 2, 3}" unfolding defs(3) by (rule two_bit_ops(2) [OF CE])
  have bitD: "bit D (condition_index x) \<longleftrightarrow> bit C (condition_index x) \<and> \<not> bit E (condition_index x)" for x
    unfolding defs(3) by (cases x) (simp_all add: bit_and_iff bit_not_iff even_and_iff bit_0)
  have empty: "E = 0 \<longleftrightarrow> {x. bit E (condition_index x)} = {}"
    using two_bit_eqI [OF CE(2), of 0] by auto
  have bitEC: "bit (E AND NOT C) (condition_index x) \<longleftrightarrow> bit E (condition_index x) \<and> \<not> bit C (condition_index x)" for x
    by (cases x) (simp_all add: bit_and_iff bit_not_iff even_and_iff bit_0)
  have sub: "E AND NOT C = 0 \<longleftrightarrow> {x. bit E (condition_index x)} \<subseteq> {x. bit C (condition_index x)}"
    using two_bit_eqI [OF two_bit_ops(2) [OF CE(2,1)], of 0] bitEC by auto
  have dorm: "dormant_seen D 0 ?cs = Inr D \<longleftrightarrow>
     distinct (map dc_condition ?cs) \<and> (\<forall>c \<in> set ?cs. dc_reason c \<noteq> [])
     \<and> dc_condition ` set ?cs = {x. bit C (condition_index x)} - {x. bit E (condition_index x)}"
    (is "_ \<longleftrightarrow> ?R")
  proof
    assume "dormant_seen D 0 ?cs = Inr D"
    from dormant_seen_Inr [OF this] show ?R using bitD by auto
  next
    assume R: ?R
    then obtain w where w: "dormant_seen D 0 ?cs = Inr w"
      using dormant_seen_complete [of ?cs D 0] bitD by auto
    then have "w = D"
      using dormant_seen_Inr [OF w] R bitD by (intro two_bit_eqI) (use D in auto)
    with w show "dormant_seen D 0 ?cs = Inr D" by simp
  qed
  have sets: "condition_set (rs_configured_conditions s) = {x. bit C (condition_index x)}"
    "condition_set (rs_effective_conditions s) = {x. bit E (condition_index x)}"
    by (simp_all add: conditions_contains_bit defs)
  have "settings_validate exp2 s = Inr () \<longleftrightarrow> E \<noteq> 0 \<and> E AND NOT C = 0 \<and> dormant_seen D 0 ?cs = Inr D
      \<and> backoff_policy_validate exp2 (rs_backoff s) = Inr ()
      \<and> (\<forall>p. rs_circuit_breaker s = Some p \<longrightarrow> circuit_validate p = Inr ())"
    unfolding settings_validate_def conditions_is_empty_def Let_def defs [symmetric]
    by (auto simp: and_then_Inr_iff split: if_splits option.splits)
  then show ?thesis
    unfolding sets empty sub dorm backoff_policy_validate_iff circuit_validate_iff by blast
qed

text \<open>What a valid restart configuration is. Validation accepts exactly the settings with at
  least one effective condition, all effective conditions configured, every configured but not
  effective condition listed exactly once as dormant with a reason and nothing else listed, a
  backoff policy with non-zero 64-bit millisecond intervals and, if there is a circuit breaker,
  a finite positive threshold and a half-life of a millisecond or more.\<close>

theorem settings_validate_exact:
  assumes "conditions_wf (rs_configured_conditions s)" and "conditions_wf (rs_effective_conditions s)"
  shows "settings_validate exp2 s = Inr () \<longleftrightarrow>
    condition_set (rs_effective_conditions s) \<noteq> {}
    \<and> condition_set (rs_effective_conditions s) \<subseteq> condition_set (rs_configured_conditions s)
    \<and> distinct (map dc_condition (rs_dormant_conditions s))
    \<and> dc_condition ` set (rs_dormant_conditions s)
        = condition_set (rs_configured_conditions s) - condition_set (rs_effective_conditions s)
    \<and> (\<forall>c \<in> set (rs_dormant_conditions s). dc_reason c \<noteq> [])
    \<and> proper_millis (bp_base_interval (rs_backoff s)) \<and> proper_millis (bp_asymptote_interval (rs_backoff s))
    \<and> proper_millis (bp_recovery_half_life (rs_backoff s))
    \<and> (\<forall>p. rs_circuit_breaker s = Some p \<longrightarrow> circuit_policy_ok p)"
  by (rule settings_validate_iff [OF assms])

lemma default_backoff_millis:
  "proper_millis (bp_base_interval backoff_policy_default)"
  "proper_millis (bp_asymptote_interval backoff_policy_default)"
  "proper_millis (bp_recovery_half_life backoff_policy_default)"
  by (simp_all add: backoff_policy_default_def proper_millis_def as_millis_def from_millis_def from_secs_def)

theorem settings_validate_exact_witness:
  "settings_validate exp2_nearest
     \<lparr>rs_configured_conditions = conditions_both, rs_effective_conditions = conditions_memory_limit,
      rs_dormant_conditions = [\<lparr>dc_condition = DeadlineCondition, dc_reason = ''no deadline''\<rparr>],
      rs_limit = Count 3, rs_backoff = backoff_policy_default, rs_circuit_breaker = None\<rparr> = Inr ()"
proof -
  have "condition_set conditions_both = {MemoryLimit, DeadlineCondition}"
    "condition_set conditions_memory_limit = {MemoryLimit}"
  proof -
    have "conditions_contains conditions_both x" "conditions_contains conditions_memory_limit x \<longleftrightarrow> x = MemoryLimit" for x
      by (cases x; simp add: conditions_contains_def conditions_both_def conditions_memory_limit_def)+
    then show "condition_set conditions_both = {MemoryLimit, DeadlineCondition}"
      "condition_set conditions_memory_limit = {MemoryLimit}"
      using restart_condition.exhaust by auto
  qed
  then show ?thesis
    by (subst settings_validate_exact)
      (auto simp: conditions_wf_def conditions_both_def conditions_memory_limit_def default_backoff_millis)
qed

end
