(* ===== verification/RestartController.thy ===== *)
theory RestartController
  imports RestartPolicy
begin

text \<open>
  The restart controller and coordinator of \<open>memcordon-core/src/restart.rs\<close>. A method that
  takes \<open>&mut self\<close> returns the new state together with its result, also on an error, so the
  updates made before an early return are kept as the code keeps them.
\<close>

record scheduled_restart =
  sr_kind :: restart_wait_kind
  sr_duration :: duration
  sr_restart_number :: u64
  sr_half_life_logistic_sequence_index :: "u64 option"
  sr_circuit_state :: circuit_state

datatype wait_completion = Completed | WaitInterrupted | SupervisionDeadline

record wait_result =
  wr_completion :: wait_completion
  wr_actual_elapsed :: duration
  wr_supervision_deadline_remaining :: "duration option"

datatype restart_decision =
  StopConditionNotSelected | StopLimitExhausted | StopCleanupUnsafe | StopInterrupted
| StopSupervisionDeadline | WaitDecision scheduled_restart | LaunchDecision u64 bool

datatype restart_action =
  StopAction restart_decision_kind | WaitAction duration restart_wait_kind | LaunchAction u64 bool

record restart_controller =
  rc_settings :: restart_settings
  rc_restarts_launched :: u64
  rc_backoff :: backoff_state
  rc_sequence_index :: u64
  rc_circuit_pressure :: f64
  rc_last_circuit_event_at :: "duration option"
  rc_circuit_state :: circuit_state
  rc_pending :: "scheduled_restart option"

definition controller_new :: "(f64 \<Rightarrow> f64) \<Rightarrow> restart_settings \<Rightarrow> restart_controller_error + restart_controller" where
  "controller_new exp2 settings =
     and_then (settings_validate exp2 settings) (\<lambda>_.
     and_then (backoff_state_new exp2 (rs_backoff settings)) (\<lambda>backoff.
     Inr \<lparr>rc_settings = settings, rc_restarts_launched = 0, rc_backoff = backoff,
          rc_sequence_index = 0, rc_circuit_pressure = Fin 0, rc_last_circuit_event_at = None,
          rc_circuit_state = Closed, rc_pending = None\<rparr>))"

definition has_remaining_launch :: "restart_controller \<Rightarrow> bool" where
  "has_remaining_launch c =
     (case rs_limit (rc_settings c) of
        Unlimited \<Rightarrow> True
      | Count limit \<Rightarrow> rc_restarts_launched c < limit)"

definition next_restart_number :: "restart_controller \<Rightarrow> restart_controller_error + u64" where
  "next_restart_number c = ok_or CounterRange (checked_add (rc_restarts_launched c) 1)"

definition circuit_decay ::
  "(f64 \<Rightarrow> f64) \<Rightarrow> restart_controller \<Rightarrow> circuit_breaker_policy \<Rightarrow> duration \<Rightarrow> restart_controller_error + f64" where
  "circuit_decay exp2 c circuit now =
     (case rc_last_circuit_event_at c of
        Some previous \<Rightarrow>
          and_then (ok_or BackoffTimeReversed (duration_checked_sub now previous)) (\<lambda>elapsed.
          and_then (duration_millis elapsed) (\<lambda>elapsed_ms.
          and_then (duration_millis (cb_half_life circuit)) (\<lambda>half_life_ms.
          Inr (exp2 (f64_neg (f64_div (f64_of_word elapsed_ms) (f64_of_word half_life_ms)))))))
      | None \<Rightarrow> Inr (Fin 0))"

definition record_eligible_event ::
  "(f64 \<Rightarrow> f64) \<Rightarrow> restart_controller \<Rightarrow> duration \<Rightarrow> restart_controller \<times> (restart_controller_error + bool)" where
  "record_eligible_event exp2 c now =
     (case rs_circuit_breaker (rc_settings c) of
        None \<Rightarrow> (c, Inr False)
      | Some circuit \<Rightarrow>
          (case circuit_decay exp2 c circuit now of
             Inl e \<Rightarrow> (c, Inl e)
           | Inr decay \<Rightarrow>
               (let pressure = f64_add (Fin 1) (f64_mul (rc_circuit_pressure c) decay);
                    c = c\<lparr>rc_circuit_pressure := pressure, rc_last_circuit_event_at := Some now\<rparr>
                in (c, Inr (f64_le (cb_threshold circuit) pressure)))))"

text \<open>The scheduled restart after the event was recorded: \<open>opens\<close> or a failed half-open
  launch opens the circuit.\<close>

definition schedule_restart ::
  "restart_controller \<Rightarrow> bool \<Rightarrow> duration \<Rightarrow> u64 \<Rightarrow> restart_controller \<times> (restart_controller_error + scheduled_restart)" where
  "schedule_restart c opens logistic_wait sequence_index =
     (let half_open_failed = rc_circuit_state c = HalfOpen
      in if opens \<or> half_open_failed
         then (let c = c\<lparr>rc_circuit_state := Open\<rparr>
               in (c, and_then (ok_or InvalidCircuit (rs_circuit_breaker (rc_settings c))) (\<lambda>circuit.
                      and_then (next_restart_number c) (\<lambda>number.
                      Inr \<lparr>sr_kind = CircuitCooldownWait, sr_duration = max logistic_wait (cb_cooldown circuit),
                           sr_restart_number = number,
                           sr_half_life_logistic_sequence_index = Some sequence_index,
                           sr_circuit_state = Open\<rparr>))))
         else (c, and_then (next_restart_number c) (\<lambda>number.
                  Inr \<lparr>sr_kind = HalfLifeLogisticBackoffWait, sr_duration = logistic_wait,
                       sr_restart_number = number,
                       sr_half_life_logistic_sequence_index = Some sequence_index,
                       sr_circuit_state = Closed\<rparr>)))"

text \<open>The decision record of a scheduled restart; the wait in milliseconds may not fit.\<close>

definition record_scheduled ::
  "restart_decision_record \<Rightarrow> scheduled_restart \<Rightarrow> restart_decision_record \<times> (restart_controller_error + unit)" where
  "record_scheduled entry scheduled =
     (let entry = entry\<lparr>
            rd_decision := (case sr_kind scheduled of
               HalfLifeLogisticBackoffWait \<Rightarrow> HalfLifeLogisticBackoff
             | CircuitCooldownWait \<Rightarrow> CircuitCooldown),
            rd_restart_number := Some (sr_restart_number scheduled),
            rd_half_life_logistic_sequence_index := sr_half_life_logistic_sequence_index scheduled\<rparr>
      in (case duration_millis (sr_duration scheduled) of
            Inl e \<Rightarrow> (entry, Inl e)
          | Inr ms \<Rightarrow>
              (entry\<lparr>rd_configured_wait_ms := Some ms, rd_wait_kind := Some (sr_kind scheduled),
                 rd_circuit_state := sr_circuit_state scheduled\<rparr>, Inr ())))"

definition count_wait :: "restart_summary \<Rightarrow> restart_wait_kind \<Rightarrow> restart_summary \<times> (restart_controller_error + unit)" where
  "count_wait summary kind =
     (case kind of
        HalfLifeLogisticBackoffWait \<Rightarrow>
          (case checked_add (su_half_life_logistic_waits summary) 1 of
             None \<Rightarrow> (summary, Inl CounterRange)
           | Some n \<Rightarrow> (summary\<lparr>su_half_life_logistic_waits := n\<rparr>, Inr ()))
      | CircuitCooldownWait \<Rightarrow>
          (case checked_add (su_cooldowns summary) 1 of
             None \<Rightarrow> (summary, Inl CounterRange)
           | Some n \<Rightarrow>
               (let summary = summary\<lparr>su_cooldowns := n\<rparr>
                in case checked_add (su_circuit_open_count summary) 1 of
                     None \<Rightarrow> (summary, Inl CounterRange)
                   | Some m \<Rightarrow> (summary\<lparr>su_circuit_open_count := m\<rparr>, Inr ()))))"

type_synonym decision_state = "restart_controller \<times> restart_decision_record \<times> restart_summary"

definition after_limit_recorded ::
  "(f64 \<Rightarrow> f64) \<Rightarrow> restart_condition \<Rightarrow> duration \<Rightarrow> restart_safety_proof \<Rightarrow> decision_state
   \<Rightarrow> decision_state \<times> (restart_controller_error + restart_decision)" where
  "after_limit_recorded exp2 condition now cleanup = (\<lambda>(c, entry, summary).
     case logical_deadline \<lparr>lc_now = now\<rparr> 0 now of
       Inl e \<Rightarrow> ((c, entry, summary), Inl e)
     | Inr (_, now) \<Rightarrow>
        (let summary = summary\<lparr>su_enabled := True\<rparr>;
             entry = entry\<lparr>rd_trigger := Some condition\<rparr>
         in
         if \<not> conditions_contains (rs_effective_conditions (rc_settings c)) condition
         then ((c, entry\<lparr>rd_decision := NoneConditionNotSelected\<rparr>, summary), Inr StopConditionNotSelected)
         else if \<not> is_safe cleanup
         then ((c, entry\<lparr>rd_decision := NoneCleanupUnsafe\<rparr>, summary), Inr StopCleanupUnsafe)
         else if \<not> has_remaining_launch c
         then ((c, entry\<lparr>rd_decision := NoneLimitExhausted\<rparr>,
                summary\<lparr>su_restart_limit_exhausted := True\<rparr>), Inr StopLimitExhausted)
         else if is_some (rc_pending c) then ((c, entry, summary), Inl InvalidTransition)
         else (let sequence_index = rc_sequence_index c;
                   (backoff, waited) = on_backoff exp2 (rc_backoff c) now;
                   c = c\<lparr>rc_backoff := backoff\<rparr>
               in case waited of
                 Inl e \<Rightarrow> ((c, entry, summary), Inl e)
               | Inr logistic_wait \<Rightarrow>
                 (case checked_add (rc_sequence_index c) 1 of
                    None \<Rightarrow> ((c, entry, summary), Inl CounterRange)
                  | Some index \<Rightarrow>
                    (case record_eligible_event exp2 (c\<lparr>rc_sequence_index := index\<rparr>) now of
                       (c, Inl e) \<Rightarrow> ((c, entry, summary), Inl e)
                     | (c, Inr opens) \<Rightarrow>
                       (case schedule_restart c opens logistic_wait sequence_index of
                          (c, Inl e) \<Rightarrow> ((c, entry, summary), Inl e)
                        | (c, Inr scheduled) \<Rightarrow>
                          (let c = c\<lparr>rc_pending := Some scheduled\<rparr>
                           in case record_scheduled entry scheduled of
                             (entry, Inl e) \<Rightarrow> ((c, entry, summary), Inl e)
                           | (entry, Inr _) \<Rightarrow>
                             (case count_wait summary (sr_kind scheduled) of
                                (summary, Inl e) \<Rightarrow> ((c, entry, summary), Inl e)
                              | (summary, Inr _) \<Rightarrow>
                                ((c, entry, summary\<lparr>su_final_circuit_state := rc_circuit_state c\<rparr>),
                                 Inr (WaitDecision scheduled))))))))))"

definition authorize_after_wait_recorded ::
  "wait_result \<Rightarrow> decision_state \<Rightarrow> decision_state \<times> (restart_controller_error + restart_decision)" where
  "authorize_after_wait_recorded result = (\<lambda>(c, entry, summary).
     let pending = rc_pending c;
         c = c\<lparr>rc_pending := None\<rparr>
     in case pending of
       None \<Rightarrow> ((c, entry, summary), Inl InvalidTransition)
     | Some scheduled \<Rightarrow>
       (case duration_millis (wr_actual_elapsed result) of
          Inl e \<Rightarrow> ((c, entry, summary), Inl e)
        | Inr ms \<Rightarrow>
          (let entry = entry\<lparr>rd_actual_wait_ms := Some ms\<rparr>
           in case wr_completion result of
             WaitInterrupted \<Rightarrow>
               ((c, entry\<lparr>rd_decision := AbortedByInterruption\<rparr>, summary), Inr StopInterrupted)
           | SupervisionDeadline \<Rightarrow>
               ((c, entry\<lparr>rd_decision := NoneTerminalDeadline,
                  rd_supervision_deadline_truncated_wait := True\<rparr>, summary), Inr StopSupervisionDeadline)
           | Completed \<Rightarrow>
             (if wr_actual_elapsed result < sr_duration scheduled
              then ((c, entry, summary), Inl InvalidTransition)
              else if is_some_and (\<lambda>remaining. remaining = 0) (wr_supervision_deadline_remaining result)
              then ((c, entry\<lparr>rd_decision := NoneTerminalDeadline,
                      rd_supervision_deadline_truncated_wait := True\<rparr>, summary), Inr StopSupervisionDeadline)
              else if \<not> has_remaining_launch c
              then ((c, entry\<lparr>rd_decision := NoneLimitExhausted\<rparr>,
                     summary\<lparr>su_restart_limit_exhausted := True\<rparr>), Inr StopLimitExhausted)
              else (case checked_add (rc_restarts_launched c) 1 of
                 None \<Rightarrow> ((c, entry, summary), Inl CounterRange)
               | Some launched \<Rightarrow>
                 (let half_open = sr_kind scheduled = CircuitCooldownWait;
                      state = (if half_open then HalfOpen else Closed);
                      c = c\<lparr>rc_restarts_launched := launched, rc_circuit_state := state\<rparr>;
                      entry = entry\<lparr>
                        rd_decision := (if half_open then HalfOpenLaunch else rd_decision entry),
                        rd_circuit_state := state\<rparr>;
                      summary = summary\<lparr>su_restarts_launched := launched, su_final_circuit_state := state\<rparr>
                  in ((c, entry, summary), Inr (LaunchDecision launched half_open))))))))"

fun action :: "restart_decision \<Rightarrow> restart_decision_kind \<Rightarrow> restart_action" where
  "action (WaitDecision wait) stop = WaitAction (sr_duration wait) (sr_kind wait)"
| "action (LaunchDecision restart_number half_open) stop = LaunchAction restart_number half_open"
| "action _ stop = StopAction stop"

record restart_coordinator =
  co_controller :: restart_controller
  co_summary :: restart_summary

definition coordinator_new :: "(f64 \<Rightarrow> f64) \<Rightarrow> restart_settings \<Rightarrow> restart_controller_error + restart_coordinator" where
  "coordinator_new exp2 settings =
     and_then (controller_new exp2 settings) (\<lambda>controller.
     Inr \<lparr>co_controller = controller, co_summary = restart_summary_default\<rparr>)"

definition on_limit ::
  "(f64 \<Rightarrow> f64) \<Rightarrow> restart_condition \<Rightarrow> duration \<Rightarrow> restart_safety_proof
   \<Rightarrow> restart_coordinator \<Rightarrow> restart_decision_record
   \<Rightarrow> restart_coordinator \<times> restart_decision_record \<times> (restart_controller_error + restart_action)" where
  "on_limit exp2 condition now cleanup co entry =
     (case after_limit_recorded exp2 condition now cleanup (co_controller co, entry, co_summary co) of
        ((c, entry, summary), result) \<Rightarrow>
          (\<lparr>co_controller = c, co_summary = summary\<rparr>, entry,
           and_then result (\<lambda>decision. Inr (action decision (rd_decision entry)))))"

definition complete_wait ::
  "wait_completion \<Rightarrow> duration \<Rightarrow> duration option
   \<Rightarrow> restart_coordinator \<Rightarrow> restart_decision_record
   \<Rightarrow> restart_coordinator \<times> restart_decision_record \<times> (restart_controller_error + restart_action)" where
  "complete_wait completion actual_elapsed supervision_deadline_remaining co entry =
     (case authorize_after_wait_recorded
             \<lparr>wr_completion = completion, wr_actual_elapsed = actual_elapsed,
              wr_supervision_deadline_remaining = supervision_deadline_remaining\<rparr>
             (co_controller co, entry, co_summary co) of
        ((c, entry, summary), result) \<Rightarrow>
          (\<lparr>co_controller = c, co_summary = summary\<rparr>, entry,
           and_then result (\<lambda>decision. Inr (action decision (rd_decision entry)))))"

subsection \<open>What one call does\<close>

lemma record_eligible_event_frame:
  assumes "record_eligible_event exp2 c now = (c', r)"
  shows "rc_settings c' = rc_settings c" "rc_restarts_launched c' = rc_restarts_launched c"
    "rc_circuit_state c' = rc_circuit_state c" "rc_pending c' = rc_pending c"
    "r = Inr True \<Longrightarrow> is_some (rs_circuit_breaker (rc_settings c))"
  using assms by (auto simp: record_eligible_event_def Let_def split: option.splits sum.splits)

text \<open>A scheduled restart is a plain backoff wait, or a circuit cooldown of at least the
  configured length.\<close>

definition scheduled_ok :: "restart_settings \<Rightarrow> scheduled_restart \<Rightarrow> bool" where
  "scheduled_ok settings s \<longleftrightarrow>
     (case sr_kind s of
        HalfLifeLogisticBackoffWait \<Rightarrow> sr_circuit_state s = Closed
      | CircuitCooldownWait \<Rightarrow> sr_circuit_state s = Open
          \<and> is_some_and (\<lambda>circuit. cb_cooldown circuit \<le> sr_duration s) (rs_circuit_breaker settings))"

lemma schedule_restart_frame:
  assumes "schedule_restart c opens w i = (c', r)"
  shows "rc_settings c' = rc_settings c" "rc_restarts_launched c' = rc_restarts_launched c"
    "rc_pending c' = rc_pending c"
    "rc_circuit_state c' = (if opens \<or> rc_circuit_state c = HalfOpen then Open else rc_circuit_state c)"
    "r = Inr s \<Longrightarrow> scheduled_ok (rc_settings c) s \<and> w \<le> sr_duration s
       \<and> (sr_kind s = CircuitCooldownWait \<longleftrightarrow> opens \<or> rc_circuit_state c = HalfOpen)
       \<and> unat (sr_restart_number s) = Suc (unat (rc_restarts_launched c))"
  using assms
  by (auto simp: schedule_restart_def Let_def scheduled_ok_def next_restart_number_def
      checked_add_Some_iff split: if_splits)

lemma record_scheduled_result:
  "record_scheduled entry s = (entry', r) \<Longrightarrow> r = Inr () \<or> (\<exists>e. r = Inl e)"
  by (auto simp: record_scheduled_def Let_def split: sum.splits)

definition summary_counts_ok :: "restart_summary \<Rightarrow> bool" where
  "summary_counts_ok s \<longleftrightarrow> su_cooldowns s = su_circuit_open_count s"

lemma count_wait_frame:
  assumes "count_wait summary kind = (summary', r)" and "summary_counts_ok summary"
  shows "summary_counts_ok summary'" "su_enabled summary' = su_enabled summary"
    "su_restarts_launched summary' = su_restarts_launched summary"
    "su_restart_limit_exhausted summary' = su_restart_limit_exhausted summary"
    "su_final_circuit_state summary' = su_final_circuit_state summary"
  using assms
  by (auto simp: count_wait_def summary_counts_ok_def Let_def
      split: restart_wait_kind.splits option.splits)

text \<open>The frame of \<open>after_limit_recorded\<close>: counters and settings are kept, the pending restart
  is kept or newly scheduled, and it is scheduled only for an effective condition, after a safe
  cleanup, with launches left and nothing pending.\<close>

definition limit_eligible :: "restart_controller \<Rightarrow> restart_condition \<Rightarrow> restart_safety_proof \<Rightarrow> bool" where
  "limit_eligible c condition cleanup \<longleftrightarrow>
     conditions_contains (rs_effective_conditions (rc_settings c)) condition
     \<and> is_safe cleanup \<and> has_remaining_launch c \<and> rc_pending c = None"

lemma after_limit_not_eligible:
  assumes "after_limit_recorded exp2 condition now cleanup (c, entry, summary) = ((c', entry', summary'), r)"
    and "\<not> limit_eligible c condition cleanup"
  shows "c' = c" and "su_restarts_launched summary' = su_restarts_launched summary"
    and "summary_counts_ok summary' = summary_counts_ok summary"
    and "su_enabled summary' \<or> summary' = summary"
    and "r \<noteq> Inr (WaitDecision s)" and "r \<noteq> Inr (LaunchDecision n h)"
  using assms
  by (auto simp: after_limit_recorded_def logical_deadline_now limit_eligible_def Let_def
      summary_counts_ok_def split: if_splits)

definition circuit_inv :: "restart_controller \<Rightarrow> bool" where
  "circuit_inv c \<longleftrightarrow>
     (rc_circuit_state c \<noteq> Closed \<longrightarrow> is_some (rs_circuit_breaker (rc_settings c)))
     \<and> is_none_or (scheduled_ok (rc_settings c)) (rc_pending c)"

lemma after_limit_eligible:
  assumes eq: "after_limit_recorded exp2 condition now cleanup (c, entry, summary) = ((c', entry', summary'), r)"
    and el: "limit_eligible c condition cleanup" and inv: "circuit_inv c" "summary_counts_ok summary"
  shows "rc_settings c' = rc_settings c \<and> rc_restarts_launched c' = rc_restarts_launched c \<and> circuit_inv c'
    \<and> su_restarts_launched summary' = su_restarts_launched summary \<and> summary_counts_ok summary'
    \<and> (su_enabled summary' \<or> summary' = summary \<and> rc_pending c' = rc_pending c)
    \<and> (case rc_pending c' of
         None \<Rightarrow> (\<exists>e. r = Inl e)
       | Some s \<Rightarrow> (r = Inr (WaitDecision s) \<or> (\<exists>e. r = Inl e))
           \<and> (rc_circuit_state c = HalfOpen \<longrightarrow> sr_kind s = CircuitCooldownWait)
           \<and> (sr_kind s = CircuitCooldownWait \<longrightarrow> rc_circuit_state c' = Open))"
proof (cases "now \<le> duration_max")
  case False
  then show ?thesis
    using eq el inv by (auto simp: after_limit_recorded_def logical_deadline_now limit_eligible_def)
next
  case True
  let ?entry = "entry\<lparr>rd_trigger := Some condition\<rparr>" and ?summary = "summary\<lparr>su_enabled := True\<rparr>"
  obtain b waited where b: "on_backoff exp2 (rc_backoff c) now = (b, waited)" by force
  have none: "rc_pending c = None" using el by (simp add: limit_eligible_def)
  have scount: "summary_counts_ok ?summary" using inv(2) by (simp add: summary_counts_ok_def)
  note unf = eq [unfolded after_limit_recorded_def, simplified logical_deadline_now, simplified True]
  show ?thesis
  proof (cases waited)
    case (Inl e)
    then show ?thesis
      using unf el inv none by (auto simp: limit_eligible_def b circuit_inv_def summary_counts_ok_def Let_def)
  next
    case w: (Inr w)
    show ?thesis
    proof (cases "checked_add (rc_sequence_index c) 1")
      case None
      then show ?thesis
        using unf el inv none w by (auto simp: limit_eligible_def b circuit_inv_def summary_counts_ok_def Let_def)
    next
      case i: (Some i)
      obtain c1 opens where c1: "record_eligible_event exp2 (c\<lparr>rc_backoff := b, rc_sequence_index := i\<rparr>) now = (c1, opens)"
        by force
      note f1 = record_eligible_event_frame [OF c1]
      show ?thesis
      proof (cases opens)
        case (Inl e)
        then show ?thesis
          using unf el inv none w i c1 f1
          by (auto simp: limit_eligible_def b circuit_inv_def summary_counts_ok_def Let_def)
      next
        case o: (Inr op)
        obtain c2 sched where c2: "schedule_restart c1 op w (rc_sequence_index c) = (c2, sched)" by force
        note f2 = schedule_restart_frame [OF c2]
        have inv2: "rc_circuit_state c2 \<noteq> Closed \<longrightarrow> is_some (rs_circuit_breaker (rc_settings c))"
          using f1 f2(4) o inv(1) by (cases op) (auto simp: circuit_inv_def)
        show ?thesis
        proof (cases sched)
          case (Inl e)
          then show ?thesis
            using unf el inv none w i c1 f1 o c2 f2 inv2
            by (auto simp: limit_eligible_def b circuit_inv_def summary_counts_ok_def Let_def)
        next
          case s: (Inr s)
          have ok: "scheduled_ok (rc_settings c) s"
            "rc_circuit_state c = HalfOpen \<longrightarrow> sr_kind s = CircuitCooldownWait"
            "sr_kind s = CircuitCooldownWait \<longrightarrow> rc_circuit_state c2 = Open"
            using f2(4) f2(5) [OF s] f1 by auto
          obtain rec1 rr where rr: "record_scheduled ?entry s = (rec1, rr)" by force
          obtain sum1 sr where sr: "count_wait ?summary (sr_kind s) = (sum1, sr)" by force
          note f3 = count_wait_frame [OF sr scount]
          have inv3: "circuit_inv (c2\<lparr>rc_pending := Some s\<rparr>)"
            using inv2 ok(1) f1(1) f2(1) by (simp add: circuit_inv_def)
          show ?thesis
            using unf el inv w i c1 o c2 s rr sr inv3 f1(1,2) f2(1,2) f3 ok(2,3) scount
            by (auto simp: limit_eligible_def b summary_counts_ok_def Let_def split: sum.splits)
        qed
      qed
    qed
  qed
qed

text \<open>The frame of \<open>authorize_after_wait_recorded\<close>: the pending restart is always consumed,
  and a launch needs a completed wait of at least the scheduled length.\<close>

lemma authorize_frame:
  assumes "authorize_after_wait_recorded result (c, entry, summary) = ((c', entry', summary'), r)"
  shows "rc_pending c' = None" "rc_settings c' = rc_settings c"
    "summary_counts_ok summary' = summary_counts_ok summary" "su_enabled summary' = su_enabled summary"
    "r \<noteq> Inr (WaitDecision s)"
    "\<nexists>n h. r = Inr (LaunchDecision n h) \<Longrightarrow> rc_restarts_launched c' = rc_restarts_launched c
       \<and> rc_circuit_state c' = rc_circuit_state c \<and> su_restarts_launched summary' = su_restarts_launched summary
       \<and> su_final_circuit_state summary' = su_final_circuit_state summary
       \<and> (rc_pending c = None \<longrightarrow> summary' = summary)"
  using assms
  by (auto simp: authorize_after_wait_recorded_def Let_def summary_counts_ok_def
      split: option.splits sum.splits wait_completion.splits if_splits)

lemma has_remaining_pending [simp]: "has_remaining_launch (c\<lparr>rc_pending := p\<rparr>) = has_remaining_launch c"
  by (simp add: has_remaining_launch_def split: restart_limit.split)

lemma authorize_launch:
  assumes "authorize_after_wait_recorded result (c, entry, summary) = ((c', entry', summary'), Inr (LaunchDecision n h))"
  obtains s where "rc_pending c = Some s" "wr_completion result = Completed"
    "sr_duration s \<le> wr_actual_elapsed result" "wr_supervision_deadline_remaining result \<noteq> Some 0"
    "has_remaining_launch c" "unat n = Suc (unat (rc_restarts_launched c))" "rc_restarts_launched c' = n"
    "su_restarts_launched summary' = n" "h \<longleftrightarrow> sr_kind s = CircuitCooldownWait"
    "rc_circuit_state c' = (if h then HalfOpen else Closed)"
  using assms
  by (auto simp: authorize_after_wait_recorded_def Let_def checked_add_Some_iff is_some_and_iff
      split: option.splits sum.splits wait_completion.splits if_splits)

subsection \<open>Runs of a coordinator\<close>

datatype coordinator_op =
  LimitOp restart_condition duration restart_safety_proof
| WaitOp wait_completion duration "duration option"

type_synonym coordinator_event = "coordinator_op \<times> (restart_controller_error + restart_action)"

text \<open>One call, with whatever decision record the caller passes in.\<close>

inductive coordinator_step ::
  "(f64 \<Rightarrow> f64) \<Rightarrow> restart_coordinator \<Rightarrow> coordinator_event \<Rightarrow> restart_coordinator \<Rightarrow> bool" for exp2 where
  limit: "on_limit exp2 condition now cleanup co entry = (co', entry', r) \<Longrightarrow>
    coordinator_step exp2 co (LimitOp condition now cleanup, r) co'"
| wait: "complete_wait completion elapsed remaining co entry = (co', entry', r) \<Longrightarrow>
    coordinator_step exp2 co (WaitOp completion elapsed remaining, r) co'"

inductive_cases limit_stepE: "coordinator_step exp2 co (LimitOp condition now cleanup, r) co'"
inductive_cases wait_stepE: "coordinator_step exp2 co (WaitOp completion elapsed remaining, r) co'"

inductive coordinator_run ::
  "(f64 \<Rightarrow> f64) \<Rightarrow> restart_coordinator \<Rightarrow> coordinator_event list \<Rightarrow> restart_coordinator \<Rightarrow> bool" for exp2 co where
  start: "coordinator_run exp2 co [] co"
| call: "coordinator_run exp2 co events co1 \<Longrightarrow> coordinator_step exp2 co1 e co2 \<Longrightarrow>
    coordinator_run exp2 co (events @ [e]) co2"

fun launch_numbers :: "coordinator_event list \<Rightarrow> u64 list" where
  "launch_numbers [] = []"
| "launch_numbers ((op, Inr (LaunchAction n h)) # events) = n # launch_numbers events"
| "launch_numbers (e # events) = launch_numbers events"

lemma launch_numbers_append [simp]: "launch_numbers (xs @ ys) = launch_numbers xs @ launch_numbers ys"
  by (induction xs rule: launch_numbers.induct) auto

lemma launch_numbers_single: "launch_numbers [e] = (case snd e of Inr (LaunchAction n h) \<Rightarrow> [n] | _ \<Rightarrow> [])"
  by (cases e rule: prod.exhaust) (auto split: sum.splits restart_action.splits)

text \<open>The invariant of every coordinator a run reaches.\<close>

definition coordinator_inv :: "restart_settings \<Rightarrow> restart_coordinator \<Rightarrow> bool" where
  "coordinator_inv settings co \<longleftrightarrow>
     rc_settings (co_controller co) = settings \<and> circuit_inv (co_controller co)
     \<and> summary_counts_ok (co_summary co)
     \<and> su_restarts_launched (co_summary co) = rc_restarts_launched (co_controller co)
     \<and> (\<forall>limit. rs_limit settings = Count limit \<longrightarrow> rc_restarts_launched (co_controller co) \<le> limit)
     \<and> (su_enabled (co_summary co)
        \<or> co_summary co = restart_summary_default \<and> rc_pending (co_controller co) = None)"

lemma coordinator_new_inv:
  assumes "coordinator_new exp2 settings = Inr co"
  shows "coordinator_inv settings co" "rc_restarts_launched (co_controller co) = 0" "rc_pending (co_controller co) = None"
  using assms
  by (auto simp: coordinator_new_def controller_new_def coordinator_inv_def circuit_inv_def
      summary_counts_ok_def restart_summary_default_def)

text \<open>What a step does, in terms of the call it makes.\<close>

lemma action_Launch_iff [simp]: "action d k = LaunchAction n h \<longleftrightarrow> d = LaunchDecision n h"
  by (cases d) auto

lemma action_Wait_iff [simp]: "action d k = WaitAction w kind \<longleftrightarrow> (\<exists>s. d = WaitDecision s \<and> sr_duration s = w \<and> sr_kind s = kind)"
  by (cases d) auto

lemma limit_stepD:
  assumes "coordinator_step exp2 co (LimitOp condition now cleanup, r) co'" and inv: "coordinator_inv settings co"
  shows "coordinator_inv settings co'" "rc_restarts_launched (co_controller co') = rc_restarts_launched (co_controller co)"
    "launch_numbers [(LimitOp condition now cleanup, r)] = []"
    "rc_pending (co_controller co') = rc_pending (co_controller co)
     \<or> (\<exists>s. rc_pending (co_controller co') = Some s
          \<and> limit_eligible (co_controller co) condition cleanup
          \<and> (r = Inr (WaitAction (sr_duration s) (sr_kind s)) \<or> (\<exists>e. r = Inl e)))"
proof -
  obtain rc rc' where call: "on_limit exp2 condition now cleanup co rc = (co', rc', r)"
    using assms(1) by (rule limit_stepE)
  then obtain q where q: "after_limit_recorded exp2 condition now cleanup (co_controller co, rc, co_summary co)
      = ((co_controller co', rc', co_summary co'), q)"
    and r: "r = and_then q (\<lambda>decision. Inr (action decision (rd_decision rc')))"
    by (auto simp: on_limit_def split: prod.splits)
  note iv = inv [unfolded coordinator_inv_def]
  have "coordinator_inv settings co' \<and> rc_restarts_launched (co_controller co') = rc_restarts_launched (co_controller co)
    \<and> launch_numbers [(LimitOp condition now cleanup, r)] = []
    \<and> (rc_pending (co_controller co') = rc_pending (co_controller co)
     \<or> (\<exists>s. rc_pending (co_controller co') = Some s
          \<and> limit_eligible (co_controller co) condition cleanup
          \<and> (r = Inr (WaitAction (sr_duration s) (sr_kind s)) \<or> (\<exists>e. r = Inl e))))"
  proof (cases "limit_eligible (co_controller co) condition cleanup")
    case False
    note f = after_limit_not_eligible [OF q False]
    show ?thesis
      using f iv r by (cases q) (auto simp: coordinator_inv_def launch_numbers_single split: restart_action.splits)
  next
    case True
    note f = after_limit_eligible [OF q True]
    have none: "rc_pending (co_controller co) = None" using True by (simp add: limit_eligible_def)
    show ?thesis
      using f iv r none True
      by (cases q; cases "rc_pending (co_controller co')")
        (auto simp: coordinator_inv_def launch_numbers_single split: restart_action.splits)
  qed
  then show "coordinator_inv settings co'" "rc_restarts_launched (co_controller co') = rc_restarts_launched (co_controller co)"
    "launch_numbers [(LimitOp condition now cleanup, r)] = []"
    "rc_pending (co_controller co') = rc_pending (co_controller co)
     \<or> (\<exists>s. rc_pending (co_controller co') = Some s
          \<and> limit_eligible (co_controller co) condition cleanup
          \<and> (r = Inr (WaitAction (sr_duration s) (sr_kind s)) \<or> (\<exists>e. r = Inl e)))"
    by blast+
qed

lemma wait_stepD:
  assumes "coordinator_step exp2 co (WaitOp completion elapsed remaining, r) co'" and inv: "coordinator_inv settings co"
  shows "coordinator_inv settings co'" "rc_pending (co_controller co') = None"
    "\<nexists>n h. r = Inr (LaunchAction n h) \<Longrightarrow> rc_restarts_launched (co_controller co') = rc_restarts_launched (co_controller co)"
    "r = Inr (LaunchAction n h) \<Longrightarrow> completion = Completed \<and> remaining \<noteq> Some 0
       \<and> rc_restarts_launched (co_controller co') = n \<and> unat n = Suc (unat (rc_restarts_launched (co_controller co)))
       \<and> (\<exists>s. rc_pending (co_controller co) = Some s \<and> sr_duration s \<le> elapsed
            \<and> (h \<longleftrightarrow> sr_kind s = CircuitCooldownWait) \<and> scheduled_ok settings s)"
proof -
  obtain rc rc' where call: "complete_wait completion elapsed remaining co rc = (co', rc', r)"
    using assms(1) by (rule wait_stepE)
  then obtain q where q: "authorize_after_wait_recorded
        \<lparr>wr_completion = completion, wr_actual_elapsed = elapsed, wr_supervision_deadline_remaining = remaining\<rparr>
        (co_controller co, rc, co_summary co) = ((co_controller co', rc', co_summary co'), q)"
    and r: "r = and_then q (\<lambda>decision. Inr (action decision (rd_decision rc')))"
    by (auto simp: complete_wait_def split: prod.splits)
  note iv = inv [unfolded coordinator_inv_def]
  note f = authorize_frame [OF q]
  show "rc_pending (co_controller co') = None" by (rule f)
  have L: "r = Inr (LaunchAction n h) \<longleftrightarrow> q = Inr (LaunchDecision n h)" for n h
    using r by (cases q) auto
  show "rc_restarts_launched (co_controller co') = rc_restarts_launched (co_controller co)"
    if "\<nexists>n h. r = Inr (LaunchAction n h)"
    using f(6) that L by simp
  have launch: "completion = Completed \<and> remaining \<noteq> Some 0
       \<and> rc_restarts_launched (co_controller co') = n \<and> unat n = Suc (unat (rc_restarts_launched (co_controller co)))
       \<and> (\<exists>s. rc_pending (co_controller co) = Some s \<and> sr_duration s \<le> elapsed
            \<and> (h \<longleftrightarrow> sr_kind s = CircuitCooldownWait) \<and> scheduled_ok settings s)
       \<and> coordinator_inv settings co'" if ql: "q = Inr (LaunchDecision n h)" for n h
  proof -
    obtain s where s: "rc_pending (co_controller co) = Some s" "completion = Completed"
      "sr_duration s \<le> elapsed" "remaining \<noteq> Some 0" "has_remaining_launch (co_controller co)"
      "unat n = Suc (unat (rc_restarts_launched (co_controller co)))" "rc_restarts_launched (co_controller co') = n"
      "su_restarts_launched (co_summary co') = n" "h \<longleftrightarrow> sr_kind s = CircuitCooldownWait"
      "rc_circuit_state (co_controller co') = (if h then HalfOpen else Closed)"
      using authorize_launch [OF q [unfolded ql]] by auto
    have ok: "scheduled_ok settings s" using iv s(1) by (auto simp: circuit_inv_def)
    moreover have "h \<Longrightarrow> is_some (rs_circuit_breaker settings)"
      using ok s(9) by (auto simp: scheduled_ok_def is_some_and_iff)
    moreover have "n \<le> limit" if "rs_limit settings = Count limit" for limit
      using s(5,6) iv that by (auto simp: has_remaining_launch_def word_less_nat_alt word_le_nat_alt)
    ultimately show ?thesis
      using s f(1-4) iv by (auto simp: coordinator_inv_def circuit_inv_def)
  qed
  then show "completion = Completed \<and> remaining \<noteq> Some 0
       \<and> rc_restarts_launched (co_controller co') = n \<and> unat n = Suc (unat (rc_restarts_launched (co_controller co)))
       \<and> (\<exists>s. rc_pending (co_controller co) = Some s \<and> sr_duration s \<le> elapsed
            \<and> (h \<longleftrightarrow> sr_kind s = CircuitCooldownWait) \<and> scheduled_ok settings s)" if "r = Inr (LaunchAction n h)"
    using that L by blast
  show "coordinator_inv settings co'"
  proof (cases "\<exists>n h. q = Inr (LaunchDecision n h)")
    case False
    then show ?thesis using f(1-4,6) iv by (auto simp: coordinator_inv_def circuit_inv_def)
  qed (use launch in blast)
qed

lemma coordinator_step_inv:
  "coordinator_step exp2 co e co' \<Longrightarrow> coordinator_inv settings co \<Longrightarrow> coordinator_inv settings co'"
proof -
  assume step: "coordinator_step exp2 co e co'" and inv: "coordinator_inv settings co"
  obtain op r where e: "e = (op, r)" by force
  show ?thesis
    by (cases op) (use limit_stepD(1) [OF _ inv] wait_stepD(1) [OF _ inv] step e in blast)+
qed

lemma coordinator_run_inv:
  "coordinator_run exp2 co events co' \<Longrightarrow> coordinator_inv settings co \<Longrightarrow> coordinator_inv settings co'"
  by (induction rule: coordinator_run.induct) (auto intro: coordinator_step_inv)

lemma coordinator_run_launches:
  assumes "coordinator_run exp2 co events co'" and "coordinator_inv settings co"
    and "rc_restarts_launched (co_controller co) = 0"
  shows "map unat (launch_numbers events) = [1 ..< Suc (unat (rc_restarts_launched (co_controller co')))]"
  using assms
proof (induction rule: coordinator_run.induct)
  case (call events co1 e co2)
  have inv: "coordinator_inv settings co1" using coordinator_run_inv [OF call.hyps(1) call.prems(1)] .
  obtain op r where e: "e = (op, r)" by force
  show ?case
  proof (cases op)
    case (LimitOp condition now cleanup)
    with call e show ?thesis
      using limit_stepD(2,3) [OF call.hyps(2) [unfolded e LimitOp] inv] by simp
  next
    case (WaitOp completion elapsed remaining)
    note step = call.hyps(2) [unfolded e WaitOp]
    show ?thesis
    proof (cases "\<exists>n h. r = Inr (LaunchAction n h)")
      case True
      then obtain n h where "r = Inr (LaunchAction n h)" by blast
      with call e show ?thesis using wait_stepD(4) [OF step inv] by simp
    next
      case False
      then have "launch_numbers [e] = []" by (auto simp: e launch_numbers_single split: sum.splits restart_action.splits)
      with call e False show ?thesis using wait_stepD(3) [OF step inv] by simp
    qed
  qed
qed simp

lemma coordinator_run_launch_count:
  assumes "coordinator_run exp2 co events co'" and "coordinator_inv settings co"
    and "rc_restarts_launched (co_controller co) = 0"
  shows "length (launch_numbers events) = unat (rc_restarts_launched (co_controller co'))"
  using arg_cong [OF coordinator_run_launches [OF assms], of length] by (simp del: upt_Suc)

text \<open>C1: over any sequence of limit events and completed waits, however the caller interleaves
  them and whatever errors occur on the way, the launches a coordinator authorizes are numbered
  1, 2, 3, ... without gaps, and their number never exceeds the configured restart limit.\<close>

theorem launches_numbered_within_limit:
  assumes "coordinator_new exp2 settings = Inr co" and "coordinator_run exp2 co events co'"
  shows "map unat (launch_numbers events) = [1 ..< Suc (length (launch_numbers events))]
    \<and> (\<forall>limit. rs_limit settings = Count limit \<longrightarrow> length (launch_numbers events) \<le> unat limit)
    \<and> unat (su_restarts_launched (co_summary co')) = length (launch_numbers events)"
proof -
  note new = coordinator_new_inv [OF assms(1)]
  have launches: "map unat (launch_numbers events) = [1 ..< Suc (unat (rc_restarts_launched (co_controller co')))]"
    by (rule coordinator_run_launches [OF assms(2) new(1,2)])
  have count: "length (launch_numbers events) = unat (rc_restarts_launched (co_controller co'))"
    by (rule coordinator_run_launch_count [OF assms(2) new(1,2)])
  with launches coordinator_run_inv [OF assms(2) new(1)] show ?thesis
    by (auto simp: coordinator_inv_def word_le_nat_alt simp del: upt_Suc)
qed

text \<open>C4: the summary of any run is one the report deserializer accepts, and it counts no more
  restarts than targets were authorized once every launch is counted.\<close>

theorem run_summary_accepted:
  assumes "coordinator_new exp2 settings = Inr co" and "coordinator_run exp2 co events co'"
    and "length (launch_numbers events) \<le> unat targets_authorized"
  shows "summary_deserialize (co_summary co') = Inr (co_summary co')
    \<and> summary_is_consistent (co_summary co') targets_authorized"
proof -
  note new = coordinator_new_inv [OF assms(1)]
  note inv = coordinator_run_inv [OF assms(2) new(1), unfolded coordinator_inv_def]
  have "length (launch_numbers events) = unat (rc_restarts_launched (co_controller co'))"
    by (rule coordinator_run_launch_count [OF assms(2) new(1,2)])
  with inv assms(3) show ?thesis
    by (auto simp: summary_deserialize_def summary_is_standalone_valid_def summary_is_consistent_def
        summary_counts_ok_def restart_summary_default_def word_le_nat_alt)
qed

text \<open>The pending restart goes back to an eligible limit event with no launch since.\<close>

definition pending_justified :: "restart_settings \<Rightarrow> coordinator_event list \<Rightarrow> scheduled_restart \<Rightarrow> bool" where
  "pending_justified settings events s \<longleftrightarrow>
     (\<exists>before condition now cleanup r later.
        events = before @ (LimitOp condition now cleanup, r) # later \<and> launch_numbers later = []
        \<and> conditions_contains (rs_effective_conditions settings) condition \<and> is_safe cleanup
        \<and> (r = Inr (WaitAction (sr_duration s) (sr_kind s)) \<or> (\<exists>e. r = Inl e)))"

lemma pending_justified_snoc:
  "pending_justified settings events s \<Longrightarrow> launch_numbers [e] = [] \<Longrightarrow> pending_justified settings (events @ [e]) s"
proof -
  assume "pending_justified settings events s" and no: "launch_numbers [e] = []"
  then obtain before condition now cleanup r later where
    "events = before @ (LimitOp condition now cleanup, r) # later" "launch_numbers later = []"
    and rest: "conditions_contains (rs_effective_conditions settings) condition" "is_safe cleanup"
      "r = Inr (WaitAction (sr_duration s) (sr_kind s)) \<or> (\<exists>e. r = Inl e)"
    unfolding pending_justified_def by blast
  then have "events @ [e] = before @ (LimitOp condition now cleanup, r) # (later @ [e])"
    "launch_numbers (later @ [e]) = []"
    using no by simp_all
  with rest show ?thesis unfolding pending_justified_def by blast
qed

lemma coordinator_run_pending:
  assumes "coordinator_run exp2 co events co'" and "coordinator_inv settings co"
    and "rc_pending (co_controller co) = None"
  shows "is_none_or (pending_justified settings events) (rc_pending (co_controller co'))"
  using assms
proof (induction rule: coordinator_run.induct)
  case (call events co1 e co2)
  have inv: "coordinator_inv settings co1" using coordinator_run_inv [OF call.hyps(1) call.prems(1)] .
  obtain op r where e: "e = (op, r)" by force
  show ?case
  proof (cases op)
    case (LimitOp condition now cleanup)
    note step = limit_stepD [OF call.hyps(2) [unfolded e LimitOp] inv]
    from step(4) show ?thesis
    proof
      assume "rc_pending (co_controller co2) = rc_pending (co_controller co1)"
      then show ?thesis
        using call step(3) by (auto simp: is_none_or_iff e LimitOp intro: pending_justified_snoc)
    next
      assume "\<exists>s. rc_pending (co_controller co2) = Some s
          \<and> limit_eligible (co_controller co1) condition cleanup
          \<and> (r = Inr (WaitAction (sr_duration s) (sr_kind s)) \<or> (\<exists>e. r = Inl e))"
      then obtain s where s: "rc_pending (co_controller co2) = Some s"
        "limit_eligible (co_controller co1) condition cleanup"
        "r = Inr (WaitAction (sr_duration s) (sr_kind s)) \<or> (\<exists>e. r = Inl e)"
        by blast
      then have "pending_justified settings (events @ [e]) s"
        unfolding pending_justified_def using inv
        by (intro exI [of _ events] exI [of _ condition] exI [of _ now] exI [of _ cleanup] exI [of _ r] exI [of _ "[]"])
          (auto simp: e LimitOp limit_eligible_def coordinator_inv_def)
      with s(1) show ?thesis by simp
    qed
  next
    case (WaitOp completion elapsed remaining)
    then show ?thesis using wait_stepD(2) [OF call.hyps(2) [unfolded e WaitOp] inv] by simp
  qed
qed simp

lemma coordinator_run_snocE:
  assumes "coordinator_run exp2 co (events @ [e]) co'"
  obtains co1 where "coordinator_run exp2 co events co1" "coordinator_step exp2 co1 e co'"
  using assms by (cases rule: coordinator_run.cases) auto

text \<open>C2: no launch without a safe cleanup and a full wait. Whenever a call authorizes a launch,
  it reports a completed wait with supervision time left, and since the previous launch there
  was a limit event for an effective condition whose cleanup proof was safe; if that event
  announced a wait, the elapsed time is at least the announced one. A half-open launch has in
  addition waited at least the circuit breaker's cooldown.\<close>

theorem launch_follows_safe_wait:
  assumes "coordinator_new exp2 settings = Inr co"
    and "coordinator_run exp2 co (events @ [(op, Inr (LaunchAction n h))]) co'"
  shows "\<exists>elapsed remaining before condition now cleanup r later.
    op = WaitOp Completed elapsed remaining \<and> remaining \<noteq> Some 0
    \<and> events = before @ (LimitOp condition now cleanup, r) # later \<and> launch_numbers later = []
    \<and> conditions_contains (rs_effective_conditions settings) condition \<and> is_safe cleanup
    \<and> ((\<exists>d k. r = Inr (WaitAction d k) \<and> d \<le> elapsed \<and> (h \<longleftrightarrow> k = CircuitCooldownWait)) \<or> (\<exists>e. r = Inl e))
    \<and> (h \<longrightarrow> is_some_and (\<lambda>circuit. cb_cooldown circuit \<le> elapsed) (rs_circuit_breaker settings))"
proof -
  note new = coordinator_new_inv [OF assms(1)]
  obtain co1 where run: "coordinator_run exp2 co events co1"
    and step: "coordinator_step exp2 co1 (op, Inr (LaunchAction n h)) co'"
    using assms(2) by (rule coordinator_run_snocE)
  have inv: "coordinator_inv settings co1" by (rule coordinator_run_inv [OF run new(1)])
  note pend = coordinator_run_pending [OF run new(1,3)]
  show ?thesis
  proof (cases op)
    case (LimitOp condition now cleanup)
    then show ?thesis using limit_stepD(3) [OF step [unfolded LimitOp] inv] by simp
  next
    case (WaitOp completion elapsed remaining)
    obtain s where s: "completion = Completed" "remaining \<noteq> Some 0" "rc_pending (co_controller co1) = Some s"
      "sr_duration s \<le> elapsed" "h \<longleftrightarrow> sr_kind s = CircuitCooldownWait" "scheduled_ok settings s"
      using wait_stepD(4) [OF step [unfolded WaitOp] inv] by auto
    have "pending_justified settings events s" using pend s(3) by simp
    moreover have "h \<Longrightarrow> is_some_and (\<lambda>circuit. cb_cooldown circuit \<le> elapsed) (rs_circuit_breaker settings)"
      using s(4-6) by (auto simp: scheduled_ok_def is_some_and_iff)
    ultimately show ?thesis
      unfolding pending_justified_def using s(1,2,4,5) WaitOp by blast
  qed
qed

text \<open>C3: what a limit event does to a half-open circuit, in any run of the coordinator. An eligible event (the condition
  is effective, cleanup was safe, a launch remains and no wait is pending) that is decided opens the circuit
  again and waits for at least the configured cooldown. An ineligible one that is decided stops the run
  and changes nothing in the controller. A call that fails launches nothing either, and leaves the controller
  unchanged or without a pending wait, or with an open circuit and a pending wait of at least the cooldown.\<close>

theorem half_open_failure_cools_down:
  assumes "coordinator_new exp2 settings = Inr co" and "coordinator_run exp2 co events co1"
    and "rc_circuit_state (co_controller co1) = HalfOpen"
    and "on_limit exp2 condition now cleanup co1 rc = (co2, rc', result)"
  shows "case result of
      Inr act \<Rightarrow>
        if limit_eligible (co_controller co1) condition cleanup
        then rc_circuit_state (co_controller co2) = Open
          \<and> (\<exists>d circuit. act = WaitAction d CircuitCooldownWait
               \<and> rs_circuit_breaker settings = Some circuit \<and> cb_cooldown circuit \<le> d)
        else (\<exists>kind. act = StopAction kind) \<and> co_controller co2 = co_controller co1
    | Inl e \<Rightarrow> co_controller co2 = co_controller co1
        \<or> rc_restarts_launched (co_controller co2) = rc_restarts_launched (co_controller co1)
          \<and> is_none_or (\<lambda>s. rc_circuit_state (co_controller co2) = Open \<and> sr_kind s = CircuitCooldownWait
               \<and> is_some_and (\<lambda>circuit. cb_cooldown circuit \<le> sr_duration s) (rs_circuit_breaker settings))
             (rc_pending (co_controller co2))"
proof -
  have inv: "coordinator_inv settings co1"
    by (rule coordinator_run_inv [OF assms(2) coordinator_new_inv(1) [OF assms(1)]])
  then have iv: "rc_settings (co_controller co1) = settings" "circuit_inv (co_controller co1)"
    "summary_counts_ok (co_summary co1)" by (simp_all add: coordinator_inv_def)
  obtain q where q: "after_limit_recorded exp2 condition now cleanup (co_controller co1, rc, co_summary co1)
      = ((co_controller co2, rc', co_summary co2), q)"
    and res: "result = and_then q (\<lambda>decision. Inr (action decision (rd_decision rc')))"
    using assms(4) by (auto simp: on_limit_def split: prod.splits)
  show ?thesis
  proof (cases "limit_eligible (co_controller co1) condition cleanup")
    case True
    note f = after_limit_eligible [OF q True iv(2,3)]
    have pending: "rc_circuit_state (co_controller co2) = Open \<and> sr_kind s = CircuitCooldownWait
        \<and> is_some_and (\<lambda>circuit. cb_cooldown circuit \<le> sr_duration s) (rs_circuit_breaker settings)
        \<and> (q = Inr (WaitDecision s) \<or> (\<exists>e. q = Inl e))" if "rc_pending (co_controller co2) = Some s" for s
      using f that assms(3) iv(1) by (auto simp: circuit_inv_def scheduled_ok_def)
    show ?thesis
    proof (cases q)
      case (Inl e)
      then show ?thesis using f pending res by (auto simp: is_none_or_iff)
    next
      case (Inr decision)
      then obtain s where "rc_pending (co_controller co2) = Some s" "decision = WaitDecision s"
        using f by (auto split: option.splits)
      with pending [OF this(1)] show ?thesis using True Inr res by (auto simp: is_some_and_iff)
    qed
  next
    case False
    note f = after_limit_not_eligible [OF q False]
    have "\<exists>kind. action decision (rd_decision rc') = StopAction kind" if "q = Inr decision" for decision
      using f(5,6) that by (cases decision) auto
    then show ?thesis using False f(1) res by (cases q) auto
  qed
qed

subsection \<open>A concrete run\<close>

text \<open>A policy whose base interval is its asymptote of one second, with a circuit breaker that
  opens on every event and cools down for five seconds.\<close>

definition sample_settings :: restart_settings where
  "sample_settings =
     \<lparr>rs_configured_conditions = conditions_memory_limit, rs_effective_conditions = conditions_memory_limit,
      rs_dormant_conditions = [], rs_limit = Count 2,
      rs_backoff = \<lparr>bp_base_interval = from_millis 1000, bp_multiplier = backoff_multiplier_two,
        bp_asymptote_interval = from_millis 1000, bp_recovery_half_life = from_millis 1000\<rparr>,
      rs_circuit_breaker = Some \<lparr>cb_threshold = Fin 1, cb_half_life = from_millis 1000, cb_cooldown = from_millis 5000\<rparr>\<rparr>"

definition sample_cleanup :: restart_safety_proof where
  "sample_cleanup =
     \<lparr>sp_direct_child_reaped = True, sp_workload_empty = Some True, sp_helpers_reaped = True,
      sp_containment_removed = True, sp_containment_incapable_of_live_members = False,
      sp_sealed_boundary_retired = False, sp_errors = []\<rparr>"

definition sample_controller :: restart_controller where
  "sample_controller =
     \<lparr>rc_settings = sample_settings, rc_restarts_launched = 0,
      rc_backoff = \<lparr>bs_policy = rs_backoff sample_settings, bs_current_interval = from_millis 1000, bs_last_backoff_at = None\<rparr>,
      rc_sequence_index = 0, rc_circuit_pressure = Fin 0, rc_last_circuit_event_at = None,
      rc_circuit_state = Closed, rc_pending = None\<rparr>"

definition sample_scheduled :: scheduled_restart where
  "sample_scheduled =
     \<lparr>sr_kind = CircuitCooldownWait, sr_duration = from_millis 5000, sr_restart_number = 1,
      sr_half_life_logistic_sequence_index = Some 0, sr_circuit_state = Open\<rparr>"

definition sample_waiting :: restart_coordinator where
  "sample_waiting =
     \<lparr>co_controller = sample_controller
        \<lparr>rc_backoff := \<lparr>bs_policy = rs_backoff sample_settings, bs_current_interval = from_millis 1000, bs_last_backoff_at = Some 0\<rparr>,
         rc_sequence_index := 1, rc_circuit_pressure := Fin 1, rc_last_circuit_event_at := Some 0,
         rc_circuit_state := Open, rc_pending := Some sample_scheduled\<rparr>,
      co_summary = restart_summary_default
        \<lparr>su_enabled := True, su_cooldowns := 1, su_circuit_open_count := 1, su_final_circuit_state := Open\<rparr>\<rparr>"

definition sample_launched :: restart_coordinator where
  "sample_launched =
     \<lparr>co_controller = (co_controller sample_waiting)
        \<lparr>rc_pending := None, rc_restarts_launched := 1, rc_circuit_state := HalfOpen\<rparr>,
      co_summary = (co_summary sample_waiting)\<lparr>su_restarts_launched := 1, su_final_circuit_state := HalfOpen\<rparr>\<rparr>"

lemma sample_proper: "proper_millis (from_millis 1000)"
  by (simp add: proper_millis_def)

lemma sample_contains: "conditions_contains conditions_memory_limit MemoryLimit"
  by (simp add: conditions_contains_def conditions_memory_limit_def)

lemma sample_new:
  "coordinator_new exp2_nearest sample_settings
     = Inr \<lparr>co_controller = sample_controller, co_summary = restart_summary_default\<rparr>"
proof -
  have validate: "backoff_policy_validate exp2_nearest (rs_backoff sample_settings) = Inr ()"
    by (simp add: backoff_policy_validate_iff sample_settings_def sample_proper)
  have "settings_validate exp2_nearest sample_settings = Inr ()"
    using validate by (simp add: settings_validate_def sample_settings_def conditions_is_empty_def
        conditions_memory_limit_def circuit_validate_def from_millis_def)
  then show ?thesis
    using validate by (simp add: coordinator_new_def controller_new_def backoff_state_new_def sample_controller_def)
      (simp add: sample_settings_def)
qed

lemma sample_next: "half_life_logistic_next_millis exp2_nearest 1000 1000 1000 backoff_multiplier_two 1000 e = Inr 1000"
  by (rule next_millis_at_asymptote [OF nearest.exp2_library_axioms])
    (simp_all add: multiplier_invariant_def backoff_multiplier_two_def interval_range_nat)

lemma sample_limit:
  "\<exists>rc. on_limit exp2_nearest MemoryLimit 0 sample_cleanup
      \<lparr>co_controller = sample_controller, co_summary = restart_summary_default\<rparr> restart_decision_record_default
    = (sample_waiting, rc, Inr (WaitAction (from_millis 5000) CircuitCooldownWait))"
proof -
  have zero: "duration_millis 0 = Inr 0" by (simp add: duration_millis_Inr_iff as_millis_def)
  have wait: "on_backoff exp2_nearest (rc_backoff sample_controller) 0 =
      (\<lparr>bs_policy = rs_backoff sample_settings, bs_current_interval = from_millis 1000, bs_last_backoff_at = Some 0\<rparr>,
       Inr (from_millis 1000))"
    by (simp add: on_backoff_def sample_controller_def)
      (simp add: sample_settings_def sample_next zero)
  have event: "record_eligible_event exp2_nearest
      (sample_controller\<lparr>rc_backoff := b, rc_sequence_index := 1\<rparr>) 0 =
      (sample_controller\<lparr>rc_backoff := b, rc_sequence_index := 1, rc_circuit_pressure := Fin 1,
         rc_last_circuit_event_at := Some 0\<rparr>, Inr True)" for b
    by (simp add: record_eligible_event_def circuit_decay_def sample_controller_def sample_settings_def Let_def)
  have sched: "schedule_restart (sample_controller\<lparr>rc_backoff := b, rc_sequence_index := 1,
        rc_circuit_pressure := Fin 1, rc_last_circuit_event_at := Some 0\<rparr>) True (from_millis 1000) 0 =
      (sample_controller\<lparr>rc_backoff := b, rc_sequence_index := 1, rc_circuit_pressure := Fin 1,
         rc_last_circuit_event_at := Some 0, rc_circuit_state := Open\<rparr>, Inr sample_scheduled)" for b
    by (simp add: schedule_restart_def sample_controller_def sample_settings_def sample_scheduled_def
        next_restart_number_def checked_add_def max_def from_millis_mono word_le_nat_alt)
  have fields: "rc_pending sample_controller = None" "rc_sequence_index sample_controller = 0"
    "has_remaining_launch sample_controller" "is_safe sample_cleanup"
    "conditions_contains (rs_effective_conditions (rc_settings sample_controller)) MemoryLimit"
    by (simp_all add: sample_controller_def sample_settings_def has_remaining_launch_def sample_contains
        sample_cleanup_def is_safe_def is_safe_for_def)
  have "sr_duration sample_scheduled = from_millis 5000" "sr_kind sample_scheduled = CircuitCooldownWait"
    by (simp_all add: sample_scheduled_def)
  then show ?thesis
    using fields
    by (simp add: on_limit_def after_limit_recorded_def logical_deadline_now wait event sched
        record_scheduled_def count_wait_def restart_summary_default_def sample_waiting_def checked_add_def)
qed

lemma sample_complete:
  "\<exists>rc. complete_wait Completed (from_millis 5000) None sample_waiting restart_decision_record_default
    = (sample_launched, rc, Inr (LaunchAction 1 True))"
proof -
  have pending: "rc_pending (co_controller sample_waiting) = Some sample_scheduled"
    "rc_restarts_launched (co_controller sample_waiting) = 0" "has_remaining_launch (co_controller sample_waiting)"
    "sr_duration sample_scheduled = from_millis 5000" "sr_kind sample_scheduled = CircuitCooldownWait"
    by (simp_all add: sample_waiting_def sample_controller_def sample_settings_def sample_scheduled_def
        has_remaining_launch_def)
  show ?thesis
    by (simp add: complete_wait_def authorize_after_wait_recorded_def Let_def pending checked_add_def
        sample_launched_def)
qed

lemma sample_run:
  "coordinator_run exp2_nearest \<lparr>co_controller = sample_controller, co_summary = restart_summary_default\<rparr>
     ([(LimitOp MemoryLimit 0 sample_cleanup, Inr (WaitAction (from_millis 5000) CircuitCooldownWait))]
      @ [(WaitOp Completed (from_millis 5000) None, Inr (LaunchAction 1 True))]) sample_launched"
proof -
  obtain r1 where "on_limit exp2_nearest MemoryLimit 0 sample_cleanup
      \<lparr>co_controller = sample_controller, co_summary = restart_summary_default\<rparr> restart_decision_record_default
    = (sample_waiting, r1, Inr (WaitAction (from_millis 5000) CircuitCooldownWait))"
    using sample_limit by blast
  then have 1: "coordinator_step exp2_nearest \<lparr>co_controller = sample_controller, co_summary = restart_summary_default\<rparr>
      (LimitOp MemoryLimit 0 sample_cleanup, Inr (WaitAction (from_millis 5000) CircuitCooldownWait)) sample_waiting"
    by (rule coordinator_step.limit)
  obtain r2 where "complete_wait Completed (from_millis 5000) None sample_waiting restart_decision_record_default
    = (sample_launched, r2, Inr (LaunchAction 1 True))"
    using sample_complete by blast
  then have 2: "coordinator_step exp2_nearest sample_waiting
      (WaitOp Completed (from_millis 5000) None, Inr (LaunchAction 1 True)) sample_launched"
    by (rule coordinator_step.wait)
  from coordinator_run.call [OF coordinator_run.start 1] show ?thesis
    by (intro coordinator_run.call [OF _ 2]) simp
qed

theorem launches_numbered_within_limit_witness:
  "unat (su_restarts_launched (co_summary sample_launched)) = 1"
  using launches_numbered_within_limit [OF sample_new sample_run] by simp

theorem run_summary_accepted_witness:
  "summary_deserialize (co_summary sample_launched) = Inr (co_summary sample_launched)"
  using run_summary_accepted [OF sample_new sample_run, of 2] by simp

theorem launch_follows_safe_wait_witness:
  "is_some_and (\<lambda>circuit. cb_cooldown circuit \<le> from_millis 5000) (rs_circuit_breaker sample_settings)"
  using launch_follows_safe_wait [OF sample_new sample_run] by auto

lemma sample_half_open:
  "\<exists>co rc act. on_limit exp2_nearest MemoryLimit (from_millis 6000) sample_cleanup sample_launched restart_decision_record_default
      = (co, rc, Inr act)"
proof -
  let ?c = "co_controller sample_launched"
  have el: "limit_eligible ?c MemoryLimit sample_cleanup" "rc_circuit_state ?c = HalfOpen"
    by (simp_all add: sample_launched_def sample_waiting_def sample_controller_def sample_settings_def
        limit_eligible_def has_remaining_launch_def sample_contains sample_cleanup_def is_safe_def is_safe_for_def)
  obtain b where wait: "on_backoff exp2_nearest (rc_backoff ?c) (from_millis 6000) = (b, Inr (from_millis 1000))"
    by (simp add: on_backoff_def sample_launched_def sample_waiting_def duration_checked_sub_def)
      (simp add: sample_settings_def sample_next)
  obtain c1 opens where event: "record_eligible_event exp2_nearest (?c\<lparr>rc_backoff := b, rc_sequence_index := 2\<rparr>)
      (from_millis 6000) = (c1, Inr opens)"
    by (simp add: record_eligible_event_def circuit_decay_def sample_launched_def sample_waiting_def
        sample_controller_def sample_settings_def duration_checked_sub_def Let_def)
  note c1 = record_eligible_event_frame [OF event]
  have "rc_settings c1 = sample_settings" "rc_restarts_launched c1 = 1" "rc_circuit_state c1 = HalfOpen"
    using c1(1-3) by (simp_all add: sample_launched_def sample_waiting_def sample_controller_def)
  then obtain c2 where sched: "schedule_restart c1 opens (from_millis 1000) 1 = (c2, Inr (sample_scheduled
      \<lparr>sr_restart_number := 2, sr_half_life_logistic_sequence_index := Some 1\<rparr>))"
    by (simp add: schedule_restart_def sample_settings_def next_restart_number_def checked_add_def
        sample_scheduled_def max_def from_millis_def)
  have fields: "rc_sequence_index ?c = 1" "su_cooldowns (co_summary sample_launched) = 1"
    "su_circuit_open_count (co_summary sample_launched) = 1" "checked_add 1 1 = Some (2 :: u64)"
    "from_millis 6000 \<le> duration_max"
    by (simp_all add: sample_launched_def sample_waiting_def checked_add_def from_millis_def duration_max_def)
  have "sr_duration sample_scheduled = from_millis 5000" "sr_kind sample_scheduled = CircuitCooldownWait"
    by (simp_all add: sample_scheduled_def)
  then show ?thesis
    using el fields
    by (simp add: on_limit_def after_limit_recorded_def logical_deadline_now limit_eligible_def wait event
        sched record_scheduled_def count_wait_def)
qed

theorem half_open_failure_cools_down_witness:
  "\<exists>co rc d. on_limit exp2_nearest MemoryLimit (from_millis 6000) sample_cleanup sample_launched restart_decision_record_default
      = (co, rc, Inr (WaitAction d CircuitCooldownWait)) \<and> rc_circuit_state (co_controller co) = Open"
proof -
  obtain co rc act where *: "on_limit exp2_nearest MemoryLimit (from_millis 6000) sample_cleanup sample_launched
      restart_decision_record_default = (co, rc, Inr act)"
    using sample_half_open by blast
  have "rc_circuit_state (co_controller sample_launched) = HalfOpen"
    "limit_eligible (co_controller sample_launched) MemoryLimit sample_cleanup"
    by (simp_all add: sample_launched_def sample_waiting_def sample_controller_def sample_settings_def
        limit_eligible_def has_remaining_launch_def sample_contains sample_cleanup_def is_safe_def is_safe_for_def)
  with half_open_failure_cools_down [OF sample_new sample_run this(1) *] * show ?thesis by auto
qed

end
