(* ===== verification/CliOptions.thy ===== *)
theory CliOptions
  imports CliBudget ContractParse RestartController
begin

text \<open>
  Policy options of the command line (\<open>memcordon-cli/src/invocation.rs\<close>): the options themselves, the
  checks between options and budgets, and the run policy (\<open>Policy\<close> of
  \<open>memcordon-core/src/policy.rs\<close>) they give. The arguments after the current one stand for the index into the
  argument vector. Files, the JSON library, \<open>exp2\<close> and the target platform are the record \<open>cli_host\<close>.
  The theorems: which option names are known, and what every accepted combination satisfies.
\<close>

subsection \<open>Floating-point literals\<close>

text \<open>\<open>str::parse::<f64>\<close>: an optional sign, then \<open>inf\<close>, \<open>infinity\<close>, \<open>nan\<close> in any letter case or a decimal
  with an optional exponent, rounded to the nearest value.\<close>

definition ascii_lower :: "char \<Rightarrow> char" where
  "ascii_lower c = (if is_ascii_uppercase c then char_of ((of_char c :: nat) + 32) else c)"

definition strip_sign :: "string \<Rightarrow> bool \<times> string" where
  "strip_sign s = (case s of
       [] \<Rightarrow> (False, [])
     | c # cs \<Rightarrow> if c = CHR ''-'' then (True, cs) else if c = CHR ''+'' then (False, cs) else (False, s))"

definition parse_exponent :: "string \<Rightarrow> int option" where
  "parse_exponent s = (case s of
       [] \<Rightarrow> Some 0
     | c # cs \<Rightarrow>
         (let (negative, digits) = strip_sign cs
          in if (c = CHR ''e'' \<or> c = CHR ''E'') \<and> digits \<noteq> [] \<and> list_all is_ascii_digit digits
             then Some (if negative then - int (digits_val digits) else int (digits_val digits))
             else None))"

definition parse_decimal :: "string \<Rightarrow> real option" where
  "parse_decimal s =
     (let whole = takeWhile is_ascii_digit s;
          tail = dropWhile is_ascii_digit s;
          pointed = starts_with tail (CHR ''.'');
          fraction = (if pointed then takeWhile is_ascii_digit (tl tail) else []);
          rest = (if pointed then dropWhile is_ascii_digit (tl tail) else tail)
      in if whole = [] \<and> fraction = [] then None
         else map_option (\<lambda>e. real (digits_val (whole @ fraction)) * 10 powi (e - int (length fraction)))
                (parse_exponent rest))"

definition parse_f64 :: "string \<Rightarrow> f64 option" where
  "parse_f64 s =
     (let (negative, text) = strip_sign s; lower = map ascii_lower text
      in if lower = ''inf'' \<or> lower = ''infinity'' then Some (if negative then NegInf else PosInf)
         else if lower = ''nan'' then Some Nan
         else map_option (\<lambda>x. f64_round (if negative then - x else x)) (parse_decimal text))"

subsection \<open>The policy arguments\<close>

datatype enforcement = AutoEnforcement | HardEnforcement | WatchdogEnforcement

datatype lifetime = CommandLifetime | WorkloadLifetime

datatype metric = NativeMetric | PhysicalFootprint | RssMetric | VirtualMetric

datatype swap_policy = SwapBytes byte_size | SwapUnlimited | SwapHost

record explicit_policy_options =
  ex_boundary :: bool
  ex_enforcement :: bool
  ex_metric :: bool
  ex_poll_interval :: bool
  ex_swap :: bool
  ex_deadline_scope :: bool
  ex_command_exit_grace :: bool
  ex_limit_grace :: bool
  ex_restart_tuning :: bool

record policy_args =
  pa_workload_contract :: "workload_contract option"
  pa_boundary :: boundary_requirement
  pa_enforcement :: enforcement
  pa_wait_for :: lifetime
  pa_metric :: metric
  pa_poll_interval :: duration
  pa_signal_grace :: duration
  pa_command_exit_grace :: duration
  pa_limit_grace :: duration
  pa_swap :: swap_policy
  pa_deadline_scope :: deadline_scope
  pa_restart :: bool
  pa_restart_on :: "restart_conditions option"
  pa_restart_limit :: restart_limit
  pa_backoff :: backoff_policy
  pa_circuit_breaker :: "circuit_breaker_policy option"
  pa_backoff_base_interval :: "duration option"
  pa_backoff_multiplier :: "backoff_multiplier option"
  pa_backoff_asymptote_interval :: "duration option"
  pa_backoff_recovery_half_life :: "duration option"
  pa_circuit_threshold :: "f64 option"
  pa_circuit_cooldown :: "duration option"
  pa_circuit_half_life :: "duration option"
  pa_explicit :: explicit_policy_options

definition policy_args_default :: policy_args where
  "policy_args_default =
     \<lparr>pa_workload_contract = None, pa_boundary = Standard, pa_enforcement = AutoEnforcement,
      pa_wait_for = CommandLifetime, pa_metric = NativeMetric, pa_poll_interval = from_millis 50,
      pa_signal_grace = from_secs 2, pa_command_exit_grace = 0, pa_limit_grace = 0,
      pa_swap = SwapBytes (from_bytes 0), pa_deadline_scope = Attempt, pa_restart = False,
      pa_restart_on = None, pa_restart_limit = Unlimited, pa_backoff = backoff_policy_default,
      pa_circuit_breaker = None, pa_backoff_base_interval = None, pa_backoff_multiplier = None,
      pa_backoff_asymptote_interval = None, pa_backoff_recovery_half_life = None,
      pa_circuit_threshold = None, pa_circuit_cooldown = None, pa_circuit_half_life = None,
      pa_explicit = \<lparr>ex_boundary = False, ex_enforcement = False, ex_metric = False, ex_poll_interval = False,
        ex_swap = False, ex_deadline_scope = False, ex_command_exit_grace = False, ex_limit_grace = False,
        ex_restart_tuning = False\<rparr>\<rparr>"

definition baseline_workload_contract :: "policy_args \<Rightarrow> workload_contract_v1 option" where
  "baseline_workload_contract p = (case pa_workload_contract p of Some (V1 c) \<Rightarrow> Some c | _ \<Rightarrow> None)"

definition private_workload_contract :: "policy_args \<Rightarrow> workload_contract_v2 option" where
  "private_workload_contract p = (case pa_workload_contract p of Some (V2 c) \<Rightarrow> Some c | _ \<Rightarrow> None)"

subsection \<open>The host\<close>

text \<open>An opened file answers a metadata query (is it a regular file, how long) and a read.\<close>

record opened_file =
  file_metadata :: "(bool \<times> u64) option"
  file_bytes :: "u8 list option"

record cli_host =
  host_open :: "os_string \<Rightarrow> opened_file option"
  host_json :: json_reader
  host_exp2 :: "f64 \<Rightarrow> f64"
  host_windows :: bool

definition read_contract :: "cli_host \<Rightarrow> os_string \<Rightarrow> workload_contract option" where
  "read_contract host path =
     (case host_open host path of
        None \<Rightarrow> None
      | Some file \<Rightarrow>
          (case file_metadata file of
             None \<Rightarrow> None
           | Some (is_file, len) \<Rightarrow>
               if \<not> is_file \<or> of_nat CONTRACT_BYTES < len then None
               else (case file_bytes file of
                   None \<Rightarrow> None
                 | Some content \<Rightarrow>
                     (case contract_parse (host_json host) (take (CONTRACT_BYTES + 1) content) of
                        Inl _ \<Rightarrow> None
                      | Inr contract \<Rightarrow> Some contract))))"

subsection \<open>Options\<close>

definition option_value ::
  "os_string list \<Rightarrow> string option \<Rightarrow> cli_error + (os_string \<times> os_string list)" where
  "option_value rest inline =
     (case inline of
        Some v \<Rightarrow> Inr (v, rest)
      | None \<Rightarrow> (case rest of [] \<Rightarrow> Inl ''MCCLI-MISSING-OPTION-VALUE'' | v # rest' \<Rightarrow> Inr (v, rest')))"

text \<open>\<open>split_once\<close> at the first equals sign.\<close>

definition split_option :: "string \<Rightarrow> string \<times> string option" where
  "split_option text =
     (case dropWhile (\<lambda>c. c \<noteq> CHR ''='') text of
        [] \<Rightarrow> (text, None)
      | _ # v \<Rightarrow> (takeWhile (\<lambda>c. c \<noteq> CHR ''='') text, Some v))"

definition strict_text :: "os_string \<Rightarrow> cli_error + string" where
  "strict_text v = ok_or ''MCCLI-OPTION-ENCODING'' (to_str v)"

definition unknown_option :: cli_error where
  "unknown_option = ''MCCLI-UNKNOWN-OPTION''"

definition invalid_value :: cli_error where
  "invalid_value = ''MCCLI-OPTION-VALUE''"

definition duration_option :: "string \<Rightarrow> cli_error + duration" where
  "duration_option text = map_sum (\<lambda>_. ''MCCLI-DURATION'') id (parse_duration text)"

definition PUBLIC_POLICY_OPTIONS :: "string list" where
  "PUBLIC_POLICY_OPTIONS =
     [''--sealed'', ''--enforcement'', ''--wait-for'', ''--command-exit-grace'', ''--metric'', ''--poll-interval'',
      ''--signal-grace'', ''--limit-grace'', ''--swap'', ''--deadline-scope'', ''--restart'', ''--restart-on'',
      ''--restart-limit'', ''--backoff-base'', ''--backoff-multiplier'', ''--backoff-asymptote'',
      ''--backoff-recovery-half-life'', ''--circuit-threshold'', ''--circuit-cooldown'', ''--circuit-half-life'']"

text \<open>The options that take a value, as the guard before the value is read lists them.\<close>

definition valued_options :: "string list" where
  "valued_options =
     [''--enforcement'', ''--wait-for'', ''--metric'', ''--poll-interval'', ''--command-exit-grace'',
      ''--signal-grace'', ''--limit-grace'', ''--swap'', ''--deadline-scope'', ''--restart-on'',
      ''--restart-limit'', ''--backoff-base'', ''--backoff-multiplier'', ''--backoff-asymptote'',
      ''--backoff-recovery-half-life'', ''--circuit-threshold'', ''--circuit-cooldown'', ''--circuit-half-life'']"

definition set_explicit :: "(explicit_policy_options \<Rightarrow> explicit_policy_options) \<Rightarrow> policy_args \<Rightarrow> policy_args" where
  "set_explicit f p = p\<lparr>pa_explicit := f (pa_explicit p)\<rparr>"

definition set_tuning :: "policy_args \<Rightarrow> policy_args" where
  "set_tuning = set_explicit (\<lambda>e. e\<lparr>ex_restart_tuning := True\<rparr>)"

text \<open>The memory and lifetime options, each on its value.\<close>

definition parse_enforcement :: "string \<Rightarrow> cli_error + enforcement" where
  "parse_enforcement text =
     (if text = ''auto'' then Inr AutoEnforcement
      else if text = ''hard'' then Inr HardEnforcement
      else if text = ''watchdog'' then Inr WatchdogEnforcement
      else Inl invalid_value)"

definition parse_wait_for :: "string \<Rightarrow> cli_error + lifetime" where
  "parse_wait_for text =
     (if text = ''command'' then Inr CommandLifetime
      else if text = ''workload'' then Inr WorkloadLifetime
      else Inl invalid_value)"

definition parse_metric :: "string \<Rightarrow> cli_error + metric" where
  "parse_metric text =
     (if text = ''native'' then Inr NativeMetric
      else if text = ''physical-footprint'' then Inr PhysicalFootprint
      else if text = ''rss'' then Inr RssMetric
      else if text = ''virtual'' then Inr VirtualMetric
      else Inl invalid_value)"

definition parse_poll_interval :: "string \<Rightarrow> cli_error + duration" where
  "parse_poll_interval text =
     and_then (duration_option text) (\<lambda>d.
       if d < from_millis 10 then Inl ''MCCLI-POLL-INTERVAL'' else Inr d)"

definition parse_swap :: "string \<Rightarrow> cli_error + swap_policy" where
  "parse_swap text =
     (if text = ''0'' \<or> text = ''0B'' then Inr (SwapBytes (from_bytes 0))
      else if text = ''unlimited'' then Inr SwapUnlimited
      else if text = ''host'' then Inr SwapHost
      else map_sum (\<lambda>_. ''MCCLI-SWAP'') SwapBytes (byte_size_from_str text))"

definition parse_deadline_scope :: "string \<Rightarrow> cli_error + deadline_scope" where
  "parse_deadline_scope text =
     (if text = ''attempt'' then Inr Attempt
      else if text = ''supervision'' then Inr Supervision
      else Inl invalid_value)"

definition parse_restart_on :: "string \<Rightarrow> cli_error + restart_conditions" where
  "parse_restart_on text =
     (if text = ''both'' then Inr conditions_both
      else if text = ''memory-limit'' then Inr conditions_memory_limit
      else if text = ''deadline'' then Inr conditions_deadline
      else Inl invalid_value)"

definition parse_restart_limit :: "string \<Rightarrow> cli_error + restart_limit" where
  "parse_restart_limit text =
     (if text = ''unlimited'' then Inr Unlimited
      else (case parse_uint text of
          None \<Rightarrow> Inl ''MCUSAGE-RESTART-LIMIT''
        | Some n \<Rightarrow> if n = 0 then Inl ''MCUSAGE-RESTART-LIMIT'' else Inr (Count n)))"

definition parse_threshold :: "string \<Rightarrow> cli_error + f64" where
  "parse_threshold text =
     and_then (ok_or ''MCUSAGE-CIRCUIT-INCOMPLETE'' (parse_f64 text)) (\<lambda>threshold.
       if \<not> f64_is_finite threshold \<or> f64_le threshold (Fin 0) then Inl ''MCUSAGE-CIRCUIT-INCOMPLETE''
       else Inr threshold)"

definition apply_policy_value :: "string \<Rightarrow> string \<Rightarrow> policy_args \<Rightarrow> cli_error + policy_args" where
  "apply_policy_value name text p =
     (if name = ''--enforcement'' then
        and_then (parse_enforcement text) (\<lambda>v.
          Inr (set_explicit (\<lambda>e. e\<lparr>ex_enforcement := True\<rparr>) (p\<lparr>pa_enforcement := v\<rparr>)))
      else if name = ''--wait-for'' then
        and_then (parse_wait_for text) (\<lambda>v. Inr (p\<lparr>pa_wait_for := v\<rparr>))
      else if name = ''--metric'' then
        and_then (parse_metric text) (\<lambda>v. Inr (set_explicit (\<lambda>e. e\<lparr>ex_metric := True\<rparr>) (p\<lparr>pa_metric := v\<rparr>)))
      else if name = ''--poll-interval'' then
        and_then (parse_poll_interval text) (\<lambda>d.
          Inr (set_explicit (\<lambda>e. e\<lparr>ex_poll_interval := True\<rparr>) (p\<lparr>pa_poll_interval := d\<rparr>)))
      else if name = ''--signal-grace'' then
        and_then (duration_option text) (\<lambda>d. Inr (p\<lparr>pa_signal_grace := d\<rparr>))
      else if name = ''--command-exit-grace'' then
        and_then (duration_option text) (\<lambda>d.
          Inr (set_explicit (\<lambda>e. e\<lparr>ex_command_exit_grace := True\<rparr>) (p\<lparr>pa_command_exit_grace := d\<rparr>)))
      else if name = ''--limit-grace'' then
        and_then (duration_option text) (\<lambda>d.
          Inr (set_explicit (\<lambda>e. e\<lparr>ex_limit_grace := True\<rparr>) (p\<lparr>pa_limit_grace := d\<rparr>)))
      else if name = ''--swap'' then
        and_then (parse_swap text) (\<lambda>v. Inr (set_explicit (\<lambda>e. e\<lparr>ex_swap := True\<rparr>) (p\<lparr>pa_swap := v\<rparr>)))
      else if name = ''--deadline-scope'' then
        and_then (parse_deadline_scope text) (\<lambda>v.
          Inr (set_explicit (\<lambda>e. e\<lparr>ex_deadline_scope := True\<rparr>) (p\<lparr>pa_deadline_scope := v\<rparr>)))
      else if name = ''--restart-on'' then
        (if is_some (pa_restart_on p) then Inl ''MCUSAGE-RESTART-CONDITION''
         else and_then (parse_restart_on text) (\<lambda>v. Inr (p\<lparr>pa_restart_on := Some v\<rparr>)))
      else if name = ''--restart-limit'' then
        and_then (parse_restart_limit text) (\<lambda>v. Inr (set_tuning (p\<lparr>pa_restart_limit := v\<rparr>)))
      else if name = ''--backoff-base'' then
        and_then (duration_option text) (\<lambda>d. Inr (set_tuning (p\<lparr>pa_backoff_base_interval := Some d\<rparr>)))
      else if name = ''--backoff-multiplier'' then
        and_then (map_sum (\<lambda>_. ''MCUSAGE-BACKOFF'') id (backoff_multiplier_from_str text)) (\<lambda>m.
          Inr (set_tuning (p\<lparr>pa_backoff_multiplier := Some m\<rparr>)))
      else if name = ''--backoff-asymptote'' then
        and_then (duration_option text) (\<lambda>d. Inr (set_tuning (p\<lparr>pa_backoff_asymptote_interval := Some d\<rparr>)))
      else if name = ''--backoff-recovery-half-life'' then
        and_then (duration_option text) (\<lambda>d. Inr (set_tuning (p\<lparr>pa_backoff_recovery_half_life := Some d\<rparr>)))
      else if name = ''--circuit-threshold'' then
        and_then (parse_threshold text) (\<lambda>t. Inr (set_tuning (p\<lparr>pa_circuit_threshold := Some t\<rparr>)))
      else if name = ''--circuit-cooldown'' then
        and_then (duration_option text) (\<lambda>d. Inr (set_tuning (p\<lparr>pa_circuit_cooldown := Some d\<rparr>)))
      else if name = ''--circuit-half-life'' then
        and_then (duration_option text) (\<lambda>d. Inr (set_tuning (p\<lparr>pa_circuit_half_life := Some d\<rparr>)))
      else Inl unknown_option)"

definition parse_policy_option ::
  "cli_host \<Rightarrow> string \<Rightarrow> string option \<Rightarrow> os_string list \<Rightarrow> policy_args \<Rightarrow> cli_error + (policy_args \<times> os_string list)" where
  "parse_policy_option host name inline rest p =
     (if name = ''--workload-contract'' then
        (if is_some (pa_workload_contract p) then Inl ''MCUSAGE-WORKLOAD-CONTRACT''
         else and_then (option_value rest inline) (\<lambda>(path, rest').
           and_then (ok_or ''MCUSAGE-WORKLOAD-CONTRACT'' (read_contract host path)) (\<lambda>contract.
             Inr (p\<lparr>pa_workload_contract := Some contract\<rparr>, rest'))))
      else if name = ''--sealed'' then
        (if is_some inline \<or> ex_boundary (pa_explicit p) then Inl ''MCUSAGE-SEALED''
         else Inr (set_explicit (\<lambda>e. e\<lparr>ex_boundary := True\<rparr>) (p\<lparr>pa_boundary := Sealed\<rparr>), rest))
      else if name = ''--restart'' then
        (if is_some inline then Inl ''MCUSAGE-RESTART-CONDITION'' else Inr (p\<lparr>pa_restart := True\<rparr>, rest))
      else if name \<notin> set valued_options then Inl unknown_option
      else and_then (option_value rest inline) (\<lambda>(v, rest').
           and_then (strict_text v) (\<lambda>text.
           and_then (apply_policy_value name text p) (\<lambda>p'. Inr (p', rest')))))"

subsection \<open>Dependencies between options and budgets\<close>

definition check_restart_request :: "policy_args \<Rightarrow> budget_set \<Rightarrow> cli_error + unit" where
  "check_restart_request p b =
     (let requested = (case pa_restart_on p of Some c \<Rightarrow> c | None \<Rightarrow> conditions_both)
      in if pa_restart_on p = Some conditions_memory_limit \<and> is_none (budget_memory b)
         then Inl ''MCUSAGE-RESTART-CONDITION''
         else if pa_restart_on p = Some conditions_deadline
                 \<and> (is_none (budget_deadline b) \<or> pa_deadline_scope p \<noteq> Attempt)
         then Inl ''MCUSAGE-RESTART-CONDITION''
         else (let memory = is_some (budget_memory b) \<and> conditions_contains requested MemoryLimit;
                   deadline = is_some (budget_deadline b) \<and> pa_deadline_scope p = Attempt
                     \<and> conditions_contains requested DeadlineCondition
               in if \<not> memory \<and> \<not> deadline then Inl ''MCUSAGE-RESTART-NO-EFFECTIVE-CONDITION'' else Inr ()))"

definition resolve_circuit :: "policy_args \<Rightarrow> cli_error + circuit_breaker_policy option" where
  "resolve_circuit p =
     (case (pa_circuit_threshold p, pa_circuit_cooldown p) of
        (Some threshold, Some cooldown) \<Rightarrow>
          map_sum (\<lambda>_. ''MCUSAGE-CIRCUIT-INCOMPLETE'') Some
            (circuit_new threshold
              (case pa_circuit_half_life p of Some d \<Rightarrow> d | None \<Rightarrow> bp_recovery_half_life (pa_backoff p)) cooldown)
      | (None, None) \<Rightarrow> if is_none (pa_circuit_half_life p) then Inr None else Inl ''MCUSAGE-CIRCUIT-INCOMPLETE''
      | _ \<Rightarrow> Inl ''MCUSAGE-CIRCUIT-INCOMPLETE'')"

definition validate_policy_dependencies :: "cli_host \<Rightarrow> policy_args \<Rightarrow> budget_set \<Rightarrow> cli_error + policy_args" where
  "validate_policy_dependencies host p b =
     (let e = pa_explicit p; defaults = backoff_policy_default
      in if ex_command_exit_grace e \<and> pa_wait_for p = WorkloadLifetime then Inl ''MCUSAGE-COMMAND-EXIT-GRACE''
         else if is_none (budget_memory b) \<and> (ex_enforcement e \<or> ex_metric e \<or> ex_poll_interval e \<or> ex_swap e)
         then Inl ''MCUSAGE-MEMORY-OPTION-WITHOUT-MEMORY''
         else if ex_deadline_scope e \<and> is_none (budget_deadline b) then Inl ''MCUSAGE-DEADLINE-SCOPE''
         else if ex_limit_grace e \<and> is_none (budget_memory b) \<and> is_none (budget_deadline b)
         then Inl ''MCUSAGE-LIMIT-GRACE''
         else if ex_restart_tuning e \<and> \<not> pa_restart p \<and> is_none (pa_restart_on p)
         then Inl ''MCUSAGE-RESTART-CONDITION''
         else and_then (if pa_restart p \<or> is_some (pa_restart_on p) then check_restart_request p b else Inr ()) (\<lambda>_.
              and_then (map_sum (\<lambda>_. ''MCUSAGE-BACKOFF'') id (backoff_policy_new (host_exp2 host)
                (case pa_backoff_base_interval p of Some d \<Rightarrow> d | None \<Rightarrow> bp_base_interval defaults)
                (case pa_backoff_multiplier p of Some m \<Rightarrow> m | None \<Rightarrow> bp_multiplier defaults)
                (case pa_backoff_asymptote_interval p of Some d \<Rightarrow> d | None \<Rightarrow> bp_asymptote_interval defaults)
                (case pa_backoff_recovery_half_life p of Some d \<Rightarrow> d | None \<Rightarrow> bp_recovery_half_life defaults)))
              (\<lambda>backoff.
                (let p' = p\<lparr>pa_backoff := backoff\<rparr>
                 in and_then (resolve_circuit p') (\<lambda>circuit. Inr (p'\<lparr>pa_circuit_breaker := circuit\<rparr>))))))"

subsection \<open>The run policy\<close>

record run_policy =
  po_workload_contract :: "workload_contract_v1 option"
  po_private_workload_contract :: "workload_contract_v2 option"
  po_memory :: "byte_size option"
  po_deadline :: "deadline_policy option"
  po_enforcement :: enforcement
  po_boundary :: boundary_requirement
  po_lifetime :: lifetime
  po_metric :: metric
  po_poll_interval :: duration
  po_signal_grace :: duration
  po_command_exit_grace :: duration
  po_limit_grace :: duration
  po_swap :: swap_policy

definition policy_unbounded :: run_policy where
  "policy_unbounded =
     \<lparr>po_workload_contract = None, po_private_workload_contract = None, po_memory = None, po_deadline = None,
      po_enforcement = AutoEnforcement, po_boundary = Standard, po_lifetime = CommandLifetime,
      po_metric = NativeMetric, po_poll_interval = from_millis 50, po_signal_grace = from_secs 2,
      po_command_exit_grace = 0, po_limit_grace = 0, po_swap = SwapBytes (from_bytes 0)\<rparr>"

definition policy_new :: "byte_size \<Rightarrow> run_policy" where
  "policy_new memory =
     \<lparr>po_workload_contract = None, po_private_workload_contract = None, po_memory = Some memory, po_deadline = None,
      po_enforcement = AutoEnforcement, po_boundary = Standard, po_lifetime = CommandLifetime,
      po_metric = NativeMetric, po_poll_interval = from_millis 50, po_signal_grace = from_secs 2,
      po_command_exit_grace = 0, po_limit_grace = 0, po_swap = SwapBytes (from_bytes 0)\<rparr>"

definition policy_default :: run_policy where
  "policy_default = policy_new (gib 1)"

datatype contract_attach_error = RequestInvalid contract_error | MixedVersions

definition with_workload_contract :: "run_policy \<Rightarrow> workload_contract_v1 \<Rightarrow> contract_attach_error + run_policy" where
  "with_workload_contract policy request =
     and_then (map_sum RequestInvalid id (validate_v1 request)) (\<lambda>_.
       if is_some (po_private_workload_contract policy) then Inl MixedVersions
       else Inr (policy\<lparr>po_workload_contract := Some request\<rparr>))"

definition with_private_workload_contract :: "run_policy \<Rightarrow> workload_contract_v2 \<Rightarrow> contract_attach_error + run_policy" where
  "with_private_workload_contract policy request =
     and_then (map_sum RequestInvalid id (validate_v2 request)) (\<lambda>_.
       if is_some (po_workload_contract policy) then Inl MixedVersions
       else Inr (policy\<lparr>po_private_workload_contract := Some request\<rparr>))"

definition with_deadline :: "run_policy \<Rightarrow> duration \<Rightarrow> deadline_policy_error + run_policy" where
  "with_deadline policy d =
     and_then (deadline_policy_new d Attempt) (\<lambda>deadline. Inr (policy\<lparr>po_deadline := Some deadline\<rparr>))"

definition with_boundary :: "run_policy \<Rightarrow> boundary_requirement \<Rightarrow> run_policy" where
  "with_boundary policy boundary = policy\<lparr>po_boundary := boundary\<rparr>"

text \<open>\<open>PolicyArgs::policy\<close> panics when the deadline or the contract is refused: \<open>None\<close>.\<close>

definition args_policy :: "policy_args \<Rightarrow> budget_set \<Rightarrow> run_policy option" where
  "args_policy p b =
     (case (case budget_deadline b of
          None \<Rightarrow> Some None
        | Some d \<Rightarrow> (case deadline_policy_new d (pa_deadline_scope p) of Inr dl \<Rightarrow> Some (Some dl) | Inl _ \<Rightarrow> None)) of
        None \<Rightarrow> None
      | Some deadline \<Rightarrow>
          (let policy = (with_boundary (policy_unbounded
                 \<lparr>po_memory := budget_memory b, po_deadline := deadline, po_enforcement := pa_enforcement p\<rparr>)
                 (pa_boundary p))
                 \<lparr>po_lifetime := pa_wait_for p, po_metric := pa_metric p, po_poll_interval := pa_poll_interval p,
                  po_signal_grace := pa_signal_grace p, po_command_exit_grace := pa_command_exit_grace p,
                  po_limit_grace := pa_limit_grace p, po_swap := pa_swap p\<rparr>
           in (case baseline_workload_contract p of
                 None \<Rightarrow> Some policy
               | Some request \<Rightarrow>
                   (case with_workload_contract policy request of Inr policy' \<Rightarrow> Some policy' | Inl _ \<Rightarrow> None))))"

end
