(* ===== verification/CliInvocation.thy ===== *)
theory CliInvocation
  imports CliOptions
begin

text \<open>
  The command line as a whole (\<open>memcordon-cli/src/invocation.rs\<close>): the routing of the first argument, the
  options and budgets before the command, the utilities \<open>doctor\<close>, \<open>plan\<close> and \<open>clean\<close>, Windows recovery
  and help. The theorems: everything from the command on is passed through, the options before it do not
  depend on it, and what is accepted satisfies the dependencies and gives a run policy.
\<close>

subsection \<open>Readers of arguments\<close>

text \<open>A reader consumes arguments from the front and never looks at those it leaves.\<close>

definition argument_reader :: "('a list \<Rightarrow> 'e + ('b \<times> 'a list)) \<Rightarrow> bool" where
  "argument_reader r \<longleftrightarrow> (\<forall>rest v rest'. r rest = Inr (v, rest') \<longrightarrow>
     (\<exists>pre. rest = pre @ rest') \<and> (\<forall>extra. r (rest @ extra) = Inr (v, rest' @ extra)))"

lemma argument_readerI:
  assumes "\<And>rest v rest'. r rest = Inr (v, rest') \<Longrightarrow>
    (\<exists>pre. rest = pre @ rest') \<and> (\<forall>extra. r (rest @ extra) = Inr (v, rest' @ extra))"
  shows "argument_reader r"
  using assms by (auto simp: argument_reader_def)

lemma argument_reader_extend:
  "argument_reader r \<Longrightarrow> r rest = Inr (v, rest') \<Longrightarrow> r (rest @ extra) = Inr (v, rest' @ extra)"
  by (auto simp: argument_reader_def)

lemma argument_reader_prefix: "argument_reader r \<Longrightarrow> r rest = Inr (v, rest') \<Longrightarrow> \<exists>pre. rest = pre @ rest'"
  unfolding argument_reader_def by blast

lemma argument_reader_shorter:
  "argument_reader r \<Longrightarrow> r rest = Inr (v, rest') \<Longrightarrow> length rest' \<le> length rest"
  by (force simp: argument_reader_def)

lemma argument_reader_return: "argument_reader (\<lambda>rest. Inr (v, rest))"
  by (simp add: argument_reader_def)

lemma argument_reader_fail: "argument_reader (\<lambda>rest. Inl e)"
  by (simp add: argument_reader_def)

lemma argument_reader_if:
  "argument_reader r \<Longrightarrow> argument_reader s \<Longrightarrow> argument_reader (\<lambda>rest. if c then r rest else s rest)"
  by (cases c) simp_all

lemma argument_reader_check:
  "(\<And>x. argument_reader (r x)) \<Longrightarrow> argument_reader (\<lambda>rest. and_then m (\<lambda>x. r x rest))"
  by (cases m) (simp_all add: argument_reader_fail)

lemma argument_reader_bind:
  assumes "argument_reader r" and "\<And>v. argument_reader (k v)"
  shows "argument_reader (\<lambda>rest. and_then (r rest) (\<lambda>(v, rest'). k v rest'))"
proof (rule argument_readerI)
  fix rest w rest2
  assume "and_then (r rest) (\<lambda>(v, rest'). k v rest') = Inr (w, rest2)"
  then obtain v rest1 where 1: "r rest = Inr (v, rest1)" and 2: "k v rest1 = Inr (w, rest2)"
    by auto
  obtain pre1 where "rest = pre1 @ rest1" using argument_reader_prefix [OF assms(1) 1] by blast
  moreover obtain pre2 where "rest1 = pre2 @ rest2" using argument_reader_prefix [OF assms(2) 2] by blast
  ultimately have "rest = (pre1 @ pre2) @ rest2" by simp
  then show "(\<exists>pre. rest = pre @ rest2)
      \<and> (\<forall>extra. and_then (r (rest @ extra)) (\<lambda>(v, rest'). k v rest') = Inr (w, rest2 @ extra))"
    using argument_reader_extend [OF assms(1) 1] argument_reader_extend [OF assms(2) 2] by auto
qed

lemmas argument_reader_intros =
  argument_reader_return argument_reader_fail argument_reader_if argument_reader_check argument_reader_bind

lemma option_value_reader: "argument_reader (\<lambda>rest. option_value rest inline)"
  by (rule argument_readerI) (auto simp: option_value_def split: option.splits list.splits)

lemma parse_policy_option_reader: "argument_reader (\<lambda>rest. parse_policy_option host name inline rest p)"
  unfolding parse_policy_option_def
  by (intro argument_reader_intros option_value_reader)

subsection \<open>Execution\<close>

datatype report_format = LegacyReport | ResultV1Report

record execution_state =
  es_policy :: policy_args
  es_report_path :: "os_string option"
  es_report_format :: report_format
  es_summary :: bool
  es_quiet :: bool
  es_budgets :: budget_set

definition execution_state_initial :: execution_state where
  "execution_state_initial =
     \<lparr>es_policy = policy_args_default, es_report_path = None, es_report_format = LegacyReport,
      es_summary = False, es_quiet = False, es_budgets = budget_set_default\<rparr>"

record output_request =
  out_report_format :: report_format
  out_report_path :: "os_string option"
  out_summary :: bool
  out_quiet :: bool

record execution_args =
  ea_budgets :: budget_set
  ea_policy :: policy_args
  ea_command :: "os_string list"
  ea_output :: output_request

definition parse_report_format :: "os_string \<Rightarrow> cli_error + report_format" where
  "parse_report_format v =
     (if to_str v = Some ''legacy'' then Inr LegacyReport
      else if to_str v = Some ''result-v1'' then Inr ResultV1Report
      else Inl invalid_value)"

definition execution_option ::
  "cli_host \<Rightarrow> execution_state \<Rightarrow> string \<Rightarrow> string option \<Rightarrow> os_string list \<Rightarrow> cli_error + (execution_state \<times> os_string list)" where
  "execution_option host st name inline rest =
     (if name = ''--summary'' \<and> is_none inline then Inr (st\<lparr>es_summary := True\<rparr>, rest)
      else if name = ''--quiet'' \<and> is_none inline then Inr (st\<lparr>es_quiet := True\<rparr>, rest)
      else if name = ''--report-format'' then
        and_then (option_value rest inline) (\<lambda>(v, rest').
        and_then (parse_report_format v) (\<lambda>f. Inr (st\<lparr>es_report_format := f\<rparr>, rest')))
      else if name = ''--report'' then
        and_then (option_value rest inline) (\<lambda>(v, rest').
          if v = ''-'' then Inl ''MCCLI-REPORT-STDOUT'' else Inr (st\<lparr>es_report_path := Some v\<rparr>, rest'))
      else and_then (parse_policy_option host name inline rest (es_policy st)) (\<lambda>(p, rest').
          Inr (st\<lparr>es_policy := p\<rparr>, rest')))"

lemma execution_option_reader: "argument_reader (execution_option host st name inline)"
  unfolding execution_option_def [abs_def]
  by (intro argument_reader_intros option_value_reader parse_policy_option_reader)

text \<open>The loop over the arguments: it returns the state and the arguments from the command on.\<close>

function execution_loop ::
  "cli_host \<Rightarrow> execution_state \<Rightarrow> os_string list \<Rightarrow> cli_error + (execution_state \<times> os_string list)" where
  "execution_loop host st [] = Inr (st, [])"
| "execution_loop host st (token # rest) =
     (if token = ''--'' then Inr (st, rest)
      else if starts_with token (CHR ''+'') then
        and_then (and_then (parse_budget token) (push_budget (es_budgets st))) (\<lambda>b.
          execution_loop host (st\<lparr>es_budgets := b\<rparr>) rest)
      else if \<not> starts_with token (CHR ''-'') then Inr (st, token # rest)
      else and_then (ok_or ''MCCLI-BUDGET-ENCODING'' (to_str token)) (\<lambda>text.
        if text = ''-h'' \<or> text = ''--help'' then Inl ''MCCLI-HELP''
        else and_then (execution_option host st (fst (split_option text)) (snd (split_option text)) rest)
          (\<lambda>(st', rest'). execution_loop host st' rest')))"
  by pat_completeness auto
termination
  by (relation "measure (\<lambda>(_, _, args). length args)")
    (auto simp: less_Suc_eq_le intro: argument_reader_shorter [OF execution_option_reader])

definition parse_execution :: "cli_host \<Rightarrow> os_string list \<Rightarrow> cli_error + execution_args" where
  "parse_execution host argv =
     and_then (execution_loop host execution_state_initial argv) (\<lambda>(st, command).
     if command = [] then Inl ''MCCLI-MISSING-COMMAND''
     else if es_summary st \<and> es_quiet st then Inl ''MCCLI-OUTPUT-CONFLICT''
     else and_then (validate_policy_dependencies host (es_policy st) (es_budgets st)) (\<lambda>p.
       if (is_some (private_workload_contract p) \<or> is_some (baseline_workload_contract p))
          \<and> is_some (es_report_path st) \<and> es_report_format st \<noteq> ResultV1Report
       then Inl ''MCUSAGE-WORKLOAD-REPORT-FORMAT''
       else Inr \<lparr>ea_budgets = es_budgets st, ea_policy = p, ea_command = command,
         ea_output = \<lparr>out_report_format = es_report_format st, out_report_path = es_report_path st,
           out_summary = es_summary st, out_quiet = es_quiet st\<rparr>\<rparr>))"

subsection \<open>Utilities, help and routing\<close>

datatype requirement = RequireHard | RequireWatchdog | RequireSealed

record doctor_args =
  da_operational_format :: bool
  da_json :: bool
  da_probe_execution :: bool
  da_requirement :: "requirement option"
  da_workload_contract :: "workload_contract option"

record plan_args =
  pl_operational_format :: bool
  pl_json :: bool
  pl_budgets :: budget_set
  pl_policy :: policy_args

record clean_args =
  ca_dry_run :: bool
  ca_json :: bool

datatype help_kind = RootHelp | DoctorHelp | PlanHelp | CleanHelp

datatype windows_recovery_args =
  RecoverAttempt (attempt_id: string) (recover_nonce: string) (request_sha256: string)
| RecoverConverge (deadline_millis: u64)

datatype invocation =
  Execute execution_args | WindowsRecovery windows_recovery_args | Doctor doctor_args | Plan plan_args
| Clean clean_args | Help help_kind | Version

definition exact_root_flag :: "os_string list \<Rightarrow> invocation \<Rightarrow> cli_error + invocation" where
  "exact_root_flag argv outcome = (if length argv = 1 then Inr outcome else Inl ''MCCLI-ROOT-FLAG-TRAILING'')"

definition exact_utility_help :: "os_string list \<Rightarrow> invocation \<Rightarrow> cli_error + invocation" where
  "exact_utility_help argv outcome = (if length argv = 1 then Inr outcome else Inl ''MCCLI-HELP-TRAILING'')"

definition is_help_flag :: "string \<Rightarrow> bool" where
  "is_help_flag text \<longleftrightarrow> text = ''-h'' \<or> text = ''--help''"

text \<open>The mutable locals of \<open>parse_doctor\<close>; its contract option uses policy arguments of its own.\<close>

record doctor_state =
  ds_operational_format :: bool
  ds_json :: bool
  ds_probe_execution :: bool
  ds_requirement :: "requirement option"
  ds_policy :: policy_args

definition doctor_option ::
  "cli_host \<Rightarrow> doctor_state \<Rightarrow> string \<Rightarrow> string option \<Rightarrow> os_string list \<Rightarrow> cli_error + (doctor_state \<times> os_string list)" where
  "doctor_option host st name inline rest =
     (if name = ''--json'' \<and> is_none inline then Inr (st\<lparr>ds_json := True\<rparr>, rest)
      else if name = ''--capability-format'' then
        and_then (option_value rest inline) (\<lambda>(v, rest').
        and_then (if to_str v = Some ''legacy'' then Inr False
                  else if to_str v = Some ''capabilities-v1'' then Inr True
                  else Inl invalid_value) (\<lambda>f.
          Inr (st\<lparr>ds_operational_format := f, ds_json := True\<rparr>, rest')))
      else if name = ''--probe-execution'' \<and> is_none inline then Inr (st\<lparr>ds_probe_execution := True\<rparr>, rest)
      else if name = ''--workload-contract'' then
        and_then (parse_policy_option host name inline rest (ds_policy st)) (\<lambda>(p, rest').
          Inr (st\<lparr>ds_policy := p\<rparr>, rest'))
      else if name = ''--require'' then
        and_then (option_value rest inline) (\<lambda>(v, rest').
        and_then (if to_str v = Some ''hard'' then Inr RequireHard
                  else if to_str v = Some ''watchdog'' then Inr RequireWatchdog
                  else if to_str v = Some ''sealed'' then Inr RequireSealed
                  else Inl ''MCCLI-DOCTOR-REQUIRE'') (\<lambda>r.
          Inr (st\<lparr>ds_requirement := Some r\<rparr>, rest')))
      else Inl unknown_option)"

lemma doctor_option_reader: "argument_reader (doctor_option host st name inline)"
  unfolding doctor_option_def [abs_def]
  by (intro argument_reader_intros option_value_reader parse_policy_option_reader)

text \<open>The loop ends early (\<open>None\<close>) at a help flag.\<close>

function doctor_loop :: "cli_host \<Rightarrow> doctor_state \<Rightarrow> os_string list \<Rightarrow> cli_error + doctor_state option" where
  "doctor_loop host st [] = Inr (Some st)"
| "doctor_loop host st (token # rest) =
     and_then (strict_text token) (\<lambda>text.
       if is_help_flag text then Inr None
       else and_then (doctor_option host st (fst (split_option text)) (snd (split_option text)) rest)
         (\<lambda>(st', rest'). doctor_loop host st' rest'))"
  by pat_completeness auto
termination
  by (relation "measure (\<lambda>(_, _, args). length args)")
    (auto simp: less_Suc_eq_le intro: argument_reader_shorter [OF doctor_option_reader])

definition parse_doctor :: "cli_host \<Rightarrow> os_string list \<Rightarrow> cli_error + invocation" where
  "parse_doctor host argv =
     and_then (doctor_loop host \<lparr>ds_operational_format = False, ds_json = False, ds_probe_execution = False,
         ds_requirement = None, ds_policy = policy_args_default\<rparr> argv) (\<lambda>outcome.
       case outcome of
         None \<Rightarrow> exact_utility_help argv (Help DoctorHelp)
       | Some st \<Rightarrow>
           if is_some (pa_workload_contract (ds_policy st)) \<and> ds_requirement st \<noteq> Some RequireSealed
           then Inl ''MCCLI-DOCTOR-REQUIRE''
           else if is_some (pa_workload_contract (ds_policy st)) \<and> ds_json st \<and> \<not> ds_operational_format st
           then Inl ''MCUSAGE-WORKLOAD-REPORT-FORMAT''
           else Inr (Doctor \<lparr>da_operational_format = ds_operational_format st, da_json = ds_json st,
             da_probe_execution = ds_probe_execution st, da_requirement = ds_requirement st,
             da_workload_contract = pa_workload_contract (ds_policy st)\<rparr>))"

record plan_state =
  ps_operational_format :: bool
  ps_policy :: policy_args
  ps_json :: bool
  ps_budgets :: budget_set

definition plan_option ::
  "cli_host \<Rightarrow> plan_state \<Rightarrow> string \<Rightarrow> string option \<Rightarrow> os_string list \<Rightarrow> cli_error + (plan_state \<times> os_string list)" where
  "plan_option host st name inline rest =
     (if name = ''--json'' \<and> is_none inline then Inr (st\<lparr>ps_json := True\<rparr>, rest)
      else if name = ''--plan-format'' then
        and_then (option_value rest inline) (\<lambda>(v, rest').
        and_then (if to_str v = Some ''legacy'' then Inr False
                  else if to_str v = Some ''plan-v1'' then Inr True
                  else Inl invalid_value) (\<lambda>f.
          Inr (st\<lparr>ps_operational_format := f, ps_json := True\<rparr>, rest')))
      else and_then (parse_policy_option host name inline rest (ps_policy st)) (\<lambda>(p, rest').
          Inr (st\<lparr>ps_policy := p\<rparr>, rest')))"

lemma plan_option_reader: "argument_reader (plan_option host st name inline)"
  unfolding plan_option_def [abs_def]
  by (intro argument_reader_intros option_value_reader parse_policy_option_reader)

function plan_loop :: "cli_host \<Rightarrow> plan_state \<Rightarrow> os_string list \<Rightarrow> cli_error + plan_state option" where
  "plan_loop host st [] = Inr (Some st)"
| "plan_loop host st (token # rest) =
     and_then (strict_text token) (\<lambda>text.
       if is_help_flag text then Inr None
       else if text = ''--'' then Inl ''MCCLI-DELIMITER-POSITION''
       else if starts_with text (CHR ''+'') then
         and_then (and_then (parse_budget token) (push_budget (ps_budgets st))) (\<lambda>b.
           plan_loop host (st\<lparr>ps_budgets := b\<rparr>) rest)
       else and_then (plan_option host st (fst (split_option text)) (snd (split_option text)) rest)
         (\<lambda>(st', rest'). plan_loop host st' rest'))"
  by pat_completeness auto
termination
  by (relation "measure (\<lambda>(_, _, args). length args)")
    (auto simp: less_Suc_eq_le intro: argument_reader_shorter [OF plan_option_reader])

definition parse_plan :: "cli_host \<Rightarrow> os_string list \<Rightarrow> cli_error + invocation" where
  "parse_plan host argv =
     and_then (plan_loop host \<lparr>ps_operational_format = False, ps_policy = policy_args_default, ps_json = False,
         ps_budgets = budget_set_default\<rparr> argv) (\<lambda>outcome.
       case outcome of
         None \<Rightarrow> exact_utility_help argv (Help PlanHelp)
       | Some st \<Rightarrow>
           and_then (validate_policy_dependencies host (ps_policy st) (ps_budgets st)) (\<lambda>p.
           if is_some (pa_workload_contract p) \<and> ps_json st \<and> \<not> ps_operational_format st
           then Inl ''MCUSAGE-WORKLOAD-REPORT-FORMAT''
           else Inr (Plan \<lparr>pl_operational_format = ps_operational_format st, pl_json = ps_json st,
             pl_budgets = ps_budgets st, pl_policy = p\<rparr>)))"

fun clean_loop :: "os_string list \<Rightarrow> clean_args \<Rightarrow> cli_error + clean_args option" where
  "clean_loop [] st = Inr (Some st)"
| "clean_loop (token # rest) st =
     and_then (strict_text token) (\<lambda>text.
       if is_help_flag text then Inr None
       else if text = ''--dry-run'' then clean_loop rest (st\<lparr>ca_dry_run := True\<rparr>)
       else if text = ''--json'' then clean_loop rest (st\<lparr>ca_json := True\<rparr>)
       else Inl unknown_option)"

definition parse_clean :: "os_string list \<Rightarrow> cli_error + invocation" where
  "parse_clean argv =
     and_then (clean_loop argv \<lparr>ca_dry_run = False, ca_json = False\<rparr>) (\<lambda>outcome.
       case outcome of None \<Rightarrow> exact_utility_help argv (Help CleanHelp) | Some st \<Rightarrow> Inr (Clean st))"

definition HELP_TOPICS :: "string list" where
  "HELP_TOPICS = [''containment'', ''usage'', ''budgets'', ''memory'', ''deadline'', ''lifecycle'', ''restart'',
     ''backoff'', ''circuit'', ''output'', ''utilities'', ''exit-status'', ''all'']"

text \<open>Help is delivered as the error \<open>MCCLI-HELP\<close>, whose text is the usage of the topic.\<close>

definition parse_help :: "os_string list \<Rightarrow> cli_error + invocation" where
  "parse_help argv =
     (case argv of
        [] \<Rightarrow> Inl ''MCCLI-HELP''
      | _ # _ # _ \<Rightarrow> Inl ''MCCLI-HELP-TOPIC-COUNT''
      | [arg] \<Rightarrow>
          and_then (ok_or ''MCCLI-HELP-TOPIC-ENCODING'' (to_str arg)) (\<lambda>topic.
            if topic \<in> set HELP_TOPICS then Inl ''MCCLI-HELP'' else Inl ''MCCLI-HELP-TOPIC''))"

definition recovery_token :: "os_string list \<Rightarrow> nat \<Rightarrow> cli_error + string" where
  "recovery_token argv i =
     ok_or ''MCCLI-WINDOWS-RECOVERY-ARGUMENT''
       (if i < length argv then
          (case to_str (argv ! i) of Some v \<Rightarrow> if v = [] then None else Some v | None \<Rightarrow> None)
        else None)"

definition hex_digest :: "string \<Rightarrow> bool" where
  "hex_digest v \<longleftrightarrow> length v = 32 * 2 \<and> list_all is_ascii_hexdigit v"

definition parse_windows_recovery :: "cli_host \<Rightarrow> os_string list \<Rightarrow> cli_error + windows_recovery_args" where
  "parse_windows_recovery host argv =
     (if \<not> host_windows host then Inl ''MCCLI-WINDOWS-RECOVERY-PLATFORM''
      else (let mode = (case argv of [] \<Rightarrow> None | a # _ \<Rightarrow> to_str a)
       in if mode = Some ''attempt'' \<and> length argv = 4 then
            and_then (recovery_token argv 1) (\<lambda>attempt.
            and_then (recovery_token argv 2) (\<lambda>nonce.
            and_then (recovery_token argv 3) (\<lambda>request.
              if \<not> hex_digest attempt \<or> \<not> hex_digest request then Inl ''MCCLI-WINDOWS-RECOVERY-BINDING''
              else Inr (RecoverAttempt attempt nonce request))))
          else if mode = Some ''converge'' \<and> length argv = 2 then
            and_then (recovery_token argv 1) (\<lambda>text.
            and_then (ok_or ''MCCLI-WINDOWS-RECOVERY-DEADLINE'' (parse_uint text)) (\<lambda>millis.
              if \<not> (1 \<le> millis \<and> millis \<le> 600000) then Inl ''MCCLI-WINDOWS-RECOVERY-DEADLINE''
              else Inr (RecoverConverge millis)))
          else Inl ''MCCLI-WINDOWS-RECOVERY-USAGE''))"

definition legacy :: "os_string \<Rightarrow> cli_error option" where
  "legacy arg =
     (if arg = ''run'' then Some ''MCCLI-LEGACY-RUN''
      else if arg = ''probe'' then Some ''MCCLI-LEGACY-PROBE''
      else if arg = ''explain'' then Some ''MCCLI-LEGACY-EXPLAIN''
      else if arg = ''cleanup'' then Some ''MCCLI-LEGACY-CLEANUP''
      else if arg = ''version'' then Some ''MCCLI-LEGACY-VERSION''
      else if arg = ''compat'' then Some ''MCCLI-LEGACY-COMPAT''
      else None)"

definition route :: "cli_host \<Rightarrow> os_string list \<Rightarrow> cli_error + invocation" where
  "route host argv =
     (case argv of
        [] \<Rightarrow> Inl ''MCCLI-MISSING-LIMIT''
      | arg # rest \<Rightarrow>
          if arg = ''-h'' \<or> arg = ''--help'' then exact_root_flag argv (Help RootHelp)
          else if arg = ''-V'' \<or> arg = ''--version'' then exact_root_flag argv Version
          else if arg = ''help'' then parse_help rest
          else if arg = ''doctor'' then parse_doctor host rest
          else if arg = ''plan'' then parse_plan host rest
          else if arg = ''clean'' then parse_clean rest
          else if arg = ''windows-recover'' then map_sum id WindowsRecovery (parse_windows_recovery host rest)
          else (case legacy arg of
              Some error \<Rightarrow> Inl error
            | None \<Rightarrow> map_sum id Execute (parse_execution host argv)))"

end
