(* ===== verification/CliRouting.thy ===== *)
theory CliRouting
  imports CliInvocation
begin

text \<open>
  What the parser of the command line guarantees. The readers of the arguments leave the rest
  untouched, so the command is passed through; an invariant of the policy arguments holds at every
  option, and with the dependency checks it gives the run policy of an accepted invocation; \<open>plan\<close>
  reads options and budgets exactly as a run does.
\<close>

subsection \<open>The command is passed through\<close>

text \<open>One round of the loop: the end of the options, a budget or an option.\<close>

inductive execution_round :: "cli_host \<Rightarrow> execution_state \<Rightarrow> os_string \<Rightarrow> os_string list \<Rightarrow> execution_state \<Rightarrow> os_string list \<Rightarrow> bool"
  for host st token rest where
  budget: "token \<noteq> ''--'' \<Longrightarrow> starts_with token (CHR ''+'') \<Longrightarrow> parse_budget token = Inr t \<Longrightarrow>
    push_budget (es_budgets st) t = Inr b \<Longrightarrow> execution_round host st token rest (st\<lparr>es_budgets := b\<rparr>) rest"
| option: "token \<noteq> ''--'' \<Longrightarrow> starts_with token (CHR ''-'') \<Longrightarrow> to_str token = Some token \<Longrightarrow>
    \<not> is_help_flag token \<Longrightarrow>
    execution_option host st (fst (split_option token)) (snd (split_option token)) rest = Inr (st', rest') \<Longrightarrow>
    execution_round host st token rest st' rest'"

definition ends_options :: "os_string \<Rightarrow> bool" where
  "ends_options token \<longleftrightarrow> \<not> starts_with token (CHR ''+'') \<and> \<not> starts_with token (CHR ''-'')"

lemma to_str_id: "to_str s = Some t \<Longrightarrow> t = s"
  by (simp add: to_str_def split: if_splits)

lemma execution_round_loop:
  "execution_round host st token rest st1 rest1 \<Longrightarrow>
     execution_loop host st (token # rest) = execution_loop host st1 rest1"
  by (induction rule: execution_round.induct) (auto simp: starts_with_def is_help_flag_def)

lemma execution_loopE:
  assumes "execution_loop host st (token # rest) = Inr (st', command)"
  obtains (delimiter) "token = ''--''" "st' = st" "command = rest"
  | (word) "token \<noteq> ''--''" "ends_options token" "st' = st" "command = token # rest"
  | (round) st1 rest1 where "execution_round host st token rest st1 rest1"
      "execution_loop host st1 rest1 = Inr (st', command)"
  using assms
  by (fastforce simp: ends_options_def is_help_flag_def dest: to_str_id split: if_splits
      intro: execution_round.intros)

lemma execution_round_reader:
  assumes "execution_round host st token rest st1 rest1"
  shows "execution_round host st token (rest @ extra) st1 (rest1 @ extra)" and "\<exists>pre. rest = pre @ rest1"
  using assms
  by (cases rule: execution_round.cases;
      auto intro: execution_round.intros argument_reader_extend [OF execution_option_reader]
        argument_reader_prefix [OF execution_option_reader])+

lemma execution_round_shorter: "execution_round host st token rest st1 rest1 \<Longrightarrow> length rest1 \<le> length rest"
  using execution_round_reader(2) by fastforce

text \<open>What holds at the start of the loop and after every round holds at its end.\<close>

lemma execution_loop_induct [consumes 1, case_names start round]:
  assumes "execution_loop host st argv = Inr (st', command)" and "P st"
    and "\<And>st token rest st1 rest1. execution_round host st token rest st1 rest1 \<Longrightarrow> P st \<Longrightarrow> P st1"
  shows "P st'"
  using assms(1,2)
proof (induction argv arbitrary: st rule: length_induct)
  case (1 argv)
  show ?case
  proof (cases argv)
    case (Cons token rest)
    show ?thesis
      using "1.prems"(1) unfolding Cons
    proof (cases rule: execution_loopE)
      case (round st1 rest1)
      then have "length rest1 < length argv" using execution_round_shorter by (fastforce simp: Cons)
      with "1.IH" round "1.prems"(2) assms(3) show ?thesis by blast
    qed (use "1.prems"(2) in auto)
  qed (use "1.prems" in auto)
qed

lemma execution_loop_extend:
  assumes "execution_loop host st argv = Inr (st', command)" and "command \<noteq> []"
  shows "(\<exists>pre. argv = pre @ command) \<and> execution_loop host st (argv @ extra) = Inr (st', command @ extra)"
  using assms
proof (induction argv arbitrary: st rule: length_induct)
  case (1 argv)
  then obtain token rest where argv: "argv = token # rest" by (cases argv) auto
  show ?case
    using "1.prems"(1) unfolding argv
  proof (cases rule: execution_loopE)
    case (round st1 rest1)
    obtain pre where pre: "rest = pre @ rest1" using execution_round_reader(2) [OF round(1)] by blast
    then have "length rest1 < length argv" by (simp add: argv)
    with "1.IH" round "1.prems"(2) have
      IH: "\<exists>pre. rest1 = pre @ command" "execution_loop host st1 (rest1 @ extra) = Inr (st', command @ extra)"
      by blast+
    then show "(\<exists>pre. token # rest = pre @ command) \<and> execution_loop host st ((token # rest) @ extra) = Inr (st', command @ extra)"
      using execution_round_loop [OF execution_round_reader(1) [OF round(1), of extra]] pre by auto
  qed (auto simp: ends_options_def)
qed

abbreviation execution_result :: "execution_state \<Rightarrow> policy_args \<Rightarrow> os_string list \<Rightarrow> execution_args" where
  "execution_result st p command \<equiv>
     \<lparr>ea_budgets = es_budgets st, ea_policy = p, ea_command = command,
      ea_output = \<lparr>out_report_format = es_report_format st, out_report_path = es_report_path st,
        out_summary = es_summary st, out_quiet = es_quiet st\<rparr>\<rparr>"

text \<open>A contract is reported only in the second format.\<close>

definition report_format_ok :: "policy_args \<Rightarrow> os_string option \<Rightarrow> report_format \<Rightarrow> bool" where
  "report_format_ok p path format \<longleftrightarrow>
     is_none (pa_workload_contract p) \<or> is_none path \<or> format = ResultV1Report"

lemma has_contract_iff:
  "is_some (private_workload_contract p) \<or> is_some (baseline_workload_contract p) \<longleftrightarrow> is_some (pa_workload_contract p)"
  by (auto simp: private_workload_contract_def baseline_workload_contract_def
      split: option.splits workload_contract.splits)

lemma parse_execution_iff:
  "parse_execution host argv = Inr e \<longleftrightarrow>
     (\<exists>st command p. execution_loop host execution_state_initial argv = Inr (st, command) \<and> command \<noteq> []
        \<and> \<not> (es_summary st \<and> es_quiet st)
        \<and> validate_policy_dependencies host (es_policy st) (es_budgets st) = Inr p
        \<and> report_format_ok p (es_report_path st) (es_report_format st) \<and> e = execution_result st p command)"
proof -
  have c: "(is_some (private_workload_contract p) \<or> is_some (baseline_workload_contract p))
      \<and> is_some path \<and> f \<noteq> ResultV1Report \<longleftrightarrow> \<not> report_format_ok p path f" for p path f
    unfolding has_contract_iff by (auto simp: report_format_ok_def)
  show ?thesis
  proof (cases "execution_loop host execution_state_initial argv")
    case (Inr r)
    obtain st command where r: "r = (st, command)" by (cases r)
    show ?thesis
      unfolding parse_execution_def c Inr r
      by (cases "validate_policy_dependencies host (es_policy st) (es_budgets st)") auto
  qed (simp add: parse_execution_def)
qed

lemma parse_execution_extend:
  assumes "parse_execution host argv = Inr e"
  shows "\<exists>pre. argv = pre @ ea_command e" and "ea_command e \<noteq> []"
    and "parse_execution host (argv @ extra) = Inr (e\<lparr>ea_command := ea_command e @ extra\<rparr>)"
proof -
  obtain st command p where l: "execution_loop host execution_state_initial argv = Inr (st, command)"
    and c: "command \<noteq> []" "\<not> (es_summary st \<and> es_quiet st)"
      "validate_policy_dependencies host (es_policy st) (es_budgets st) = Inr p"
      "report_format_ok p (es_report_path st) (es_report_format st)"
    and e: "e = execution_result st p command"
    using assms unfolding parse_execution_iff by blast
  note ext = execution_loop_extend [OF l c(1)]
  show "\<exists>pre. argv = pre @ ea_command e" "ea_command e \<noteq> []" using ext c e by auto
  show "parse_execution host (argv @ extra) = Inr (e\<lparr>ea_command := ea_command e @ extra\<rparr>)"
    unfolding parse_execution_iff
    by (intro exI [of _ st] exI [of _ "command @ extra"] exI [of _ p]) (use ext c in \<open>simp add: e\<close>)
qed

text \<open>The first arguments that select something other than a run.\<close>

definition reserved_words :: "string list" where
  "reserved_words = [''-h'', ''--help'', ''-V'', ''--version'', ''help'', ''doctor'', ''plan'', ''clean'', ''windows-recover'',
     ''run'', ''probe'', ''explain'', ''cleanup'', ''version'', ''compat'']"

lemma legacy_None: "legacy a = None \<longleftrightarrow> a \<notin> {''run'', ''probe'', ''explain'', ''cleanup'', ''version'', ''compat''}"
  by (simp add: legacy_def)

lemma utilities_not_execute:
  "parse_help xs \<noteq> Inr (Execute e)" "parse_doctor host xs \<noteq> Inr (Execute e)"
  "parse_plan host xs \<noteq> Inr (Execute e)" "parse_clean xs \<noteq> Inr (Execute e)"
  "exact_root_flag xs (Help h) \<noteq> Inr (Execute e)" "exact_root_flag xs Version \<noteq> Inr (Execute e)"
  "map_sum id WindowsRecovery w \<noteq> Inr (Execute e)"
  by (auto simp: parse_help_def parse_doctor_def parse_plan_def parse_clean_def exact_root_flag_def
      exact_utility_help_def and_then_Inr_iff split: list.splits option.splits if_splits) (cases w; simp)

lemma route_execute:
  "route host argv = Inr (Execute e) \<longleftrightarrow>
     argv \<noteq> [] \<and> hd argv \<notin> set reserved_words \<and> parse_execution host argv = Inr e"
proof (cases argv)
  case (Cons arg rest)
  have ex: "map_sum id Execute (parse_execution host argv) = Inr (Execute e) \<longleftrightarrow> parse_execution host argv = Inr e"
    by (cases "parse_execution host argv") auto
  show ?thesis
    using ex legacy_None [of arg]
    by (auto simp: Cons route_def utilities_not_execute reserved_words_def split: option.splits)
qed (simp add: route_def)

text \<open>C9: the arguments of the command are passed through and never read. When a command line is
  accepted as a run, the command is a non-empty end of it, and with any further arguments appended, options
  and delimiters included, it is accepted with the same budgets, policy and output request and the
  appended arguments at the end of the command.\<close>

theorem command_passed_through:
  assumes "route host argv = Inr (Execute e)"
  shows "(\<exists>pre. argv = pre @ ea_command e) \<and> ea_command e \<noteq> []
    \<and> route host (argv @ extra) = Inr (Execute (e\<lparr>ea_command := ea_command e @ extra\<rparr>))"
  using assms parse_execution_extend [of host argv e] by (auto simp: route_execute)

definition example_host :: cli_host where
  "example_host = \<lparr>host_open = (\<lambda>_. None),
     host_json = \<lparr>jr_document = (\<lambda>_. None), jr_version = (\<lambda>_. None), jr_v1 = (\<lambda>_. None), jr_v2 = (\<lambda>_. None)\<rparr>,
     host_exp2 = exp2_nearest, host_windows = False\<rparr>"

lemma example_tokens: "to_str ''--sealed'' = Some ''--sealed''" "split_option ''--sealed'' = (''--sealed'', None)"
  by (simp_all add: to_str_def split_option_def utf8_valid_ascii)

lemma backoff_policy_new_iff:
  "backoff_policy_new exp2 b m a h = Inr p \<longleftrightarrow> proper_millis b \<and> proper_millis a \<and> proper_millis h
     \<and> p = \<lparr>bp_base_interval = b, bp_multiplier = m, bp_asymptote_interval = a, bp_recovery_half_life = h\<rparr>"
  by (auto simp: backoff_policy_new_def Let_def and_then_Inr_iff backoff_policy_validate_iff)

lemma default_backoff_new:
  "backoff_policy_new exp2 (bp_base_interval backoff_policy_default) (bp_multiplier backoff_policy_default)
     (bp_asymptote_interval backoff_policy_default) (bp_recovery_half_life backoff_policy_default) = Inr backoff_policy_default"
  by (simp add: backoff_policy_new_iff backoff_policy_default_def proper_millis_def from_millis_def from_secs_def as_millis_def)

definition example_run :: execution_args where
  "example_run = \<lparr>ea_budgets = budget_set_default,
     ea_policy = policy_args_default\<lparr>pa_boundary := Sealed, pa_explicit := (pa_explicit policy_args_default)\<lparr>ex_boundary := True\<rparr>\<rparr>,
     ea_command = [''program''],
     ea_output = \<lparr>out_report_format = LegacyReport, out_report_path = None, out_summary = False, out_quiet = False\<rparr>\<rparr>"

lemma example_route: "route example_host [''--sealed'', ''program''] = Inr (Execute example_run)"
  by (simp add: route_def legacy_def parse_execution_def execution_state_initial_def starts_with_def example_tokens
      execution_option_def parse_policy_option_def set_explicit_def validate_policy_dependencies_def
      budget_set_default_def default_backoff_new resolve_circuit_def example_run_def
      private_workload_contract_def baseline_workload_contract_def Let_def
      policy_args_default_def)

theorem command_passed_through_witness:
  "route example_host [''--sealed'', ''program'', ''--sealed'', ''--'']
     = Inr (Execute (example_run\<lparr>ea_command := [''program'', ''--sealed'', ''--'']\<rparr>))"
  using command_passed_through [OF example_route, of "[''--sealed'', ''--'']"] by (simp add: example_run_def)

subsection \<open>The invariant of the policy arguments\<close>

text \<open>Every option keeps its documented range, and what was not given has its default.\<close>

definition option_ranges :: "policy_args \<Rightarrow> bool" where
  "option_ranges p \<longleftrightarrow>
     is_none_or (\<lambda>c. case c of V1 r \<Rightarrow> validate_v1 r = Inr () | V2 r \<Rightarrow> validate_v2 r = Inr ()) (pa_workload_contract p)
     \<and> from_millis 10 \<le> pa_poll_interval p
     \<and> is_none_or (\<lambda>c. c \<in> {conditions_both, conditions_memory_limit, conditions_deadline}) (pa_restart_on p)
     \<and> pa_restart_limit p \<noteq> Count 0
     \<and> is_none_or (\<lambda>t. f64_is_finite t \<and> \<not> f64_le t (Fin 0)) (pa_circuit_threshold p)"

definition option_defaults :: "policy_args \<Rightarrow> bool" where
  "option_defaults p \<longleftrightarrow> (let e = pa_explicit p in
     (pa_boundary p = Sealed \<longleftrightarrow> ex_boundary e)
     \<and> (\<not> ex_enforcement e \<longrightarrow> pa_enforcement p = AutoEnforcement)
     \<and> (\<not> ex_metric e \<longrightarrow> pa_metric p = NativeMetric)
     \<and> (\<not> ex_poll_interval e \<longrightarrow> pa_poll_interval p = from_millis 50)
     \<and> (\<not> ex_swap e \<longrightarrow> pa_swap p = SwapBytes (from_bytes 0))
     \<and> (\<not> ex_deadline_scope e \<longrightarrow> pa_deadline_scope p = Attempt)
     \<and> (\<not> ex_command_exit_grace e \<longrightarrow> pa_command_exit_grace p = 0)
     \<and> (\<not> ex_limit_grace e \<longrightarrow> pa_limit_grace p = 0)
     \<and> (\<not> ex_restart_tuning e \<longrightarrow> pa_restart_limit p = Unlimited \<and> pa_backoff_base_interval p = None
         \<and> pa_backoff_multiplier p = None \<and> pa_backoff_asymptote_interval p = None
         \<and> pa_backoff_recovery_half_life p = None \<and> pa_circuit_threshold p = None
         \<and> pa_circuit_cooldown p = None \<and> pa_circuit_half_life p = None))"

lemma option_invariant_default: "option_ranges policy_args_default" "option_defaults policy_args_default"
  by (simp_all add: option_ranges_def option_defaults_def policy_args_default_def from_millis_def)

lemma parsed_ranges:
  "parse_poll_interval text = Inr d \<Longrightarrow> from_millis 10 \<le> d"
  "parse_restart_on text = Inr c \<Longrightarrow> c \<in> {conditions_both, conditions_memory_limit, conditions_deadline}"
  "parse_restart_limit text \<noteq> Inr (Count 0)"
  "parse_threshold text = Inr t \<Longrightarrow> f64_is_finite t \<and> \<not> f64_le t (Fin 0)"
  by (auto simp: parse_poll_interval_def parse_restart_on_def parse_restart_limit_def parse_threshold_def
      split: if_splits option.splits)

lemma read_contract_valid:
  "read_contract host path = Some c \<Longrightarrow> case c of V1 r \<Rightarrow> validate_v1 r = Inr () | V2 r \<Rightarrow> validate_v2 r = Inr ()"
  by (cases c) (auto simp: read_contract_def contract_parse_valid split: option.splits prod.splits if_splits sum.splits)

text \<open>The branches of a successful chain of tests, without the tests.\<close>

lemma if_branchE:
  assumes "(if c then a else b) = Inr y"
  obtains "a = Inr y" | "b = Inr y"
  using assms by (auto split: if_splits)

lemma Inr_updateE:
  assumes "Inr x = Inr y"
  obtains "y = x"
  using assms by simp

lemma apply_policy_value_ranges:
  "apply_policy_value name text p = Inr p' \<Longrightarrow> option_ranges p \<Longrightarrow> option_ranges p'"
  unfolding apply_policy_value_def option_ranges_def
  apply (elim if_branchE and_then_InrE Inr_updateE)
  apply (simp_all add: set_explicit_def set_tuning_def)
  subgoal by (rule parsed_ranges(1))
  subgoal by (drule parsed_ranges(2)) simp
  subgoal using parsed_ranges(3) by metis
  subgoal by (rule parsed_ranges(4))
  done

lemma apply_policy_value_defaults:
  "apply_policy_value name text p = Inr p' \<Longrightarrow> option_defaults p \<Longrightarrow> option_defaults p'"
  unfolding apply_policy_value_def option_defaults_def Let_def
  by (elim if_branchE and_then_InrE Inr_updateE) (simp_all add: set_explicit_def set_tuning_def)

lemma parse_policy_option_Inr:
  assumes "parse_policy_option host name inline rest p = Inr (p', rest')"
  obtains (contract) c where "name = ''--workload-contract''" "pa_workload_contract p = None"
      "\<exists>path. read_contract host path = Some c" "p' = p\<lparr>pa_workload_contract := Some c\<rparr>"
  | (sealed) "name = ''--sealed''" "\<not> ex_boundary (pa_explicit p)" "rest' = rest"
      "p' = set_explicit (\<lambda>e. e\<lparr>ex_boundary := True\<rparr>) (p\<lparr>pa_boundary := Sealed\<rparr>)"
  | (restart) "name = ''--restart''" "p' = p\<lparr>pa_restart := True\<rparr>" "rest' = rest"
  | (valued) arg where "name \<in> set valued_options" "apply_policy_value name arg p = Inr p'"
  using assms unfolding parse_policy_option_def
  by (auto split: if_splits) blast

lemma parse_policy_option_invariant:
  assumes "parse_policy_option host name inline rest p = Inr (p', rest')" and "option_ranges p" and "option_defaults p"
  shows "option_ranges p' \<and> option_defaults p'"
  using assms(1)
proof (cases rule: parse_policy_option_Inr)
  case (contract c)
  then obtain path where "read_contract host path = Some c" by blast
  from read_contract_valid [OF this] assms(2,3) show ?thesis
    by (simp add: contract(4) option_ranges_def option_defaults_def Let_def)
next
  case sealed
  then show ?thesis
    using assms(2,3) by (simp add: option_ranges_def option_defaults_def set_explicit_def Let_def)
next
  case restart
  then show ?thesis using assms(2,3) by (simp add: option_ranges_def option_defaults_def Let_def)
next
  case (valued arg)
  then show ?thesis
    using assms(2,3) apply_policy_value_ranges apply_policy_value_defaults by blast
qed

text \<open>No parser of a value answers with the code for an unknown option.\<close>

lemma duration_option_error: "duration_option t = Inl e \<Longrightarrow> e = ''MCCLI-DURATION''"
  by (cases "parse_duration t") (auto simp: duration_option_def)

lemma value_errors:
  "parse_enforcement t \<noteq> Inl unknown_option" "parse_wait_for t \<noteq> Inl unknown_option"
  "parse_metric t \<noteq> Inl unknown_option" "parse_deadline_scope t \<noteq> Inl unknown_option"
  "parse_restart_on t \<noteq> Inl unknown_option" "parse_restart_limit t \<noteq> Inl unknown_option"
  by (simp_all add: parse_enforcement_def parse_wait_for_def parse_metric_def parse_deadline_scope_def
      parse_restart_on_def parse_restart_limit_def unknown_option_def invalid_value_def split: option.split)

lemma value_errors_mapped:
  "duration_option t \<noteq> Inl unknown_option" "parse_poll_interval t \<noteq> Inl unknown_option"
  "parse_swap t \<noteq> Inl unknown_option" "parse_threshold t \<noteq> Inl unknown_option"
  "map_sum (\<lambda>_. ''MCUSAGE-BACKOFF'') id r \<noteq> Inl unknown_option"
proof -
  show d: "duration_option t \<noteq> Inl unknown_option"
    using duration_option_error [of t unknown_option] by (auto simp: unknown_option_def)
  show "parse_poll_interval t \<noteq> Inl unknown_option"
    using d by (simp add: parse_poll_interval_def and_then_Inl_iff unknown_option_def)
  show "parse_swap t \<noteq> Inl unknown_option"
    by (cases "byte_size_from_str t") (simp_all add: parse_swap_def unknown_option_def)
  show "parse_threshold t \<noteq> Inl unknown_option"
    by (simp add: parse_threshold_def and_then_Inl_iff unknown_option_def)
  show "map_sum (\<lambda>_. ''MCUSAGE-BACKOFF'') id r \<noteq> Inl unknown_option"
    by (cases r) (simp_all add: unknown_option_def)
qed

lemma apply_policy_value_known:
  assumes "name \<in> set valued_options"
  shows "apply_policy_value name text p \<noteq> Inl unknown_option"
proof -
  have "''MCUSAGE-RESTART-CONDITION'' \<noteq> unknown_option" by (simp add: unknown_option_def)
  note errors = value_errors value_errors_mapped this
  have "list_all (\<lambda>n. apply_policy_value n text p \<noteq> Inl unknown_option) valued_options"
    unfolding valued_options_def
    by (simp add: apply_policy_value_def and_then_Inl_iff errors)
  then show ?thesis using assms by (simp add: list_all_iff)
qed

lemma option_value_error: "option_value rest inline \<noteq> Inl unknown_option" "strict_text v \<noteq> Inl unknown_option"
  by (auto simp: option_value_def strict_text_def unknown_option_def split: option.splits list.splits)

lemma published_options:
  "name \<in> set PUBLIC_POLICY_OPTIONS \<longleftrightarrow> name \<in> set valued_options \<or> name = ''--sealed'' \<or> name = ''--restart''"
  by (auto simp: PUBLIC_POLICY_OPTIONS_def valued_options_def)

text \<open>C40: which option names are known. The parser answers an option with the code for an unknown
  option exactly when its name is neither in the published table of policy options nor the contract option; no value
  is needed to find that out.\<close>

theorem unknown_options_exact:
  "parse_policy_option host name inline rest p = Inl ''MCCLI-UNKNOWN-OPTION'' \<longleftrightarrow>
     name \<notin> set PUBLIC_POLICY_OPTIONS \<and> name \<noteq> ''--workload-contract''"
proof (cases "name \<in> {''--workload-contract'', ''--sealed'', ''--restart''}")
  case True
  then show ?thesis
    using option_value_error(1) unfolding published_options
    by (auto simp: parse_policy_option_def and_then_Inl_iff unknown_option_def)
next
  case False
  then show ?thesis
    using apply_policy_value_known [of name] option_value_error
    unfolding published_options unknown_option_def [symmetric]
    by (auto simp: parse_policy_option_def and_then_Inl_iff)
qed

end
