(* ===== verification/CliPolicy.thy ===== *)
theory CliPolicy
  imports CliRouting
begin

text \<open>
  What an accepted invocation is. The dependency checks accept exactly the consistent combinations of options
  and budgets; the loops of \<open>run\<close> and \<open>plan\<close> keep the invariant of the arguments, so the run policy
  exists; and \<open>plan\<close> reads options and budgets exactly as a run does.
\<close>

subsection \<open>What the dependency checks accept\<close>

definition restart_requested :: "policy_args \<Rightarrow> bool" where
  "restart_requested p \<longleftrightarrow> pa_restart p \<or> is_some (pa_restart_on p)"

definition requested_conditions :: "policy_args \<Rightarrow> restart_conditions" where
  "requested_conditions p = (case pa_restart_on p of Some c \<Rightarrow> c | None \<Rightarrow> conditions_both)"

text \<open>The conditions that can end an attempt: a memory budget, a deadline of the attempt.\<close>

definition condition_active :: "policy_args \<Rightarrow> budget_set \<Rightarrow> restart_condition \<Rightarrow> bool" where
  "condition_active p b c \<longleftrightarrow> (case c of
       MemoryLimit \<Rightarrow> is_some (budget_memory b)
     | DeadlineCondition \<Rightarrow> is_some (budget_deadline b) \<and> pa_deadline_scope p = Attempt)"

definition dependencies_ok :: "policy_args \<Rightarrow> budget_set \<Rightarrow> bool" where
  "dependencies_ok p b \<longleftrightarrow> (let e = pa_explicit p in
     (ex_command_exit_grace e \<longrightarrow> pa_wait_for p = CommandLifetime)
     \<and> (ex_enforcement e \<or> ex_metric e \<or> ex_poll_interval e \<or> ex_swap e \<longrightarrow> is_some (budget_memory b))
     \<and> (ex_deadline_scope e \<longrightarrow> is_some (budget_deadline b))
     \<and> (ex_limit_grace e \<longrightarrow> is_some (budget_memory b) \<or> is_some (budget_deadline b))
     \<and> (ex_restart_tuning e \<longrightarrow> restart_requested p)
     \<and> (restart_requested p \<longrightarrow>
         (\<exists>c. conditions_contains (requested_conditions p) c \<and> condition_active p b c)))"

lemma conditions_contains_simps [simp]:
  "conditions_contains conditions_both c"
  "conditions_contains conditions_memory_limit c \<longleftrightarrow> c = MemoryLimit"
  "conditions_contains conditions_deadline c \<longleftrightarrow> c = DeadlineCondition"
  "\<not> conditions_contains conditions_none c"
  by (cases c; simp add: conditions_contains_def conditions_both_def conditions_memory_limit_def
      conditions_deadline_def conditions_none_def)+

lemma ex_restart_condition: "(\<exists>c. P c) \<longleftrightarrow> P MemoryLimit \<or> P DeadlineCondition"
  by (metis restart_condition.exhaust)

lemma conditions_distinct [simp]:
  "conditions_memory_limit \<noteq> conditions_deadline" "conditions_deadline \<noteq> conditions_memory_limit"
  "conditions_both \<noteq> conditions_memory_limit" "conditions_both \<noteq> conditions_deadline"
  by (simp_all add: conditions_memory_limit_def conditions_deadline_def conditions_both_def)

lemma check_restart_request_iff:
  assumes "option_ranges p"
  shows "check_restart_request p b = Inr () \<longleftrightarrow>
    (\<exists>c. conditions_contains (requested_conditions p) c \<and> condition_active p b c)"
proof (cases "pa_restart_on p")
  case None
  then show ?thesis
    by (auto simp: check_restart_request_def requested_conditions_def condition_active_def Let_def ex_restart_condition)
next
  case (Some c)
  then have "c = conditions_both \<or> c = conditions_memory_limit \<or> c = conditions_deadline"
    using assms by (simp add: option_ranges_def)
  then show ?thesis
    by (elim disjE) (auto simp: Some check_restart_request_def requested_conditions_def condition_active_def Let_def
        ex_restart_condition)
qed

definition resolved_backoff :: "policy_args \<Rightarrow> backoff_policy" where
  "resolved_backoff p =
     \<lparr>bp_base_interval = (case pa_backoff_base_interval p of Some d \<Rightarrow> d | None \<Rightarrow> bp_base_interval backoff_policy_default),
      bp_multiplier = (case pa_backoff_multiplier p of Some m \<Rightarrow> m | None \<Rightarrow> bp_multiplier backoff_policy_default),
      bp_asymptote_interval = (case pa_backoff_asymptote_interval p of Some d \<Rightarrow> d
        | None \<Rightarrow> bp_asymptote_interval backoff_policy_default),
      bp_recovery_half_life = (case pa_backoff_recovery_half_life p of Some d \<Rightarrow> d
        | None \<Rightarrow> bp_recovery_half_life backoff_policy_default)\<rparr>"

definition backoff_proper :: "backoff_policy \<Rightarrow> bool" where
  "backoff_proper q \<longleftrightarrow> proper_millis (bp_base_interval q) \<and> proper_millis (bp_asymptote_interval q)
     \<and> proper_millis (bp_recovery_half_life q)"

lemma circuit_new_iff:
  "circuit_new t h d = Inr q \<longleftrightarrow> circuit_policy_ok q \<and> q = \<lparr>cb_threshold = t, cb_half_life = h, cb_cooldown = d\<rparr>"
  by (auto simp: circuit_new_def Let_def and_then_Inr_iff circuit_validate_iff)

lemma resolve_circuit_ok: "resolve_circuit p = Inr c \<Longrightarrow> is_none_or circuit_policy_ok c"
  by (auto simp: resolve_circuit_def map_sum_def circuit_new_iff split: option.splits sum.splits if_splits)

lemma if_error_Inr: "(if c then Inl e else r) = Inr y \<longleftrightarrow> \<not> c \<and> r = Inr y"
  by simp

lemma resolved_backoff_sel:
  "bp_base_interval (resolved_backoff p) = (case pa_backoff_base_interval p of Some d \<Rightarrow> d | None \<Rightarrow> bp_base_interval backoff_policy_default)"
  "bp_multiplier (resolved_backoff p) = (case pa_backoff_multiplier p of Some m \<Rightarrow> m | None \<Rightarrow> bp_multiplier backoff_policy_default)"
  "bp_asymptote_interval (resolved_backoff p) = (case pa_backoff_asymptote_interval p of Some d \<Rightarrow> d
     | None \<Rightarrow> bp_asymptote_interval backoff_policy_default)"
  "bp_recovery_half_life (resolved_backoff p) = (case pa_backoff_recovery_half_life p of Some d \<Rightarrow> d
     | None \<Rightarrow> bp_recovery_half_life backoff_policy_default)"
  by (simp_all add: resolved_backoff_def)

text \<open>The dependency checks succeed exactly on the consistent combinations, and only fill in the
  backoff policy and the circuit breaker.\<close>

lemma validate_dependencies_iff:
  assumes "option_ranges p"
  shows "validate_policy_dependencies host p b = Inr p' \<longleftrightarrow>
    dependencies_ok p b \<and> backoff_proper (resolved_backoff p)
    \<and> (\<exists>c. resolve_circuit (p\<lparr>pa_backoff := resolved_backoff p\<rparr>) = Inr c
         \<and> p' = p\<lparr>pa_backoff := resolved_backoff p, pa_circuit_breaker := c\<rparr>)"
    (is "_ \<longleftrightarrow> ?R")
proof -
  let ?e = "pa_explicit p"
  have b: "map_sum (\<lambda>_. ''MCUSAGE-BACKOFF'') id (backoff_policy_new (host_exp2 host)
      (bp_base_interval (resolved_backoff p)) (bp_multiplier (resolved_backoff p))
      (bp_asymptote_interval (resolved_backoff p)) (bp_recovery_half_life (resolved_backoff p))) = Inr q \<longleftrightarrow>
      backoff_proper (resolved_backoff p) \<and> q = resolved_backoff p" for q
    unfolding map_sum_id_Inr backoff_policy_new_iff by (auto simp: backoff_proper_def)
  have w: "pa_wait_for p = WorkloadLifetime \<longleftrightarrow> pa_wait_for p \<noteq> CommandLifetime"
    by (cases "pa_wait_for p") simp_all
  have checks: "dependencies_ok p b \<longleftrightarrow> \<not> (ex_command_exit_grace ?e \<and> pa_wait_for p = WorkloadLifetime)
      \<and> \<not> (is_none (budget_memory b) \<and> (ex_enforcement ?e \<or> ex_metric ?e \<or> ex_poll_interval ?e \<or> ex_swap ?e))
      \<and> \<not> (ex_deadline_scope ?e \<and> is_none (budget_deadline b))
      \<and> \<not> (ex_limit_grace ?e \<and> is_none (budget_memory b) \<and> is_none (budget_deadline b))
      \<and> \<not> (ex_restart_tuning ?e \<and> \<not> pa_restart p \<and> is_none (pa_restart_on p))
      \<and> (if pa_restart p \<or> is_some (pa_restart_on p) then check_restart_request p b else Inr ()) = Inr ()"
    unfolding dependencies_ok_def Let_def restart_requested_def w
    by (simp add: check_restart_request_iff [OF assms]) blast
  have unit: "(\<exists>u :: unit. m = Inr u \<and> Q) \<longleftrightarrow> m = Inr () \<and> Q" for m :: "cli_error + unit" and Q by auto
  show ?thesis
    unfolding checks validate_policy_dependencies_def Let_def if_error_Inr and_then_Inr_iff unit
      resolved_backoff_sel [symmetric] b
    by (simp only: sum.inject conj_assoc) blast
qed

subsection \<open>Accepted invocations\<close>

definition parse_invariant :: "policy_args \<Rightarrow> budget_set \<Rightarrow> bool" where
  "parse_invariant p b \<longleftrightarrow> option_ranges p \<and> option_defaults p \<and> budget_set_ok b"

lemma parse_invariant_initial: "parse_invariant policy_args_default budget_set_default"
  by (simp add: parse_invariant_def option_invariant_default budget_set_default_ok)

lemma parse_invariant_option:
  "parse_policy_option host name inline rest p = Inr (p', rest') \<Longrightarrow> parse_invariant p b \<Longrightarrow> parse_invariant p' b"
  using parse_policy_option_invariant by (auto simp: parse_invariant_def)

lemma parse_invariant_budget:
  "parse_budget token = Inr t \<Longrightarrow> push_budget b t = Inr b' \<Longrightarrow> parse_invariant p b \<Longrightarrow> parse_invariant p b'"
  by (auto simp: parse_invariant_def intro: push_budget_ok)

lemma execution_option_Inr:
  assumes "execution_option host st name inline rest = Inr (st', rest')"
  obtains (report) "es_policy st' = es_policy st" "es_budgets st' = es_budgets st"
      "name \<in> {''--summary'', ''--quiet'', ''--report-format'', ''--report''}"
  | (policy) p where "parse_policy_option host name inline rest (es_policy st) = Inr (p, rest')"
      "st' = st\<lparr>es_policy := p\<rparr>"
  using assms unfolding execution_option_def by (auto split: if_splits)

lemma execution_loop_invariant:
  assumes "execution_loop host st argv = Inr (st', command)" and "parse_invariant (es_policy st) (es_budgets st)"
  shows "parse_invariant (es_policy st') (es_budgets st')"
  using assms(1)
proof (induction rule: execution_loop_induct)
  case start
  show ?case by (rule assms(2))
next
  case (round st token rest st1 rest1)
  from round(1) show ?case
  proof (cases rule: execution_round.cases)
    case (budget t b)
    then show ?thesis using parse_invariant_budget [OF budget(5,6) round(2)] by simp
  next
    case option
    from option(5) show ?thesis
      by (cases rule: execution_option_Inr) (use round(2) parse_invariant_option in auto)
  qed
qed

text \<open>The run policy of consistent arguments: every field is the one that was given.\<close>

lemma deadline_policy_new_millis:
  "deadline_policy_new (from_millis ms) scope = Inr \<lparr>dp_duration = from_millis ms, dp_scope = scope\<rparr>"
proof -
  have "(unat_try_from (unat ms) :: u64 option) = Some ms" by (simp add: unat_try_from_Some_iff)
  then show ?thesis by (auto simp: deadline_policy_new_def Let_def from_millis_def as_millis_def)
qed

definition run_policy_of :: "policy_args \<Rightarrow> budget_set \<Rightarrow> run_policy" where
  "run_policy_of p b =
     \<lparr>po_workload_contract = baseline_workload_contract p, po_private_workload_contract = None,
      po_memory = budget_memory b,
      po_deadline = map_option (\<lambda>d. \<lparr>dp_duration = d, dp_scope = pa_deadline_scope p\<rparr>) (budget_deadline b),
      po_enforcement = pa_enforcement p, po_boundary = pa_boundary p, po_lifetime = pa_wait_for p,
      po_metric = pa_metric p, po_poll_interval = pa_poll_interval p, po_signal_grace = pa_signal_grace p,
      po_command_exit_grace = pa_command_exit_grace p, po_limit_grace = pa_limit_grace p, po_swap = pa_swap p\<rparr>"

lemma baseline_contract_valid:
  "option_ranges p \<Longrightarrow> baseline_workload_contract p = Some c \<Longrightarrow> validate_v1 c = Inr ()"
  by (auto simp: option_ranges_def baseline_workload_contract_def split: option.splits workload_contract.splits)

lemma args_policy_total:
  assumes "parse_invariant p b"
  shows "args_policy p b = Some (run_policy_of p b)"
proof -
  have d: "(case budget_deadline b of None \<Rightarrow> Some None
      | Some d \<Rightarrow> (case deadline_policy_new d (pa_deadline_scope p) of Inr dl \<Rightarrow> Some (Some dl) | Inl _ \<Rightarrow> None))
      = Some (map_option (\<lambda>d. \<lparr>dp_duration = d, dp_scope = pa_deadline_scope p\<rparr>) (budget_deadline b))"
    using assms by (cases "budget_deadline b")
      (auto simp: parse_invariant_def budget_set_ok_def deadline_policy_new_millis)
  have v: "baseline_workload_contract p = Some c \<Longrightarrow> validate_v1 c = Inr ()" for c
    using assms baseline_contract_valid by (auto simp: parse_invariant_def)
  show ?thesis
    unfolding args_policy_def d
    by (cases "baseline_workload_contract p")
      (auto simp: Let_def v with_workload_contract_def with_boundary_def policy_unbounded_def run_policy_of_def)
qed

text \<open>What the arguments of an accepted invocation satisfy.\<close>

definition accepted_args :: "policy_args \<Rightarrow> budget_set \<Rightarrow> bool" where
  "accepted_args p b \<longleftrightarrow> parse_invariant p b \<and> dependencies_ok p b \<and> pa_backoff p = resolved_backoff p
     \<and> backoff_proper (pa_backoff p) \<and> resolve_circuit p = Inr (pa_circuit_breaker p)
     \<and> is_none_or circuit_policy_ok (pa_circuit_breaker p)"

lemma accepted_argsI:
  assumes "parse_invariant p b" and "validate_policy_dependencies host p b = Inr p'"
  shows "accepted_args p' b"
proof -
  have r: "option_ranges p" using assms(1) by (simp add: parse_invariant_def)
  obtain c where c: "dependencies_ok p b" "backoff_proper (resolved_backoff p)"
    "resolve_circuit (p\<lparr>pa_backoff := resolved_backoff p\<rparr>) = Inr c"
    "p' = p\<lparr>pa_backoff := resolved_backoff p, pa_circuit_breaker := c\<rparr>"
    using assms(2) unfolding validate_dependencies_iff [OF r] by blast
  have "resolve_circuit p' = resolve_circuit (p\<lparr>pa_backoff := resolved_backoff p\<rparr>)"
    unfolding c(4) resolve_circuit_def by (simp cong: option.case_cong)
  moreover have "resolved_backoff p' = resolved_backoff p" by (simp add: c(4) resolved_backoff_def)
  moreover have "dependencies_ok p' b"
    using c(1) by (simp add: c(4) dependencies_ok_def restart_requested_def requested_conditions_def
        condition_active_def Let_def cong: restart_condition.case_cong)
  moreover have "parse_invariant p' b"
    using assms(1) by (simp add: c(4) parse_invariant_def option_ranges_def option_defaults_def Let_def)
  ultimately show ?thesis
    using c resolve_circuit_ok [OF c(3)] by (simp add: accepted_args_def)
qed

lemma parse_execution_accepted:
  assumes "parse_execution host argv = Inr e"
  shows "accepted_args (ea_policy e) (ea_budgets e)"
proof -
  obtain st command p where l: "execution_loop host execution_state_initial argv = Inr (st, command)"
    and v: "validate_policy_dependencies host (es_policy st) (es_budgets st) = Inr p"
    and e: "e = execution_result st p command"
    using assms unfolding parse_execution_iff by blast
  have "parse_invariant (es_policy st) (es_budgets st)"
    by (rule execution_loop_invariant [OF l]) (simp add: execution_state_initial_def parse_invariant_initial)
  from accepted_argsI [OF this v] show ?thesis by (simp add: e)
qed

subsection \<open>The plan of an invocation\<close>

lemma plan_option_Inr:
  assumes "plan_option host st name inline rest = Inr (st', rest')"
  obtains (format) "ps_policy st' = ps_policy st" "ps_budgets st' = ps_budgets st" "ps_json st'"
  | (policy) p where "parse_policy_option host name inline rest (ps_policy st) = Inr (p, rest')"
      "st' = st\<lparr>ps_policy := p\<rparr>"
  using assms unfolding plan_option_def by (auto split: if_splits)

lemma plan_loopE:
  assumes "plan_loop host st (token # rest) = Inr (Some st')"
  obtains (budget) t b where "starts_with token (CHR ''+'')" "parse_budget token = Inr t"
      "push_budget (ps_budgets st) t = Inr b" "plan_loop host (st\<lparr>ps_budgets := b\<rparr>) rest = Inr (Some st')"
  | (option) st1 rest1 where "to_str token = Some token" "\<not> is_help_flag token" "token \<noteq> ''--''"
      "plan_option host st (fst (split_option token)) (snd (split_option token)) rest = Inr (st1, rest1)"
      "plan_loop host st1 rest1 = Inr (Some st')"
proof (cases "to_str token")
  case (Some x)
  then have t: "to_str token = Some token" using to_str_id by blast
  show ?thesis
    using assms option [OF t] budget by (auto simp: strict_text_def t split: if_splits)
qed (use assms in \<open>simp add: strict_text_def\<close>)

text \<open>Induction over the rounds of the plan loop: budgets, formats and policy options.\<close>

lemma plan_loop_induct [consumes 1, case_names finish budget format policy]:
  assumes "plan_loop host st argv = Inr (Some st')" and "P st' []"
    and "\<And>st token rest t b. starts_with token (CHR ''+'') \<Longrightarrow> parse_budget token = Inr t \<Longrightarrow>
      push_budget (ps_budgets st) t = Inr b \<Longrightarrow> P (st\<lparr>ps_budgets := b\<rparr>) rest \<Longrightarrow> P st (token # rest)"
    and "\<And>st token rest st1 rest1. ps_policy st1 = ps_policy st \<Longrightarrow> ps_budgets st1 = ps_budgets st \<Longrightarrow> ps_json st1 \<Longrightarrow>
      P st1 rest1 \<Longrightarrow> P st (token # rest)"
    and "\<And>st token rest p rest1. to_str token = Some token \<Longrightarrow> \<not> is_help_flag token \<Longrightarrow> token \<noteq> ''--'' \<Longrightarrow>
      parse_policy_option host (fst (split_option token)) (snd (split_option token)) rest (ps_policy st) = Inr (p, rest1) \<Longrightarrow>
      P (st\<lparr>ps_policy := p\<rparr>) rest1 \<Longrightarrow> P st (token # rest)"
  shows "P st argv"
  using assms(1)
proof (induction argv arbitrary: st rule: length_induct)
  case (1 argv)
  show ?case
  proof (cases argv)
    case (Cons token rest)
    have "plan_loop host st (token # rest) = Inr (Some st')" using "1.prems" Cons by simp
    then show ?thesis
    proof (cases rule: plan_loopE)
      case (budget t b)
      with "1.IH" have "P (st\<lparr>ps_budgets := b\<rparr>) rest" by (simp add: Cons)
      with assms(3) [OF budget(1-3)] show ?thesis by (simp add: Cons)
    next
      case (option st1 rest1)
      then have "length rest1 < length argv"
        using argument_reader_shorter [OF plan_option_reader option(4)] by (simp add: Cons)
      with "1.IH" option(5) have IH: "P st1 rest1" by blast
      from option(4) show ?thesis
      proof (cases rule: plan_option_Inr)
        case format
        then show ?thesis unfolding Cons by (rule assms(4)) (rule IH)
      next
        case (policy p)
        then show ?thesis unfolding Cons by (intro assms(5) [OF option(1-3) policy(1)]) (use IH in simp)
      qed
    qed
  qed (use "1.prems" assms(2) in auto)
qed

lemma plan_loop_invariant:
  assumes "plan_loop host st argv = Inr (Some st')" and "parse_invariant (ps_policy st) (ps_budgets st)"
  shows "parse_invariant (ps_policy st') (ps_budgets st')"
proof -
  have "parse_invariant (ps_policy st) (ps_budgets st) \<longrightarrow> parse_invariant (ps_policy st') (ps_budgets st')"
    using assms(1)
  proof (induction rule: plan_loop_induct)
    case (budget st token rest t b)
    then show ?case using parse_invariant_budget [OF budget(2,3)] by simp
  next
    case (policy st token rest p rest1)
    then show ?case using parse_invariant_option [OF policy(4)] by simp
  qed simp_all
  with assms(2) show ?thesis by blast
qed

definition policy_option_names :: "string list" where
  "policy_option_names = ''--workload-contract'' # ''--sealed'' # ''--restart'' # valued_options"

lemma policy_option_names_ok:
  assumes "n \<in> set policy_option_names"
  shows "starts_with n (CHR ''-'')" and "n \<notin> {''--summary'', ''--quiet'', ''--report-format'', ''--report''}"
proof -
  have "list_all (\<lambda>n. starts_with n (CHR ''-'') \<and> n \<notin> {''--summary'', ''--quiet'', ''--report-format'', ''--report''})
      policy_option_names"
    unfolding policy_option_names_def valued_options_def by (simp add: starts_with_def)
  with assms show "starts_with n (CHR ''-'')" and "n \<notin> {''--summary'', ''--quiet'', ''--report-format'', ''--report''}"
    by (simp_all add: list_all_iff)
qed

lemma split_option_start: "starts_with (fst (split_option token)) c \<Longrightarrow> starts_with token c"
  by (cases token) (auto simp: split_option_def starts_with_def split: list.splits if_splits)

lemma policy_option_known:
  assumes "parse_policy_option host name inline rest p = Inr (p', rest')"
  shows "name \<in> set policy_option_names"
  using assms by (cases rule: parse_policy_option_Inr) (simp_all add: policy_option_names_def)

text \<open>A run reads what the plan reads, when the arguments go on with a command.\<close>

lemma plan_loop_execution:
  assumes "plan_loop host pst argv = Inr (Some pst')" and "\<not> ps_json pst'"
    and "\<And>st. execution_loop host st tail = Inr (st, command)"
  shows "es_policy st = ps_policy pst \<Longrightarrow> es_budgets st = ps_budgets pst \<Longrightarrow>
    execution_loop host st (argv @ tail) = Inr (st\<lparr>es_policy := ps_policy pst', es_budgets := ps_budgets pst'\<rparr>, command)"
proof -
  have "(ps_json pst \<longrightarrow> ps_json pst') \<and> (\<not> ps_json pst' \<longrightarrow>
    (\<forall>st. es_policy st = ps_policy pst \<longrightarrow> es_budgets st = ps_budgets pst \<longrightarrow>
    execution_loop host st (argv @ tail) = Inr (st\<lparr>es_policy := ps_policy pst', es_budgets := ps_budgets pst'\<rparr>, command)))"
    using assms(1)
  proof (induction rule: plan_loop_induct)
    case finish
    show ?case using assms(3) by simp
  next
    case (budget pst token rest t b)
    then have "token \<noteq> ''--''" by (auto simp: starts_with_def)
    then have "execution_loop host st ((token # rest) @ tail) = execution_loop host (st\<lparr>es_budgets := b\<rparr>) (rest @ tail)"
      if "es_budgets st = ps_budgets pst" for st
      using budget(1-3) that by (simp add: starts_with_def)
    with budget(4) show ?case by simp
  next
    case (policy pst token rest p rest1)
    let ?n = "fst (split_option token)"
    have n: "starts_with token (CHR ''-'')" "?n \<notin> {''--summary'', ''--quiet'', ''--report-format'', ''--report''}"
      using policy_option_names_ok [OF policy_option_known [OF policy(4)]] split_option_start by blast+
    have "execution_option host st ?n (snd (split_option token)) (rest @ tail) = Inr (st\<lparr>es_policy := p\<rparr>, rest1 @ tail)"
      if "es_policy st = ps_policy pst" for st
      using n(2) that argument_reader_extend [OF parse_policy_option_reader policy(4), of tail]
      by (simp add: execution_option_def)
    then have "execution_loop host st ((token # rest) @ tail) = execution_loop host (st\<lparr>es_policy := p\<rparr>) (rest1 @ tail)"
      if "es_policy st = ps_policy pst" for st
      using n(1) policy(1-3) that by (auto simp: starts_with_def is_help_flag_def)
    with policy(5) show ?case by simp
  qed simp
  with assms(2) show "es_policy st = ps_policy pst \<Longrightarrow> es_budgets st = ps_budgets pst \<Longrightarrow>
    execution_loop host st (argv @ tail) = Inr (st\<lparr>es_policy := ps_policy pst', es_budgets := ps_budgets pst'\<rparr>, command)"
    by blast
qed

lemma parse_plan_Inr:
  assumes "parse_plan host argv = Inr (Plan pl)"
  obtains st where
    "plan_loop host \<lparr>ps_operational_format = False, ps_policy = policy_args_default, ps_json = False,
       ps_budgets = budget_set_default\<rparr> argv = Inr (Some st)"
    "validate_policy_dependencies host (ps_policy st) (ps_budgets st) = Inr (pl_policy pl)"
    "pl_budgets pl = ps_budgets st" "pl_json pl = ps_json st"
  using assms by (auto simp: parse_plan_def exact_utility_help_def split: option.splits if_splits)

lemma parse_plan_accepted:
  assumes "parse_plan host argv = Inr (Plan pl)"
  shows "accepted_args (pl_policy pl) (pl_budgets pl)"
proof -
  obtain st where l: "plan_loop host \<lparr>ps_operational_format = False, ps_policy = policy_args_default, ps_json = False,
       ps_budgets = budget_set_default\<rparr> argv = Inr (Some st)"
    and v: "validate_policy_dependencies host (ps_policy st) (ps_budgets st) = Inr (pl_policy pl)"
    and b: "pl_budgets pl = ps_budgets st"
    using assms by (rule parse_plan_Inr)
  have "parse_invariant (ps_policy st) (ps_budgets st)"
    by (rule plan_loop_invariant [OF l]) (simp add: parse_invariant_initial)
  from accepted_argsI [OF this v] show ?thesis by (simp add: b)
qed

text \<open>C8: the plan describes the run. When \<open>plan\<close> accepts a list of options and budgets without a report
  format, a command line with the same options and budgets before a command is accepted, with the same policy
  and budgets, and the command unchanged; a command that could be taken for an option goes after
  the delimiter.\<close>

theorem plan_describes_run:
  assumes "parse_plan host argv = Inr (Plan pl)" and "\<not> pl_json pl"
    and "command \<noteq> []" and "tail = ''--'' # command \<or> (ends_options (hd command) \<and> tail = command)"
  shows "parse_execution host (argv @ tail) = Inr
    \<lparr>ea_budgets = pl_budgets pl, ea_policy = pl_policy pl, ea_command = command,
     ea_output = \<lparr>out_report_format = LegacyReport, out_report_path = None, out_summary = False, out_quiet = False\<rparr>\<rparr>"
proof -
  obtain st where l: "plan_loop host \<lparr>ps_operational_format = False, ps_policy = policy_args_default, ps_json = False,
       ps_budgets = budget_set_default\<rparr> argv = Inr (Some st)"
    and v: "validate_policy_dependencies host (ps_policy st) (ps_budgets st) = Inr (pl_policy pl)"
    and b: "pl_budgets pl = ps_budgets st" "pl_json pl = ps_json st"
    using assms(1) by (rule parse_plan_Inr)
  have t: "execution_loop host st' tail = Inr (st', command)" for st'
    using assms(3,4) by (cases command) (auto simp: ends_options_def starts_with_def)
  have "execution_loop host execution_state_initial (argv @ tail)
      = Inr (execution_state_initial\<lparr>es_policy := ps_policy st, es_budgets := ps_budgets st\<rparr>, command)"
    by (rule plan_loop_execution [OF l _ t]) (use assms(2) b(2) in \<open>simp_all add: execution_state_initial_def\<close>)
  then show ?thesis
    unfolding parse_execution_iff
    by (intro exI [of _ "execution_state_initial\<lparr>es_policy := ps_policy st, es_budgets := ps_budgets st\<rparr>"]
        exI [of _ command] exI [of _ "pl_policy pl"])
      (use assms(3) v b in \<open>simp add: execution_state_initial_def report_format_ok_def\<close>)
qed

lemma example_plan: "parse_plan example_host [''--sealed''] = Inr (Plan \<lparr>pl_operational_format = False, pl_json = False,
    pl_budgets = budget_set_default, pl_policy = ea_policy example_run\<rparr>)"
  by (simp add: parse_plan_def strict_text_def is_help_flag_def starts_with_def example_tokens plan_option_def
      parse_policy_option_def set_explicit_def validate_policy_dependencies_def budget_set_default_def
      default_backoff_new resolve_circuit_def example_run_def policy_args_default_def Let_def)

theorem plan_describes_run_witness:
  "parse_execution example_host [''--sealed'', ''--'', ''-program''] = Inr (example_run\<lparr>ea_command := [''-program'']\<rparr>)"
  using plan_describes_run [OF example_plan, of "[''-program'']" "[''--'', ''-program'']"]
  by (simp add: example_run_def)

definition invocation_args :: "invocation \<Rightarrow> (policy_args \<times> budget_set) option" where
  "invocation_args i = (case i of
       Execute e \<Rightarrow> Some (ea_policy e, ea_budgets e)
     | Plan pl \<Rightarrow> Some (pl_policy pl, pl_budgets pl)
     | _ \<Rightarrow> None)"

lemma route_plan:
  assumes "route host argv = Inr (Plan pl)"
  shows "parse_plan host (tl argv) = Inr (Plan pl)"
proof -
  have "map_sum id Execute r \<noteq> Inr (Plan pl)" "map_sum id WindowsRecovery w \<noteq> Inr (Plan pl)" for r w
    by (cases r; simp) (cases w; simp)
  moreover have "parse_help xs \<noteq> Inr (Plan pl)" "parse_doctor host xs \<noteq> Inr (Plan pl)" "parse_clean xs \<noteq> Inr (Plan pl)"
    "exact_root_flag xs Version \<noteq> Inr (Plan pl)" "exact_root_flag xs (Help h) \<noteq> Inr (Plan pl)" for xs h
    by (auto simp: parse_help_def parse_doctor_def parse_clean_def exact_root_flag_def exact_utility_help_def
        and_then_Inr_iff split: list.splits option.splits if_splits)
  ultimately show ?thesis
    using assms by (auto simp: route_def split: list.splits option.splits if_splits)
qed

text \<open>C7: what the parser accepts can be run. The budgets of an accepted run or plan are at most one size and
  one whole number of milliseconds; every option is in its range and has its default where it was not
  given; options are given only together with the budgets they act on, a restart with at least one condition that can
  occur; the backoff policy and the circuit breaker are valid; and building the run policy does not panic:
  it exists, with every field as given.\<close>

theorem accepted_invocation_runs:
  assumes "route host argv = Inr i" and "invocation_args i = Some (p, b)"
  shows "budget_set_ok b \<and> option_ranges p \<and> option_defaults p \<and> dependencies_ok p b
    \<and> backoff_proper (pa_backoff p) \<and> is_none_or circuit_policy_ok (pa_circuit_breaker p)
    \<and> args_policy p b = Some (run_policy_of p b)"
proof -
  have "accepted_args p b"
    using assms parse_execution_accepted parse_plan_accepted [OF route_plan]
    by (cases i) (auto simp: invocation_args_def route_execute)
  then show ?thesis
    using args_policy_total [of p b] unfolding accepted_args_def parse_invariant_def by blast
qed

theorem accepted_invocation_runs_witness:
  "args_policy (ea_policy example_run) budget_set_default
     = Some (run_policy_of (ea_policy example_run) budget_set_default)"
  using accepted_invocation_runs [OF example_route, of "ea_policy example_run" budget_set_default]
  by (simp add: invocation_args_def example_run_def)

end
