(* ===== verification/BackendCapability.thy ===== *)
theory BackendCapability
  imports CliOptions "HOL-Library.Char_ord" "HOL-Library.List_Lexorder"
begin

text \<open>
  Backends and what they are capable of: the probe report of \<open>memcordon-platform/src/backend.rs\<close>, the capability
  reports at the end of \<open>memcordon-core/src/supervision.rs\<close>, and the comparison of the selected backend with the one an
  attempt observed (\<open>memcordon-platform/src/supervisor.rs\<close>). What a probe finds on a host is an argument.
\<close>

datatype target_os = LinuxTarget | MacosTarget | WindowsTarget | OtherUnixTarget | OtherTarget

fun deadline_origin :: "target_os \<Rightarrow> string" where
  "deadline_origin LinuxTarget = ''installed-cli-release-byte''"
| "deadline_origin MacosTarget = ''pre-spawn''"
| "deadline_origin WindowsTarget = ''suspended-thread-resume''"
| "deadline_origin _ = ''unsupported''"

fun launch_mechanism :: "target_os \<Rightarrow> string" where
  "launch_mechanism LinuxTarget = ''installed-cli-launcher-release-gate''"
| "launch_mechanism MacosTarget = ''process-group-pre-spawn''"
| "launch_mechanism WindowsTarget = ''suspended-process-job-assignment''"
| "launch_mechanism OtherUnixTarget = ''unsupported-unix''"
| "launch_mechanism OtherTarget = ''unsupported-platform''"

subsection \<open>Capability reports\<close>

datatype boundary_class = StandardClass | SealedClass | UnavailableClass

record boundary_capability =
  bc_class :: boundary_class
  bc_mechanism :: string
  bc_target_gated :: bool
  bc_boundary_verified_before_authorization :: bool
  bc_target_can_reconfigure_boundary :: bool
  bc_frontend_loss_cleanup_authority :: bool
  bc_workload_empty_proof :: bool
  bc_limitations :: "string list"

definition boundary_capability_default :: boundary_capability where
  "boundary_capability_default =
     \<lparr>bc_class = StandardClass, bc_mechanism = [], bc_target_gated = False,
      bc_boundary_verified_before_authorization = False, bc_target_can_reconfigure_boundary = False,
      bc_frontend_loss_cleanup_authority = False, bc_workload_empty_proof = False, bc_limitations = []\<rparr>"

definition capability_is_consistent :: "boundary_capability \<Rightarrow> bool" where
  "capability_is_consistent c \<longleftrightarrow>
     bc_class c \<noteq> SealedClass
     \<or> (bc_target_gated c \<and> bc_boundary_verified_before_authorization c
        \<and> \<not> bc_target_can_reconfigure_boundary c \<and> bc_frontend_loss_cleanup_authority c
        \<and> bc_workload_empty_proof c)"

record capability_status_report =
  cs_supported :: bool
  cs_reason :: "string option"

record memory_capability_report =
  mc_supported :: bool
  mc_class :: string
  mc_metric :: string
  mc_reason :: "string option"

record boundary_qualification_report =
  bq_provider_identity :: string
  bq_receipt_digest :: string
  bq_mechanism :: string

record sealed_unavailable_report =
  su_reason :: string
  su_prerequisites :: "string list"

record backend_capability_report =
  cap_name :: string
  cap_containment :: capability_status_report
  cap_boundary :: boundary_capability
  cap_memory :: "memory_capability_report option"
  cap_deadline :: capability_status_report
  cap_restart :: capability_status_report
  cap_deadline_scopes :: "deadline_scope list"
  cap_deadline_origin :: "string option"
  cap_restart_conditions :: restart_conditions
  cap_persistent_restart_state :: bool
  cap_startup_containment :: string
  cap_restart_cleanup_condition :: string
  cap_limitations :: "string list"
  cap_boundary_qualification :: "boundary_qualification_report option"
  cap_sealed_unavailable :: "sealed_unavailable_report option"

definition unsupported_capability :: backend_capability_report where
  "unsupported_capability =
     \<lparr>cap_name = ''unresolved'',
      cap_containment = \<lparr>cs_supported = False, cs_reason = Some ''attempt setup failed before backend selection''\<rparr>,
      cap_boundary = boundary_capability_default\<lparr>bc_class := UnavailableClass, bc_mechanism := ''unavailable'',
        bc_limitations := [''certified sealed supervision is unavailable'']\<rparr>,
      cap_memory = None,
      cap_deadline = \<lparr>cs_supported = False, cs_reason = None\<rparr>,
      cap_restart = \<lparr>cs_supported = False, cs_reason = None\<rparr>,
      cap_deadline_scopes = [], cap_deadline_origin = None, cap_restart_conditions = conditions_none,
      cap_persistent_restart_state = False, cap_startup_containment = [], cap_restart_cleanup_condition = [],
      cap_limitations = [], cap_boundary_qualification = None, cap_sealed_unavailable = None\<rparr>"

subsection \<open>Probed backends\<close>

record boundary_readiness =
  br_provider_identity :: string
  br_mechanism :: string

datatype sealed_availability =
    SealedAvailable boundary_capability boundary_readiness
  | SealedUnavailable string "string list"

record boundary_support =
  bs_standard :: boundary_capability
  bs_sealed :: sealed_availability

record backend_info =
  bi_name :: string
  bi_containment_supported :: bool
  bi_memory_supported :: bool
  bi_class :: string
  bi_metric :: string
  bi_hard_limit :: bool
  bi_startup_containment :: string
  bi_limitations :: "string list"
  bi_boundary_support :: boundary_support

record unavailable_backend =
  ub_name :: string
  ub_reason :: string

record probe_report =
  pr_selected :: "backend_info option"
  pr_available :: "backend_info list"
  pr_unavailable :: "unavailable_backend list"

definition supports_boundary :: "backend_info \<Rightarrow> boundary_requirement \<Rightarrow> bool" where
  "supports_boundary info requirement =
     (case requirement of
        Standard \<Rightarrow> bc_class (bs_standard (bi_boundary_support info)) \<noteq> UnavailableClass
      | Sealed \<Rightarrow> (case bs_sealed (bi_boundary_support info) of SealedAvailable _ _ \<Rightarrow> True | SealedUnavailable _ _ \<Rightarrow> False))"

definition selected_for :: "probe_report \<Rightarrow> boundary_requirement \<Rightarrow> backend_info option" where
  "selected_for probe requirement =
     (let available = find (\<lambda>info. supports_boundary info requirement) (pr_available probe)
      in case pr_selected probe of
           Some info \<Rightarrow> if supports_boundary info requirement then Some info else available
         | None \<Rightarrow> available)"

definition standard_boundary_support :: "string \<Rightarrow> bool \<Rightarrow> string \<Rightarrow> string list \<Rightarrow> boundary_support" where
  "standard_boundary_support mechanism containment_supported sealed_reason prerequisites =
     \<lparr>bs_standard =
        \<lparr>bc_class = StandardClass, bc_mechanism = mechanism, bc_target_gated = containment_supported,
         bc_boundary_verified_before_authorization = containment_supported,
         bc_target_can_reconfigure_boundary = True, bc_frontend_loss_cleanup_authority = False,
         bc_workload_empty_proof = containment_supported,
         bc_limitations = [''standard supervision is not a sealed boundary'']\<rparr>,
      bs_sealed = SealedUnavailable sealed_reason prerequisites\<rparr>"

definition boundary_for :: "backend_info \<Rightarrow> boundary_requirement \<Rightarrow> boundary_capability" where
  "boundary_for info requirement =
     (case requirement of
        Standard \<Rightarrow> bs_standard (bi_boundary_support info)
      | Sealed \<Rightarrow>
          (case bs_sealed (bi_boundary_support info) of
             SealedAvailable capability _ \<Rightarrow> capability
           | SealedUnavailable reason prerequisites \<Rightarrow>
               boundary_capability_default
                 \<lparr>bc_class := UnavailableClass, bc_mechanism := ''sealed-provider-unavailable'',
                  bc_limitations := reason # map (\<lambda>v. ''prerequisite: '' @ v) prerequisites\<rparr>))"

definition capabilities_for :: "target_os \<Rightarrow> backend_info \<Rightarrow> boundary_requirement \<Rightarrow> backend_capability_report" where
  "capabilities_for os info requirement =
     \<lparr>cap_name = bi_name info,
      cap_containment = \<lparr>cs_supported = bi_containment_supported info, cs_reason = None\<rparr>,
      cap_boundary = boundary_for info requirement,
      cap_memory = Some \<lparr>mc_supported = bi_memory_supported info, mc_class = bi_class info,
        mc_metric = bi_metric info, mc_reason = None\<rparr>,
      cap_deadline = \<lparr>cs_supported = True, cs_reason = None\<rparr>,
      cap_restart = \<lparr>cs_supported = True, cs_reason = None\<rparr>,
      cap_deadline_scopes = [Attempt, Supervision],
      cap_deadline_origin = Some (deadline_origin os),
      cap_restart_conditions = conditions_both,
      cap_persistent_restart_state = False,
      cap_startup_containment = bi_startup_containment info,
      cap_restart_cleanup_condition =
        ''direct child and helpers reaped, workload empty, containment removed or inert'',
      cap_limitations = bi_limitations info,
      cap_boundary_qualification = None,
      cap_sealed_unavailable =
        (case bs_sealed (bi_boundary_support info) of
           SealedAvailable _ _ \<Rightarrow> None
         | SealedUnavailable reason prerequisites \<Rightarrow> Some \<lparr>su_reason = reason, su_prerequisites = prerequisites\<rparr>)\<rparr>"

subsection \<open>Drift between the selected and the observed backend\<close>

text \<open>The field names that differ, sorted; the same comparison is written out in both crates.\<close>

definition backend_capability_mismatched_fields ::
  "backend_capability_report \<Rightarrow> backend_capability_report \<Rightarrow> string list" where
  "backend_capability_mismatched_fields expected observed =
     sort (map fst (filter snd
       [(''name'', cap_name expected \<noteq> cap_name observed),
        (''containment'', cap_containment expected \<noteq> cap_containment observed),
        (''boundary'', cap_boundary expected \<noteq> cap_boundary observed),
        (''memory'', cap_memory expected \<noteq> cap_memory observed),
        (''deadline'', cap_deadline expected \<noteq> cap_deadline observed),
        (''restart'', cap_restart expected \<noteq> cap_restart observed),
        (''deadline_scopes'', cap_deadline_scopes expected \<noteq> cap_deadline_scopes observed),
        (''deadline_origin'', cap_deadline_origin expected \<noteq> cap_deadline_origin observed),
        (''restart_conditions'', cap_restart_conditions expected \<noteq> cap_restart_conditions observed),
        (''persistent_restart_state'', cap_persistent_restart_state expected \<noteq> cap_persistent_restart_state observed),
        (''startup_containment'', cap_startup_containment expected \<noteq> cap_startup_containment observed),
        (''restart_cleanup_condition'', cap_restart_cleanup_condition expected \<noteq> cap_restart_cleanup_condition observed),
        (''limitations'', cap_limitations expected \<noteq> cap_limitations observed),
        (''boundary_qualification'', cap_boundary_qualification expected \<noteq> cap_boundary_qualification observed),
        (''sealed_unavailable'', cap_sealed_unavailable expected \<noteq> cap_sealed_unavailable observed)]))"

fun watchdog_metric :: "metric \<Rightarrow> string" where
  "watchdog_metric RssMetric = ''rss-sum''"
| "watchdog_metric VirtualMetric = ''virtual-size-sum''"
| "watchdog_metric _ = ''physical-footprint-sum''"

definition selected_backend_for_metric :: "backend_capability_report \<Rightarrow> metric \<Rightarrow> backend_capability_report" where
  "selected_backend_for_metric selected metric =
     (if metric \<noteq> NativeMetric
      then selected\<lparr>cap_memory := map_option (\<lambda>memory.
             if mc_class memory = ''watchdog'' then memory\<lparr>mc_metric := watchdog_metric metric\<rparr> else memory)
             (cap_memory selected)\<rparr>
      else selected)"

definition backend_selection_drift_fields ::
  "backend_capability_report \<Rightarrow> backend_capability_report \<Rightarrow> metric \<Rightarrow> string list" where
  "backend_selection_drift_fields selected observed metric =
     backend_capability_mismatched_fields (selected_backend_for_metric selected metric) observed"

record backend_selection_drift_evidence =
  dr_selected :: backend_capability_report
  dr_comparison_expected :: backend_capability_report
  dr_observed :: backend_capability_report
  dr_mismatched_fields :: "string list"

definition drift_is_consistent :: "backend_selection_drift_evidence \<Rightarrow> bool" where
  "drift_is_consistent d \<longleftrightarrow>
     (if dr_selected d = dr_comparison_expected d then True
      else (case (cap_memory (dr_selected d), cap_memory (dr_comparison_expected d)) of
              (Some selected, Some expected) \<Rightarrow>
                (dr_comparison_expected d)\<lparr>cap_memory := Some (expected\<lparr>mc_metric := mc_metric selected\<rparr>)\<rparr> = dr_selected d
            | _ \<Rightarrow> False))
     \<and> dr_selected d \<noteq> dr_observed d
     \<and> dr_mismatched_fields d = backend_capability_mismatched_fields (dr_comparison_expected d) (dr_observed d)"

definition drift_evidence ::
  "backend_capability_report \<Rightarrow> backend_capability_report \<Rightarrow> metric \<Rightarrow> backend_selection_drift_evidence" where
  "drift_evidence selected observed metric =
     \<lparr>dr_selected = selected, dr_comparison_expected = selected_backend_for_metric selected metric,
      dr_observed = observed, dr_mismatched_fields = backend_selection_drift_fields selected observed metric\<rparr>"

lemma mismatched_fields_Nil: "backend_capability_mismatched_fields expected observed = [] \<longleftrightarrow> expected = observed"
proof -
  have "sort xs = [] \<longleftrightarrow> xs = []" for xs :: "string list"
    by (metis set_empty set_sort)
  then show ?thesis
    by (cases expected; cases observed)
      (simp add: backend_capability_mismatched_fields_def filter_empty_conv del: filter.simps list.map)
qed

lemma selected_for_metric_cases:
  obtains (same) "selected_backend_for_metric selected metric = selected"
  | (watchdog) m w where "cap_memory selected = Some m"
      "selected_backend_for_metric selected metric = selected\<lparr>cap_memory := Some (m\<lparr>mc_metric := w\<rparr>)\<rparr>"
  by (cases "cap_memory selected")
    (fastforce simp: selected_backend_for_metric_def split: if_splits)+

text \<open>C35: no difference between the selected and the observed backend goes unnoticed. The drift check finds
  nothing exactly when the observed capability report equals the selected one in every field, up to
  the metric the user asked for on a watchdog backend. The evidence it writes passes the consistency check of the
  report exactly when selected and observed report differ.\<close>

theorem drift_check_exact:
  "(backend_selection_drift_fields selected observed metric = [] \<longleftrightarrow>
      observed = selected_backend_for_metric selected metric)
   \<and> (drift_is_consistent (drift_evidence selected observed metric) \<longleftrightarrow> selected \<noteq> observed)"
proof -
  have "drift_is_consistent (drift_evidence selected observed metric) \<longleftrightarrow> selected \<noteq> observed"
  proof (cases rule: selected_for_metric_cases [of selected metric])
    case same
    then show ?thesis
      by (simp add: drift_is_consistent_def drift_evidence_def backend_selection_drift_fields_def)
  next
    case (watchdog m w)
    have "selected\<lparr>cap_memory := Some m\<rparr> = selected" using watchdog(1) by (cases selected) simp
    then show ?thesis
      by (simp add: drift_is_consistent_def drift_evidence_def backend_selection_drift_fields_def watchdog)
  qed
  then show ?thesis by (simp add: backend_selection_drift_fields_def mismatched_fields_Nil eq_commute [of observed])
qed

end
