(* ===== verification/PrivateRuntime.thy ===== *)
theory PrivateRuntime
  imports ContractParse WorkloadRegistryV2 Outcome
begin

text \<open>
  The records a private run exchanges with its provider (\<open>memcordon-core/src/private_runtime.rs\<close>): request,
  rejection, terminal, execution and advisory plan, with their validators and the parsers that bind
  a record to the invocation it answers. What \<open>serde_json\<close> reads from bytes and writes for a value are
  arguments; SHA-256 is the parameter \<open>sha256\<close>.
\<close>

definition CONTRACT_ENVELOPE_BYTES :: nat where "CONTRACT_ENVELOPE_BYTES = 128 * 1024"

subsection \<open>Provider bindings\<close>

record public_provider_binding_v1 =
  pb_generation :: string
  pb_source_commit :: string
  pb_runtime_manifest_sha256 :: sha256_digest

definition is_lower_hex :: "char \<Rightarrow> bool" where
  "is_lower_hex c \<longleftrightarrow> is_ascii_digit c \<or> c \<in> set ''abcdef''"

definition provider_is_consistent :: "public_provider_binding_v1 \<Rightarrow> bool" where
  "provider_is_consistent p \<longleftrightarrow>
     pb_generation p \<noteq> []
     \<and> list_all (\<lambda>c. is_ascii_digit c \<or> is_ascii_uppercase c \<or> is_ascii_lowercase c \<or> c \<in> set ''.-_:'') (pb_generation p)
     \<and> length (pb_source_commit p) \<in> {2 * 20, 2 * 32}
     \<and> list_all is_lower_hex (pb_source_commit p)"

subsection \<open>Records\<close>

datatype launch_state_v1 = NotCreated | GatedUnreleased | ReleaseIssued | ExecObserved | ExecFailed | LaunchUnknown

datatype outcome_kind_v1 =
  CompletedOutcome | DeadlineOutcome | ConfirmedMemoryLimit | InterruptedOutcome | LaunchFailure | ProviderFailure | OutcomeUnknown

datatype cleanup_state_v1 = CleanupComplete | CleanupIncomplete | CleanupUnknown

record private_network_namespace_identity =
  ns_device :: u64
  ns_inode :: u64

record private_runtime_request =
  prr_format :: string
  prr_revision :: u32
  prr_contract :: workload_contract_v2
  prr_native_launch :: "u8 list"
  prr_attempt_deadline_millis :: "u64 option"

record private_runtime_rejection =
  prj_format :: string
  prj_revision :: u32
  prj_provider :: public_provider_binding_v1
  prj_attempt_id :: "u8 list"
  prj_request_sha256 :: sha256_digest
  prj_invocation_sha256 :: sha256_digest
  prj_contract :: workload_contract_v2
  prj_boundary_allocated :: bool
  prj_reservation_may_remain :: bool
  prj_detail :: string

record private_runtime_terminal =
  prt_format :: string
  prt_revision :: u32
  prt_provider :: public_provider_binding_v1
  prt_native_abi :: string
  prt_attempt_id :: "u8 list"
  prt_request_sha256 :: sha256_digest
  prt_admission_metadata :: runtime_private_admission_snapshot
  prt_launch :: launch_state_v1
  prt_authorization_offset_millis :: "u64 option"
  prt_authorization_monotonic_millis :: "u64 option"
  prt_target_pid :: "u32 option"
  prt_network_namespace :: "private_network_namespace_identity option"
  prt_exec_observed :: bool
  prt_post_exec_descriptor_count :: "u8 option"
  prt_outcome :: outcome_kind_v1
  prt_native_termination :: "child_termination option"
  prt_cleanup :: cleanup_state_v1
  prt_account_reservation_retired :: bool
  prt_namespace_references_closed :: bool
  prt_error :: "string option"

record private_runtime_execution =
  pre_terminal :: private_runtime_terminal
  pre_frontend_relay_drained :: bool
  pre_frontend_interruption :: "i32 option"

record private_runtime_plan =
  prp_format :: string
  prp_revision :: u32
  prp_provider :: public_provider_binding_v1
  prp_request_sha256 :: sha256_digest
  prp_request :: workload_contract_v2
  prp_available_for_preparation :: bool
  prp_conflicts :: "admission_code_v2 admission_rejection option"
  prp_pending :: "string list"
  prp_authorizes_launch :: bool

subsection \<open>Validators\<close>

datatype private_runtime_error =
    RuntimeTooLong
  | RuntimeJson json_error
  | RuntimeFields
  | RuntimeContract contract_error
  | RuntimeAdmission private_error
  | RuntimeNamespace
  | RuntimeBounds
  | RuntimeFacts
  | RuntimeDiffers

definition runtime_contract :: "contract_error + 'a \<Rightarrow> private_runtime_error + 'a" where
  "runtime_contract = map_sum RuntimeContract id"

text \<open>\<open>contract_json\<close> is what \<open>serde_json::to_vec\<close> writes for a contract.\<close>

definition private_request_validate ::
  "(workload_contract_v2 \<Rightarrow> u8 list) \<Rightarrow> private_runtime_request \<Rightarrow> private_runtime_error + unit" where
  "private_request_validate contract_json r =
     (if prr_format r \<noteq> ''memcordon.private-runtime-request'' \<or> prr_revision r \<noteq> 1 then Inl RuntimeNamespace
      else and_then (runtime_contract (validate_v2 (prr_contract r))) (\<lambda>_.
        if CONTRACT_BYTES < length (contract_json (prr_contract r))
          \<or> prr_native_launch r = [] \<or> CONTRACT_ENVELOPE_BYTES < length (prr_native_launch r)
        then Inl RuntimeBounds else Inr ()))"

definition private_rejection_validate :: "private_runtime_rejection \<Rightarrow> private_runtime_error + unit" where
  "private_rejection_validate r =
     and_then (runtime_contract (validate_v2 (prj_contract r))) (\<lambda>_.
       if prj_format r \<noteq> ''memcordon.private-runtime-rejection'' \<or> prj_revision r \<noteq> 1
         \<or> \<not> provider_is_consistent (prj_provider r) \<or> prj_attempt_id r = replicate 16 0 \<or> prj_boundary_allocated r
       then Inl RuntimeFacts else Inr ())"

definition terminal_facts_conflict :: "private_runtime_terminal \<Rightarrow> bool" where
  "terminal_facts_conflict t \<longleftrightarrow>
     prt_exec_observed t \<noteq> (prt_launch t = ExecObserved)
     \<or> is_some (prt_authorization_offset_millis t) \<noteq> is_some (prt_authorization_monotonic_millis t)
     \<or> is_some (prt_authorization_offset_millis t) \<noteq> (prt_launch t \<in> {ReleaseIssued, ExecObserved, ExecFailed})
     \<or> prt_post_exec_descriptor_count t \<noteq> (if prt_exec_observed t then Some 3 else None)
     \<or> prt_exec_observed t \<and> is_none (prt_network_namespace t)
     \<or> is_some_and (\<lambda>namespace. ns_inode namespace = 0) (prt_network_namespace t)
     \<or> is_none (prt_target_pid t) \<and> prt_launch t \<notin> {NotCreated, LaunchUnknown}
     \<or> prt_cleanup t = CleanupComplete \<and> (\<not> prt_account_reservation_retired t \<or> \<not> prt_namespace_references_closed t)
     \<or> prt_outcome t = CompletedOutcome
         \<and> (\<not> prt_exec_observed t \<or> prt_cleanup t \<noteq> CleanupComplete \<or> is_none (prt_native_termination t))"

definition private_terminal_validate ::
  "(u8 list \<Rightarrow> u8 list) \<Rightarrow> private_runtime_terminal \<Rightarrow> private_runtime_error + unit" where
  "private_terminal_validate sha256 t =
     (if prt_format t \<noteq> ''memcordon.private-runtime-terminal'' \<or> prt_revision t \<noteq> 1
        \<or> prt_attempt_id t = replicate 16 0 \<or> \<not> provider_is_consistent (prt_provider t)
        \<or> prt_native_abi t \<notin> {''x86_64-unknown-linux-gnu'', ''aarch64-unknown-linux-gnu''}
      then Inl RuntimeNamespace
      else and_then (map_sum RuntimeAdmission id (private_snapshot_validate sha256 (prt_admission_metadata t))) (\<lambda>_.
        if terminal_facts_conflict t then Inl RuntimeFacts else Inr ()))"

definition private_execution_validate ::
  "(u8 list \<Rightarrow> u8 list) \<Rightarrow> private_runtime_execution \<Rightarrow> private_runtime_error + unit" where
  "private_execution_validate sha256 e =
     (if is_some_and (\<lambda>signal. signal \<le> 0 \<or> 128 \<le> signal) (pre_frontend_interruption e) then Inl RuntimeFacts
      else private_terminal_validate sha256 (pre_terminal e))"

definition private_plan_validate ::
  "(u8 list \<Rightarrow> u8 list) \<Rightarrow> private_runtime_plan \<Rightarrow> private_runtime_error + unit" where
  "private_plan_validate sha256 p =
     (if prp_format p \<noteq> ''memcordon.private-runtime-plan'' \<or> prp_revision p \<noteq> 1
        \<or> \<not> provider_is_consistent (prp_provider p) \<or> prp_authorizes_launch p \<or> 16 < length (prp_pending p)
        \<or> prp_available_for_preparation p = is_some (prp_conflicts p)
      then Inl RuntimeFacts
      else and_then (runtime_contract (contract_digest_v2 sha256 (prp_request p))) (\<lambda>digest.
        if prp_request_sha256 p \<noteq> digest then Inl RuntimeFacts
        else runtime_contract (validate_v2 (prp_request p))))"

subsection \<open>Cleanup of an execution\<close>

definition private_cleanup_summary :: "private_runtime_execution \<Rightarrow> string option \<Rightarrow> cleanup_summary" where
  "private_cleanup_summary e relay_error =
     (let native = (case prt_error (pre_terminal e) of
            Some error \<Rightarrow> if prt_cleanup (pre_terminal e) = CleanupComplete then []
              else [\<lparr>ce_operation = ''private-native-retirement'', ce_message = error\<rparr>]
          | None \<Rightarrow> []);
          relay = (case relay_error of
            Some error \<Rightarrow> [\<lparr>ce_operation = ''private-frontend-relay'', ce_message = error\<rparr>]
          | None \<Rightarrow> []);
          drain = (if pre_frontend_relay_drained e then []
            else [\<lparr>ce_operation = ''private-frontend-relay-drain'', ce_message = ''frontend byte relay output was not drained''\<rparr>])
      in cleanup_summary_default
           \<lparr>direct_child_reaped := prt_cleanup (pre_terminal e) = CleanupComplete,
            workload_empty := (if prt_cleanup (pre_terminal e) = CleanupComplete then Some True else None),
            cleanup_errors := native @ relay @ drain\<rparr>)"

definition private_cleanup_state :: "private_runtime_execution \<Rightarrow> cleanup_state_v1" where
  "private_cleanup_state e =
     (if prt_cleanup (pre_terminal e) = CleanupComplete \<and> \<not> pre_frontend_relay_drained e then CleanupIncomplete
      else prt_cleanup (pre_terminal e))"

subsection \<open>Parsers\<close>

text \<open>Every record is read the same way: a byte bound, the key check, \<open>serde_json\<close>, the validator.\<close>

definition parse_record ::
  "json_reader \<Rightarrow> (u8 list \<Rightarrow> 'a option) \<Rightarrow> ('a \<Rightarrow> private_runtime_error + unit) \<Rightarrow> u8 list \<Rightarrow> private_runtime_error + 'a" where
  "parse_record reader decode validate bytes =
     (if CONTRACT_ENVELOPE_BYTES < length bytes then Inl RuntimeTooLong
      else and_then (map_sum RuntimeJson id (reject_duplicate_json_keys reader bytes)) (\<lambda>_.
        and_then (ok_or RuntimeFields (decode bytes)) (\<lambda>entry.
        and_then (validate entry) (\<lambda>_. Inr entry))))"

definition private_request_parse ::
  "json_reader \<Rightarrow> (workload_contract_v2 \<Rightarrow> u8 list) \<Rightarrow> (u8 list \<Rightarrow> private_runtime_request option) \<Rightarrow> u8 list
   \<Rightarrow> private_runtime_error + private_runtime_request" where
  "private_request_parse reader contract_json decode = parse_record reader decode (private_request_validate contract_json)"

text \<open>\<open>request_json\<close> is what \<open>serde_json::to_vec\<close> writes for a request.\<close>

definition private_request_encode ::
  "(workload_contract_v2 \<Rightarrow> u8 list) \<Rightarrow> (private_runtime_request \<Rightarrow> u8 list) \<Rightarrow> private_runtime_request
   \<Rightarrow> private_runtime_error + u8 list" where
  "private_request_encode contract_json request_json r =
     and_then (private_request_validate contract_json r) (\<lambda>_.
       if CONTRACT_ENVELOPE_BYTES < length (request_json r) then Inl RuntimeTooLong else Inr (request_json r))"

definition private_rejection_parse_bound ::
  "json_reader \<Rightarrow> (u8 list \<Rightarrow> private_runtime_rejection option) \<Rightarrow> u8 list \<Rightarrow> public_provider_binding_v1 \<Rightarrow> u8 list
   \<Rightarrow> sha256_digest \<Rightarrow> workload_contract_v2 \<Rightarrow> sha256_digest \<Rightarrow> private_runtime_error + private_runtime_rejection" where
  "private_rejection_parse_bound reader decode bytes provider attempt request contract invocation =
     and_then (parse_record reader decode private_rejection_validate bytes) (\<lambda>r.
       if prj_provider r \<noteq> provider \<or> prj_attempt_id r \<noteq> attempt \<or> prj_request_sha256 r \<noteq> request
         \<or> prj_contract r \<noteq> contract \<or> prj_invocation_sha256 r \<noteq> invocation
       then Inl RuntimeDiffers else Inr r)"

definition private_terminal_parse_bound ::
  "json_reader \<Rightarrow> (u8 list \<Rightarrow> u8 list) \<Rightarrow> (u8 list \<Rightarrow> private_runtime_terminal option) \<Rightarrow> u8 list
   \<Rightarrow> public_provider_binding_v1 \<Rightarrow> u8 list \<Rightarrow> sha256_digest \<Rightarrow> workload_contract_v2 \<Rightarrow> sha256_digest
   \<Rightarrow> private_runtime_error + private_runtime_terminal" where
  "private_terminal_parse_bound reader sha256 decode bytes provider attempt request contract invocation =
     and_then (parse_record reader decode (private_terminal_validate sha256) bytes) (\<lambda>t.
       if prt_provider t \<noteq> provider \<or> prt_attempt_id t \<noteq> attempt \<or> prt_request_sha256 t \<noteq> request
         \<or> psnap_request (prt_admission_metadata t) \<noteq> contract
         \<or> psnap_invocation_sha256 (prt_admission_metadata t) \<noteq> invocation
       then Inl RuntimeDiffers else Inr t)"

definition private_plan_parse_bound ::
  "json_reader \<Rightarrow> (u8 list \<Rightarrow> u8 list) \<Rightarrow> (u8 list \<Rightarrow> private_runtime_plan option) \<Rightarrow> u8 list
   \<Rightarrow> public_provider_binding_v1 \<Rightarrow> workload_contract_v2 \<Rightarrow> private_runtime_error + private_runtime_plan" where
  "private_plan_parse_bound reader sha256 decode bytes provider request =
     and_then (parse_record reader decode (private_plan_validate sha256) bytes) (\<lambda>p.
       if prp_provider p \<noteq> provider \<or> prp_request p \<noteq> request then Inl RuntimeDiffers else Inr p)"

subsection \<open>What the parsers accept\<close>

lemma parse_record_Inr_iff:
  "parse_record reader decode validate bytes = Inr entry \<longleftrightarrow>
     length bytes \<le> CONTRACT_ENVELOPE_BYTES \<and> reject_duplicate_json_keys reader bytes = Inr ()
     \<and> decode bytes = Some entry \<and> validate entry = Inr ()"
  by (cases "reject_duplicate_json_keys reader bytes") (auto simp: parse_record_def and_then_Inr_iff ok_or_Inr_iff)

text \<open>A request that is sent is read back unchanged, when \<open>serde_json\<close> reads what it wrote and writes every
  field name once.\<close>

theorem private_request_roundtrip:
  assumes "private_request_encode contract_json request_json r = Inr bytes"
    and "decode (request_json r) = Some r" and "reject_duplicate_json_keys reader (request_json r) = Inr ()"
  shows "private_request_parse reader contract_json decode bytes = Inr r \<and> length bytes \<le> CONTRACT_ENVELOPE_BYTES"
  using assms
  by (auto simp: private_request_encode_def private_request_parse_def parse_record_Inr_iff and_then_Inr_iff split: if_splits)

lemma private_snapshot_validate_Inr:
  "private_snapshot_validate sha256 s = Inr () \<Longrightarrow>
     validate_v2 (psnap_request s) = Inr () \<and> contract_digest_v2 sha256 (psnap_request s) = Inr (psnap_request_sha256 s)
     \<and> psnap_epoch s = expected_epoch (psnap_request s) \<and> psnap_profile_id s = authorized_profile (psnap_request s)
     \<and> is_linux (psnap_caller s)"
  by (auto simp: private_snapshot_validate_def and_then_Inr_iff lift_private_def split: if_splits sum.splits)

text \<open>C19: a completion reported by a provider is a proven one. A terminal record that is accepted for an invocation
  and says \<open>Completed\<close> belongs to the provider, attempt, request, contract and invocation it was checked against, and
  the contract is valid and has the digest that was admitted; the target was released and its program seen to start in a
  network namespace with exactly the three standard descriptors; cleanup is complete with reservation and namespace
  given back, and the cleanup summary is free of errors exactly when the relays of the front end worked.\<close>

theorem completed_terminal_certified:
  assumes "private_terminal_parse_bound reader sha256 decode bytes provider attempt request contract invocation = Inr t"
    and "prt_outcome t = CompletedOutcome"
  shows "prt_provider t = provider \<and> prt_attempt_id t = attempt
    \<and> prt_request_sha256 t = request \<and> psnap_request (prt_admission_metadata t) = contract
    \<and> psnap_invocation_sha256 (prt_admission_metadata t) = invocation
    \<and> validate_v2 contract = Inr ()
    \<and> contract_digest_v2 sha256 contract = Inr (psnap_request_sha256 (prt_admission_metadata t))
    \<and> prt_launch t = ExecObserved \<and> is_some (prt_authorization_offset_millis t) \<and> is_some (prt_target_pid t)
    \<and> is_some_and (\<lambda>namespace. ns_inode namespace \<noteq> 0) (prt_network_namespace t)
    \<and> prt_post_exec_descriptor_count t = Some 3
    \<and> prt_account_reservation_retired t \<and> prt_namespace_references_closed t
    \<and> (\<forall>drained interruption relay_error.
        (let e = \<lparr>pre_terminal = t, pre_frontend_relay_drained = drained, pre_frontend_interruption = interruption\<rparr>
         in workload_empty (private_cleanup_summary e relay_error) = Some True
          \<and> (cleanup_errors (private_cleanup_summary e relay_error) = [] \<longleftrightarrow> drained \<and> relay_error = None)
          \<and> (private_cleanup_state e = CleanupComplete \<longleftrightarrow> drained)))"
proof -
  have v: "private_terminal_validate sha256 t = Inr ()" and b: "prt_provider t = provider" "prt_attempt_id t = attempt"
    "prt_request_sha256 t = request" "psnap_request (prt_admission_metadata t) = contract"
    "psnap_invocation_sha256 (prt_admission_metadata t) = invocation"
    using assms(1)
    by (auto simp: private_terminal_parse_bound_def and_then_Inr_iff parse_record_Inr_iff split: if_splits)
  have s: "private_snapshot_validate sha256 (prt_admission_metadata t) = Inr ()" and f: "\<not> terminal_facts_conflict t"
    using v by (auto simp: private_terminal_validate_def and_then_Inr_iff map_sum_id_Inr split: if_splits)
  have c: "prt_cleanup t = CleanupComplete" using f assms(2) by (auto simp: terminal_facts_conflict_def)
  have "prt_launch t = ExecObserved \<and> is_some (prt_authorization_offset_millis t) \<and> is_some (prt_target_pid t)
    \<and> is_some_and (\<lambda>namespace. ns_inode namespace \<noteq> 0) (prt_network_namespace t)
    \<and> prt_post_exec_descriptor_count t = Some 3
    \<and> prt_account_reservation_retired t \<and> prt_namespace_references_closed t"
    using f assms(2) c by (auto simp: terminal_facts_conflict_def is_some_and_iff)
  with b private_snapshot_validate_Inr [OF s] c show ?thesis
    by (auto simp: private_cleanup_summary_def private_cleanup_state_def Let_def cleanup_summary_default_def
        split: option.splits)
qed

text \<open>An invocation and the answer of its provider.\<close>

definition example_terminal :: private_runtime_terminal where
  "example_terminal =
     (let contract = with_identity example_contract PreserveCaller
      in \<lparr>prt_format = ''memcordon.private-runtime-terminal'', prt_revision = 1,
          prt_provider = \<lparr>pb_generation = ''g1'', pb_source_commit = replicate 40 (CHR ''a''),
            pb_runtime_manifest_sha256 = replicate 32 0\<rparr>,
          prt_native_abi = ''x86_64-unknown-linux-gnu'', prt_attempt_id = replicate 16 1,
          prt_request_sha256 = replicate 32 0,
          prt_admission_metadata = \<lparr>psnap_format = ''memcordon.private-admission-metadata'', psnap_revision = 1,
            psnap_request = contract, psnap_request_sha256 = replicate 32 0, psnap_invocation_sha256 = replicate 32 0,
            psnap_caller = LinuxCaller 1000, psnap_registry_digest = replicate 32 0,
            psnap_epoch = expected_epoch contract, psnap_admission_nonce = replicate 16 0,
            psnap_profile_id = authorized_profile contract\<rparr>,
          prt_launch = ExecObserved, prt_authorization_offset_millis = Some 5, prt_authorization_monotonic_millis = Some 7,
          prt_target_pid = Some 42, prt_network_namespace = Some \<lparr>ns_device = 4, ns_inode = 9\<rparr>, prt_exec_observed = True,
          prt_post_exec_descriptor_count = Some 3, prt_outcome = CompletedOutcome,
          prt_native_termination = Some (ExitCode 0), prt_cleanup = CleanupComplete,
          prt_account_reservation_retired = True, prt_namespace_references_closed = True, prt_error = None\<rparr>)"

definition example_reader :: json_reader where
  "example_reader = \<lparr>jr_document = (\<lambda>_. Some (JObject [])), jr_version = (\<lambda>_. None), jr_v1 = (\<lambda>_. None), jr_v2 = (\<lambda>_. None)\<rparr>"

theorem completed_terminal_certified_witness:
  "private_terminal_parse_bound example_reader (\<lambda>_. replicate 32 0) (\<lambda>_. Some example_terminal) []
     (prt_provider example_terminal) (replicate 16 1) (replicate 32 0) (with_identity example_contract PreserveCaller)
     (replicate 32 0) = Inr example_terminal
   \<and> prt_account_reservation_retired example_terminal"
proof -
  have v: "validate_v2 (with_identity example_contract PreserveCaller) = Inr ()" by code_simp
  have t: "contract_v2_typed (with_identity example_contract PreserveCaller)"
    using example_contract_typed by (simp add: contract_v2_typed_def contract_typed_def fields_typed_def with_identity_def
      workload_contract_v1.defs workload_contract_v2.defs)
  have d: "contract_digest_v2 (\<lambda>_. replicate 32 0) (with_identity example_contract PreserveCaller) = Inr (replicate 32 0)"
    using encode_contract_v2_bytes [OF t] v by (simp add: contract_digest_v2_def validate_v2_iff)
  have p: "provider_is_consistent (prt_provider example_terminal)" by code_simp
  have "private_terminal_parse_bound example_reader (\<lambda>_. replicate 32 0) (\<lambda>_. Some example_terminal) []
     (prt_provider example_terminal) (replicate 16 1) (replicate 32 0) (with_identity example_contract PreserveCaller)
     (replicate 32 0) = Inr example_terminal"
    using p d v
    by (simp add: private_terminal_parse_bound_def parse_record_Inr_iff and_then_Inr_iff private_terminal_validate_def
        private_snapshot_validate_def lift_private_def terminal_facts_conflict_def example_terminal_def Let_def
        reject_duplicate_json_keys_def example_reader_def)
  from this completed_terminal_certified [OF this] show ?thesis by (simp add: example_terminal_def Let_def)
qed

end
