(* ===== verification/WorkloadEvidence.thy ===== *)
theory WorkloadEvidence
  imports WorkloadDigest PrivateRuntime
begin

text \<open>
  The evidence of a contract of the first version (\<open>memcordon-core/src/workload_evidence.rs\<close>): request, plan and
  attempt bindings, the checkpoint taken before a target is authorized and the enforcement record of a finished
  attempt, with the checks a front end makes of them. SHA-256 is the parameter \<open>sha256\<close>. The reference
  of a built-in profile never panics (\<open>baseline_reference_eq\<close>), so a profile is found by comparing with it.
\<close>

subsection \<open>Requests\<close>

datatype workload_request_report = LegacyRequest | StrictV1 workload_contract_v1

definition request_report :: "workload_contract_v1 option \<Rightarrow> workload_request_report" where
  "request_report contract = (case contract of Some c \<Rightarrow> StrictV1 c | None \<Rightarrow> LegacyRequest)"

datatype baseline_restriction_observation_v1 =
    LinuxUnixOnlySocketSyscallFilterAlternatePathsUnknown
  | WindowsNetworkExternallyGoverned
  | UnmanagedStandardBackend

record request_binding_v1 =
  rb_request_digest :: sha256_digest
  rb_workload_plan_digest :: sha256_digest
  rb_profile :: profile_ref
  rb_authorization :: authorization_ref
  rb_epoch :: policy_epoch

definition request_binding ::
  "(u8 list \<Rightarrow> u8 list) \<Rightarrow> workload_contract_v1 \<Rightarrow> contract_error + request_binding_v1" where
  "request_binding sha256 contract =
     and_then (contract_digest sha256 contract) (\<lambda>digest.
       Inr \<lparr>rb_request_digest = digest, rb_workload_plan_digest = workload_plan_digest contract,
            rb_profile = authorized_profile contract, rb_authorization = authorization contract,
            rb_epoch = expected_epoch contract\<rparr>)"

subsection \<open>Plans\<close>

datatype evidence_error =
    EvidenceContract contract_error
  | EvidenceSnapshot snapshot_error
  | ProviderOrBootUnavailable
  | UnknownProfile
  | FormatDiffers
  | NotAscii
  | UnmanagedControls
  | IncompleteCheckpoint
  | CheckpointDigestDiffers
  | EnforcementIncomplete
  | OtherAttempt

definition lift_evidence :: "contract_error + 'a \<Rightarrow> evidence_error + 'a" where
  "lift_evidence = map_sum EvidenceContract id"

record runtime_plan_binding =
  pl_format :: string
  pl_revision :: u32
  pl_request :: request_binding_v1
  pl_registry_digest :: sha256_digest
  pl_provider :: public_provider_binding_v1
  pl_boot_identity :: string
  pl_effective_policy_digest :: sha256_digest

definition baseline_for :: "(u8 list \<Rightarrow> u8 list) \<Rightarrow> profile_ref \<Rightarrow> baseline_profile option" where
  "baseline_for sha256 reference =
     find (\<lambda>profile. baseline_reference sha256 profile = Some reference) [LinuxUnixCreate, WindowsHostNetworkExternal]"

fun baseline_observation :: "baseline_profile \<Rightarrow> baseline_restriction_observation_v1" where
  "baseline_observation LinuxUnixCreate = LinuxUnixOnlySocketSyscallFilterAlternatePathsUnknown"
| "baseline_observation WindowsHostNetworkExternal = WindowsNetworkExternallyGoverned"

definition plan_from_local_grant ::
  "(u8 list \<Rightarrow> u8 list) \<Rightarrow> workload_contract_v1 \<Rightarrow> sha256_digest \<Rightarrow> public_provider_binding_v1 \<Rightarrow> string
   \<Rightarrow> evidence_error + runtime_plan_binding" where
  "plan_from_local_grant sha256 contract registry provider boot =
     (if \<not> provider_is_consistent provider \<or> boot = [] then Inl ProviderOrBootUnavailable
      else and_then (ok_or UnknownProfile (baseline_for sha256 (authorized_profile contract))) (\<lambda>profile.
        and_then (lift_evidence (request_binding sha256 contract)) (\<lambda>request.
        and_then (lift_evidence (encoder_new (ascii_bytes ''effective-workload-policy-v1'') PUBLIC_OBJECT_BYTES)) (\<lambda>e.
        and_then (lift_evidence (encode_all [enc_digest (rb_request_digest request),
            enc_digest (semantic_digest (rb_profile request)), enc_digest registry,
            encode_ceiling (baseline_ceiling profile)] e)) (\<lambda>e.
        Inr \<lparr>pl_format = ''memcordon.local-plan'', pl_revision = 1, pl_request = request, pl_registry_digest = registry,
             pl_provider = provider, pl_boot_identity = boot, pl_effective_policy_digest = sha256 (enc_bytes e)\<rparr>)))))"

definition plan_matches_contract ::
  "(u8 list \<Rightarrow> u8 list) \<Rightarrow> runtime_plan_binding \<Rightarrow> workload_contract_v1 \<Rightarrow> bool" where
  "plan_matches_contract sha256 plan contract \<longleftrightarrow>
     plan_from_local_grant sha256 contract (pl_registry_digest plan) (pl_provider plan) (pl_boot_identity plan) = Inr plan"

subsection \<open>Attempts\<close>

record runtime_attempt_binding =
  ab_format :: string
  ab_revision :: u32
  ab_plan :: runtime_plan_binding
  ab_attempt_id :: string
  ab_restart_attempt :: u64
  ab_admission_nonce :: "u8 list"
  ab_caller_invocation_reference :: "u8 list"

definition enc_text :: "string \<Rightarrow> encoder \<Rightarrow> evidence_error + encoder" where
  "enc_text s e =
     (if \<not> list_all (\<lambda>c. of_char c < (128 :: nat)) s then Inl NotAscii
      else lift_evidence (encode_all [enc_count (length s), enc_raw (ascii_bytes s)] e))"

definition attempt_matches_snapshot ::
  "(u8 list \<Rightarrow> u8 list) \<Rightarrow> runtime_attempt_binding \<Rightarrow> runtime_admission_snapshot \<Rightarrow> bool" where
  "attempt_matches_snapshot sha256 b snapshot \<longleftrightarrow>
     ab_format b = ''memcordon.local-attempt-binding'' \<and> ab_revision b = 1
     \<and> snapshot_validate sha256 snapshot = Some (Inr ())
     \<and> ab_admission_nonce b = snap_admission_nonce snapshot
     \<and> plan_matches_contract sha256 (ab_plan b) (snap_request snapshot)
     \<and> ab_caller_invocation_reference b = snap_caller_invocation_reference snapshot
     \<and> pl_registry_digest (ab_plan b) = snap_registry_digest snapshot
     \<and> request_binding sha256 (snap_request snapshot) = Inr (pl_request (ab_plan b))"

definition attempt_from_snapshot ::
  "(u8 list \<Rightarrow> u8 list) \<Rightarrow> runtime_admission_snapshot \<Rightarrow> public_provider_binding_v1 \<Rightarrow> string \<Rightarrow> string \<Rightarrow> u64
   \<Rightarrow> (evidence_error + runtime_attempt_binding) option" where
  "attempt_from_snapshot sha256 snapshot provider boot attempt_id restart_attempt =
     map_option (\<lambda>validated. and_then (map_sum EvidenceSnapshot id validated) (\<lambda>_.
       if \<not> provider_is_consistent provider \<or> boot = [] \<or> attempt_id = [] then Inl ProviderOrBootUnavailable
       else and_then (plan_from_local_grant sha256 (snap_request snapshot) (snap_registry_digest snapshot) provider boot) (\<lambda>plan.
         Inr \<lparr>ab_format = ''memcordon.local-attempt-binding'', ab_revision = 1, ab_plan = plan,
              ab_attempt_id = attempt_id, ab_restart_attempt = restart_attempt,
              ab_admission_nonce = snap_admission_nonce snapshot,
              ab_caller_invocation_reference = snap_caller_invocation_reference snapshot\<rparr>)))
       (snapshot_validate sha256 snapshot)"

definition attempt_encode :: "runtime_attempt_binding \<Rightarrow> evidence_error + u8 list" where
  "attempt_encode b =
     (let plan = ab_plan b; request = pl_request plan; provider = pl_provider plan
      in if ab_format b \<noteq> ''memcordon.local-attempt-binding'' \<or> ab_revision b \<noteq> 1
           \<or> pl_format plan \<noteq> ''memcordon.local-plan'' \<or> pl_revision plan \<noteq> 1
         then Inl FormatDiffers
         else
          and_then (lift_evidence (encoder_new (ascii_bytes ''memcordon.local-attempt-binding/revision1'') PUBLIC_OBJECT_BYTES)) (\<lambda>e.
          and_then (lift_evidence (encode_all
            [enc_digest (rb_request_digest request), enc_digest (rb_workload_plan_digest request),
             enc_id (profile_id (rb_profile request)), enc_digest (semantic_digest (rb_profile request)),
             enc_id (grant_id (rb_authorization request)), enc_u64 (grant_revision (rb_authorization request)),
             enc_digest (approved_plan_digest (rb_authorization request)),
             enc_raw (service_instance (rb_epoch request)), enc_u64 (epoch_revision (rb_epoch request)),
             enc_digest (pl_registry_digest plan)] e)) (\<lambda>e.
          and_then (enc_text (pb_generation provider) e) (\<lambda>e.
          and_then (enc_text (pb_source_commit provider) e) (\<lambda>e.
          and_then (lift_evidence (enc_digest (pb_runtime_manifest_sha256 provider) e)) (\<lambda>e.
          and_then (enc_text (pl_boot_identity plan) e) (\<lambda>e.
          and_then (lift_evidence (enc_digest (pl_effective_policy_digest plan) e)) (\<lambda>e.
          and_then (enc_text (ab_attempt_id b) e) (\<lambda>e.
          and_then (lift_evidence (encode_all
            [enc_u64 (ab_restart_attempt b), enc_raw (ab_admission_nonce b),
             enc_raw (ab_caller_invocation_reference b)] e)) (\<lambda>e.
          Inr (enc_bytes e)))))))))))"

definition attempt_digest ::
  "(u8 list \<Rightarrow> u8 list) \<Rightarrow> runtime_attempt_binding \<Rightarrow> evidence_error + sha256_digest" where
  "attempt_digest sha256 b = and_then (attempt_encode b) (\<lambda>bs. Inr (sha256 bs))"

subsection \<open>Checkpoints\<close>

record verified_checkpoint_v1 =
  vc_attempt_binding :: sha256_digest
  vc_digest :: sha256_digest
  vc_controls :: baseline_restriction_observation_v1
  vc_target_gated :: bool
  vc_caller_verified :: bool
  vc_resources_verified :: bool
  vc_guardian_verified :: bool
  vc_epoch_verified :: bool
  vc_durable :: bool

fun controls_tag :: "baseline_restriction_observation_v1 \<Rightarrow> evidence_error + u8" where
  "controls_tag LinuxUnixOnlySocketSyscallFilterAlternatePathsUnknown = Inr 1"
| "controls_tag WindowsNetworkExternallyGoverned = Inr 2"
| "controls_tag UnmanagedStandardBackend = Inl UnmanagedControls"

definition checkpoint_digest ::
  "(u8 list \<Rightarrow> u8 list) \<Rightarrow> sha256_digest \<Rightarrow> baseline_restriction_observation_v1 \<Rightarrow> evidence_error + sha256_digest" where
  "checkpoint_digest sha256 attempt controls =
     and_then (lift_evidence (encoder_new (ascii_bytes ''attempt-policy-enforcement-v1'') PUBLIC_OBJECT_BYTES)) (\<lambda>e.
     and_then (lift_evidence (enc_digest attempt e)) (\<lambda>e.
     and_then (controls_tag controls) (\<lambda>tag.
     and_then (lift_evidence (encode_all [enc_byte tag, enc_raw [1, 1, 1, 1, 1, 1]] e)) (\<lambda>e.
     Inr (sha256 (enc_bytes e))))))"

text \<open>\<open>TryFrom<CheckpointWire>\<close>: the wire form has the same fields.\<close>

definition checkpoint_try_from ::
  "(u8 list \<Rightarrow> u8 list) \<Rightarrow> verified_checkpoint_v1 \<Rightarrow> evidence_error + verified_checkpoint_v1" where
  "checkpoint_try_from sha256 wire =
     (if \<not> (vc_target_gated wire \<and> vc_caller_verified wire \<and> vc_resources_verified wire \<and> vc_guardian_verified wire
          \<and> vc_epoch_verified wire \<and> vc_durable wire)
        \<or> vc_controls wire = UnmanagedStandardBackend
      then Inl IncompleteCheckpoint
      else and_then (checkpoint_digest sha256 (vc_attempt_binding wire) (vc_controls wire)) (\<lambda>digest.
        if digest \<noteq> vc_digest wire then Inl CheckpointDigestDiffers else Inr wire))"

definition checkpoint_matches_binding ::
  "(u8 list \<Rightarrow> u8 list) \<Rightarrow> verified_checkpoint_v1 \<Rightarrow> runtime_attempt_binding \<Rightarrow> bool" where
  "checkpoint_matches_binding sha256 checkpoint b \<longleftrightarrow>
     is_some_and (\<lambda>profile. vc_controls checkpoint = baseline_observation profile)
       (baseline_for sha256 (rb_profile (pl_request (ab_plan b))))
     \<and> (case attempt_digest sha256 b of
          Inl _ \<Rightarrow> False
        | Inr digest \<Rightarrow> digest = vc_attempt_binding checkpoint
            \<and> checkpoint_digest sha256 digest (vc_controls checkpoint) = Inr (vc_digest checkpoint))"

definition checkpoint_observed ::
  "(u8 list \<Rightarrow> u8 list) \<Rightarrow> runtime_attempt_binding \<Rightarrow> baseline_restriction_observation_v1 \<Rightarrow> bool \<Rightarrow> bool \<Rightarrow> bool \<Rightarrow> bool
   \<Rightarrow> bool \<Rightarrow> bool \<Rightarrow> evidence_error + verified_checkpoint_v1" where
  "checkpoint_observed sha256 b controls target_gated caller resources guardian epoch durable =
     and_then (attempt_digest sha256 b) (\<lambda>attempt_binding.
     and_then (checkpoint_digest sha256 attempt_binding controls) (\<lambda>digest.
     checkpoint_try_from sha256 \<lparr>vc_attempt_binding = attempt_binding, vc_digest = digest, vc_controls = controls,
       vc_target_gated = target_gated, vc_caller_verified = caller, vc_resources_verified = resources,
       vc_guardian_verified = guardian, vc_epoch_verified = epoch, vc_durable = durable\<rparr>))"

subsection \<open>Resolutions\<close>

datatype prelaunch_check =
    CallerIdentity | InvocationIdentity | DescriptorCustody | NativeControls | Guardian | CurrentEpoch | DurableCheckpoint

definition PENDING_PRELAUNCH_CHECKS :: "prelaunch_check list" where
  "PENDING_PRELAUNCH_CHECKS =
     [CallerIdentity, InvocationIdentity, DescriptorCustody, NativeControls, Guardian, CurrentEpoch, DurableCheckpoint]"

datatype authorization_knowledge = NotAuthorizedKnown | AuthorizedKnown | AuthorizationUnknown

datatype admission_availability_failure =
    ProviderUnavailable | TransportLost | UnqualifiedHost | BindingUnavailable | TerminalUnavailable

record effective_workload_policy_v1 =
  ew_profile :: baseline_profile
  ew_ceiling :: network_ceiling_v1
  ew_restriction :: baseline_restriction_observation_v1

text \<open>The field \<open>target_authorized\<close> of a rejection has a type whose only value is false, and is left out.\<close>

datatype runtime_workload_resolution =
    LegacyResolution baseline_restriction_observation_v1
  | PlannedResolution runtime_plan_binding effective_workload_policy_v1 "prelaunch_check list"
  | RejectedResolution request_binding_v1 "admission_code admission_rejection"
  | AdmittedResolution runtime_attempt_binding effective_workload_policy_v1 sha256_digest
  | UnavailableResolution "request_binding_v1 option" admission_availability_failure authorization_knowledge

definition matches_request ::
  "(u8 list \<Rightarrow> u8 list) \<Rightarrow> runtime_workload_resolution \<Rightarrow> workload_request_report \<Rightarrow> bool" where
  "matches_request sha256 resolution request =
     (case request of
        LegacyRequest \<Rightarrow> (case resolution of LegacyResolution _ \<Rightarrow> True | _ \<Rightarrow> False)
      | StrictV1 contract \<Rightarrow>
          (case request_binding sha256 contract of
             Inl _ \<Rightarrow> False
           | Inr expected \<Rightarrow>
               (case resolution of
                  LegacyResolution _ \<Rightarrow> False
                | PlannedResolution binding _ _ \<Rightarrow> pl_request binding = expected
                | RejectedResolution binding _ \<Rightarrow> binding = expected
                | AdmittedResolution binding _ _ \<Rightarrow> pl_request (ab_plan binding) = expected
                | UnavailableResolution request _ _ \<Rightarrow> request = Some expected)))"

definition valid_plan_response ::
  "(u8 list \<Rightarrow> u8 list) \<Rightarrow> runtime_workload_resolution \<Rightarrow> workload_contract_v1 \<Rightarrow> baseline_profile \<Rightarrow> bool" where
  "valid_plan_response sha256 resolution contract profile \<longleftrightarrow>
     matches_request sha256 resolution (request_report (Some contract))
     \<and> (case resolution of
          PlannedResolution binding effective pending \<Rightarrow>
            plan_matches_contract sha256 binding contract
            \<and> Some (authorized_profile contract) = baseline_reference sha256 profile
            \<and> ew_profile effective = profile
            \<and> ew_ceiling effective = baseline_ceiling profile
            \<and> ew_restriction effective = baseline_observation profile
            \<and> pending = PENDING_PRELAUNCH_CHECKS
        | RejectedResolution _ _ \<Rightarrow> True
        | UnavailableResolution _ _ knowledge \<Rightarrow> knowledge = NotAuthorizedKnown
        | _ \<Rightarrow> False)"

definition unresolved ::
  "(u8 list \<Rightarrow> u8 list) \<Rightarrow> workload_contract_v1 option \<Rightarrow> baseline_restriction_observation_v1
   \<Rightarrow> runtime_workload_resolution option" where
  "unresolved sha256 contract restriction =
     (case contract of
        None \<Rightarrow> Some (LegacyResolution restriction)
      | Some contract \<Rightarrow>
          (case request_binding sha256 contract of
             Inl _ \<Rightarrow> None
           | Inr request \<Rightarrow> Some (UnavailableResolution (Some request) BindingUnavailable NotAuthorizedKnown)))"

subsection \<open>Enforcement\<close>

datatype policy_terminal_evidence_v1 =
    TerminalRetired sha256_digest sha256_digest bool bool
  | TerminalUnconfirmed admission_availability_failure

datatype runtime_policy_enforcement =
    LegacyEnforcement
  | NotAuthorized request_binding_v1 "admission_code admission_rejection"
  | Authorized runtime_attempt_binding verified_checkpoint_v1 policy_terminal_evidence_v1
  | AuthorizationUncertain "request_binding_v1 option" admission_availability_failure

definition enforcement_is_consistent :: "(u8 list \<Rightarrow> u8 list) \<Rightarrow> runtime_policy_enforcement \<Rightarrow> bool" where
  "enforcement_is_consistent sha256 enforcement =
     (case enforcement of
        LegacyEnforcement \<Rightarrow> True
      | NotAuthorized request _ \<Rightarrow> approved_plan_digest (rb_authorization request) = rb_workload_plan_digest request
      | AuthorizationUncertain _ _ \<Rightarrow> True
      | Authorized admission checkpoint terminal \<Rightarrow>
          (case attempt_digest sha256 admission of
             Inl _ \<Rightarrow> False
           | Inr digest \<Rightarrow>
               checkpoint_matches_binding sha256 checkpoint admission
               \<and> (case terminal of
                    TerminalRetired attempt_binding checkpoint_bound controls_preserved resources_closed \<Rightarrow>
                      attempt_binding = digest \<and> checkpoint_bound = vc_digest checkpoint
                      \<and> controls_preserved \<and> resources_closed
                  | TerminalUnconfirmed _ \<Rightarrow> True)))"

definition terminal_success :: "(u8 list \<Rightarrow> u8 list) \<Rightarrow> runtime_policy_enforcement \<Rightarrow> bool" where
  "terminal_success sha256 enforcement \<longleftrightarrow>
     enforcement_is_consistent sha256 enforcement
     \<and> (case enforcement of Authorized _ _ (TerminalRetired _ _ _ _) \<Rightarrow> True | _ \<Rightarrow> False)"

definition enforcement_resolution ::
  "(u8 list \<Rightarrow> u8 list) \<Rightarrow> runtime_policy_enforcement \<Rightarrow> runtime_workload_resolution option" where
  "enforcement_resolution sha256 enforcement =
     (if \<not> enforcement_is_consistent sha256 enforcement then None
      else (case enforcement of
              Authorized admission checkpoint _ \<Rightarrow>
                Option.bind (baseline_for sha256 (rb_profile (pl_request (ab_plan admission)))) (\<lambda>profile.
                  Some (AdmittedResolution admission
                    \<lparr>ew_profile = profile, ew_ceiling = baseline_ceiling profile, ew_restriction = baseline_observation profile\<rparr>
                    (vc_digest checkpoint)))
            | NotAuthorized request rejection \<Rightarrow> Some (RejectedResolution request rejection)
            | AuthorizationUncertain request failure \<Rightarrow> Some (UnavailableResolution request failure AuthorizationUnknown)
            | LegacyEnforcement \<Rightarrow> None))"

definition matches_terminal_request ::
  "(u8 list \<Rightarrow> u8 list) \<Rightarrow> runtime_policy_enforcement \<Rightarrow> workload_contract_v1 option \<Rightarrow> bool" where
  "matches_terminal_request sha256 enforcement contract =
     (case (enforcement, contract) of
        (LegacyEnforcement, None) \<Rightarrow> True
      | (Authorized admission _ _, Some contract) \<Rightarrow>
          terminal_success sha256 enforcement \<and> request_binding sha256 contract = Inr (pl_request (ab_plan admission))
      | _ \<Rightarrow> False)"

definition valid_native_terminal ::
  "(u8 list \<Rightarrow> u8 list) \<Rightarrow> runtime_policy_enforcement \<Rightarrow> workload_contract_v1 option \<Rightarrow> baseline_profile \<Rightarrow> string \<Rightarrow> u64
   \<Rightarrow> string \<Rightarrow> bool" where
  "valid_native_terminal sha256 enforcement contract profile attempt_id restart_attempt boot \<longleftrightarrow>
     matches_terminal_request sha256 enforcement contract
     \<and> (case (enforcement, contract) of
          (LegacyEnforcement, None) \<Rightarrow> True
        | (Authorized admission checkpoint _, Some contract) \<Rightarrow>
            plan_matches_contract sha256 (ab_plan admission) contract
            \<and> Some (authorized_profile contract) = baseline_reference sha256 profile
            \<and> ab_attempt_id admission = attempt_id \<and> ab_restart_attempt admission = restart_attempt
            \<and> pl_boot_identity (ab_plan admission) = boot
            \<and> vc_controls checkpoint = baseline_observation profile
        | _ \<Rightarrow> False)"

definition enforcement_retired ::
  "(u8 list \<Rightarrow> u8 list) \<Rightarrow> runtime_attempt_binding \<Rightarrow> verified_checkpoint_v1 \<Rightarrow> bool \<Rightarrow> bool
   \<Rightarrow> evidence_error + runtime_policy_enforcement" where
  "enforcement_retired sha256 b checkpoint controls_preserved resources_closed =
     (if \<not> (controls_preserved \<and> resources_closed) then Inl EnforcementIncomplete
      else and_then (attempt_digest sha256 b) (\<lambda>digest.
        if vc_attempt_binding checkpoint \<noteq> digest then Inl OtherAttempt
        else Inr (Authorized b checkpoint
               (TerminalRetired digest (vc_digest checkpoint) controls_preserved resources_closed))))"

subsection \<open>The hashed bytes of an attempt\<close>

lemma lift_evidence_simps [simp]:
  "lift_evidence (Inr x) = Inr x" "lift_evidence (Inl e) = Inl (EvidenceContract e)"
  by (simp_all add: lift_evidence_def)

lemma lift_evidence_and_then:
  "and_then (lift_evidence x) (\<lambda>y. lift_evidence (f y)) = lift_evidence (and_then x f)"
  by (cases x) simp_all

text \<open>Images that are put together of images that end themselves.\<close>

lemma prefix_pair:
  assumes "prefix_code f ok1 v1" and "prefix_code g ok2 v2"
  shows "prefix_code (\<lambda>x. f x @ g x) (\<lambda>x. ok1 x \<and> ok2 x) (\<lambda>x. (v1 x, v2 x))"
proof
  fix x y as bs
  assume ok: "ok1 x \<and> ok2 x" "ok1 y \<and> ok2 y" and eq: "(f x @ g x) @ as = (f y @ g y) @ bs"
  have "v1 x = v1 y \<and> g x @ as = g y @ bs"
    by (rule prefix_code.decided [OF assms(1)]) (use ok eq in \<open>simp_all only: append_assoc\<close>)
  moreover from this have "v2 x = v2 y \<and> as = bs"
    by (intro prefix_code.decided [OF assms(2)]) (use ok in simp_all)
  ultimately show "(v1 x, v2 x) = (v1 y, v2 y) \<and> as = bs" by simp
qed

definition text_image :: "string \<Rightarrow> u8 list" where
  "text_image s = to_be_bytes 2 (of_nat (length s) :: u16) @ ascii_bytes s"

lemma prefix_text: "prefix_code (\<lambda>x. text_image (s x)) (\<lambda>x. length (s x) < 65536) s"
proof
  fix x y as bs
  assume len: "length (s x) < 65536" "length (s y) < 65536"
    and eq: "text_image (s x) @ as = text_image (s y) @ bs"
  have "(of_nat (length (s x)) :: u16) = of_nat (length (s y)) \<and> ascii_bytes (s x) @ as = ascii_bytes (s y) @ bs"
    by (rule to_be_bytes_append_eq [where n = 2]) (use eq in \<open>simp_all add: text_image_def\<close>)
  moreover from this have "unat (of_nat (length (s x)) :: u16) = unat (of_nat (length (s y)) :: u16)" by simp
  then have "length (s x) = length (s y)" using len by (simp add: unat_of_nat)
  ultimately show "s x = s y \<and> as = bs" by (auto simp: ascii_bytes_inj)
qed

lemma prefix_digest: "prefix_code d (\<lambda>x. length (d x) = n) d"
  by unfold_locales simp

lemma prefix_id: "prefix_code (\<lambda>x. id_bytes (i x)) (\<lambda>x. logical_id_ok (i x)) i"
  by unfold_locales (rule id_codec.image.decided)

lemma prefix_u64: "prefix_code (\<lambda>x. to_be_bytes 8 (w x :: u64)) (\<lambda>x. True) w"
  by unfold_locales (erule to_be_bytes_append_eq, simp)

lemmas prefix_chain = prefix_pair [OF prefix_digest] prefix_pair [OF prefix_id] prefix_pair [OF prefix_u64]
  prefix_pair [OF prefix_text] prefix_digest

definition attempt_image :: "runtime_attempt_binding \<Rightarrow> u8 list" where
  "attempt_image b =
     (let plan = ab_plan b; request = pl_request plan; provider = pl_provider plan
      in rb_request_digest request @ rb_workload_plan_digest request
         @ id_bytes (profile_id (rb_profile request)) @ semantic_digest (rb_profile request)
         @ id_bytes (grant_id (rb_authorization request)) @ to_be_bytes 8 (grant_revision (rb_authorization request))
         @ approved_plan_digest (rb_authorization request)
         @ service_instance (rb_epoch request) @ to_be_bytes 8 (epoch_revision (rb_epoch request))
         @ pl_registry_digest plan @ text_image (pb_generation provider) @ text_image (pb_source_commit provider)
         @ pb_runtime_manifest_sha256 provider @ text_image (pl_boot_identity plan) @ pl_effective_policy_digest plan
         @ text_image (ab_attempt_id b) @ to_be_bytes 8 (ab_restart_attempt b) @ ab_admission_nonce b
         @ ab_caller_invocation_reference b)"

text \<open>What the Rust types guarantee of a binding, and its format.\<close>

definition text_typed :: "nat \<Rightarrow> string \<Rightarrow> bool" where
  "text_typed n s \<longleftrightarrow> length s \<le> n \<and> list_all (\<lambda>c. of_char c < (128 :: nat)) s"

definition request_binding_typed :: "request_binding_v1 \<Rightarrow> bool" where
  "request_binding_typed r \<longleftrightarrow>
     length (rb_request_digest r) = 32 \<and> length (rb_workload_plan_digest r) = 32
     \<and> logical_id_ok (profile_id (rb_profile r)) \<and> length (semantic_digest (rb_profile r)) = 32
     \<and> logical_id_ok (grant_id (rb_authorization r)) \<and> length (approved_plan_digest (rb_authorization r)) = 32
     \<and> length (service_instance (rb_epoch r)) = 16"

definition attempt_typed :: "runtime_attempt_binding \<Rightarrow> bool" where
  "attempt_typed b \<longleftrightarrow>
     ab_format b = ''memcordon.local-attempt-binding'' \<and> ab_revision b = 1
     \<and> pl_format (ab_plan b) = ''memcordon.local-plan'' \<and> pl_revision (ab_plan b) = 1
     \<and> request_binding_typed (pl_request (ab_plan b)) \<and> length (pl_registry_digest (ab_plan b)) = 32
     \<and> text_typed 256 (pb_generation (pl_provider (ab_plan b))) \<and> text_typed 64 (pb_source_commit (pl_provider (ab_plan b)))
     \<and> length (pb_runtime_manifest_sha256 (pl_provider (ab_plan b))) = 32
     \<and> text_typed 128 (pl_boot_identity (ab_plan b)) \<and> length (pl_effective_policy_digest (ab_plan b)) = 32
     \<and> text_typed 128 (ab_attempt_id b)
     \<and> length (ab_admission_nonce b) = 16 \<and> length (ab_caller_invocation_reference b) = 16"

lemma attempt_image_code:
  "prefix_code attempt_image
    (\<lambda>b. length (rb_request_digest (pl_request (ab_plan b))) = 32
      \<and> length (rb_workload_plan_digest (pl_request (ab_plan b))) = 32
      \<and> logical_id_ok (profile_id (rb_profile (pl_request (ab_plan b))))
      \<and> length (semantic_digest (rb_profile (pl_request (ab_plan b)))) = 32
      \<and> logical_id_ok (grant_id (rb_authorization (pl_request (ab_plan b)))) \<and> True
      \<and> length (approved_plan_digest (rb_authorization (pl_request (ab_plan b)))) = 32
      \<and> length (service_instance (rb_epoch (pl_request (ab_plan b)))) = 16 \<and> True
      \<and> length (pl_registry_digest (ab_plan b)) = 32
      \<and> length (pb_generation (pl_provider (ab_plan b))) < 65536
      \<and> length (pb_source_commit (pl_provider (ab_plan b))) < 65536
      \<and> length (pb_runtime_manifest_sha256 (pl_provider (ab_plan b))) = 32
      \<and> length (pl_boot_identity (ab_plan b)) < 65536 \<and> length (pl_effective_policy_digest (ab_plan b)) = 32
      \<and> length (ab_attempt_id b) < 65536 \<and> True
      \<and> length (ab_admission_nonce b) = 16 \<and> length (ab_caller_invocation_reference b) = 16)
    (\<lambda>b. (rb_request_digest (pl_request (ab_plan b)), rb_workload_plan_digest (pl_request (ab_plan b)),
      profile_id (rb_profile (pl_request (ab_plan b))), semantic_digest (rb_profile (pl_request (ab_plan b))),
      grant_id (rb_authorization (pl_request (ab_plan b))), grant_revision (rb_authorization (pl_request (ab_plan b))),
      approved_plan_digest (rb_authorization (pl_request (ab_plan b))),
      service_instance (rb_epoch (pl_request (ab_plan b))), epoch_revision (rb_epoch (pl_request (ab_plan b))),
      pl_registry_digest (ab_plan b), pb_generation (pl_provider (ab_plan b)), pb_source_commit (pl_provider (ab_plan b)),
      pb_runtime_manifest_sha256 (pl_provider (ab_plan b)), pl_boot_identity (ab_plan b),
      pl_effective_policy_digest (ab_plan b), ab_attempt_id b, ab_restart_attempt b, ab_admission_nonce b,
      ab_caller_invocation_reference b))"
  unfolding attempt_image_def [abs_def] Let_def by (intro prefix_chain)

lemma attempt_image_decides:
  assumes "attempt_typed a" "attempt_typed b" and "attempt_image a = attempt_image b"
  shows "a = b"
proof -
  have eq: "attempt_image a @ [] = attempt_image b @ []" using assms(3) by simp
  show ?thesis
    using prefix_code.decided [OF attempt_image_code _ _ eq] assms(1,2)
    by (simp add: attempt_typed_def request_binding_typed_def text_typed_def)
qed

lemma writes_text:
  "length s < 65536 \<Longrightarrow> writes (encode_all [enc_count (length s), enc_raw (ascii_bytes s)]) (text_image s)"
  unfolding text_image_def by (intro writes_Cons writes_count writes_single writes_raw)

definition attempt_steps :: "runtime_attempt_binding \<Rightarrow> encoder_step" where
  "attempt_steps b =
     (let plan = ab_plan b; request = pl_request plan; provider = pl_provider plan;
          put_text = (\<lambda>s. encode_all [enc_count (length s), enc_raw (ascii_bytes s)])
      in (\<lambda>e.
        and_then (encode_all
            [enc_digest (rb_request_digest request), enc_digest (rb_workload_plan_digest request),
             enc_id (profile_id (rb_profile request)), enc_digest (semantic_digest (rb_profile request)),
             enc_id (grant_id (rb_authorization request)), enc_u64 (grant_revision (rb_authorization request)),
             enc_digest (approved_plan_digest (rb_authorization request)),
             enc_raw (service_instance (rb_epoch request)), enc_u64 (epoch_revision (rb_epoch request)),
             enc_digest (pl_registry_digest plan)] e) (\<lambda>e.
        and_then (put_text (pb_generation provider) e) (\<lambda>e. and_then (put_text (pb_source_commit provider) e) (\<lambda>e.
        and_then (enc_digest (pb_runtime_manifest_sha256 provider) e) (\<lambda>e.
        and_then (put_text (pl_boot_identity plan) e) (\<lambda>e. and_then (enc_digest (pl_effective_policy_digest plan) e) (\<lambda>e.
        and_then (put_text (ab_attempt_id b) e) (encode_all
            [enc_u64 (ab_restart_attempt b), enc_raw (ab_admission_nonce b),
             enc_raw (ab_caller_invocation_reference b)])))))))))"

lemma writes_attempt:
  assumes "attempt_typed b"
  shows "writes (attempt_steps b) (attempt_image b)"
proof -
  have "writes (attempt_steps b)
     ((rb_request_digest (pl_request (ab_plan b)) @ rb_workload_plan_digest (pl_request (ab_plan b))
         @ id_bytes (profile_id (rb_profile (pl_request (ab_plan b)))) @ semantic_digest (rb_profile (pl_request (ab_plan b)))
         @ id_bytes (grant_id (rb_authorization (pl_request (ab_plan b))))
         @ to_be_bytes 8 (grant_revision (rb_authorization (pl_request (ab_plan b))))
         @ approved_plan_digest (rb_authorization (pl_request (ab_plan b)))
         @ service_instance (rb_epoch (pl_request (ab_plan b))) @ to_be_bytes 8 (epoch_revision (rb_epoch (pl_request (ab_plan b))))
         @ pl_registry_digest (ab_plan b)) @ text_image (pb_generation (pl_provider (ab_plan b)))
       @ text_image (pb_source_commit (pl_provider (ab_plan b)))
       @ pb_runtime_manifest_sha256 (pl_provider (ab_plan b)) @ text_image (pl_boot_identity (ab_plan b))
       @ pl_effective_policy_digest (ab_plan b)
       @ text_image (ab_attempt_id b) @ (to_be_bytes 8 (ab_restart_attempt b) @ ab_admission_nonce b
       @ ab_caller_invocation_reference b))"
    unfolding attempt_steps_def Let_def
    by (intro writes_then writes_Cons writes_single writes_raw writes_fixed id_codec.written writes_text)
      (use assms in \<open>simp_all add: attempt_typed_def request_binding_typed_def text_typed_def\<close>)
  then show ?thesis by (simp only: attempt_image_def Let_def append_assoc)
qed

definition attempt_domain :: "u8 list" where
  "attempt_domain = ascii_bytes ''memcordon.local-attempt-binding/revision1''"

lemma attempt_encode_bytes:
  assumes "attempt_typed b"
  shows "attempt_encode b = Inr (header_bytes attempt_domain @ attempt_image b)"
proof -
  have "length (attempt_image b) \<le> 2000"
    using assms length_id_bytes [of "profile_id (rb_profile (pl_request (ab_plan b)))"]
      length_id_bytes [of "grant_id (rb_authorization (pl_request (ab_plan b)))"]
    by (simp add: attempt_typed_def request_binding_typed_def text_typed_def attempt_image_def text_image_def Let_def)
  then have "length (header_bytes attempt_domain @ attempt_image b) \<le> PUBLIC_OBJECT_BYTES"
    by (simp add: header_bytes_def attempt_domain_def ascii_bytes_def PUBLIC_OBJECT_BYTES_def)
  note encode = encode_bytes [OF writes_attempt [OF assms] this]
  have "attempt_encode b = lift_evidence (and_then (encoder_new attempt_domain PUBLIC_OBJECT_BYTES) (\<lambda>e.
      and_then (attempt_steps b e) (\<lambda>e. Inr (enc_bytes e))))"
    using assms
    by (simp add: attempt_encode_def attempt_typed_def text_typed_def attempt_steps_def enc_text_def Let_def attempt_domain_def
        lift_evidence_and_then [symmetric] and_then_assoc del: encode_all.simps)
  then show ?thesis unfolding encode by simp
qed

subsection \<open>Properties\<close>

lemma attempt_digest_eq:
  "attempt_typed b \<Longrightarrow> attempt_digest sha256 b = Inr (sha256 (header_bytes attempt_domain @ attempt_image b))"
  by (simp add: attempt_digest_def attempt_encode_bytes)

text \<open>C17: a checkpoint belongs to one attempt. When the same checkpoint matches two attempt bindings, these are equal
  in every field (request, grant, epoch, registry, provider, boot, attempt, restart number and nonces), or
  two different encodings have the same SHA-256 value.\<close>

theorem checkpoint_binds_attempt:
  assumes "attempt_typed a" "attempt_typed b"
    and "checkpoint_matches_binding sha256 checkpoint a" "checkpoint_matches_binding sha256 checkpoint b"
  shows "a = b \<or> (\<exists>bs cs. attempt_encode a = Inr bs \<and> attempt_encode b = Inr cs \<and> bs \<noteq> cs \<and> sha256 bs = sha256 cs)"
proof (cases "attempt_image a = attempt_image b")
  case True
  then show ?thesis using attempt_image_decides [OF assms(1,2)] by simp
next
  case False
  then show ?thesis
    using assms by (simp add: checkpoint_matches_binding_def attempt_digest_eq attempt_encode_bytes)
qed

lemma baseline_for_reference: "baseline_for sha256 (profile_reference sha256 profile) = Some profile"
  using profile_reference_inj [of sha256 LinuxUnixCreate profile]
  by (cases profile) (auto simp: baseline_for_def baseline_reference_eq)

lemma baseline_for_Some: "baseline_for sha256 reference = Some profile \<Longrightarrow> reference = profile_reference sha256 profile"
  by (auto simp: baseline_for_def baseline_reference_eq split: if_splits)

lemma plan_from_local_grant_ok:
  assumes "provider_is_consistent provider" "boot \<noteq> []" "length registry = 32"
    and "\<And>bs. length (sha256 bs) = 32" and "contract_digest sha256 contract = Inr digest"
    and "authorized_profile contract = profile_reference sha256 profile" and "length digest = 32"
  shows "\<exists>plan. plan_from_local_grant sha256 contract registry provider boot = Inr plan
    \<and> pl_format plan = ''memcordon.local-plan'' \<and> pl_revision plan = 1
    \<and> request_binding sha256 contract = Inr (pl_request plan)
    \<and> pl_registry_digest plan = registry \<and> pl_provider plan = provider \<and> pl_boot_identity plan = boot
    \<and> length (pl_effective_policy_digest plan) = 32"
proof -
  obtain request where r: "request_binding sha256 contract = Inr request" and d: "rb_request_digest request = digest"
    and p: "rb_profile request = profile_reference sha256 profile"
    using assms(5,6) by (simp add: request_binding_def)
  let ?bs = "digest @ semantic_digest (profile_reference sha256 profile) @ registry @ ceiling_bytes (baseline_ceiling profile)"
  let ?f = "encode_all [enc_digest digest, enc_digest (semantic_digest (profile_reference sha256 profile)),
      enc_digest registry, encode_ceiling (baseline_ceiling profile)]"
  have w: "writes ?f ?bs"
    by (intro writes_Cons writes_single writes_fixed ceiling_codec.written) simp
  have "length (semantic_digest (profile_reference sha256 profile)) = 32"
    by (simp add: profile_reference_def assms(4))
  then have "length (header_bytes (ascii_bytes ''effective-workload-policy-v1'') @ ?bs) \<le> PUBLIC_OBJECT_BYTES"
    using assms(3,7) by (simp add: header_bytes_def ascii_bytes_def PUBLIC_OBJECT_BYTES_def ceiling_bytes_def)
  from encode_bytes [OF w this] obtain e0 e where
    "encoder_new (ascii_bytes ''effective-workload-policy-v1'') PUBLIC_OBJECT_BYTES = Inr e0" "?f e0 = Inr e"
    by (auto simp: and_then_Inr_iff simp del: encode_all.simps)
  then show ?thesis
    using assms(1,2,4,6) r d p by (simp add: plan_from_local_grant_def baseline_for_reference del: encode_all.simps)
qed

definition snapshot_typed :: "runtime_admission_snapshot \<Rightarrow> bool" where
  "snapshot_typed s \<longleftrightarrow> fields_typed (snap_request s) \<and> length (snap_registry_digest s) = 32
     \<and> length (snap_admission_nonce s) = 16 \<and> length (snap_caller_invocation_reference s) = 16"

definition provider_typed :: "public_provider_binding_v1 \<Rightarrow> bool" where
  "provider_typed p \<longleftrightarrow> length (pb_generation p) \<le> 256 \<and> length (pb_source_commit p) \<le> 64
     \<and> length (pb_runtime_manifest_sha256 p) = 32"

lemma consistent_provider_text:
  assumes "provider_is_consistent p" "provider_typed p"
  shows "text_typed 256 (pb_generation p)" "text_typed 64 (pb_source_commit p)"
  using assms by (auto simp: provider_is_consistent_def provider_typed_def text_typed_def list_all_iff is_lower_hex_def
      is_ascii_digit_def is_ascii_uppercase_def is_ascii_lowercase_def)

lemma attempt_from_snapshot_ok:
  assumes "snapshot_validate sha256 s = Some (Inr ())" "snapshot_typed s" and "\<And>bs. length (sha256 bs) = 32"
    and "provider_is_consistent provider" "provider_typed provider"
    and "text_typed 128 boot" "boot \<noteq> []" "text_typed 128 attempt" "attempt \<noteq> []"
  obtains b where "attempt_from_snapshot sha256 s provider boot attempt n = Some (Inr b)"
    and "attempt_typed b" and "attempt_matches_snapshot sha256 b s"
    and "pl_boot_identity (ab_plan b) = boot" "ab_attempt_id b = attempt" "ab_restart_attempt b = n"
    and "rb_profile (pl_request (ab_plan b)) = profile_reference sha256 (snap_native_profile s)"
proof -
  note valid = snapshot_validate_iff [THEN iffD1, OF _ assms(1)]
  have t: "fields_typed (snap_request s)" using assms(2) by (simp add: snapshot_typed_def)
  note v = valid [OF t]
  then obtain bs where d: "contract_digest sha256 (snap_request s) = Inr (snap_request_digest s)" "sha256 bs = snap_request_digest s"
    by (auto simp: contract_digest_def and_then_Inr_iff)
  obtain plan where p: "plan_from_local_grant sha256 (snap_request s) (snap_registry_digest s) provider boot = Inr plan"
    "pl_format plan = ''memcordon.local-plan''" "pl_revision plan = 1"
    "request_binding sha256 (snap_request s) = Inr (pl_request plan)" "pl_registry_digest plan = snap_registry_digest s"
    "pl_provider plan = provider" "pl_boot_identity plan = boot" "length (pl_effective_policy_digest plan) = 32"
    using plan_from_local_grant_ok [of provider boot _ sha256, OF assms(4,7) _ assms(3) d(1)] assms(2) assms(3) [of bs] v d(2) by (auto simp: snapshot_typed_def)
  define b where "b = \<lparr>ab_format = ''memcordon.local-attempt-binding'', ab_revision = 1, ab_plan = plan,
     ab_attempt_id = attempt, ab_restart_attempt = n, ab_admission_nonce = snap_admission_nonce s,
     ab_caller_invocation_reference = snap_caller_invocation_reference s\<rparr>"
  have r: "pl_request plan = \<lparr>rb_request_digest = snap_request_digest s,
      rb_workload_plan_digest = workload_plan_digest (snap_request s),
      rb_profile = profile_reference sha256 (snap_native_profile s), rb_authorization = authorization (snap_request s),
      rb_epoch = expected_epoch (snap_request s)\<rparr>"
    using p(4) d(1) v by (auto simp: request_binding_def)
  have "request_binding_typed (pl_request plan)"
    using d(2) assms(3) [of bs] t v by (simp add: r request_binding_typed_def fields_typed_def)
  then have "attempt_typed b"
    using p assms consistent_provider_text [OF assms(4,5)]
    by (simp add: attempt_typed_def b_def snapshot_typed_def provider_typed_def)
  moreover have "attempt_matches_snapshot sha256 b s"
    using p assms(1) by (simp add: attempt_matches_snapshot_def b_def plan_matches_contract_def)
  moreover have "rb_profile (pl_request plan) = profile_reference sha256 (snap_native_profile s)"
    by (simp add: r)
  moreover have "attempt_from_snapshot sha256 s provider boot attempt n = Some (Inr b)"
    using assms(1,4,7,9) p(1) by (simp add: attempt_from_snapshot_def b_def)
  ultimately show ?thesis using that p(7) by (simp add: b_def)
qed

lemma checkpoint_digest_ok:
  assumes "controls \<noteq> UnmanagedStandardBackend" and "length attempt = 32"
  shows "\<exists>digest. checkpoint_digest sha256 attempt controls = Inr digest"
proof -
  obtain tag where t: "controls_tag controls = Inr tag" using assms(1) by (cases controls) auto
  have w: "writes (encode_all [enc_digest attempt, encode_all [enc_byte tag, enc_raw [1, 1, 1, 1, 1, 1]]])
      (attempt @ [tag] @ [1, 1, 1, 1, 1, 1])"
    by (intro writes_Cons writes_single writes_fixed writes_raw)
  have "length (header_bytes (ascii_bytes ''attempt-policy-enforcement-v1'') @ attempt @ [tag] @ [1, 1, 1, 1, 1, 1])
      \<le> PUBLIC_OBJECT_BYTES"
    using assms(2) by (simp add: header_bytes_def ascii_bytes_def PUBLIC_OBJECT_BYTES_def)
  from encode_bytes [OF w this] show ?thesis
    by (auto simp: checkpoint_digest_def and_then_Inr_iff t lift_evidence_def map_sum_id_Inr)
qed

lemma checkpoint_observed_iff:
  assumes "attempt_typed b" and "controls \<noteq> UnmanagedStandardBackend" and "\<And>bs. length (sha256 bs) = 32"
  shows "(\<exists>c. checkpoint_observed sha256 b controls gated caller resources guardian epoch durable = Inr c)
    \<longleftrightarrow> gated \<and> caller \<and> resources \<and> guardian \<and> epoch \<and> durable"
    and "checkpoint_observed sha256 b controls gated caller resources guardian epoch durable = Inr c \<Longrightarrow>
      vc_controls c = controls \<and> attempt_digest sha256 b = Inr (vc_attempt_binding c)
      \<and> checkpoint_digest sha256 (vc_attempt_binding c) controls = Inr (vc_digest c)"
  using checkpoint_digest_ok [OF assms(2,3)] assms(2)
  by (auto simp: checkpoint_observed_def checkpoint_try_from_def attempt_digest_eq [OF assms(1)] and_then_Inr_iff
      split: if_splits)

text \<open>C18: the evidence of an honest provider is accepted, and only with every gate. For a valid admission snapshot the
  attempt binding can be built and matches the snapshot. A checkpoint for the controls of the profile exists
  exactly when all six gates were observed, and the retirement record exactly when the controls were preserved and
  the resources closed; that record then passes the terminal check for the request, profile, attempt, restart number and
  boot, and the resolution derived from it answers the request.\<close>

theorem retired_evidence_accepted:
  assumes "snapshot_validate sha256 s = Some (Inr ())" "snapshot_typed s" and "\<And>bs. length (sha256 bs) = 32"
    and "provider_is_consistent provider" "provider_typed provider"
    and "text_typed 128 boot" "boot \<noteq> []" "text_typed 128 attempt" "attempt \<noteq> []"
  shows "\<exists>b. attempt_from_snapshot sha256 s provider boot attempt n = Some (Inr b)
    \<and> attempt_matches_snapshot sha256 b s
    \<and> (\<forall>gated caller resources guardian epoch durable preserved closed.
        (let observed = checkpoint_observed sha256 b (baseline_observation (snap_native_profile s))
               gated caller resources guardian epoch durable;
             retired = and_then observed (\<lambda>c. enforcement_retired sha256 b c preserved closed)
         in ((\<exists>c. observed = Inr c) \<longleftrightarrow> gated \<and> caller \<and> resources \<and> guardian \<and> epoch \<and> durable)
          \<and> ((\<exists>e. retired = Inr e) \<longleftrightarrow>
               gated \<and> caller \<and> resources \<and> guardian \<and> epoch \<and> durable \<and> preserved \<and> closed)
          \<and> (\<forall>e. retired = Inr e \<longrightarrow>
               valid_native_terminal sha256 e (Some (snap_request s)) (snap_native_profile s) attempt n boot
               \<and> (\<exists>r. enforcement_resolution sha256 e = Some r
                    \<and> matches_request sha256 r (request_report (Some (snap_request s)))))))"
proof -
  obtain b where b: "attempt_from_snapshot sha256 s provider boot attempt n = Some (Inr b)"
    and t: "attempt_typed b" and m: "attempt_matches_snapshot sha256 b s"
    and f: "pl_boot_identity (ab_plan b) = boot" "ab_attempt_id b = attempt" "ab_restart_attempt b = n"
    and p: "rb_profile (pl_request (ab_plan b)) = profile_reference sha256 (snap_native_profile s)"
    by (rule attempt_from_snapshot_ok [OF assms])
  let ?o = "baseline_observation (snap_native_profile s)"
  have o: "?o \<noteq> UnmanagedStandardBackend" by (cases "snap_native_profile s") simp_all
  note c = checkpoint_observed_iff [of b ?o sha256, OF t o assms(3)]
  have fields: "fields_typed (snap_request s)" using assms(2) by (simp add: snapshot_typed_def)
  have request: "request_binding sha256 (snap_request s) = Inr (pl_request (ab_plan b))"
    "plan_matches_contract sha256 (ab_plan b) (snap_request s)"
    "authorized_profile (snap_request s) = profile_reference sha256 (snap_native_profile s)"
    using m snapshot_validate_iff [OF fields] assms(1) by (simp_all add: attempt_matches_snapshot_def)
  have accepted: "valid_native_terminal sha256 e (Some (snap_request s)) (snap_native_profile s) attempt n boot
      \<and> (\<exists>r. enforcement_resolution sha256 e = Some r \<and> matches_request sha256 r (request_report (Some (snap_request s))))"
    if r: "enforcement_retired sha256 b k preserved closed = Inr e"
      and k: "vc_controls k = ?o" "attempt_digest sha256 b = Inr (vc_attempt_binding k)"
        "checkpoint_digest sha256 (vc_attempt_binding k) ?o = Inr (vc_digest k)" for k e preserved closed
  proof -
    have e: "e = Authorized b k (TerminalRetired (vc_attempt_binding k) (vc_digest k) True True)"
      using r k by (auto simp: enforcement_retired_def split: if_splits)
    have "checkpoint_matches_binding sha256 k b"
      using k by (simp add: checkpoint_matches_binding_def p baseline_for_reference)
    then show ?thesis
      using k request f p
      by (simp add: e valid_native_terminal_def matches_terminal_request_def terminal_success_def
          enforcement_is_consistent_def enforcement_resolution_def baseline_for_reference baseline_reference_eq
          matches_request_def request_report_def)
  qed
  have retired: "(\<exists>e. enforcement_retired sha256 b k preserved closed = Inr e) \<longleftrightarrow> preserved \<and> closed"
    if "attempt_digest sha256 b = Inr (vc_attempt_binding k)" for k preserved closed
    using that by (auto simp: enforcement_retired_def)
  show ?thesis
  proof (intro exI [of _ b] conjI allI, rule b, rule m)
    fix gated caller resources guardian epoch durable preserved closed
    show "let observed = checkpoint_observed sha256 b ?o gated caller resources guardian epoch durable;
             retired = and_then observed (\<lambda>c. enforcement_retired sha256 b c preserved closed)
         in ((\<exists>c. observed = Inr c) \<longleftrightarrow> gated \<and> caller \<and> resources \<and> guardian \<and> epoch \<and> durable)
          \<and> ((\<exists>e. retired = Inr e) \<longleftrightarrow>
               gated \<and> caller \<and> resources \<and> guardian \<and> epoch \<and> durable \<and> preserved \<and> closed)
          \<and> (\<forall>e. retired = Inr e \<longrightarrow>
               valid_native_terminal sha256 e (Some (snap_request s)) (snap_native_profile s) attempt n boot
               \<and> (\<exists>r. enforcement_resolution sha256 e = Some r
                    \<and> matches_request sha256 r (request_report (Some (snap_request s)))))"
    proof (cases "checkpoint_observed sha256 b ?o gated caller resources guardian epoch durable")
      case (Inl err)
      then show ?thesis using c(1) [of gated caller resources guardian epoch durable] by auto
    next
      case (Inr k)
      note k = c(2) [OF Inr]
      show ?thesis
        using c(1) [of gated caller resources guardian epoch durable] retired [of k preserved closed] accepted [of k preserved closed] k Inr
        by auto
    qed
  qed
qed

text \<open>A snapshot of a valid request and the attempt it leads to.\<close>

definition example_snapshot :: runtime_admission_snapshot where
  "example_snapshot =
     \<lparr>snap_format = ''memcordon.local-admission'', snap_revision = 1,
      snap_request = example_request (\<lambda>_. replicate 32 0) [], snap_request_digest = replicate 32 0,
      snap_registry_digest = replicate 32 0, snap_admission_nonce = replicate 16 1,
      snap_caller_invocation_reference = replicate 16 2, snap_private_invocation_digest = replicate 32 0,
      snap_caller = LinuxCaller 1000, snap_native_profile = LinuxUnixCreate\<rparr>"

lemma example_snapshot_ok:
  "snapshot_typed example_snapshot" "snapshot_validate (\<lambda>_. replicate 32 0) example_snapshot = Some (Inr ())"
proof -
  have t: "fields_typed (snap_request example_snapshot)"
    using example_contract_typed baseline_name_ok [of LinuxUnixCreate]
    by (simp add: example_snapshot_def example_request_def contract_typed_def fields_typed_def profile_reference_def
        workload_limits)
  then show "snapshot_typed example_snapshot" by (simp add: snapshot_typed_def) (simp add: example_snapshot_def)
  have v: "validate_v1 (snap_request example_snapshot) = Inr ()"
    by (simp add: example_snapshot_def example_request_def validate_v1_def example_contract_def)
  then have "contract_valid (snap_request example_snapshot)" by (simp add: validate_v1_iff)
  then show "snapshot_validate (\<lambda>_. replicate 32 0) example_snapshot = Some (Inr ())"
    using encode_contract_bytes [OF t] unfolding snapshot_validate_iff [OF t]
    by (simp add: contract_digest_def) (simp add: example_snapshot_def example_request_def)
qed

definition example_provider :: public_provider_binding_v1 where
  "example_provider = \<lparr>pb_generation = ''g1'', pb_source_commit = replicate 40 (CHR ''a''),
     pb_runtime_manifest_sha256 = replicate 32 0\<rparr>"

lemma example_provider_ok: "provider_is_consistent example_provider" "provider_typed example_provider"
  by code_simp+

theorem retired_evidence_accepted_witness:
  "\<exists>b c e. attempt_from_snapshot (\<lambda>_. replicate 32 0) example_snapshot example_provider ''boot'' ''attempt'' 1 = Some (Inr b)
    \<and> checkpoint_observed (\<lambda>_. replicate 32 0) b LinuxUnixOnlySocketSyscallFilterAlternatePathsUnknown
        True True True True True True = Inr c
    \<and> enforcement_retired (\<lambda>_. replicate 32 0) b c True True = Inr e
    \<and> valid_native_terminal (\<lambda>_. replicate 32 0) e (Some (snap_request example_snapshot)) LinuxUnixCreate ''attempt'' 1 ''boot''"
proof -
  have x: "text_typed 128 ''boot''" "text_typed 128 ''attempt''" "''boot'' \<noteq> []" "''attempt'' \<noteq> []" by code_simp+
  have l: "length (replicate 32 0 :: u8 list) = 32" by simp
  from retired_evidence_accepted [of "\<lambda>_. replicate 32 0" example_snapshot example_provider "''boot''" "''attempt''" 1,
      OF example_snapshot_ok(2,1) l example_provider_ok x(1,3,2,4)]
  obtain b where b: "attempt_from_snapshot (\<lambda>_. replicate 32 0) example_snapshot example_provider ''boot'' ''attempt'' 1 = Some (Inr b)"
    and g: "\<exists>e. and_then (checkpoint_observed (\<lambda>_. replicate 32 0) b (baseline_observation (snap_native_profile example_snapshot))
        True True True True True True) (\<lambda>c. enforcement_retired (\<lambda>_. replicate 32 0) b c True True) = Inr e
      \<and> valid_native_terminal (\<lambda>_. replicate 32 0) e (Some (snap_request example_snapshot))
          (snap_native_profile example_snapshot) ''attempt'' 1 ''boot''"
    by - (elim exE conjE, (drule spec [of _ True])+, auto simp: Let_def)
  have "snap_native_profile example_snapshot = LinuxUnixCreate" by (simp add: example_snapshot_def)
  with b g show ?thesis by (auto simp: and_then_Inr_iff)
qed

theorem checkpoint_binds_attempt_witness:
  "\<exists>b c. attempt_typed b \<and> checkpoint_matches_binding (\<lambda>_. replicate 32 0) c b
    \<and> (\<forall>a. attempt_typed a \<and> attempt_image a = attempt_image b \<and> checkpoint_matches_binding (\<lambda>_. replicate 32 0) c a \<longrightarrow> a = b)"
proof -
  have x: "text_typed 128 ''boot''" "text_typed 128 ''attempt''" by code_simp+
  obtain b where b: "attempt_typed b"
    "rb_profile (pl_request (ab_plan b)) = profile_reference (\<lambda>_. replicate 32 0) (snap_native_profile example_snapshot)"
    by (rule attempt_from_snapshot_ok [of "\<lambda>_. replicate 32 0" example_snapshot example_provider "''boot''" "''attempt''",
        OF example_snapshot_ok(2,1) _ example_provider_ok x(1) _ x(2)]) simp_all
  let ?o = "LinuxUnixOnlySocketSyscallFilterAlternatePathsUnknown"
  obtain c where c: "checkpoint_observed (\<lambda>_. replicate 32 0) b ?o True True True True True True = Inr c"
    using checkpoint_observed_iff(1) [OF b(1), of ?o "\<lambda>_. replicate 32 0" True True True True True True] by auto
  have m: "checkpoint_matches_binding (\<lambda>_. replicate 32 0) c b"
    using checkpoint_observed_iff(2) [OF b(1) _ _ c] b(2)
    by (simp add: checkpoint_matches_binding_def baseline_for_reference example_snapshot_def)
  have "a = b" if "attempt_typed a" "attempt_image a = attempt_image b" "checkpoint_matches_binding (\<lambda>_. replicate 32 0) c a" for a
    using checkpoint_binds_attempt [OF that(1) b(1) that(3) m] that(2) attempt_encode_bytes [OF that(1)] attempt_encode_bytes [OF b(1)]
    by simp
  with b(1) m show ?thesis by blast
qed

end
