(* ===== verification/PolicyReport.thy ===== *)
theory PolicyReport
  imports CliPolicy BackendCapability WorkloadEvidence
begin

text \<open>
  The policy report that \<open>resolve\<close> assembles beside the supervisor request (\<open>policy_report\<close> and its helpers in
  \<open>memcordon-cli/src/commands/application.rs\<close>, the records of \<open>memcordon-core/src/report.rs\<close>): the requested and the effective
  policy and what became of every option. The state of a workload contract starts as unresolved; a panic there
  is \<open>None\<close>.
\<close>

subsection \<open>Records\<close>

datatype swap_report = BytesReport u64 | UnlimitedReport | HostReport

datatype option_effect_report =
    Applied string
  | Adjusted string string string string
  | Ignored string string string

record requested_memory_policy_report =
  rm_limit_bytes :: u64
  rm_enforcement :: string
  rm_metric :: string
  rm_poll_interval_ms :: u64
  rm_swap :: swap_report

record deadline_policy_report =
  dr_duration_ms :: u64
  dr_scope :: deadline_scope
  dr_origin :: "string option"
  dr_clock :: string

record backoff_policy_report =
  br_model :: string
  br_base_interval_ms :: u64
  br_multiplier_numerator :: u32
  br_multiplier_denominator :: u32
  br_asymptote_interval_ms :: u64
  br_recovery_half_life_ms :: u64
  br_quantization :: string

record circuit_breaker_policy_report =
  cr_threshold :: f64
  cr_half_life_ms :: u64
  cr_cooldown_ms :: u64

record requested_restart_policy_report =
  rr_enabled :: bool
  rr_enablement_source :: "string option"
  rr_configured_conditions :: restart_conditions
  rr_limit :: restart_limit
  rr_backoff :: "backoff_policy_report option"
  rr_circuit_breaker :: "circuit_breaker_policy_report option"

record requested_policy_report =
  rp_workload :: workload_request_report
  rp_boundary :: boundary_requirement
  rp_memory :: "requested_memory_policy_report option"
  rp_deadline :: "deadline_policy_report option"
  rp_wait_for :: string
  rp_signal_grace_ms :: u64
  rp_command_exit_grace_ms :: u64
  rp_limit_grace_ms :: u64
  rp_restart :: requested_restart_policy_report

record effective_memory_policy_report =
  em_limit_bytes :: u64
  em_enforcement :: string
  em_metric :: string
  em_poll_interval_ms :: "u64 option"
  em_swap :: "swap_report option"

record effective_restart_policy_report =
  er_enabled :: bool
  er_conditions :: restart_conditions
  er_dormant_conditions :: "dormant_restart_condition list"
  er_cleanup_proof_required :: bool

record effective_policy_report =
  ep_workload :: runtime_workload_resolution
  ep_boundary :: boundary_class
  ep_memory :: "effective_memory_policy_report option"
  ep_deadline :: "deadline_policy_report option"
  ep_wait_for :: string
  ep_signal_grace_ms :: u64
  ep_command_exit_grace_ms :: u64
  ep_limit_grace_ms :: u64
  ep_restart :: effective_restart_policy_report

record policy_envelope_report =
  pe_requested :: requested_policy_report
  pe_effective :: effective_policy_report
  pe_effects :: "option_effect_report list"

subsection \<open>Names\<close>

definition milliseconds :: "duration \<Rightarrow> u64" where
  "milliseconds d = unwrap_or (- 1) (unat_try_from (as_millis d))"

fun enforcement_name :: "enforcement \<Rightarrow> string" where
  "enforcement_name AutoEnforcement = ''auto''"
| "enforcement_name HardEnforcement = ''hard''"
| "enforcement_name WatchdogEnforcement = ''watchdog''"

fun wait_name :: "lifetime \<Rightarrow> string" where
  "wait_name CommandLifetime = ''command''"
| "wait_name WorkloadLifetime = ''workload''"

fun metric_name :: "metric \<Rightarrow> string" where
  "metric_name NativeMetric = ''native''"
| "metric_name PhysicalFootprint = ''physical-footprint''"
| "metric_name RssMetric = ''rss''"
| "metric_name VirtualMetric = ''virtual''"

fun swap_report_of :: "swap_policy \<Rightarrow> swap_report" where
  "swap_report_of (SwapBytes bytes) = BytesReport (byte_count bytes)"
| "swap_report_of SwapUnlimited = UnlimitedReport"
| "swap_report_of SwapHost = HostReport"

fun swap_name :: "swap_policy \<Rightarrow> string" where
  "swap_name (SwapBytes bytes) = show_nat (unat (byte_count bytes)) @ ''B''"
| "swap_name SwapUnlimited = ''unlimited''"
| "swap_name SwapHost = ''host''"

fun restart_condition_name :: "restart_condition \<Rightarrow> string" where
  "restart_condition_name MemoryLimit = ''memory-limit''"
| "restart_condition_name DeadlineCondition = ''deadline''"

definition backend_deadline_origin :: "string \<Rightarrow> string" where
  "backend_deadline_origin backend =
     (if backend = ''linux-cgroup-v2'' then ''installed-cli-release-byte''
      else if backend = ''windows-job-object'' then ''suspended-thread-resume''
      else if backend = ''macos-watchdog'' then ''before-helper-setup''
      else ''platform-authorization'')"

definition deadline_clock :: "string \<Rightarrow> string" where
  "deadline_clock backend =
     (if backend = ''macos-watchdog'' then ''darwin-continuous-nanoseconds-v1'' else ''rust-instant'')"

definition requested_deadline_clock :: "target_os \<Rightarrow> string" where
  "requested_deadline_clock os = (if os = MacosTarget then ''darwin-continuous-nanoseconds-v1'' else ''rust-instant'')"

definition uses_linux_cgroup_memory :: "string \<Rightarrow> bool" where
  "uses_linux_cgroup_memory backend \<longleftrightarrow> backend \<in> {''linux-cgroup-v2'', ''linux-sealed-provider''}"

text \<open>What \<open>{:?}\<close> prints of a scope.\<close>

fun scope_debug :: "deadline_scope \<Rightarrow> string" where
  "scope_debug Attempt = ''Attempt''"
| "scope_debug Supervision = ''Supervision''"

definition workload_restriction :: "string \<Rightarrow> boundary_requirement \<Rightarrow> baseline_restriction_observation_v1" where
  "workload_restriction backend boundary =
     (if boundary = Sealed \<and> backend = ''linux-sealed-provider'' then LinuxUnixOnlySocketSyscallFilterAlternatePathsUnknown
      else if boundary = Sealed \<and> backend = ''windows-sealed-provider'' then WindowsNetworkExternallyGoverned
      else UnmanagedStandardBackend)"

subsection \<open>The report\<close>

definition requested_report :: "target_os \<Rightarrow> policy_args \<Rightarrow> budget_set \<Rightarrow> restart_conditions \<Rightarrow> requested_policy_report" where
  "requested_report os p b configured =
     \<lparr>rp_workload = request_report (baseline_workload_contract p),
      rp_boundary = pa_boundary p,
      rp_memory = map_option (\<lambda>memory. \<lparr>rm_limit_bytes = byte_count memory, rm_enforcement = enforcement_name (pa_enforcement p),
          rm_metric = metric_name (pa_metric p), rm_poll_interval_ms = milliseconds (pa_poll_interval p),
          rm_swap = swap_report_of (pa_swap p)\<rparr>) (budget_memory b),
      rp_deadline = map_option (\<lambda>d. \<lparr>dr_duration_ms = milliseconds d, dr_scope = pa_deadline_scope p, dr_origin = None,
          dr_clock = requested_deadline_clock os\<rparr>) (budget_deadline b),
      rp_wait_for = wait_name (pa_wait_for p),
      rp_signal_grace_ms = milliseconds (pa_signal_grace p),
      rp_command_exit_grace_ms = milliseconds (pa_command_exit_grace p),
      rp_limit_grace_ms = milliseconds (pa_limit_grace p),
      rp_restart =
        \<lparr>rr_enabled = \<not> conditions_is_empty configured,
         rr_enablement_source = (if is_some (pa_restart_on p) then Some ''restart-on''
           else if pa_restart p then Some ''restart'' else None),
         rr_configured_conditions = configured,
         rr_limit = pa_restart_limit p,
         rr_backoff = (if conditions_is_empty configured then None
           else Some \<lparr>br_model = ''half-life-logistic-v1'', br_base_interval_ms = milliseconds (bp_base_interval (pa_backoff p)),
             br_multiplier_numerator = bm_numerator (bp_multiplier (pa_backoff p)),
             br_multiplier_denominator = bm_denominator (bp_multiplier (pa_backoff p)),
             br_asymptote_interval_ms = milliseconds (bp_asymptote_interval (pa_backoff p)),
             br_recovery_half_life_ms = milliseconds (bp_recovery_half_life (pa_backoff p)),
             br_quantization = ''ceil-whole-milliseconds''\<rparr>),
         rr_circuit_breaker = map_option (\<lambda>c. \<lparr>cr_threshold = cb_threshold c, cr_half_life_ms = milliseconds (cb_half_life c),
           cr_cooldown_ms = milliseconds (cb_cooldown c)\<rparr>) (pa_circuit_breaker p)\<rparr>\<rparr>"

definition effective_enforcement :: "backend_info \<Rightarrow> string" where
  "effective_enforcement backend = (if bi_hard_limit backend then ''hard'' else ''watchdog'')"

definition wait_is_ignored :: "run_policy \<Rightarrow> backend_info \<Rightarrow> bool" where
  "wait_is_ignored policy backend \<longleftrightarrow> bi_name backend = ''windows-job-object'' \<and> po_lifetime policy = WorkloadLifetime"

definition effective_metric :: "run_policy \<Rightarrow> backend_info \<Rightarrow> string" where
  "effective_metric policy backend =
     (if po_metric policy = NativeMetric \<or> bi_class backend \<noteq> ''watchdog'' then bi_metric backend
      else metric_name (po_metric policy))"

definition option_effects ::
  "policy_args \<Rightarrow> run_policy \<Rightarrow> backend_info \<Rightarrow> dormant_restart_condition list \<Rightarrow> option_effect_report list" where
  "option_effects p policy backend dormant =
     [if po_enforcement policy = AutoEnforcement
      then Adjusted ''enforcement'' ''auto'' (effective_enforcement backend) (''auto selected backend '' @ bi_name backend)
      else Applied ''enforcement'']
     @ [if wait_is_ignored policy backend
        then Ignored ''wait-for'' ''workload'' ''the Windows backend uses command-style completion''
        else Applied ''wait-for'']
     @ [if po_metric policy \<noteq> NativeMetric \<and> bi_class backend \<noteq> ''watchdog''
        then Ignored ''metric'' (metric_name (po_metric policy)) (bi_name backend @ '' uses its native kernel metric'')
        else Applied ''metric'']
     @ [Applied ''poll-interval'']
     @ (if ex_command_exit_grace (pa_explicit p) then [Applied ''command-exit-grace''] else [])
     @ (if uses_linux_cgroup_memory (bi_name backend) then [Applied ''swap'']
        else if is_some (po_memory policy)
        then [Ignored ''swap'' (swap_name (po_swap policy))
               (bi_name backend @ '' has no separately configurable swap policy'')]
        else [])
     @ (case po_deadline policy of
          None \<Rightarrow> []
        | Some d \<Rightarrow>
            [Applied ''deadline-scope'',
             Adjusted ''deadline-origin'' ''platform-authorization'' (backend_deadline_origin (bi_name backend))
               (if bi_name backend = ''macos-watchdog'' then ''the deadline clock starts before initial helper setup''
                else ''the '' @ scope_debug (dp_scope d) @ '' deadline clock starts at the backend authorization boundary'')])
     @ (if is_some (po_memory policy) \<or> is_some (po_deadline policy) then [Applied ''limit-grace''] else [])
     @ map (\<lambda>d. Ignored ''restart-on'' (restart_condition_name (dc_condition d)) (dc_reason d)) dormant"

definition effective_report ::
  "target_os \<Rightarrow> run_policy \<Rightarrow> backend_info \<Rightarrow> restart_conditions \<Rightarrow> restart_conditions \<Rightarrow> dormant_restart_condition list
   \<Rightarrow> runtime_workload_resolution \<Rightarrow> effective_policy_report" where
  "effective_report os policy backend configured effective dormant workload =
     \<lparr>ep_workload = workload,
      ep_boundary =
        (let class = bc_class (cap_boundary (capabilities_for os backend (po_boundary policy)))
         in if po_boundary policy = Sealed \<and> class \<noteq> SealedClass then UnavailableClass else class),
      ep_memory = map_option (\<lambda>memory. \<lparr>em_limit_bytes = byte_count memory, em_enforcement = effective_enforcement backend,
          em_metric = effective_metric policy backend, em_poll_interval_ms = Some (milliseconds (po_poll_interval policy)),
          em_swap = (if uses_linux_cgroup_memory (bi_name backend) then Some (swap_report_of (po_swap policy)) else None)\<rparr>)
        (po_memory policy),
      ep_deadline = map_option (\<lambda>d. \<lparr>dr_duration_ms = milliseconds (dp_duration d), dr_scope = dp_scope d,
          dr_origin = Some (backend_deadline_origin (bi_name backend)), dr_clock = deadline_clock (bi_name backend)\<rparr>)
        (po_deadline policy),
      ep_wait_for = (if wait_is_ignored policy backend then ''command'' else wait_name (po_lifetime policy)),
      ep_signal_grace_ms = milliseconds (po_signal_grace policy),
      ep_command_exit_grace_ms = milliseconds (po_command_exit_grace policy),
      ep_limit_grace_ms = milliseconds (po_limit_grace policy),
      ep_restart = \<lparr>er_enabled = \<not> conditions_is_empty configured, er_conditions = effective,
        er_dormant_conditions = dormant, er_cleanup_proof_required = \<not> conditions_is_empty configured\<rparr>\<rparr>"

definition policy_envelope ::
  "target_os \<Rightarrow> policy_args \<Rightarrow> budget_set \<Rightarrow> run_policy \<Rightarrow> backend_info \<Rightarrow> restart_conditions \<Rightarrow> restart_conditions
   \<Rightarrow> dormant_restart_condition list \<Rightarrow> runtime_workload_resolution \<Rightarrow> policy_envelope_report" where
  "policy_envelope os p b policy backend configured effective dormant workload =
     \<lparr>pe_requested = requested_report os p b configured,
      pe_effective = effective_report os policy backend configured effective dormant workload,
      pe_effects = option_effects p policy backend dormant\<rparr>"

definition policy_report ::
  "target_os \<Rightarrow> (u8 list \<Rightarrow> u8 list) \<Rightarrow> policy_args \<Rightarrow> budget_set \<Rightarrow> run_policy \<Rightarrow> backend_info \<Rightarrow> restart_conditions
   \<Rightarrow> restart_conditions \<Rightarrow> dormant_restart_condition list \<Rightarrow> policy_envelope_report option" where
  "policy_report os sha256 p b policy backend configured effective dormant =
     map_option (policy_envelope os p b policy backend configured effective dormant)
       (unresolved sha256 (po_workload_contract policy) (workload_restriction (bi_name backend) (po_boundary policy)))"

text \<open>Asking the provider for a plan is the parameter \<open>provider\<close>, which has an answer or fails; there is one only on Linux and
  Windows.\<close>

definition workload_plan ::
  "target_os \<Rightarrow> (workload_contract_v1 \<Rightarrow> runtime_workload_resolution option) \<Rightarrow> workload_contract_v1
   \<Rightarrow> runtime_workload_resolution option" where
  "workload_plan os provider contract = (if os = LinuxTarget \<or> os = WindowsTarget then provider contract else None)"

text \<open>The report with the answer of the provider. The binding of the request is made only when there is none.\<close>

definition planned_report ::
  "(u8 list \<Rightarrow> u8 list) \<Rightarrow> (workload_contract_v1 \<Rightarrow> runtime_workload_resolution option) \<Rightarrow> run_policy
   \<Rightarrow> policy_envelope_report \<Rightarrow> policy_envelope_report option" where
  "planned_report sha256 plan policy report =
     (case po_workload_contract policy of
        None \<Rightarrow> Some report
      | Some contract \<Rightarrow>
          map_option (\<lambda>workload. report\<lparr>pe_effective := (pe_effective report)\<lparr>ep_workload := workload\<rparr>\<rparr>)
            (case plan contract of
               Some planned \<Rightarrow> Some planned
             | None \<Rightarrow>
                 (case request_binding sha256 contract of
                    Inl _ \<Rightarrow> None
                  | Inr request \<Rightarrow> Some (UnavailableResolution (Some request) ProviderUnavailable NotAuthorizedKnown))))"

subsection \<open>What is reported\<close>

lemma request_binding_total:
  assumes "fields_typed c" and "validate_v1 c = Inr ()"
  obtains request where "request_binding sha256 c = Inr request"
  using encode_contract_bytes [OF assms(1)] assms(2) by (simp add: request_binding_def contract_digest_def validate_v1_iff)

text \<open>What the report says of the workload contract.\<close>

definition workload_reported ::
  "(u8 list \<Rightarrow> u8 list) \<Rightarrow> (workload_contract_v1 \<Rightarrow> runtime_workload_resolution option) \<Rightarrow> workload_contract_v1 option
   \<Rightarrow> baseline_restriction_observation_v1 \<Rightarrow> runtime_workload_resolution \<Rightarrow> bool" where
  "workload_reported sha256 plan contract restriction workload =
     (case contract of
        None \<Rightarrow> workload = LegacyResolution restriction
      | Some c \<Rightarrow>
          (case plan c of
             Some planned \<Rightarrow> workload = planned
           | None \<Rightarrow>
               (case request_binding sha256 c of
                  Inl _ \<Rightarrow> False
                | Inr request \<Rightarrow> workload = UnavailableResolution (Some request) ProviderUnavailable NotAuthorizedKnown)))"

lemma policy_envelope_workload:
  "(policy_envelope os p b policy backend configured effective dormant w)\<lparr>pe_effective :=
      (pe_effective (policy_envelope os p b policy backend configured effective dormant w))\<lparr>ep_workload := workload\<rparr>\<rparr>
    = policy_envelope os p b policy backend configured effective dormant workload"
  by (simp add: policy_envelope_def effective_report_def)

lemma policy_envelope_sel:
  fixes os p b policy backend configured effective dormant workload
  defines "r \<equiv> policy_envelope os p b policy backend configured effective dormant workload"
  shows "rp_boundary (pe_requested r) = pa_boundary p"
    and "rp_workload (pe_requested r) = request_report (baseline_workload_contract p)"
    and "ep_workload (pe_effective r) = workload"
    and "ep_restart (pe_effective r) = \<lparr>er_enabled = \<not> conditions_is_empty configured, er_conditions = effective,
           er_dormant_conditions = dormant, er_cleanup_proof_required = \<not> conditions_is_empty configured\<rparr>"
    and "po_boundary policy = Sealed \<longrightarrow> bc_class (boundary_for backend Sealed) = SealedClass \<Longrightarrow>
           ep_boundary (pe_effective r) = bc_class (boundary_for backend (po_boundary policy))"
  by (auto simp: r_def policy_envelope_def requested_report_def effective_report_def capabilities_for_def Let_def)

lemma policy_report_total:
  assumes "\<And>c. po_workload_contract policy = Some c \<Longrightarrow> fields_typed c \<and> validate_v1 c = Inr ()"
  obtains workload where
    "Option.bind (policy_report os sha256 p b policy backend configured effective dormant) (planned_report sha256 plan policy)
      = Some (policy_envelope os p b policy backend configured effective dormant workload)"
    "workload_reported sha256 plan (po_workload_contract policy)
       (workload_restriction (bi_name backend) (po_boundary policy)) workload"
proof (cases "po_workload_contract policy")
  case None
  show ?thesis
    by (rule that) (simp_all add: policy_report_def planned_report_def unresolved_def workload_reported_def None)
next
  case (Some c)
  obtain request where r: "request_binding sha256 c = Inr request"
    using assms [OF Some] by (blast elim: request_binding_total)
  show ?thesis
  proof (cases "plan c")
    case None
    show ?thesis
      by (rule that) (simp_all add: policy_report_def planned_report_def unresolved_def workload_reported_def
          Some None r policy_envelope_workload)
  next
    case (Some planned)
    show ?thesis
      by (rule that) (simp_all add: policy_report_def planned_report_def unresolved_def workload_reported_def
          \<open>po_workload_contract policy = Some c\<close> Some r policy_envelope_workload)
  qed
qed

end
