(* ===== verification/CliResolve.thy ===== *)
theory CliResolve
  imports PolicyReport
begin

text \<open>
  From accepted arguments to a supervision request: \<open>resolve\<close> of \<open>memcordon-cli/src/commands/application.rs\<close>, the restart
  policies of the library facade (\<open>memcordon-cli/src/lib.rs\<close>) and the checks the supervisor makes before the first
  attempt (\<open>memcordon-platform/src/supervisor.rs\<close>). Errors are their stable codes, a panic is \<open>None\<close>; the answer of
  a sealed provider to a plan request is a parameter.
\<close>

subsection \<open>Restart policies\<close>

definition add_condition :: "restart_conditions \<Rightarrow> restart_condition \<Rightarrow> restart_conditions" where
  "add_condition conditions condition =
     (if conditions = conditions_none \<and> condition = MemoryLimit then conditions_memory_limit
      else if conditions = conditions_none \<and> condition = DeadlineCondition then conditions_deadline
      else if conditions = conditions_memory_limit \<and> condition = DeadlineCondition
        \<or> conditions = conditions_deadline \<and> condition = MemoryLimit then conditions_both
      else conditions)"

text \<open>\<open>resolve_restart_policy\<close> of the facade: only conditions that the policy can meet stay effective.\<close>

definition policy_condition :: "run_policy \<Rightarrow> restart_settings \<Rightarrow> restart_condition \<Rightarrow> bool" where
  "policy_condition policy settings condition =
     (conditions_contains (rs_configured_conditions settings) condition
      \<and> (case condition of
           MemoryLimit \<Rightarrow> is_some (po_memory policy)
         | DeadlineCondition \<Rightarrow> is_some_and (\<lambda>d. dp_scope d = Attempt) (po_deadline policy)))"

definition resolve_restart_policy ::
  "(f64 \<Rightarrow> f64) \<Rightarrow> run_policy \<Rightarrow> restart_policy \<Rightarrow> cli_error + restart_policy" where
  "resolve_restart_policy exp2 policy restart =
     (case restart of
        Never \<Rightarrow> Inr Never
      | OnLimits settings \<Rightarrow>
          (let effective =
             (case (policy_condition policy settings MemoryLimit, policy_condition policy settings DeadlineCondition) of
                (True, True) \<Rightarrow> conditions_both
              | (True, False) \<Rightarrow> conditions_memory_limit
              | (False, True) \<Rightarrow> conditions_deadline
              | (False, False) \<Rightarrow> conditions_none)
           in if conditions_is_empty effective then Inl ''MCUSAGE-RESTART-NO-EFFECTIVE-CONDITION''
              else (let dormant =
                      map (\<lambda>condition. \<lparr>dc_condition = condition,
                           dc_reason = (case condition of
                              MemoryLimit \<Rightarrow> ''no memory budget was configured''
                            | DeadlineCondition \<Rightarrow> ''no attempt-scoped deadline was configured'')\<rparr>)
                        (filter (\<lambda>condition. conditions_contains (rs_configured_conditions settings) condition
                             \<and> \<not> conditions_contains effective condition) [MemoryLimit, DeadlineCondition])
                    in map_sum (\<lambda>_. ''MCUSAGE-RESTART'') OnLimits
                         (settings_new exp2 (rs_configured_conditions settings) effective dormant
                            (rs_limit settings) (rs_backoff settings) (rs_circuit_breaker settings)))))"

text \<open>The builder of the facade. A panic of the constructor is \<open>None\<close>.\<close>

definition default_restart_settings :: "(f64 \<Rightarrow> f64) \<Rightarrow> restart_conditions \<Rightarrow> restart_settings option" where
  "default_restart_settings exp2 conditions =
     (case settings_new exp2 conditions conditions [] Unlimited backoff_policy_default None of
        Inr settings \<Rightarrow> Some settings | Inl _ \<Rightarrow> None)"

definition rebuild_settings ::
  "(f64 \<Rightarrow> f64) \<Rightarrow> restart_settings \<Rightarrow> restart_limit option \<Rightarrow> backoff_policy option
   \<Rightarrow> circuit_breaker_policy option option \<Rightarrow> restart_settings option" where
  "rebuild_settings exp2 settings limit backoff circuit =
     (case settings_new exp2 (rs_configured_conditions settings) (rs_effective_conditions settings)
          (rs_dormant_conditions settings) (unwrap_or (rs_limit settings) limit)
          (unwrap_or (rs_backoff settings) backoff) (unwrap_or (rs_circuit_breaker settings) circuit) of
        Inr settings' \<Rightarrow> Some settings' | Inl _ \<Rightarrow> None)"

text \<open>\<open>Supervisor::restart_limit\<close>, \<open>half_life_logistic_backoff\<close> and \<open>circuit_breaker\<close> change the settings there are, or the default
  ones for both conditions.\<close>

definition supervisor_rebuild ::
  "(f64 \<Rightarrow> f64) \<Rightarrow> restart_limit option \<Rightarrow> backoff_policy option \<Rightarrow> circuit_breaker_policy option option
   \<Rightarrow> restart_policy \<Rightarrow> restart_policy option" where
  "supervisor_rebuild exp2 limit backoff circuit restart =
     map_option OnLimits
       (case restart of
          OnLimits settings \<Rightarrow> rebuild_settings exp2 settings limit backoff circuit
        | Never \<Rightarrow> Option.bind (default_restart_settings exp2 conditions_both) (\<lambda>settings.
            rebuild_settings exp2 settings limit backoff circuit))"

datatype builder_call =
    RestartCall
  | RestartOnCall restart_conditions
  | RestartLimitCall restart_limit
  | BackoffCall backoff_policy
  | CircuitBreakerCall circuit_breaker_policy

definition supervisor_builder :: "(f64 \<Rightarrow> f64) \<Rightarrow> builder_call \<Rightarrow> restart_policy \<Rightarrow> restart_policy option" where
  "supervisor_builder exp2 call restart =
     (case call of
        RestartCall \<Rightarrow> map_option OnLimits (default_restart_settings exp2 conditions_both)
      | RestartOnCall conditions \<Rightarrow> map_option OnLimits (default_restart_settings exp2 conditions)
      | RestartLimitCall limit \<Rightarrow> supervisor_rebuild exp2 (Some limit) None None restart
      | BackoffCall backoff \<Rightarrow> supervisor_rebuild exp2 None (Some backoff) None restart
      | CircuitBreakerCall circuit \<Rightarrow> supervisor_rebuild exp2 None None (Some (Some circuit)) restart)"

subsection \<open>Resolution of an invocation\<close>

definition configured_conditions :: "policy_args \<Rightarrow> restart_conditions" where
  "configured_conditions p =
     (if pa_restart p \<or> is_some (pa_restart_on p) then unwrap_or conditions_both (pa_restart_on p)
      else conditions_none)"

definition condition_is_active ::
  "backend_capability_report \<Rightarrow> policy_args \<Rightarrow> budget_set \<Rightarrow> restart_condition \<Rightarrow> bool" where
  "condition_is_active capability p b condition =
     (case condition of
        MemoryLimit \<Rightarrow> is_some (budget_memory b) \<and> conditions_contains (cap_restart_conditions capability) condition
      | DeadlineCondition \<Rightarrow> is_some (budget_deadline b) \<and> pa_deadline_scope p = Attempt
          \<and> conditions_contains (cap_restart_conditions capability) condition)"

fun split_conditions ::
  "backend_capability_report \<Rightarrow> policy_args \<Rightarrow> budget_set \<Rightarrow> restart_condition list
   \<Rightarrow> restart_conditions \<times> dormant_restart_condition list \<Rightarrow> restart_conditions \<times> dormant_restart_condition list" where
  "split_conditions capability p b [] acc = acc"
| "split_conditions capability p b (condition # rest) (effective, dormant) =
     split_conditions capability p b rest
       (if \<not> conditions_contains (configured_conditions p) condition then (effective, dormant)
        else if condition_is_active capability p b condition then (add_condition effective condition, dormant)
        else (effective, dormant @ [\<lparr>dc_condition = condition,
               dc_reason = (case condition of
                  MemoryLimit \<Rightarrow> ''no effective memory-limit condition''
                | DeadlineCondition \<Rightarrow> ''deadline is absent, supervision-scoped, or unsupported'')\<rparr>]))"

definition requested_restart ::
  "(f64 \<Rightarrow> f64) \<Rightarrow> backend_capability_report \<Rightarrow> policy_args \<Rightarrow> budget_set \<Rightarrow> cli_error + restart_policy" where
  "requested_restart exp2 capability p b =
     (if conditions_is_empty (configured_conditions p) then Inr Never
      else (case split_conditions capability p b [MemoryLimit, DeadlineCondition] (conditions_none, []) of
              (effective, dormant) \<Rightarrow>
                map_sum (\<lambda>_. ''MCUSAGE-RESTART'') OnLimits
                  (settings_new exp2 (configured_conditions p) effective dormant
                     (pa_restart_limit p) (pa_backoff p) (pa_circuit_breaker p))))"

record resolution =
  re_backend :: backend_capability_report
  re_policy :: run_policy
  re_restart :: restart_policy
  re_report :: policy_envelope_report

definition resolved_capability :: "target_os \<Rightarrow> backend_info \<Rightarrow> run_policy \<Rightarrow> backend_capability_report" where
  "resolved_capability os backend policy =
     (let capability = capabilities_for os backend (po_boundary policy)
      in if is_some (po_private_workload_contract policy)
         then capability\<lparr>cap_boundary := (cap_boundary capability)\<lparr>bc_mechanism := ''linux-tcp4-private-v1''\<rparr>\<rparr>
         else capability)"

text \<open>The policy, the backend and the restart policy, with every check of \<open>resolve\<close>.\<close>

definition resolve_selection ::
  "target_os \<Rightarrow> (f64 \<Rightarrow> f64) \<Rightarrow> probe_report \<Rightarrow> policy_args \<Rightarrow> budget_set \<Rightarrow> (cli_error + run_policy \<times> backend_info \<times> restart_policy) option" where
  "resolve_selection os exp2 probe p b =
     (case args_policy p b of
        None \<Rightarrow> None
      | Some policy \<Rightarrow> Some (
          and_then (case private_workload_contract p of
              Some contract \<Rightarrow> map_sum (\<lambda>_. ''MCUSAGE-WORKLOAD-CONTRACT'') id (with_private_workload_contract policy contract)
            | None \<Rightarrow> Inr policy) (\<lambda>policy.
          if is_some (po_workload_contract policy) \<and> po_boundary policy \<noteq> Sealed then Inl ''MCUSAGE-WORKLOAD-BOUNDARY''
          else and_then (ok_or (if po_boundary policy = Sealed then ''MCBOUNDARY-UNSUPPORTED'' else ''MCUNSUPPORTED-BACKEND'')
              (selected_for probe (po_boundary policy))) (\<lambda>backend.
            let capability = resolved_capability os backend policy
            in if po_boundary policy = Sealed \<and> bc_class (cap_boundary capability) \<noteq> SealedClass
               then Inl ''MCBOUNDARY-UNSUPPORTED''
               else if po_enforcement policy = HardEnforcement \<and> \<not> bi_hard_limit backend then Inl ''MCUNSUPPORTED-HARD''
               else if po_enforcement policy = WatchdogEnforcement \<and> bi_class backend \<noteq> ''watchdog''
               then Inl ''MCUNSUPPORTED-WATCHDOG''
               else and_then (requested_restart exp2 capability p b) (\<lambda>restart.
                    and_then (resolve_restart_policy exp2 policy restart) (\<lambda>restart.
                    Inr (policy, backend, restart)))))))"

text \<open>The whole of \<open>resolve\<close>: the report follows, in which the provider is asked about a contract of the first version.\<close>

definition resolve_invocation ::
  "target_os \<Rightarrow> (f64 \<Rightarrow> f64) \<Rightarrow> (u8 list \<Rightarrow> u8 list) \<Rightarrow> (workload_contract_v1 \<Rightarrow> runtime_workload_resolution option)
   \<Rightarrow> probe_report \<Rightarrow> policy_args \<Rightarrow> budget_set \<Rightarrow> (cli_error + resolution) option" where
  "resolve_invocation os exp2 sha256 provider probe p b =
     (case resolve_selection os exp2 probe p b of
        None \<Rightarrow> None
      | Some (Inl code) \<Rightarrow> Some (Inl code)
      | Some (Inr (policy, backend, restart)) \<Rightarrow>
          (let capability = resolved_capability os backend policy
           in case split_conditions capability p b [MemoryLimit, DeadlineCondition] (conditions_none, []) of
                (effective, dormant) \<Rightarrow>
                  map_option (\<lambda>report. Inr \<lparr>re_backend = capability, re_policy = policy, re_restart = restart, re_report = report\<rparr>)
                    (Option.bind (policy_report os sha256 p b policy backend (configured_conditions p) effective dormant)
                       (planned_report sha256 (workload_plan os provider) policy))))"

subsection \<open>The checks of the supervisor\<close>

record supervisor_request =
  rq_policy :: run_policy
  rq_restart :: restart_policy
  rq_command :: "os_string list"
  rq_memcordon_executable :: "os_string option"
  rq_resolved_backend :: "backend_capability_report option"

definition validate_resolved_backend :: "supervisor_request \<Rightarrow> cli_error + backend_capability_report option" where
  "validate_resolved_backend request =
     (let boundary = po_boundary (rq_policy request)
      in if is_some (po_workload_contract (rq_policy request)) \<and> boundary \<noteq> Sealed
         then Inl ''MCWORKLOAD-SEALED-REQUIRED''
         else (case rq_resolved_backend request of
                 None \<Rightarrow> if boundary \<noteq> Sealed then Inr None else Inl ''MCBOUNDARY-UNSUPPORTED''
               | Some backend \<Rightarrow>
                   (let expected = (case boundary of Standard \<Rightarrow> StandardClass | Sealed \<Rightarrow> SealedClass)
                    in if cap_name backend = [] \<or> bc_class (cap_boundary backend) \<noteq> expected
                       then Inl ''MCBACKEND-SELECTION-MISMATCH''
                       else Inr (Some backend))))"

text \<open>Which backend a Linux attempt is given to, and with which policy.\<close>

datatype attempt_route =
    PrivateProviderRoute run_policy workload_contract_v2
  | SealedProviderRoute run_policy
  | StandardRoute run_policy os_string

definition linux_attempt_route :: "supervisor_request \<Rightarrow> cli_error + attempt_route" where
  "linux_attempt_route request =
     (if po_boundary (rq_policy request) = Sealed
      then Inr (case po_private_workload_contract (rq_policy request) of
             Some contract \<Rightarrow> PrivateProviderRoute (rq_policy request) contract
           | None \<Rightarrow> SealedProviderRoute (rq_policy request))
      else and_then (ok_or ''MCUSAGE-MEMCORDON-EXECUTABLE'' (rq_memcordon_executable request)) (\<lambda>helper.
           Inr (StandardRoute (rq_policy request) helper)))"

definition execution_request :: "resolution \<Rightarrow> os_string list \<Rightarrow> os_string option \<Rightarrow> supervisor_request" where
  "execution_request r command helper =
     \<lparr>rq_policy = re_policy r, rq_restart = re_restart r, rq_command = command,
      rq_memcordon_executable = helper, rq_resolved_backend = Some (re_backend r)\<rparr>"

text \<open>What \<open>execute\<close> does up to the supervisor, on a target other than macOS. A contract of the second version needs the named
  report format and a Linux build with the feature \<open>private-tcp\<close>. The parameter \<open>executable\<close> is what the system answers for the
  path of the running program, which is only asked on Linux. A run without a command panics.\<close>

definition execute_guard :: "target_os \<Rightarrow> bool \<Rightarrow> execution_args \<Rightarrow> cli_error + unit" where
  "execute_guard os private_tcp e =
     (if is_some (private_workload_contract (ea_policy e))
         \<and> (out_report_format (ea_output e) \<noteq> ResultV1Report \<or> \<not> (os = LinuxTarget \<and> private_tcp))
      then Inl ''MCWORKLOAD-PRIVATE-UNAVAILABLE'' else Inr ())"

definition helper_path :: "target_os \<Rightarrow> os_string option \<Rightarrow> cli_error + os_string option" where
  "helper_path os executable =
     (if os = LinuxTarget then map_sum id Some (ok_or ''MCSETUP-MEMCORDON-EXECUTABLE'' executable) else Inr None)"

definition execute_request ::
  "target_os \<Rightarrow> bool \<Rightarrow> os_string option \<Rightarrow> (f64 \<Rightarrow> f64) \<Rightarrow> (u8 list \<Rightarrow> u8 list)
   \<Rightarrow> (workload_contract_v1 \<Rightarrow> runtime_workload_resolution option) \<Rightarrow> probe_report \<Rightarrow> execution_args
   \<Rightarrow> (cli_error + supervisor_request) option" where
  "execute_request os private_tcp executable exp2 sha256 provider probe e =
     (if ea_command e = [] then None
      else case execute_guard os private_tcp e of
             Inl code \<Rightarrow> Some (Inl code)
           | Inr _ \<Rightarrow> map_option (\<lambda>resolved.
               and_then resolved (\<lambda>r. and_then (helper_path os executable) (\<lambda>helper.
                 Inr (execution_request r (ea_command e) helper))))
               (resolve_invocation os exp2 sha256 provider probe (ea_policy e) (ea_budgets e)))"

subsection \<open>Restart settings of accepted arguments\<close>

definition effective_of :: "bool \<Rightarrow> bool \<Rightarrow> restart_conditions" where
  "effective_of m d = (if m then if d then conditions_both else conditions_memory_limit
     else if d then conditions_deadline else conditions_none)"

definition dormant_of :: "restart_conditions \<Rightarrow> restart_conditions \<Rightarrow> (restart_condition \<Rightarrow> string) \<Rightarrow> dormant_restart_condition list" where
  "dormant_of configured effective reason =
     map (\<lambda>c. \<lparr>dc_condition = c, dc_reason = reason c\<rparr>)
       (filter (\<lambda>c. conditions_contains configured c \<and> \<not> conditions_contains effective c) [MemoryLimit, DeadlineCondition])"

lemma contains_effective [simp]:
  "conditions_contains (effective_of m d) c \<longleftrightarrow> (case c of MemoryLimit \<Rightarrow> m | DeadlineCondition \<Rightarrow> d)"
  by (cases c) (simp_all add: effective_of_def)

lemma conditions_none_distinct [simp]:
  "conditions_memory_limit \<noteq> conditions_none" "conditions_deadline \<noteq> conditions_none" "conditions_both \<noteq> conditions_none"
  by (simp_all add: conditions_memory_limit_def conditions_deadline_def conditions_both_def conditions_none_def)

lemma effective_of_wf: "conditions_wf (effective_of m d)"
  by (simp add: effective_of_def conditions_wf_def conditions_both_def conditions_memory_limit_def
      conditions_deadline_def conditions_none_def)

lemma effective_of_empty [simp]: "conditions_is_empty (effective_of m d) \<longleftrightarrow> \<not> m \<and> \<not> d"
  by (simp add: effective_of_def conditions_is_empty_def conditions_both_def conditions_memory_limit_def
      conditions_deadline_def conditions_none_def)

lemma all_restart_condition: "(\<forall>c. P c) \<longleftrightarrow> P MemoryLimit \<and> P DeadlineCondition"
  by (metis restart_condition.exhaust)

lemma settings_new_effective:
  assumes "conditions_wf configured" and "m \<Longrightarrow> conditions_contains configured MemoryLimit"
    and "d \<Longrightarrow> conditions_contains configured DeadlineCondition" and "m \<or> d"
    and "\<And>c. reason c \<noteq> []" and "backoff_proper backoff" and "is_none_or circuit_policy_ok circuit"
  shows "settings_new exp2 configured (effective_of m d) (dormant_of configured (effective_of m d) reason) limit backoff circuit
    = Inr \<lparr>rs_configured_conditions = configured, rs_effective_conditions = effective_of m d,
        rs_dormant_conditions = dormant_of configured (effective_of m d) reason, rs_limit = limit,
        rs_backoff = backoff, rs_circuit_breaker = circuit\<rparr>" (is "_ = Inr ?s")
proof -
  have "settings_validate exp2 ?s = Inr ()"
    using assms by (subst settings_validate_iff)
      (auto simp: effective_of_wf dormant_of_def all_restart_condition ex_restart_condition set_eq_iff subset_iff
        backoff_proper_def is_none_or_iff split: restart_condition.splits)
  then show ?thesis by (simp add: settings_new_def Let_def)
qed

definition resolved_settings :: "policy_args \<Rightarrow> budget_set \<Rightarrow> (restart_condition \<Rightarrow> string) \<Rightarrow> restart_settings" where
  "resolved_settings p b reason =
     (let configured = requested_conditions p;
          effective = effective_of
            (conditions_contains configured MemoryLimit \<and> condition_active p b MemoryLimit)
            (conditions_contains configured DeadlineCondition \<and> condition_active p b DeadlineCondition)
      in \<lparr>rs_configured_conditions = configured, rs_effective_conditions = effective,
          rs_dormant_conditions = dormant_of configured effective reason, rs_limit = pa_restart_limit p,
          rs_backoff = pa_backoff p, rs_circuit_breaker = pa_circuit_breaker p\<rparr>)"

lemma split_conditions_eq:
  assumes "cap_restart_conditions capability = conditions_both" and "configured_conditions p = requested_conditions p"
  shows "split_conditions capability p b [MemoryLimit, DeadlineCondition] (conditions_none, [])
    = (rs_effective_conditions (resolved_settings p b reason),
       rs_dormant_conditions (resolved_settings p b (\<lambda>c. case c of
          MemoryLimit \<Rightarrow> ''no effective memory-limit condition''
        | DeadlineCondition \<Rightarrow> ''deadline is absent, supervision-scoped, or unsupported'')))"
  using assms
  by (auto simp: resolved_settings_def Let_def dormant_of_def condition_is_active_def condition_active_def
      effective_of_def add_condition_def)

lemma accepted_conditions:
  assumes "accepted_args p b"
  shows "conditions_wf (requested_conditions p)" "\<not> conditions_is_empty (requested_conditions p)"
    "configured_conditions p = (if restart_requested p then requested_conditions p else conditions_none)"
    "restart_requested p \<Longrightarrow> conditions_contains (requested_conditions p) MemoryLimit \<and> condition_active p b MemoryLimit
       \<or> conditions_contains (requested_conditions p) DeadlineCondition \<and> condition_active p b DeadlineCondition"
proof -
  have "requested_conditions p \<in> {conditions_both, conditions_memory_limit, conditions_deadline}"
    using assms by (auto simp: accepted_args_def parse_invariant_def option_ranges_def requested_conditions_def split: option.splits)
  then show "conditions_wf (requested_conditions p)" "\<not> conditions_is_empty (requested_conditions p)"
    by (auto simp: conditions_wf_def conditions_is_empty_def conditions_both_def conditions_memory_limit_def conditions_deadline_def)
  show "configured_conditions p = (if restart_requested p then requested_conditions p else conditions_none)"
    by (simp add: configured_conditions_def restart_requested_def requested_conditions_def unwrap_or_def)
  show "conditions_contains (requested_conditions p) MemoryLimit \<and> condition_active p b MemoryLimit
       \<or> conditions_contains (requested_conditions p) DeadlineCondition \<and> condition_active p b DeadlineCondition"
    if "restart_requested p"
    using assms that by (auto simp: accepted_args_def dependencies_ok_def Let_def ex_restart_condition)
qed

lemma accepted_backoff: "accepted_args p b \<Longrightarrow> backoff_proper (pa_backoff p)"
  unfolding accepted_args_def by blast

lemma resolved_settings_new:
  assumes "accepted_args p b" and "restart_requested p" and "\<And>c. reason c \<noteq> []"
  shows "settings_new exp2 (requested_conditions p) (rs_effective_conditions (resolved_settings p b reason'))
      (rs_dormant_conditions (resolved_settings p b reason)) (pa_restart_limit p) (pa_backoff p) (pa_circuit_breaker p)
    = Inr (resolved_settings p b reason)"
proof -
  note facts = accepted_conditions [OF assms(1)]
  have "backoff_proper (pa_backoff p)" "is_none_or circuit_policy_ok (pa_circuit_breaker p)"
    using assms(1) unfolding accepted_args_def by blast+
  from settings_new_effective [OF facts(1) _ _ facts(4) [OF assms(2)] assms(3) this] show ?thesis
    by (simp add: resolved_settings_def Let_def)
qed

lemma requested_restart_accepted:
  assumes "accepted_args p b" and "cap_restart_conditions capability = conditions_both"
  shows "requested_restart exp2 capability p b =
    Inr (if restart_requested p then OnLimits (resolved_settings p b (\<lambda>c. case c of
          MemoryLimit \<Rightarrow> ''no effective memory-limit condition''
        | DeadlineCondition \<Rightarrow> ''deadline is absent, supervision-scoped, or unsupported'')) else Never)"
proof (cases "restart_requested p")
  case False
  then show ?thesis
    by (simp add: requested_restart_def accepted_conditions(3) [OF assms(1)] conditions_is_empty_def conditions_none_def)
next
  case True
  let ?reason = "\<lambda>c. case c of MemoryLimit \<Rightarrow> ''no effective memory-limit condition''
        | DeadlineCondition \<Rightarrow> ''deadline is absent, supervision-scoped, or unsupported''"
  have c: "configured_conditions p = requested_conditions p" "\<not> conditions_is_empty (requested_conditions p)"
    using True accepted_conditions(2,3) [OF assms(1)] by simp_all
  have "settings_new exp2 (requested_conditions p) (rs_effective_conditions (resolved_settings p b ?reason))
      (rs_dormant_conditions (resolved_settings p b ?reason)) (pa_restart_limit p) (pa_backoff p) (pa_circuit_breaker p)
    = Inr (resolved_settings p b ?reason)"
    by (rule resolved_settings_new [OF assms(1) True]) (simp split: restart_condition.split)
  then show ?thesis
    unfolding requested_restart_def split_conditions_eq [OF assms(2) c(1), of b ?reason] prod.case c(1)
    using True c(2) by simp
qed

text \<open>The settings that reach the supervisor.\<close>

definition resolved_restart :: "policy_args \<Rightarrow> budget_set \<Rightarrow> restart_policy" where
  "resolved_restart p b =
     (if restart_requested p
      then OnLimits (resolved_settings p b (\<lambda>c. case c of
          MemoryLimit \<Rightarrow> ''no memory budget was configured''
        | DeadlineCondition \<Rightarrow> ''no attempt-scoped deadline was configured''))
      else Never)"

lemma resolve_restart_policy_accepted:
  assumes "accepted_args p b" and "po_memory policy = budget_memory b"
    and "po_deadline policy = map_option (\<lambda>d. \<lparr>dp_duration = d, dp_scope = pa_deadline_scope p\<rparr>) (budget_deadline b)"
  shows "resolve_restart_policy exp2 policy
      (if restart_requested p then OnLimits (resolved_settings p b reason) else Never) = Inr (resolved_restart p b)"
proof (cases "restart_requested p")
  case False
  then show ?thesis by (simp add: resolve_restart_policy_def resolved_restart_def)
next
  case True
  let ?reason = "\<lambda>c. case c of MemoryLimit \<Rightarrow> ''no memory budget was configured''
        | DeadlineCondition \<Rightarrow> ''no attempt-scoped deadline was configured''"
  have active: "policy_condition policy (resolved_settings p b reason) c
      \<longleftrightarrow> conditions_contains (requested_conditions p) c \<and> condition_active p b c" for c
    using assms(2,3)
    by (cases c; cases "budget_deadline b") (auto simp: policy_condition_def resolved_settings_def Let_def condition_active_def)
  have eff: "(case (policy_condition policy (resolved_settings p b reason) MemoryLimit,
        policy_condition policy (resolved_settings p b reason) DeadlineCondition) of
                (True, True) \<Rightarrow> conditions_both
              | (True, False) \<Rightarrow> conditions_memory_limit
              | (False, True) \<Rightarrow> conditions_deadline
              | (False, False) \<Rightarrow> conditions_none) = rs_effective_conditions (resolved_settings p b ?reason)"
    unfolding active by (simp add: resolved_settings_def Let_def effective_of_def split: bool.split)
  have nonempty: "\<not> conditions_is_empty (rs_effective_conditions (resolved_settings p b ?reason))"
    using accepted_conditions(4) [OF assms(1) True] by (auto simp: resolved_settings_def Let_def)
  have dorm: "map (\<lambda>c. \<lparr>dc_condition = c, dc_reason = ?reason c\<rparr>) (filter (\<lambda>c. conditions_contains (requested_conditions p) c
        \<and> \<not> conditions_contains (rs_effective_conditions (resolved_settings p b ?reason)) c) [MemoryLimit, DeadlineCondition])
      = rs_dormant_conditions (resolved_settings p b ?reason)"
    by (simp add: resolved_settings_def Let_def dormant_of_def)
  have keep: "rs_configured_conditions (resolved_settings p b reason) = requested_conditions p"
    "rs_limit (resolved_settings p b reason) = pa_restart_limit p" "rs_backoff (resolved_settings p b reason) = pa_backoff p"
    "rs_circuit_breaker (resolved_settings p b reason) = pa_circuit_breaker p"
    by (simp_all add: resolved_settings_def Let_def)
  have "settings_new exp2 (requested_conditions p) (rs_effective_conditions (resolved_settings p b ?reason))
      (rs_dormant_conditions (resolved_settings p b ?reason)) (pa_restart_limit p) (pa_backoff p) (pa_circuit_breaker p)
    = Inr (resolved_settings p b ?reason)"
    by (rule resolved_settings_new [OF assms(1) True]) (simp split: restart_condition.split)
  then show ?thesis
    using True nonempty by (simp only: resolve_restart_policy_def restart_policy.case if_True eff Let_def keep dorm) 
      (simp add: resolved_restart_def)
qed

subsection \<open>What resolution does\<close>

text \<open>The policy of accepted arguments, with the contract of the second version attached.\<close>

definition invocation_policy :: "policy_args \<Rightarrow> budget_set \<Rightarrow> run_policy" where
  "invocation_policy p b = (run_policy_of p b)\<lparr>po_private_workload_contract := private_workload_contract p\<rparr>"

lemma attach_private_contract:
  assumes "accepted_args p b"
  shows "(case private_workload_contract p of
        Some contract \<Rightarrow> map_sum (\<lambda>_. ''MCUSAGE-WORKLOAD-CONTRACT'') id (with_private_workload_contract (run_policy_of p b) contract)
      | None \<Rightarrow> Inr (run_policy_of p b)) = (Inr (invocation_policy p b) :: cli_error + run_policy)"
proof (cases "pa_workload_contract p")
  case None
  then show ?thesis by (simp add: private_workload_contract_def invocation_policy_def run_policy_of_def)
next
  case (Some c)
  then show ?thesis
    using assms
    by (cases c) (simp_all add: private_workload_contract_def baseline_workload_contract_def invocation_policy_def
        run_policy_of_def with_private_workload_contract_def accepted_args_def parse_invariant_def option_ranges_def)
qed

lemma resolved_capability_sel [simp]:
  "cap_restart_conditions (resolved_capability os backend policy) = conditions_both"
  "cap_name (resolved_capability os backend policy) = bi_name backend"
  "bc_class (cap_boundary (resolved_capability os backend policy)) = bc_class (boundary_for backend (po_boundary policy))"
  by (simp_all add: resolved_capability_def capabilities_for_def Let_def)

definition resolve_check :: "probe_report \<Rightarrow> run_policy \<Rightarrow> cli_error + backend_info" where
  "resolve_check probe policy =
     (if is_some (po_workload_contract policy) \<and> po_boundary policy \<noteq> Sealed then Inl ''MCUSAGE-WORKLOAD-BOUNDARY''
      else (case selected_for probe (po_boundary policy) of
              None \<Rightarrow> Inl (if po_boundary policy = Sealed then ''MCBOUNDARY-UNSUPPORTED'' else ''MCUNSUPPORTED-BACKEND'')
            | Some backend \<Rightarrow>
                if po_boundary policy = Sealed \<and> bc_class (boundary_for backend Sealed) \<noteq> SealedClass
                then Inl ''MCBOUNDARY-UNSUPPORTED''
                else if po_enforcement policy = HardEnforcement \<and> \<not> bi_hard_limit backend then Inl ''MCUNSUPPORTED-HARD''
                else if po_enforcement policy = WatchdogEnforcement \<and> bi_class backend \<noteq> ''watchdog''
                then Inl ''MCUNSUPPORTED-WATCHDOG''
                else Inr backend))"

lemma resolve_selection_accepted:
  assumes "accepted_args p b"
  shows "resolve_selection os exp2 probe p b =
    Some (map_sum id (\<lambda>backend. (invocation_policy p b, backend, resolved_restart p b))
      (resolve_check probe (invocation_policy p b)))"
proof -
  have policy: "args_policy p b = Some (run_policy_of p b)"
    using assms by (intro args_policy_total) (simp add: accepted_args_def)
  have restart: "and_then (requested_restart exp2 (resolved_capability os backend (invocation_policy p b)) p b) (\<lambda>restart.
      and_then (resolve_restart_policy exp2 (invocation_policy p b) restart) k) = k (resolved_restart p b)" for backend k
    by (simp add: requested_restart_accepted [OF assms] resolve_restart_policy_accepted [OF assms]
        invocation_policy_def run_policy_of_def)
  show ?thesis
    unfolding resolve_selection_def policy option.case attach_private_contract [OF assms] and_then_simps restart
      resolve_check_def Let_def
    by (simp split: option.split)
qed

text \<open>What the Rust type of a contract guarantees of the one in the arguments.\<close>

definition args_typed :: "policy_args \<Rightarrow> bool" where
  "args_typed p \<longleftrightarrow> is_none_or fields_typed (baseline_workload_contract p)"

text \<open>The conditions of the report: configured, effective and dormant.\<close>

definition reported_conditions ::
  "policy_args \<Rightarrow> budget_set \<Rightarrow> restart_conditions \<times> dormant_restart_condition list" where
  "reported_conditions p b =
     (if restart_requested p
      then (let reported = resolved_settings p b (\<lambda>c. case c of
                MemoryLimit \<Rightarrow> ''no effective memory-limit condition''
              | DeadlineCondition \<Rightarrow> ''deadline is absent, supervision-scoped, or unsupported'')
            in (rs_effective_conditions reported, rs_dormant_conditions reported))
      else (conditions_none, []))"

lemma split_conditions_accepted:
  assumes "accepted_args p b" and "cap_restart_conditions capability = conditions_both"
  shows "split_conditions capability p b [MemoryLimit, DeadlineCondition] (conditions_none, []) = reported_conditions p b"
proof (cases "restart_requested p")
  case True
  then have "configured_conditions p = requested_conditions p" by (simp add: accepted_conditions(3) [OF assms(1)])
  from split_conditions_eq [OF assms(2) this] True show ?thesis by (simp add: reported_conditions_def Let_def)
next
  case False
  then show ?thesis
    by (simp add: reported_conditions_def accepted_conditions(3) [OF assms(1)])
qed

lemma resolve_invocation_accepted:
  assumes "accepted_args p b" and "args_typed p"
  shows "(\<exists>code. resolve_check probe (invocation_policy p b) = Inl code
        \<and> resolve_invocation os exp2 sha256 provider probe p b = Some (Inl code))
    \<or> (\<exists>backend workload. resolve_check probe (invocation_policy p b) = Inr backend
        \<and> workload_reported sha256 (workload_plan os provider) (baseline_workload_contract p)
            (workload_restriction (bi_name backend) (pa_boundary p)) workload
        \<and> resolve_invocation os exp2 sha256 provider probe p b = Some (Inr
            \<lparr>re_backend = resolved_capability os backend (invocation_policy p b), re_policy = invocation_policy p b,
             re_restart = resolved_restart p b,
             re_report = policy_envelope os p b (invocation_policy p b) backend (configured_conditions p)
               (fst (reported_conditions p b)) (snd (reported_conditions p b)) workload\<rparr>))"
proof (cases "resolve_check probe (invocation_policy p b)")
  case (Inl code)
  then show ?thesis by (simp add: resolve_invocation_def resolve_selection_accepted [OF assms(1)])
next
  case (Inr backend)
  have policy: "po_workload_contract (invocation_policy p b) = baseline_workload_contract p"
    "po_boundary (invocation_policy p b) = pa_boundary p"
    by (simp_all add: invocation_policy_def run_policy_of_def)
  have "fields_typed c \<and> validate_v1 c = Inr ()" if "po_workload_contract (invocation_policy p b) = Some c" for c
    using assms that baseline_contract_valid [of p c]
    by (auto simp: policy args_typed_def accepted_args_def parse_invariant_def)
  then obtain workload where w:
    "Option.bind (policy_report os sha256 p b (invocation_policy p b) backend (configured_conditions p)
        (fst (reported_conditions p b)) (snd (reported_conditions p b)))
      (planned_report sha256 (workload_plan os provider) (invocation_policy p b))
      = Some (policy_envelope os p b (invocation_policy p b) backend (configured_conditions p)
          (fst (reported_conditions p b)) (snd (reported_conditions p b)) workload)"
    "workload_reported sha256 (workload_plan os provider) (baseline_workload_contract p)
       (workload_restriction (bi_name backend) (pa_boundary p)) workload"
    unfolding policy (1,2) [symmetric] by (rule policy_report_total)
  show ?thesis
    by (rule disjI2, intro exI conjI, rule Inr, rule w(2))
      (simp add: resolve_invocation_def resolve_selection_accepted [OF assms(1)] Inr
        split_conditions_accepted [OF assms(1)] Let_def case_prod_beta w(1) del: split_conditions.simps)
qed

lemma resolved_settings_start:
  assumes "accepted_args p b" and "resolved_restart p b = OnLimits settings"
  shows "\<exists>co. coordinator_new exp2 settings = Inr co"
    and "condition_set (rs_effective_conditions settings)
      = {c. conditions_contains (requested_conditions p) c \<and> condition_active p b c}"
proof -
  obtain reason where s: "settings = resolved_settings p b reason" "restart_requested p" and r: "\<And>c. reason c \<noteq> []"
    using assms(2) unfolding resolved_restart_def by (auto split: if_splits restart_condition.splits)
  have "settings_validate exp2 settings = Inr ()"
    using resolved_settings_new [OF assms(1) s(2) r, of exp2 reason]
    by (auto simp: s settings_new_def Let_def and_then_Inr_iff resolved_settings_def)
  moreover have "backoff_proper (rs_backoff settings)"
    using accepted_backoff [OF assms(1)] by (simp add: s resolved_settings_def Let_def)
  then have "backoff_policy_validate exp2 (rs_backoff settings) = Inr ()"
    by (simp add: backoff_policy_validate_iff backoff_proper_def)
  ultimately show "\<exists>co. coordinator_new exp2 settings = Inr co"
    by (simp add: coordinator_new_def controller_new_def backoff_state_new_def)
  show "condition_set (rs_effective_conditions settings)
      = {c. conditions_contains (requested_conditions p) c \<and> condition_active p b c}"
    by (simp add: s resolved_settings_def Let_def set_eq_iff all_restart_condition)
qed

lemma accepted_invocation_args:
  assumes "route host argv = Inr i" and "invocation_args i = Some (p, b)"
  shows "accepted_args p b"
  using assms parse_execution_accepted parse_plan_accepted [OF route_plan]
  by (cases i) (auto simp: invocation_args_def route_execute)

lemma resolve_check_cases:
  "resolve_check probe policy = Inl code \<Longrightarrow> code \<in> {''MCUSAGE-WORKLOAD-BOUNDARY'', ''MCBOUNDARY-UNSUPPORTED'',
     ''MCUNSUPPORTED-BACKEND'', ''MCUNSUPPORTED-HARD'', ''MCUNSUPPORTED-WATCHDOG''}"
  by (auto simp: resolve_check_def split: option.splits if_splits)

lemma reported_conditions_exact:
  assumes "accepted_args p b"
  shows "condition_set (fst (reported_conditions p b))
      = {c. restart_requested p \<and> conditions_contains (requested_conditions p) c \<and> condition_active p b c}"
    and "dc_condition ` set (snd (reported_conditions p b))
      = {c. restart_requested p \<and> conditions_contains (requested_conditions p) c \<and> \<not> condition_active p b c}"
    and "conditions_is_empty (configured_conditions p) \<longleftrightarrow> \<not> restart_requested p"
proof -
  have none: "conditions_is_empty conditions_none" by (simp add: conditions_is_empty_def conditions_none_def)
  show "condition_set (fst (reported_conditions p b))
      = {c. restart_requested p \<and> conditions_contains (requested_conditions p) c \<and> condition_active p b c}"
    "dc_condition ` set (snd (reported_conditions p b))
      = {c. restart_requested p \<and> conditions_contains (requested_conditions p) c \<and> \<not> condition_active p b c}"
    by (auto simp: reported_conditions_def resolved_settings_def Let_def dormant_of_def set_eq_iff all_restart_condition)
  show "conditions_is_empty (configured_conditions p) \<longleftrightarrow> \<not> restart_requested p"
    using accepted_conditions(2,3) [OF assms] none by simp
qed

text \<open>C6: an accepted invocation is resolved without a panic, its report included, and what can fail is the host, not the
  command line: the only errors are a contract of the first version without a sealed boundary and a boundary,
  backend or enforcement the probe did not find. A resolved invocation has exactly the requested policy; it has restart
  settings exactly when a restart was requested, these are effective on exactly the requested
  conditions that the budgets can meet, and the restart coordinator starts with them. The report names the boundary
  of the selected backend and, as effective, the same conditions, and as dormant the other requested ones. Of the workload
  it shows the provider's answer about a contract of the first version, or that there was none for exactly this request.
  A contract is of its Rust type.\<close>

theorem accepted_invocation_resolves:
  assumes "route host argv = Inr i" and "invocation_args i = Some (p, b)" and "args_typed p"
  shows "case resolve_invocation os exp2 sha256 provider probe p b of
      None \<Rightarrow> False
    | Some (Inl code) \<Rightarrow> code \<in> {''MCUSAGE-WORKLOAD-BOUNDARY'', ''MCBOUNDARY-UNSUPPORTED'',
        ''MCUNSUPPORTED-BACKEND'', ''MCUNSUPPORTED-HARD'', ''MCUNSUPPORTED-WATCHDOG''}
    | Some (Inr r) \<Rightarrow> re_policy r = invocation_policy p b
        \<and> (case re_restart r of
             Never \<Rightarrow> \<not> restart_requested p
           | OnLimits settings \<Rightarrow> restart_requested p
               \<and> condition_set (rs_effective_conditions settings)
                   = {c. conditions_contains (requested_conditions p) c \<and> condition_active p b c}
               \<and> (\<exists>co. coordinator_new exp2 settings = Inr co))
        \<and> (let requested = pe_requested (re_report r); effective = pe_effective (re_report r); restart = ep_restart effective
           in rp_boundary requested = pa_boundary p \<and> rp_workload requested = request_report (baseline_workload_contract p)
            \<and> ep_boundary effective = bc_class (cap_boundary (re_backend r))
            \<and> (er_enabled restart \<longleftrightarrow> restart_requested p) \<and> (er_cleanup_proof_required restart \<longleftrightarrow> restart_requested p)
            \<and> condition_set (er_conditions restart)
                = {c. restart_requested p \<and> conditions_contains (requested_conditions p) c \<and> condition_active p b c}
            \<and> dc_condition ` set (er_dormant_conditions restart)
                = {c. restart_requested p \<and> conditions_contains (requested_conditions p) c \<and> \<not> condition_active p b c}
            \<and> workload_reported sha256 (workload_plan os provider) (baseline_workload_contract p)
                (workload_restriction (cap_name (re_backend r)) (pa_boundary p)) (ep_workload effective))"
proof -
  note a = accepted_invocation_args [OF assms(1,2)]
  note c = reported_conditions_exact [OF a]
  have n: "resolved_restart p b = Never \<longleftrightarrow> \<not> restart_requested p" by (simp add: resolved_restart_def)
  have bd: "po_boundary (invocation_policy p b) = pa_boundary p" by (simp add: invocation_policy_def run_policy_of_def)
  consider (fails) code where "resolve_check probe (invocation_policy p b) = Inl code"
      "resolve_invocation os exp2 sha256 provider probe p b = Some (Inl code)"
    | (works) backend workload where "resolve_check probe (invocation_policy p b) = Inr backend"
      "workload_reported sha256 (workload_plan os provider) (baseline_workload_contract p)
            (workload_restriction (bi_name backend) (pa_boundary p)) workload"
      "resolve_invocation os exp2 sha256 provider probe p b = Some (Inr
            \<lparr>re_backend = resolved_capability os backend (invocation_policy p b), re_policy = invocation_policy p b,
             re_restart = resolved_restart p b,
             re_report = policy_envelope os p b (invocation_policy p b) backend (configured_conditions p)
               (fst (reported_conditions p b)) (snd (reported_conditions p b)) workload\<rparr>)"
    using resolve_invocation_accepted [OF a assms(3), of probe os exp2 sha256 provider] by blast
  then show ?thesis
  proof cases
    case fails
    then show ?thesis using resolve_check_cases [OF fails(1)] by simp
  next
    case works
    have "pa_boundary p = Sealed \<Longrightarrow> bc_class (boundary_for backend Sealed) = SealedClass"
      using works(1) bd by (auto simp: resolve_check_def split: if_splits option.splits)
    with bd have d: "po_boundary (invocation_policy p b) = Sealed \<longrightarrow> bc_class (boundary_for backend Sealed) = SealedClass"
      by simp
    have s: "case resolved_restart p b of
             Never \<Rightarrow> \<not> restart_requested p
           | OnLimits settings \<Rightarrow> restart_requested p
               \<and> condition_set (rs_effective_conditions settings)
                   = {c. conditions_contains (requested_conditions p) c \<and> condition_active p b c}
               \<and> (\<exists>co. coordinator_new exp2 settings = Inr co)"
      using n resolved_settings_start [OF a] by (cases "resolved_restart p b") auto
    show ?thesis
      unfolding works(3) option.case sum.case resolution.simps Let_def policy_envelope_sel(1-4) policy_envelope_sel(5) [OF d]
        effective_restart_policy_report.simps resolved_capability_sel bd
      using c s works(2) by simp
  qed
qed

definition example_backend :: backend_info where
  "example_backend =
     \<lparr>bi_name = ''cgroup-v2'', bi_containment_supported = True, bi_memory_supported = True, bi_class = ''hard'',
      bi_metric = ''cgroup-memory'', bi_hard_limit = True, bi_startup_containment = ''before exec'', bi_limitations = [],
      bi_boundary_support =
        (standard_boundary_support ''gate'' True ''none'' [])\<lparr>bs_sealed := SealedAvailable
          (boundary_capability_default\<lparr>bc_class := SealedClass\<rparr>) \<lparr>br_provider_identity = ''agent'', br_mechanism = ''ns''\<rparr>\<rparr>\<rparr>"

definition example_probe :: probe_report where
  "example_probe = \<lparr>pr_selected = Some example_backend, pr_available = [example_backend], pr_unavailable = []\<rparr>"

text \<open>Hosts whose contract file holds the example contract, in either version.\<close>

definition baseline_host :: cli_host where
  "baseline_host = example_host
     \<lparr>host_open := (\<lambda>_. Some \<lparr>file_metadata = Some (True, 0), file_bytes = Some []\<rparr>),
      host_json := \<lparr>jr_document = (\<lambda>_. Some (JObject [])), jr_version = (\<lambda>_. Some 1), jr_v1 = (\<lambda>_. Some example_contract),
        jr_v2 = (\<lambda>_. None)\<rparr>\<rparr>"

definition contract_host :: cli_host where
  "contract_host = example_host
     \<lparr>host_open := (\<lambda>_. Some \<lparr>file_metadata = Some (True, 0), file_bytes = Some []\<rparr>),
      host_json := \<lparr>jr_document = (\<lambda>_. Some (JObject [])), jr_version = (\<lambda>_. Some 2), jr_v1 = (\<lambda>_. None),
        jr_v2 = (\<lambda>_. Some (with_identity example_contract PreserveCaller))\<rparr>\<rparr>"

lemma contract_host_reads:
  "read_contract baseline_host path = Some (V1 example_contract)"
  "read_contract contract_host path = Some (V2 (with_identity example_contract PreserveCaller))"
proof -
  have "validate_v1 example_contract = Inr ()" by code_simp
  then show "read_contract baseline_host path = Some (V1 example_contract)"
    by (simp add: read_contract_def baseline_host_def contract_parse_def reject_duplicate_json_keys_def)
  have "validate_v2 (with_identity example_contract PreserveCaller) = Inr ()" by code_simp
  then show "read_contract contract_host path = Some (V2 (with_identity example_contract PreserveCaller))"
    by (simp add: read_contract_def contract_host_def contract_parse_def reject_duplicate_json_keys_def)
qed

definition baseline_run :: execution_args where
  "baseline_run = example_run\<lparr>ea_policy := (ea_policy example_run)\<lparr>pa_workload_contract := Some (V1 example_contract)\<rparr>\<rparr>"

lemma contract_tokens:
  "to_str ''--workload-contract'' = Some ''--workload-contract''"
  "split_option ''--workload-contract'' = (''--workload-contract'', None)"
  "to_str ''--report-format'' = Some ''--report-format''" "split_option ''--report-format'' = (''--report-format'', None)"
  "to_str ''result-v1'' = Some ''result-v1''"
  by (simp_all add: to_str_def split_option_def utf8_valid_ascii)

lemma baseline_route:
  "route baseline_host [''--sealed'', ''--workload-contract'', ''c'', ''program''] = Inr (Execute baseline_run)"
  by (simp add: route_def legacy_def parse_execution_def execution_state_initial_def starts_with_def example_tokens contract_tokens
      execution_option_def parse_policy_option_def option_value_def set_explicit_def contract_host_reads
      validate_policy_dependencies_def budget_set_default_def default_backoff_new resolve_circuit_def example_run_def
      baseline_run_def private_workload_contract_def baseline_workload_contract_def Let_def policy_args_default_def)

theorem accepted_invocation_resolves_witness:
  "resolve_invocation LinuxTarget exp2_nearest (\<lambda>_. replicate 32 0) (\<lambda>_. None) example_probe (ea_policy baseline_run)
     budget_set_default \<noteq> None"
proof -
  have i: "invocation_args (Execute baseline_run) = Some (ea_policy baseline_run, budget_set_default)"
    by (simp add: invocation_args_def baseline_run_def example_run_def)
  have t: "args_typed (ea_policy baseline_run)"
    using example_contract_typed
    by (simp add: args_typed_def baseline_run_def baseline_workload_contract_def contract_typed_def)
  show ?thesis
  proof
    assume n: "resolve_invocation LinuxTarget exp2_nearest (\<lambda>_. replicate 32 0) (\<lambda>_. None) example_probe
      (ea_policy baseline_run) budget_set_default = None"
    show False
      using accepted_invocation_resolves [OF baseline_route i t, of exp2_nearest "\<lambda>_. replicate 32 0" LinuxTarget
          "\<lambda>_. None" example_probe] unfolding n option.case .
  qed
qed

text \<open>A sealed request never falls back.\<close>

lemma args_policy_boundary:
  assumes "args_policy p b = Some policy"
  shows "po_boundary policy = pa_boundary p" "po_workload_contract policy = baseline_workload_contract p"
  using assms
  by (auto simp: args_policy_def Let_def with_workload_contract_def with_boundary_def policy_unbounded_def and_then_Inr_iff
      split: option.splits sum.splits if_splits)

lemma resolve_selection_Inr:
  assumes "resolve_selection os exp2 probe p b = Some (Inr (policy', backend, restart))"
  shows "po_boundary policy' = pa_boundary p" "po_workload_contract policy' = baseline_workload_contract p"
    "po_private_workload_contract policy' = private_workload_contract p" "resolve_check probe policy' = Inr backend"
proof -
  obtain policy where policy: "args_policy p b = Some policy"
    using assms by (auto simp: resolve_selection_def split: option.splits)
  note f = args_policy_boundary [OF policy]
  obtain policy1 where p1: "(case private_workload_contract p of
       Some contract \<Rightarrow> map_sum (\<lambda>_. ''MCUSAGE-WORKLOAD-CONTRACT'') id (with_private_workload_contract policy contract)
     | None \<Rightarrow> Inr policy) = (Inr policy1 :: cli_error + run_policy)"
    and r: "policy1 = policy'" "resolve_check probe policy1 = Inr backend"
    using assms unfolding resolve_selection_def policy option.case option.inject and_then_Inr_iff
    by (elim exE conjE) (fastforce simp: resolve_check_def Let_def split: if_splits option.splits)
  have "po_private_workload_contract policy = None"
    using policy by (auto simp: args_policy_def Let_def with_workload_contract_def with_boundary_def policy_unbounded_def
        and_then_Inr_iff split: option.splits sum.splits if_splits)
  with p1 [unfolded r] have "po_boundary policy' = po_boundary policy" "po_workload_contract policy' = po_workload_contract policy"
    "po_private_workload_contract policy' = private_workload_contract p"
    by (auto simp: with_private_workload_contract_def map_sum_id_Inr and_then_Inr_iff split: option.splits if_splits)
  with f r show "po_boundary policy' = pa_boundary p" "po_workload_contract policy' = baseline_workload_contract p"
    "po_private_workload_contract policy' = private_workload_contract p" "resolve_check probe policy' = Inr backend"
    by simp_all
qed

lemma resolve_invocation_Inr:
  assumes "resolve_invocation os exp2 sha256 provider probe p b = Some (Inr r)"
  obtains backend where "po_boundary (re_policy r) = pa_boundary p"
    "po_workload_contract (re_policy r) = baseline_workload_contract p"
    "po_private_workload_contract (re_policy r) = private_workload_contract p"
    "resolve_check probe (re_policy r) = Inr backend" "re_backend r = resolved_capability os backend (re_policy r)"
proof -
  obtain policy backend restart where s: "resolve_selection os exp2 probe p b = Some (Inr (policy, backend, restart))"
    and r: "re_policy r = policy" "re_backend r = resolved_capability os backend policy"
    using assms unfolding resolve_invocation_def Let_def case_prod_beta
    by (auto split: option.splits sum.splits prod.splits simp del: split_conditions.simps)
  from resolve_selection_Inr [OF s] r show ?thesis using that by simp
qed

text \<open>C5: a sealed request never runs unsealed. When an invocation with \<open>--sealed\<close> is resolved, the backend
  is one that the probe reports with an available sealed provider, its boundary is of the sealed class, the supervisor
  accepts it exactly when it has a name, and on Linux every attempt goes with the resolved policy to a provider, the private
  one exactly when there is a contract of the second version. A contract of the first
  version is only resolved with \<open>--sealed\<close>, and the supervisor refuses it otherwise.\<close>

theorem sealed_never_downgraded:
  assumes "resolve_invocation os exp2 sha256 provider probe p b = Some (Inr r)"
  shows "(pa_boundary p = Sealed \<longrightarrow>
       (\<exists>info. selected_for probe Sealed = Some info \<and> supports_boundary info Sealed \<and> bi_name info = cap_name (re_backend r))
       \<and> bc_class (cap_boundary (re_backend r)) = SealedClass
       \<and> (validate_resolved_backend (execution_request r command helper)
           = (if cap_name (re_backend r) = [] then Inl ''MCBACKEND-SELECTION-MISMATCH'' else Inr (Some (re_backend r))))
       \<and> linux_attempt_route (execution_request r command helper)
           = Inr (case private_workload_contract p of
                    Some contract \<Rightarrow> PrivateProviderRoute (re_policy r) contract
                  | None \<Rightarrow> SealedProviderRoute (re_policy r)))
    \<and> (\<forall>contract. pa_workload_contract p = Some (V1 contract) \<longrightarrow> pa_boundary p = Sealed)
    \<and> (\<forall>request. is_some (po_workload_contract (rq_policy request)) \<and> po_boundary (rq_policy request) \<noteq> Sealed \<longrightarrow>
         validate_resolved_backend request = Inl ''MCWORKLOAD-SEALED-REQUIRED'')"
proof -
  obtain backend where f: "po_boundary (re_policy r) = pa_boundary p"
    "po_workload_contract (re_policy r) = baseline_workload_contract p"
    "resolve_check probe (re_policy r) = Inr backend" "re_backend r = resolved_capability os backend (re_policy r)"
    and pc: "po_private_workload_contract (re_policy r) = private_workload_contract p"
    using assms by (rule resolve_invocation_Inr)
  have sel: "selected_for probe (pa_boundary p) = Some backend"
    and cls: "pa_boundary p = Sealed \<Longrightarrow> bc_class (boundary_for backend Sealed) = SealedClass"
    and base: "is_some (baseline_workload_contract p) \<Longrightarrow> pa_boundary p = Sealed"
    using f(1-3) by (auto simp: resolve_check_def split: if_splits option.splits)
  have "supports_boundary backend Sealed" if "pa_boundary p = Sealed"
    using sel that by (auto simp: selected_for_def Let_def find_Some_iff split: option.splits if_splits)
  moreover have "linux_attempt_route (execution_request r command helper)
      = Inr (case private_workload_contract p of
               Some contract \<Rightarrow> PrivateProviderRoute (re_policy r) contract
             | None \<Rightarrow> SealedProviderRoute (re_policy r))" if "pa_boundary p = Sealed"
    using f(1) pc that by (simp add: linux_attempt_route_def execution_request_def split: option.split)
  moreover have "is_some (baseline_workload_contract p)" if "pa_workload_contract p = Some (V1 c)" for c
    using that by (simp add: baseline_workload_contract_def)
  ultimately show ?thesis
    using f(1,4) sel cls base
    by (auto simp: validate_resolved_backend_def execution_request_def Let_def)
qed

lemma example_resolution:
  "\<exists>r. resolve_invocation LinuxTarget exp2_nearest (\<lambda>_. []) (\<lambda>_. None) example_probe (ea_policy example_run) budget_set_default
       = Some (Inr r) \<and> cap_name (re_backend r) = ''cgroup-v2''"
proof -
  have a: "accepted_args (ea_policy example_run) budget_set_default"
    by (rule accepted_invocation_args [OF example_route]) (simp add: invocation_args_def example_run_def)
  have t: "args_typed (ea_policy example_run)"
    by (simp add: args_typed_def example_run_def policy_args_default_def baseline_workload_contract_def)
  have "resolve_check example_probe (invocation_policy (ea_policy example_run) budget_set_default) = Inr example_backend"
    by (simp add: resolve_check_def invocation_policy_def run_policy_of_def example_run_def policy_args_default_def
        baseline_workload_contract_def selected_for_def example_probe_def supports_boundary_def example_backend_def
        boundary_for_def boundary_capability_default_def)
  with resolve_invocation_accepted [OF a t, of example_probe LinuxTarget exp2_nearest "\<lambda>_. []" "\<lambda>_. None"] show ?thesis
    by (auto simp: example_backend_def)
qed

theorem sealed_never_downgraded_witness:
  "\<exists>r. validate_resolved_backend (execution_request r [''program''] None) = Inr (Some (re_backend r))"
proof -
  obtain r where r: "resolve_invocation LinuxTarget exp2_nearest (\<lambda>_. []) (\<lambda>_. None) example_probe (ea_policy example_run)
      budget_set_default = Some (Inr r)" "cap_name (re_backend r) = ''cgroup-v2''"
    using example_resolution by blast
  show ?thesis
    using sealed_never_downgraded [OF r(1), of "[''program'']" None] r(2)
    by (auto simp: example_run_def)
qed

text \<open>C36: a contract of the second version is not tied to the sealed boundary. On Linux, in a build with the feature
  \<open>private-tcp\<close>, take an accepted run with such a contract and the report format \<open>result-v1\<close> but without \<open>--sealed\<close>, on a host
  with a named standard backend that has the asked enforcement. The run passes the guard of \<open>execute\<close>, is resolved and
  accepted by the supervisor, and the attempt goes to the standard backend, not to a provider, with a policy that still holds the
  contract; the report calls the workload unmanaged. Without the format or the feature the run is refused.\<close>

theorem private_contract_unsealed:
  assumes "route host argv = Inr (Execute e)" and "pa_workload_contract (ea_policy e) = Some (V2 contract)"
    and "pa_boundary (ea_policy e) = Standard"
    and "selected_for probe Standard = Some info" and "bi_name info \<noteq> []"
    and "bc_class (bs_standard (bi_boundary_support info)) = StandardClass"
    and "pa_enforcement (ea_policy e) = HardEnforcement \<Longrightarrow> bi_hard_limit info"
    and "pa_enforcement (ea_policy e) = WatchdogEnforcement \<Longrightarrow> bi_class info = ''watchdog''"
  shows "if out_report_format (ea_output e) \<noteq> ResultV1Report \<or> \<not> private_tcp
    then execute_request LinuxTarget private_tcp (Some helper) exp2 sha256 provider probe e
      = Some (Inl ''MCWORKLOAD-PRIVATE-UNAVAILABLE'')
    else \<exists>r request. resolve_invocation LinuxTarget exp2 sha256 provider probe (ea_policy e) (ea_budgets e) = Some (Inr r)
      \<and> rp_workload (pe_requested (re_report r)) = LegacyRequest
      \<and> ep_workload (pe_effective (re_report r)) = LegacyResolution UnmanagedStandardBackend
      \<and> execute_request LinuxTarget private_tcp (Some helper) exp2 sha256 provider probe e = Some (Inr request)
      \<and> po_private_workload_contract (rq_policy request) = Some contract
      \<and> validate_resolved_backend request = Inr (Some (re_backend r))
      \<and> linux_attempt_route request = Inr (StandardRoute (rq_policy request) helper)"
proof -
  have a: "accepted_args (ea_policy e) (ea_budgets e)"
    by (rule accepted_invocation_args [OF assms(1)]) (simp add: invocation_args_def)
  have command: "ea_command e \<noteq> []" using assms(1) parse_execution_extend(2) [of host argv e] by (simp add: route_execute)
  have b: "baseline_workload_contract (ea_policy e) = None" "private_workload_contract (ea_policy e) = Some contract"
    using assms(2) by (simp_all add: baseline_workload_contract_def private_workload_contract_def)
  then have "args_typed (ea_policy e)" by (simp add: args_typed_def)
  note res = resolve_invocation_accepted [OF a this, of probe LinuxTarget exp2 sha256 provider]
  have "resolve_check probe (invocation_policy (ea_policy e) (ea_budgets e)) = Inr info"
    using assms(3,4,7,8) b by (auto simp: resolve_check_def invocation_policy_def run_policy_of_def)
  with res obtain r where r: "resolve_invocation LinuxTarget exp2 sha256 provider probe (ea_policy e) (ea_budgets e) = Some (Inr r)"
    "re_policy r = invocation_policy (ea_policy e) (ea_budgets e)"
    "re_backend r = resolved_capability LinuxTarget info (invocation_policy (ea_policy e) (ea_budgets e))"
    "rp_workload (pe_requested (re_report r)) = LegacyRequest"
    "ep_workload (pe_effective (re_report r)) = LegacyResolution UnmanagedStandardBackend"
    by (auto simp: policy_envelope_sel b request_report_def workload_reported_def workload_restriction_def assms(3))
  have v: "validate_resolved_backend (execution_request r (ea_command e) (Some helper)) = Inr (Some (re_backend r))"
    "linux_attempt_route (execution_request r (ea_command e) (Some helper))
      = Inr (StandardRoute (invocation_policy (ea_policy e) (ea_budgets e)) helper)"
    using r(2,3) assms(3,5,6) b(1)
    by (simp_all add: validate_resolved_backend_def linux_attempt_route_def execution_request_def invocation_policy_def
        run_policy_of_def boundary_for_def Let_def)
  show ?thesis
    using r v command b
    by (auto simp: execute_request_def execute_guard_def helper_path_def execution_request_def invocation_policy_def)
qed

definition contract_run :: execution_args where
  "contract_run = example_run\<lparr>ea_policy := policy_args_default
     \<lparr>pa_workload_contract := Some (V2 (with_identity example_contract PreserveCaller))\<rparr>,
     ea_output := (ea_output example_run)\<lparr>out_report_format := ResultV1Report\<rparr>\<rparr>"

lemma contract_route:
  "route contract_host [''--workload-contract'', ''c'', ''--report-format'', ''result-v1'', ''program''] = Inr (Execute contract_run)"
  by (simp add: route_def legacy_def parse_execution_def execution_state_initial_def starts_with_def contract_tokens
      execution_option_def parse_policy_option_def parse_report_format_def option_value_def contract_host_reads
      validate_policy_dependencies_def budget_set_default_def default_backoff_new resolve_circuit_def example_run_def
      contract_run_def private_workload_contract_def baseline_workload_contract_def Let_def policy_args_default_def)

theorem private_contract_unsealed_witness:
  "\<exists>request. execute_request LinuxTarget True (Some ''memcordon'') exp2_nearest (\<lambda>_. []) (\<lambda>_. None) example_probe contract_run
       = Some (Inr request)
     \<and> linux_attempt_route request = Inr (StandardRoute (rq_policy request) ''memcordon'')"
proof -
  have "if out_report_format (ea_output contract_run) \<noteq> ResultV1Report \<or> \<not> True
    then execute_request LinuxTarget True (Some ''memcordon'') exp2_nearest (\<lambda>_. []) (\<lambda>_. None) example_probe contract_run
      = Some (Inl ''MCWORKLOAD-PRIVATE-UNAVAILABLE'')
    else \<exists>r request. resolve_invocation LinuxTarget exp2_nearest (\<lambda>_. []) (\<lambda>_. None) example_probe (ea_policy contract_run)
          (ea_budgets contract_run) = Some (Inr r)
      \<and> rp_workload (pe_requested (re_report r)) = LegacyRequest
      \<and> ep_workload (pe_effective (re_report r)) = LegacyResolution UnmanagedStandardBackend
      \<and> execute_request LinuxTarget True (Some ''memcordon'') exp2_nearest (\<lambda>_. []) (\<lambda>_. None) example_probe contract_run
          = Some (Inr request)
      \<and> po_private_workload_contract (rq_policy request) = Some (with_identity example_contract PreserveCaller)
      \<and> validate_resolved_backend request = Inr (Some (re_backend r))
      \<and> linux_attempt_route request = Inr (StandardRoute (rq_policy request) ''memcordon'')"
    by (rule private_contract_unsealed [OF contract_route, where info = example_backend])
      (simp_all add: contract_run_def policy_args_default_def selected_for_def example_probe_def supports_boundary_def
        example_backend_def standard_boundary_support_def)
  moreover have "out_report_format (ea_output contract_run) = ResultV1Report" by (simp add: contract_run_def)
  ultimately show ?thesis by auto
qed

subsection \<open>The builder of the library facade\<close>

text \<open>What the constructors of the argument types guarantee.\<close>

definition builder_call_typed :: "builder_call \<Rightarrow> bool" where
  "builder_call_typed call \<longleftrightarrow> (case call of
       RestartOnCall conditions \<Rightarrow> conditions_wf conditions
     | BackoffCall backoff \<Rightarrow> backoff_proper backoff
     | CircuitBreakerCall circuit \<Rightarrow> circuit_policy_ok circuit
     | _ \<Rightarrow> True)"

definition restart_valid :: "(f64 \<Rightarrow> f64) \<Rightarrow> restart_policy \<Rightarrow> bool" where
  "restart_valid exp2 restart \<longleftrightarrow> (case restart of
       Never \<Rightarrow> True
     | OnLimits settings \<Rightarrow> conditions_wf (rs_configured_conditions settings)
         \<and> conditions_wf (rs_effective_conditions settings) \<and> settings_validate exp2 settings = Inr ())"

lemma conditions_wf_constants [simp]:
  "conditions_wf conditions_both" "conditions_wf conditions_memory_limit" "conditions_wf conditions_deadline"
  "conditions_wf conditions_none"
  by (simp_all add: conditions_wf_def conditions_both_def conditions_memory_limit_def conditions_deadline_def conditions_none_def)

lemma conditions_none_iff: "conditions_wf c \<Longrightarrow> condition_set c = {} \<longleftrightarrow> c = conditions_none"
  by (cases c) (auto simp: conditions_wf_def conditions_none_def conditions_contains_def all_restart_condition)

lemma default_settings_iff:
  assumes "conditions_wf c"
  shows "case default_restart_settings exp2 c of
      None \<Rightarrow> c = conditions_none
    | Some settings \<Rightarrow> c \<noteq> conditions_none \<and> restart_valid exp2 (OnLimits settings)"
proof -
  let ?s = "\<lparr>rs_configured_conditions = c, rs_effective_conditions = c, rs_dormant_conditions = [], rs_limit = Unlimited,
      rs_backoff = backoff_policy_default, rs_circuit_breaker = None\<rparr>"
  have "settings_validate exp2 ?s = Inr () \<longleftrightarrow> c \<noteq> conditions_none"
    using conditions_none_iff [OF assms] by (simp add: settings_validate_iff assms default_backoff_millis)
  then show ?thesis
    using assms by (cases "settings_validate exp2 ?s")
      (auto simp: default_restart_settings_def settings_new_def Let_def restart_valid_def)
qed

lemma rebuild_settings_total:
  assumes "restart_valid exp2 (OnLimits settings)" and "is_none_or backoff_proper backoff"
    and "is_none_or (is_none_or circuit_policy_ok) circuit"
  shows "\<exists>settings'. rebuild_settings exp2 settings limit backoff circuit = Some settings' \<and> restart_valid exp2 (OnLimits settings')"
proof -
  let ?s = "settings\<lparr>rs_limit := unwrap_or (rs_limit settings) limit, rs_backoff := unwrap_or (rs_backoff settings) backoff,
      rs_circuit_breaker := unwrap_or (rs_circuit_breaker settings) circuit\<rparr>"
  have wf: "conditions_wf (rs_configured_conditions settings)" "conditions_wf (rs_effective_conditions settings)"
    and v: "settings_validate exp2 settings = Inr ()"
    using assms(1) by (simp_all add: restart_valid_def)
  have "settings_validate exp2 ?s = Inr ()"
    using v assms(2,3) wf
    by (subst settings_validate_iff, simp, simp, subst (asm) settings_validate_iff)
      (auto simp: unwrap_or_def backoff_proper_def is_none_or_iff split: option.splits)
  then show ?thesis
    using wf by (cases settings) (simp add: rebuild_settings_def settings_new_def Let_def restart_valid_def)
qed

text \<open>The builder calls keep the restart policy valid, and the only call that panics is \<open>restart_on\<close> with no condition.\<close>

theorem builder_panics_iff:
  assumes "restart_valid exp2 restart" and "builder_call_typed call"
  shows "case supervisor_builder exp2 call restart of
      None \<Rightarrow> call = RestartOnCall conditions_none
    | Some restart' \<Rightarrow> call \<noteq> RestartOnCall conditions_none \<and> restart_valid exp2 restart'"
proof -
  obtain default where d: "default_restart_settings exp2 conditions_both = Some default" "restart_valid exp2 (OnLimits default)"
    using default_settings_iff [of conditions_both exp2] by (auto split: option.splits)
  have rebuild: "\<exists>restart'. supervisor_rebuild exp2 limit backoff circuit restart = Some restart' \<and> restart_valid exp2 restart'"
    if "is_none_or backoff_proper backoff" "is_none_or (is_none_or circuit_policy_ok) circuit" for limit backoff circuit
    using assms(1) rebuild_settings_total [OF _ that, of exp2 _ limit] d
    by (cases restart) (fastforce simp: supervisor_rebuild_def)+
  show ?thesis
  proof (cases call)
    case (RestartOnCall conditions)
    then show ?thesis
      using default_settings_iff [of conditions exp2] assms(2)
      by (auto simp: supervisor_builder_def builder_call_typed_def split: option.splits)
  next
    case RestartCall
    then show ?thesis using d by (simp add: supervisor_builder_def)
  next
    case (RestartLimitCall limit)
    then show ?thesis using rebuild [of None None "Some limit"] by (auto simp: supervisor_builder_def)
  next
    case (BackoffCall backoff)
    then show ?thesis using rebuild [of "Some backoff" None None] assms(2) by (auto simp: supervisor_builder_def builder_call_typed_def)
  next
    case (CircuitBreakerCall circuit)
    then show ?thesis
      using rebuild [of None "Some (Some circuit)" None] assms(2) by (auto simp: supervisor_builder_def builder_call_typed_def)
  qed
qed

end
