(* ===== verification/Spec2Isabelle.thy ===== *)
theory Spec2Isabelle
  imports Lifecycle FilterInstall WorkloadAdmissionV2 WindowsPeImports CliResolve WorkloadEvidence
begin

text \<open>
  A verification development of MemCordon, which runs a command and its descendants under memory and
  time limits, restarts it by policy, and, in sealed mode, under a workload contract granted by an
  administrator.

  \<^bold>\<open>The parts and how they interact.\<close> The command line gives byte sizes, deadlines, restart settings and
  the command; its options are resolved, against what the host offers, to a backend and a request for the
  supervisor. A run goes through the states of the lifecycle machine; its events are reduced to one outcome, which
  gives the exit status. When a limit ends a run, the restart controller decides whether and after which
  wait the next one starts. A sealed run first presents a workload contract; the provider validates it,
  compares its canonical digest, resolves it against the policy registry of the host and, on Linux,
  installs the compiled system-call filter in the target before its first instruction. On Windows the
  helper binaries are inspected before use.

  \<^bold>\<open>Theories.\<close> Paths are below \<open>src/crates\<close>; \<open>core\<close> is \<open>memcordon-core/src\<close>, \<open>cli\<close> is \<open>memcordon-cli/src\<close>.
  \<^item> \<open>Prelude\<close>: results, checked arithmetic, integer parsing and printing, string splitting, durations.
    \<open>Bytes\<close>: byte orders and UTF-8.
  \<^item> \<open>ByteSize\<close>, \<open>Deadline\<close> (\<open>core/policy.rs\<close>): sizes and their parser, the deadline policy and its wire form.
    The parser computes the exact rational value rounded up, or an overflow when the value exceeds 64 bits or the scaled
    fraction 128 bits, which cannot happen with up to eighteen fraction digits and always does with thirty-nine.
  \<^item> \<open>Outcome\<close> (\<open>core/outcome.rs\<close>, the end of \<open>core/supervision.rs\<close>, \<open>cli/exit_mapping.rs\<close>): event
    precedence, evidence and the two exit-status functions, with the case where they differ.
  \<^item> \<open>Lifecycle\<close> (\<open>core/state_machine.rs\<close>): the transition table; every run that finishes passed the gate
    and the cleanup, and no unfinished state is stuck.
  \<^item> \<open>F64\<close>, \<open>Multiplier\<close>, \<open>Backoff\<close> (\<open>core/restart.rs\<close>): binary64 rounding, the exact multiplier and the
    half-life logistic backoff. The platform's \<open>exp2\<close> is the locale \<open>exp2_library\<close>, with monotonicity where
    a result needs it. For a base interval up to the asymptote and an asymptote below \<open>2\<^sup>5\<^sup>3\<close> milliseconds, intervals are
    bounded by the asymptote and monotone in spite of the roundings; the code accepts other policies, whose
    intervals may exceed the asymptote.
  \<^item> \<open>RestartPolicy\<close>, \<open>RestartController\<close> (\<open>core/restart.rs\<close>, \<open>core/supervision.rs\<close>): conditions, settings,
    circuit breaker, decision records, controller and coordinator. State is the record the source mutates,
    operations return the updated record; launches are counted, follow a safe cleanup and a full
    wait, and the summary of every run passes its own checks.
  \<^item> \<open>Bpf\<close>, \<open>NetworkFilter\<close>, \<open>FilterSpec\<close>, \<open>FilterInstall\<close>
    (\<open>cli/bin/memcordon-sealed-agent/linux/network_filter.rs\<close>): the classic BPF machine, the compiler of the
    closed filter, its validator, an abstract specification of the decision per system call, and the
    installer. The compiled program implements the specification on all 64-bit arguments; only the
    checked program reaches the kernel.
  \<^item> \<open>WorkloadContract\<close>, \<open>WorkloadValidate\<close>, \<open>WorkloadCodec\<close>, \<open>WorkloadRoundtrip\<close> (\<open>core/workload_contract.rs\<close>,
    \<open>core/workload_codec.rs\<close>, \<open>core/workload_limits.rs\<close>): contracts of both versions, validation against a
    declarative specification (acyclic endpoint dependencies included), and the canonical codec. Every field
    is an interpretation of the locale \<open>codec\<close>; the decoder accepts exactly the canonical encodings.
  \<^item> \<open>WorkloadRegistry\<close>, \<open>WorkloadAdmission\<close>, \<open>WorkloadDigest\<close> (\<open>core/workload_registry.rs\<close>): profiles, grants,
    registry validation, admission and the registry digest. The image of every part of a registry is an
    interpretation of the locale \<open>prefix_code\<close>, which each \<open>codec\<close> gives; the digest binds
    the registry up to the order of its lists.
  \<^item> \<open>WorkloadRegistryV2\<close>, \<open>WorkloadAdmissionV2\<close> (\<open>core/workload_registry_v2.rs\<close>,
    \<open>core/workload_admission_v2.rs\<close>): the second version with execution identities; its first-version projection
    grants exactly what it grants itself.
  \<^item> \<open>WindowsPe\<close>, \<open>WindowsPeImports\<close> (\<open>core/windows_pe.rs\<close>): the parser of Windows executables and the deny lists
    of the helper binaries. The two inventories of imported libraries agree, results are bounded.
  \<^item> \<open>ContractParse\<close> (\<open>core/workload_contract.rs\<close>, \<open>core/canonical_json.rs\<close>): the entry points that read a
    contract from JSON bytes and the two visitors that refuse repeated keys. Both visitors are
    interpretations of the locale \<open>json_visitor\<close>.
  \<^item> \<open>CliBudget\<close> (\<open>cli/lib.rs\<close>, \<open>cli/invocation.rs\<close>): durations and budget tokens. \<open>CliOptions\<close>, \<open>CliInvocation\<close>:
    the option records, the policy options and the parsers of the subcommands. \<open>CliRouting\<close>: which option names are
    known, and that the command of a run is passed through unread. \<open>CliPolicy\<close> (with \<open>core/policy.rs\<close>): the
    run policy of accepted options, and that a plan describes the run of the same options.
  \<^item> \<open>PrivateRuntime\<close> (\<open>core/private_runtime.rs\<close>): the records a private run exchanges with its provider, their
    validators and the parsers that bind an answer to its invocation. \<open>WorkloadEvidence\<close>
    (\<open>core/workload_evidence.rs\<close>): bindings, checkpoints and enforcement records of contracts of the first version. The
    bytes hashed for an attempt are composed of images of the locale \<open>prefix_code\<close>, so a checkpoint belongs
    to one attempt; the evidence of an honest provider is accepted.
  \<^item> \<open>BackendCapability\<close> (\<open>memcordon-platform/src/backend.rs\<close>, \<open>memcordon-platform/src/supervisor.rs\<close>,
    \<open>core/supervision.rs\<close>): capability reports, selection of a backend and the drift check.
    \<open>PolicyReport\<close> (\<open>cli/commands/application.rs\<close>, \<open>core/report.rs\<close>): the report of the requested and the effective policy.
    \<open>CliResolve\<close> (\<open>cli/commands/application.rs\<close>, \<open>cli/lib.rs\<close>, \<open>memcordon-platform/src/supervisor.rs\<close>): from accepted options
    to a report and a supervisor request, and the backend of a Linux attempt. Resolution does not panic, a sealed request stays
    sealed, and a version-two contract is not tied to the sealed boundary.

  \<^bold>\<open>Conventions.\<close> \<open>Result\<close> is a sum with the error on the left, \<open>Option\<close> is \<open>option\<close>, \<open>u8\<close> to \<open>u128\<close> are machine
  words, a \<open>String\<close> is the list of its bytes, a \<open>Duration\<close> its nanoseconds, a \<open>Vec\<close> a list. Where an \<open>expect\<close> or
  \<open>unreachable!\<close> could fire, the operation returns an option with \<open>None\<close> for the panic, and a lemma shows that
  it does not happen. What the Rust types guarantee of a value and the HOL types do not (non-zero
  integers, bounded vectors, identifier syntax, digest length) is a predicate ending in \<open>_typed\<close>, a
  hypothesis of the theorems that need it. An error of the command line is its stable code, without the message
  for the terminal.

  \<^bold>\<open>Bounds.\<close> No definition uses artificial fuel. Loops over a range recurse on the number of rounds the source
  writes (16384 thunks, 1024 descriptors, 65536 exports); the walk along endpoint dependencies
  terminates because it never revisits an endpoint; the BPF machine terminates because jumps go forward.

  \<^bold>\<open>Parameters.\<close> SHA-256, the libc constants, the kernel calls of the filter installer, the platform's \<open>exp2\<close>
  and the clocks are arguments of the definitions; what is assumed of them is stated in the theorems. So are
  \<open>json_reader\<close>, what \<open>serde_json\<close> reads from bytes, \<open>cli_host\<close>, the files and the platform of the command line,
  \<open>probe_report\<close>, the backends found on the host, the path of the running program, and what a sealed provider answers
  to a plan request.

  \<^bold>\<open>Not modelled.\<close> Decoding of JSON by \<open>serde_json\<close> (a parameter where contracts are read; the \<open>parse\<close> functions of the
  registries run it and then the modelled \<open>validate\<close>); options and phases of the test-support feature; process control, cgroups, namespaces, job objects, pipes and signals of the three platforms, whose
  behaviour is that of the kernels; the services and package managers of the sealed agent, which sequence such
  calls; the loop over attempts and the attempt history,
  whose records carry the evidence of those platforms (the restart decisions, the outcomes and the checks before the
  first attempt are modelled); report records without operations of their own; the macOS branches of \<open>execute\<close>; terminal presentation; test kits and
  continuous-integration tools.
\<close>

end
